(* ===== verification/Prelude.thy ===== *)
theory Prelude
  imports Main "HOL-Library.AList" "HOL-Library.Sublist" "HOL-Library.Multiset"
begin

text \<open>
  Shared vocabulary of the development: the outcome of running a piece of Go code, Go maps as
  association lists with an explicit iteration order, 64-bit and 32-bit integer conversions, and
  the fact collections that the component theories extend.

  A Go map is an association list with distinct keys.  \<open>m[k]\<close> is \<^const>\<open>map_of\<close>, \<open>m[k] = v\<close> is
  \<^const>\<open>AList.update\<close> and \<open>delete(m, k)\<close> is \<^const>\<open>AList.delete\<close>.  The Go language leaves the order of
  \<open>range\<close> over a map unspecified, so every definition that ranges over a map takes an order: a
  function from the place of the loop and the keys of the map to the keys in the order visited.
  The only thing assumed of an order, where anything is, is \<open>is_order\<close>: every key is visited
  exactly once.
\<close>

named_theorems outcome_simps \<open>rewriting of sequenced outcomes\<close>
named_theorems gomap_simps \<open>lookups after updates and deletions of a Go map\<close>
named_theorems wf_intros \<open>operations that preserve the bridge invariant\<close>

section \<open>Outcomes\<close>

text \<open>The ways Go code stops being able to continue: run-time panics of the language.\<close>

datatype panic =
    IndexOutOfRange
  | SliceOutOfRange
  | NilMapWrite
  | NilDereference
  | NonPositiveInterval

text \<open>
  \<open>Done x\<close>: the code returned \<open>x\<close>.  \<open>Blocked\<close>: the goroutine does not get further, because it waits for
  a mutex that is held or runs in a loop that does not end.
  \<open>Panic p\<close>: a run-time panic, which nothing in the modelled goroutines recovers.
  \<open>Exit n\<close>: the process ends with status \<open>n\<close> (\<open>os.Exit\<close>, or \<open>log.Fatal\<close> with status 1).
\<close>

datatype 'a outcome = Done 'a | Blocked | Panic panic | Exit int

fun obind :: "'a outcome \<Rightarrow> ('a \<Rightarrow> 'b outcome) \<Rightarrow> 'b outcome" where
  "obind (Done x) f = f x"
| "obind Blocked f = Blocked"
| "obind (Panic p) f = Panic p"
| "obind (Exit n) f = Exit n"

text \<open>A pointer dereference \<open>p.f\<close>: a nil pointer panics.\<close>

definition deref :: "'a option \<Rightarrow> 'a outcome" where
  "deref p = (case p of None \<Rightarrow> Panic NilDereference | Some x \<Rightarrow> Done x)"

text \<open>\<open>for _, x := range xs { ... }\<close> over a slice, with the loop state passed along.\<close>

fun ofold :: "('a \<Rightarrow> 's \<Rightarrow> 's outcome) \<Rightarrow> 'a list \<Rightarrow> 's \<Rightarrow> 's outcome" where
  "ofold f [] s = Done s"
| "ofold f (x # xs) s = obind (f x s) (ofold f xs)"

lemma obind_assoc [outcome_simps]: "obind (obind m f) g = obind m (\<lambda>x. obind (f x) g)"
  by (cases m) auto

lemma obind_Done_right [simp]: "obind m Done = m"
  by (cases m) auto

lemma obind_eq_Done_iff: "obind m f = Done y \<longleftrightarrow> (\<exists>x. m = Done x \<and> f x = Done y)"
  by (cases m) auto

lemma obind_cong [fundef_cong]:
  "m = m' \<Longrightarrow> (\<And>x. m' = Done x \<Longrightarrow> f x = f' x) \<Longrightarrow> obind m f = obind m' f'"
  by (cases m') auto

lemma obind_DoneE [elim!]:
  assumes "obind m f = Done y"
  obtains x where "m = Done x" and "f x = Done y"
  using assms by (auto simp: obind_eq_Done_iff)

lemma deref_simps [simp]: "deref (Some x) = Done x" "deref None = Panic NilDereference"
  by (simp_all add: deref_def)

lemma deref_eq_Done_iff [simp]: "deref p = Done x \<longleftrightarrow> p = Some x"
  by (cases p) auto

lemma ofold_append: "ofold f (xs @ ys) s = obind (ofold f xs s) (ofold f ys)"
proof (induction xs arbitrary: s)
  case (Cons x xs)
  have "ofold f (xs @ ys) = (\<lambda>s. obind (ofold f xs s) (ofold f ys))"
    by (rule ext) (rule Cons.IH)
  then show ?case by (simp add: outcome_simps)
qed simp

text \<open>Evaluating a call inside a case expression shows that it returns.\<close>

lemma returned: "(case m of Done x \<Rightarrow> P x | _ \<Rightarrow> False) \<Longrightarrow> \<exists>x. m = Done x \<and> P x"
  by (cases m) auto

lemma returned_value:
  "(case m of Done ((Some x, None), s) \<Rightarrow> P x s | _ \<Rightarrow> False) \<Longrightarrow> \<exists>x s. m = Done ((Some x, None), s) \<and> P x s"
  by (auto split: outcome.splits prod.splits option.splits)

lemma returns: "(case m of Done _ \<Rightarrow> True | _ \<Rightarrow> False) \<Longrightarrow> \<exists>x. m = Done x"
  by (cases m) auto

text \<open>A loop whose body always returns is the ordinary fold.\<close>

lemma ofold_total:
  assumes "\<And>x s. f x s = Done (g x s)"
  shows "ofold f xs s = Done (fold g xs s)"
  by (induction xs arbitrary: s) (simp_all add: assms)

lemma ofold_invariant:
  assumes "ofold f xs s = Done s'" and "P s"
    and "\<And>x s s'. x \<in> set xs \<Longrightarrow> P s \<Longrightarrow> f x s = Done s' \<Longrightarrow> P s'"
  shows "P s'"
  using assms
proof (induction xs arbitrary: s)
  case Nil
  then show ?case by simp
next
  case (Cons x xs)
  from Cons.prems(1) obtain s1 where s1: "f x s = Done s1" "ofold f xs s1 = Done s'" by auto
  with Cons.prems have "P s1" by (meson list.set_intros(1))
  then show ?case using Cons.IH s1 Cons.prems(3) by (meson list.set_intros(2))
qed

text \<open>A loop whose body returns from every state that satisfies \<open>P\<close> returns.\<close>

lemma ofold_returns:
  assumes "P s" and "\<And>x s. x \<in> set xs \<Longrightarrow> P s \<Longrightarrow> \<exists>s'. f x s = Done s' \<and> P s'"
  shows "\<exists>s'. ofold f xs s = Done s' \<and> P s'"
  using assms
proof (induction xs arbitrary: s)
  case Nil
  then show ?case by simp
next
  case (Cons x xs)
  then obtain s1 where "f x s = Done s1" "P s1" by (meson list.set_intros(1))
  with Cons show ?case by simp
qed

lemma ofold_returns_all:
  assumes "\<And>x s. x \<in> set xs \<Longrightarrow> \<exists>s'. f x s = Done s'"
  shows "\<exists>s'. ofold f xs s = Done s'"
  using ofold_returns [of "\<lambda>_. True" s xs f] assms by simp

section \<open>Go maps\<close>

type_synonym 'v gomap = "(string \<times> 'v) list"

definition wf_map :: "'v gomap \<Rightarrow> bool" where
  "wf_map m \<longleftrightarrow> distinct (map fst m)"

lemma wf_map_Nil [simp]: "wf_map []"
  by (simp add: wf_map_def)

lemma wf_map_update [simp, intro]: "wf_map m \<Longrightarrow> wf_map (AList.update k v m)"
  by (simp add: wf_map_def distinct_update)

lemma wf_map_delete [simp, intro]: "wf_map m \<Longrightarrow> wf_map (AList.delete k m)"
  by (simp add: wf_map_def distinct_delete)

lemmas [gomap_simps] = update_conv' delete_conv'

lemma map_of_Some_iff_mem:
  "wf_map m \<Longrightarrow> map_of m k = Some v \<longleftrightarrow> (k, v) \<in> set m"
  by (auto simp: wf_map_def map_of_is_SomeI dest: map_of_SomeD)

text \<open>
  Reading a missing key of a \<open>map[string]string\<close> gives the zero value, the empty string.
\<close>

definition get_str :: "string gomap \<Rightarrow> string \<Rightarrow> string" where
  "get_str m k = (case map_of m k of None \<Rightarrow> [] | Some v \<Rightarrow> v)"

lemma get_str_update [gomap_simps]:
  "get_str (AList.update k v m) k' = (if k' = k then v else get_str m k')"
  by (simp add: get_str_def update_conv')

lemma get_str_delete [gomap_simps]:
  "get_str (AList.delete k m) k' = (if k' = k then [] else get_str m k')"
  by (simp add: get_str_def delete_conv')

text \<open>
  The loops over maps, each with what distinguishes its executions within one operation (a port
  or an identifier), so that no two of them are tied to the same order.
\<close>

datatype range_site =
    AtExposedPorts
  | AtPublishedPorts
  | AtPorts
  | AtServicePorts
  | AtNetworks string
  | AtMeta string
  | AtLabels string
  | AtServices
  | AtDeadContainers
  | AtListing string
  | AtCopy
  | AtAttrs
  | AtAgentServices

type_synonym order = "range_site \<Rightarrow> string list \<Rightarrow> string list"

definition is_order :: "order \<Rightarrow> bool" where
  "is_order ord \<longleftrightarrow> (\<forall>site ks. mset (ord site ks) = mset ks)"

lemma is_order_set: "is_order ord \<Longrightarrow> set (ord site ks) = set ks"
  by (metis is_order_def set_mset_mset)

lemma is_order_distinct: "is_order ord \<Longrightarrow> distinct (ord site ks) = distinct ks"
  by (metis is_order_def mset_eq_imp_distinct_iff)

lemma is_order_length: "is_order ord \<Longrightarrow> length (ord site ks) = length ks"
  by (metis is_order_def size_mset)

text \<open>The entries of a map in the order visited.  A key that the order invents is not visited.\<close>

definition entries :: "order \<Rightarrow> range_site \<Rightarrow> 'v gomap \<Rightarrow> (string \<times> 'v) list" where
  "entries ord site m =
     List.map_filter (\<lambda>k. map_option (Pair k) (map_of m k)) (ord site (map fst m))"

lemma set_entries:
  assumes "is_order ord" and "wf_map m"
  shows "set (entries ord site m) = set m"
proof (rule set_eqI)
  fix e :: "string \<times> 'a"
  obtain k v where e: "e = (k, v)" by (cases e)
  have "e \<in> set (entries ord site m) \<longleftrightarrow> k \<in> set (map fst m) \<and> map_of m k = Some v"
    using assms(1) by (auto simp: e entries_def map_filter_def is_order_set image_iff) force
  also have "\<dots> \<longleftrightarrow> e \<in> set m"
    using assms(2) by (auto simp: e map_of_Some_iff_mem image_iff intro: bexI [of _ "(k, v)"])
  finally show "e \<in> set (entries ord site m) \<longleftrightarrow> e \<in> set m" .
qed

lemma entries_keys:
  assumes "is_order ord"
  shows "map fst (entries ord site m) = ord site (map fst m)"
proof -
  have "\<forall>k \<in> set (ord site (map fst m)). map_of m k \<noteq> None"
    using assms by (simp add: is_order_set map_of_eq_None_iff)
  then have "map fst (List.map_filter (\<lambda>k. map_option (Pair k) (map_of m k)) ks) = ks"
    if "set ks \<subseteq> set (ord site (map fst m))" for ks
    using that by (induction ks) (auto split: option.splits)
  then show ?thesis by (simp add: entries_def)
qed

lemma distinct_entries:
  "is_order ord \<Longrightarrow> wf_map m \<Longrightarrow> distinct (map fst (entries ord site m))"
  by (simp add: entries_keys is_order_distinct wf_map_def)

lemma entries_Nil [simp]: "is_order ord \<Longrightarrow> entries ord site [] = []"
  using entries_keys [of ord site "[]"] is_order_length [of ord site "[]"] by auto

lemma map_filter_mset: "mset es = mset es' \<Longrightarrow> mset (List.map_filter f es) = mset (List.map_filter f es')"
  by (simp add: map_filter_def mset_map mset_filter)

lemma map_of_mset_eq:
  assumes "mset es = mset es'" and "distinct (map fst es)"
  shows "map_of es = map_of es'"
proof -
  have "distinct (map fst es')"
    using assms by (metis mset_eq_imp_distinct_iff mset_map)
  moreover have "set es = set es'" using assms(1) by (metis set_mset_mset)
  ultimately show ?thesis using assms(2) by (simp add: map_of_inject_set)
qed

lemma mset_entries: "is_order ord \<Longrightarrow> wf_map m \<Longrightarrow> mset (entries ord site m) = mset m"
  by (metis distinct_entries distinct_map set_entries set_eq_iff_mset_eq_distinct wf_map_def)

lemma map_of_entries [simp]:
  "is_order ord \<Longrightarrow> wf_map m \<Longrightarrow> map_of (entries ord site m) = map_of m"
  by (rule map_of_mset_eq) (simp_all add: mset_entries distinct_entries)

text \<open>A key that is visited is a key of the map, whatever the order.\<close>

lemma entries_sound: "(k, v) \<in> set (entries ord site m) \<Longrightarrow> map_of m k = Some v"
  by (auto simp: entries_def map_filter_def)

text \<open>The order that visits the entries as they are listed; used by closed examples.\<close>

definition listed :: order where
  "listed site ks = ks"

lemma is_order_listed [simp]: "is_order listed"
  by (simp add: is_order_def listed_def)

text \<open>Copying a map entry by entry.\<close>

lemma update_new: "k \<notin> set (map fst m) \<Longrightarrow> AList.update k v m = m @ [(k, v)]"
  by (induction m) auto

lemma fold_update_copy:
  assumes "distinct (map fst es)" and "set (map fst es) \<inter> set (map fst m) = {}"
  shows "fold (\<lambda>(k, v). AList.update k v) es m = m @ es"
  using assms
proof (induction es arbitrary: m)
  case (Cons e es)
  obtain k v where e: "e = (k, v)" by (cases e)
  have "AList.update k v m = m @ [(k, v)]" using Cons.prems e by (intro update_new) auto
  moreover have "fold (\<lambda>(k, v). AList.update k v) es (m @ [(k, v)]) = (m @ [(k, v)]) @ es"
    using Cons.prems e by (intro Cons.IH) auto
  ultimately show ?case by (simp add: e)
qed simp

section \<open>Integers at their width\<close>

definition wrap_signed :: "nat \<Rightarrow> int \<Rightarrow> int" where
  "wrap_signed w x = (x + 2 ^ (w - 1)) mod 2 ^ w - 2 ^ (w - 1)"

abbreviation int64 :: "int \<Rightarrow> int" where
  "int64 \<equiv> wrap_signed 64"

abbreviation int32 :: "int \<Rightarrow> int" where
  "int32 \<equiv> wrap_signed 32"

definition uint64 :: "int \<Rightarrow> int" where
  "uint64 x = x mod 2 ^ 64"

definition in_int64 :: "int \<Rightarrow> bool" where
  "in_int64 x \<longleftrightarrow> - (2 ^ 63) \<le> x \<and> x < 2 ^ 63"

lemma int64_id [simp]: "in_int64 x \<Longrightarrow> int64 x = x"
  by (simp add: wrap_signed_def in_int64_def)

lemma in_int64_int64 [simp, intro]: "in_int64 (int64 x)"
proof -
  have "0 \<le> (x + 2 ^ 63) mod 2 ^ 64" "(x + 2 ^ 63) mod 2 ^ 64 < (2 ^ 64 :: int)"
    by (rule pos_mod_sign pos_mod_bound; simp)+
  then show ?thesis by (simp add: wrap_signed_def in_int64_def)
qed

lemma uint64_id: "0 \<le> x \<Longrightarrow> in_int64 x \<Longrightarrow> uint64 x = x"
  by (simp add: uint64_def in_int64_def)

end
