(* ===== verification/GoLib.thy ===== *)
theory GoLib
  imports Prelude "HOL-Library.Char_ord"
begin

text \<open>
  The functions of Go's standard library that the program calls, on byte strings: packages
  \<open>strings\<close>, \<open>strconv\<close>, \<open>path\<close> and \<open>net\<close>, and slicing.  A Go string is a list of bytes, which is
  what \<^typ>\<open>string\<close> is.  Case conversion is that of ASCII: a byte outside the letters is kept.
  Separators are single bytes, as in every call of the program.
\<close>

section \<open>Slices\<close>

text \<open>\<open>s[lo:hi]\<close>: panics unless \<open>0 \<le> lo \<le> hi \<le> len(s)\<close>.\<close>

definition slice :: "'a list \<Rightarrow> int \<Rightarrow> int \<Rightarrow> 'a list outcome" where
  "slice s lo hi =
     (if 0 \<le> lo \<and> lo \<le> hi \<and> hi \<le> int (length s)
      then Done (take (nat (hi - lo)) (drop (nat lo) s))
      else Panic SliceOutOfRange)"

text \<open>\<open>s[lo:]\<close> and \<open>s[:hi]\<close>.\<close>

abbreviation slice_from :: "'a list \<Rightarrow> int \<Rightarrow> 'a list outcome" where
  "slice_from s lo \<equiv> slice s lo (int (length s))"

abbreviation slice_to :: "'a list \<Rightarrow> int \<Rightarrow> 'a list outcome" where
  "slice_to s hi \<equiv> slice s 0 hi"

text \<open>\<open>xs[i]\<close>: panics out of range.\<close>

definition elem_at :: "'a list \<Rightarrow> nat \<Rightarrow> 'a outcome" where
  "elem_at xs i = (if i < length xs then Done (xs ! i) else Panic IndexOutOfRange)"

lemma slice_nat:
  "i \<le> j \<Longrightarrow> j \<le> length s \<Longrightarrow> slice s (int i) (int j) = Done (take (j - i) (drop i s))"
  by (simp add: slice_def nat_diff_distrib)

lemma slice_from_nat: "i \<le> length s \<Longrightarrow> slice_from s (int i) = Done (drop i s)"
  by (simp add: slice_nat)

lemma slice_to_nat: "i \<le> length s \<Longrightarrow> slice_to s (int i) = Done (take i s)"
  using slice_nat [of 0 i s] by simp

lemma slice_one: "slice (a @ x # b) (int (length a)) (int (length a) + 1) = Done [x]"
  by (simp add: slice_def)

lemma slice_from_one [simp]: "slice_from (c # s) 1 = Done s"
  using slice_from_nat [of 1 "c # s"] by simp

lemma slice_from_one_Nil [simp]: "slice_from [] 1 = Panic SliceOutOfRange"
  by (simp add: slice_def)

lemma elem_at_simps [simp]:
  "elem_at [] i = Panic IndexOutOfRange"
  "elem_at (x # xs) 0 = Done x"
  "elem_at (x # xs) (Suc i) = elem_at xs i"
  by (simp_all add: elem_at_def)

lemma elem_at_numeral [simp]:
  "elem_at (x # xs) (numeral n) = elem_at xs (pred_numeral n)"
  by (simp add: numeral_eq_Suc)

section \<open>Package strings\<close>

abbreviation hasPrefix :: "string \<Rightarrow> string \<Rightarrow> bool" where
  "hasPrefix s p \<equiv> prefix p s"

definition trimPrefix :: "string \<Rightarrow> string \<Rightarrow> string" where
  "trimPrefix s p = (if prefix p s then drop (length p) s else s)"

text \<open>\<open>strings.Index(s, sub)\<close>; \<open>None\<close> is \<open>-1\<close>.\<close>

fun find_sub :: "string \<Rightarrow> string \<Rightarrow> nat option" where
  "find_sub s sub =
     (if prefix sub s then Some 0
      else case s of [] \<Rightarrow> None | _ # t \<Rightarrow> map_option Suc (find_sub t sub))"

declare find_sub.simps [simp del]

definition containsStr :: "string \<Rightarrow> string \<Rightarrow> bool" where
  "containsStr s sub \<longleftrightarrow> find_sub s sub \<noteq> None"

definition indexStr :: "string \<Rightarrow> string \<Rightarrow> int" where
  "indexStr s sub = (case find_sub s sub of None \<Rightarrow> - 1 | Some i \<Rightarrow> int i)"

text \<open>\<open>strings.LastIndex(s, c)\<close> for a single byte.\<close>

definition lastIndexByte :: "string \<Rightarrow> char \<Rightarrow> int" where
  "lastIndexByte s c =
     (if c \<in> set s then int (length s) - 1 - int (length (takeWhile (\<lambda>x. x \<noteq> c) (rev s)))
      else - 1)"

text \<open>\<open>strings.Split(s, c)\<close> for a single byte: never empty.\<close>

fun split_on :: "char \<Rightarrow> string \<Rightarrow> string list" where
  "split_on c [] = [[]]"
| "split_on c (x # s) =
     (if x = c then [] # split_on c s
      else (case split_on c s of [] \<Rightarrow> [[x]] | w # ws \<Rightarrow> (x # w) # ws))"

text \<open>\<open>strings.SplitN(s, c, 2)\<close>: at most two parts, split at the first separator.\<close>

definition splitN2 :: "char \<Rightarrow> string \<Rightarrow> string list" where
  "splitN2 c s =
     (if c \<in> set s
      then [takeWhile (\<lambda>x. x \<noteq> c) s, tl (dropWhile (\<lambda>x. x \<noteq> c) s)] else [s])"

fun join_with :: "string \<Rightarrow> string list \<Rightarrow> string" where
  "join_with sep [] = []"
| "join_with sep [w] = w"
| "join_with sep (w # ws) = w @ sep @ join_with sep ws"

text \<open>\<open>strings.Replace(s, old, new, -1)\<close> for a non-empty \<open>old\<close>.\<close>

function replaceAll :: "string \<Rightarrow> string \<Rightarrow> string \<Rightarrow> string" where
  "replaceAll s old new =
     (if old = [] then s
      else if prefix old s then new @ replaceAll (drop (length old) s) old new
      else case s of [] \<Rightarrow> [] | x # t \<Rightarrow> x # replaceAll t old new)"
  by pat_completeness auto
termination
  by (relation "measure (\<lambda>(s, _, _). length s)") (auto simp: prefix_def)

declare replaceAll.simps [simp del]

definition lower_char :: "char \<Rightarrow> char" where
  "lower_char c = (if CHR ''A'' \<le> c \<and> c \<le> CHR ''Z'' then char_of (of_char c + 32 :: nat) else c)"

definition upper_char :: "char \<Rightarrow> char" where
  "upper_char c = (if CHR ''a'' \<le> c \<and> c \<le> CHR ''z'' then char_of (of_char c - 32 :: nat) else c)"

abbreviation toLower :: "string \<Rightarrow> string" where
  "toLower \<equiv> map lower_char"

abbreviation toUpper :: "string \<Rightarrow> string" where
  "toUpper \<equiv> map upper_char"

definition equalFold :: "string \<Rightarrow> string \<Rightarrow> bool" where
  "equalFold s t \<longleftrightarrow> toLower s = toLower t"

section \<open>Package strconv\<close>

definition is_digit :: "char \<Rightarrow> bool" where
  "is_digit c \<longleftrightarrow> CHR ''0'' \<le> c \<and> c \<le> CHR ''9''"

definition digit_val :: "char \<Rightarrow> int" where
  "digit_val c = int (of_char c) - 48"

definition digit_char :: "nat \<Rightarrow> char" where
  "digit_char d = char_of (48 + d)"

text \<open>The value of a string of decimal digits, most significant first.\<close>

definition decimal :: "string \<Rightarrow> int" where
  "decimal s = foldl (\<lambda>n c. n * 10 + digit_val c) 0 s"

fun show_nat :: "nat \<Rightarrow> string" where
  "show_nat n =
     (if n < 10 then [digit_char n] else show_nat (n div 10) @ [digit_char (n mod 10)])"

declare show_nat.simps [simp del]

definition itoa :: "int \<Rightarrow> string" where
  "itoa i = (if i < 0 then CHR ''-'' # show_nat (nat (- i)) else show_nat (nat i))"

text \<open>
  The same on integers, which the kernel evaluates in binary; a natural number would be evaluated in
  unary.
\<close>

function show_int :: "int \<Rightarrow> string" where
  "show_int i = (if i < 10 then [digit_char (nat i)] else show_int (i div 10) @ [digit_char (nat (i mod 10))])"
  by pat_completeness auto
termination
  by (relation "measure nat") auto

declare show_int.simps [simp del]

lemma show_int_show_nat: "0 \<le> i \<Longrightarrow> show_int i = show_nat (nat i)"
proof (induction i rule: show_int.induct)
  case (1 i)
  then show ?case
    by (cases "i < 10") (simp_all add: show_int.simps [of i] show_nat.simps [of "nat i"] nat_div_distrib nat_mod_distrib)
qed

lemma itoa_code [code]: "itoa i = (if i < 0 then CHR ''-'' # show_int (- i) else show_int i)"
  by (simp add: itoa_def show_int_show_nat)

definition all_digits :: "string \<Rightarrow> bool" where
  "all_digits s \<longleftrightarrow> s \<noteq> [] \<and> list_all is_digit s"

text \<open>\<open>strconv.Atoi\<close>: an optional sign and decimal digits within the range of \<open>int\<close>; else an error.\<close>

definition atoi :: "string \<Rightarrow> int option" where
  "atoi s =
     (let neg = (s \<noteq> [] \<and> hd s = CHR ''-'');
          ds = (if s \<noteq> [] \<and> (hd s = CHR ''-'' \<or> hd s = CHR ''+'') then tl s else s);
          v = (if neg then - decimal ds else decimal ds)
      in if all_digits ds \<and> in_int64 v then Some v else None)"

text \<open>The value \<open>strconv.Atoi\<close> returns beside an error: 0, or the nearest \<open>int\<close> when out of range.\<close>

definition atoiValue :: "string \<Rightarrow> int" where
  "atoiValue s =
     (case atoi s of
        Some v \<Rightarrow> v
      | None \<Rightarrow>
          let signed = (s \<noteq> [] \<and> (hd s = CHR ''-'' \<or> hd s = CHR ''+'')) in
          if \<not> all_digits (if signed then tl s else s) then 0
          else if hd s = CHR ''-'' then - (2 ^ 63) else 2 ^ 63 - 1)"

text \<open>\<open>strconv.ParseUint(s, 10, 16)\<close>.\<close>

definition parseUint16 :: "string \<Rightarrow> int option" where
  "parseUint16 s = (if all_digits s \<and> decimal s < 65536 then Some (decimal s) else None)"

definition parseBool :: "string \<Rightarrow> bool option" where
  "parseBool s =
     (if s \<in> {''1'', ''t'', ''T'', ''TRUE'', ''true'', ''True''} then Some True
      else if s \<in> {''0'', ''f'', ''F'', ''FALSE'', ''false'', ''False''} then Some False
      else None)"

section \<open>Packages path and net\<close>

text \<open>\<open>path.Base\<close>: the last element of a slash-separated path.\<close>

definition pathBase :: "string \<Rightarrow> string" where
  "pathBase p =
     (if p = [] then ''.''
      else let q = rev (dropWhile (\<lambda>c. c = CHR ''/'') (rev p));
               b = rev (takeWhile (\<lambda>c. c \<noteq> CHR ''/'') (rev q))
           in if b = [] then ''/'' else b)"

text \<open>\<open>net.JoinHostPort\<close>: a host with a colon is bracketed.\<close>

definition joinHostPort :: "string \<Rightarrow> string \<Rightarrow> string" where
  "joinHostPort host port =
     (if CHR '':'' \<in> set host then ''['' @ host @ '']:'' @ port else host @ '':'' @ port)"

section \<open>Facts\<close>

lemma trimPrefix_append [simp]: "trimPrefix (p @ s) p = s"
  by (simp add: trimPrefix_def)

lemma find_sub_Some_bound: "find_sub s sub = Some i \<Longrightarrow> i + length sub \<le> length s"
proof (induction s arbitrary: i)
  case Nil
  then show ?case by (subst (asm) find_sub.simps) (auto split: if_splits)
next
  case (Cons x s)
  show ?case
  proof (cases "prefix sub (x # s)")
    case True
    with Cons.prems show ?thesis
      by (subst (asm) find_sub.simps) (auto dest: prefix_length_le)
  next
    case False
    with Cons.prems obtain j where "find_sub s sub = Some j" "i = Suc j"
      by (subst (asm) find_sub.simps) auto
    with Cons.IH show ?thesis by auto
  qed
qed

text \<open>Looking for a single byte: the position of its first occurrence.\<close>

lemma find_sub_single:
  "find_sub s [c] = (if c \<in> set s then Some (length (takeWhile (\<lambda>x. x \<noteq> c) s)) else None)"
  by (induction s) (auto simp: find_sub.simps [of "[]"] find_sub.simps [of "_ # _"])

lemma split_on_not_Nil [simp]: "split_on c s \<noteq> []"
  by (cases s) (auto split: list.splits)

lemma split_on_no_sep: "c \<notin> set s \<Longrightarrow> split_on c s = [s]"
  by (induction s) auto

lemma split_on_append_sep:
  "c \<notin> set w \<Longrightarrow> split_on c (w @ c # s) = w # split_on c s"
  by (induction w) auto

lemma split_on_parts_no_sep: "w \<in> set (split_on c s) \<Longrightarrow> c \<notin> set w"
  by (induction s arbitrary: w) (auto split: if_splits list.splits)

text \<open>Splitting undoes joining when no part contains the separator.\<close>

lemma split_on_parts_subset: "w \<in> set (split_on c s) \<Longrightarrow> set w \<subseteq> set s"
proof (induction s arbitrary: w)
  case (Cons x s)
  obtain v vs where vs: "split_on c s = v # vs" by (metis split_on_not_Nil neq_Nil_conv)
  have "set v \<subseteq> set s" "u \<in> set vs \<Longrightarrow> set u \<subseteq> set s" for u
    using Cons.IH [of v] Cons.IH [of u] vs by simp_all
  then show ?case using Cons.prems vs by (auto split: if_splits)
qed simp

lemma split_on_join:
  "ws \<noteq> [] \<Longrightarrow> (\<And>w. w \<in> set ws \<Longrightarrow> c \<notin> set w) \<Longrightarrow> split_on c (join_with [c] ws) = ws"
proof (induction ws)
  case Nil
  then show ?case by simp
next
  case (Cons w ws)
  show ?case
  proof (cases ws)
    case Nil
    with Cons.prems show ?thesis by (simp add: split_on_no_sep)
  next
    case (Cons v vs)
    have "split_on c (join_with [c] ws) = ws"
      using Cons.IH Cons.prems(2) Cons by simp
    with Cons Cons.prems(2) [of w] show ?thesis
      by (simp add: split_on_append_sep)
  qed
qed

lemma join_split_on: "join_with [c] (split_on c s) = s"
proof (induction s)
  case (Cons x s)
  obtain w ws where "split_on c s = w # ws" by (metis split_on_not_Nil neq_Nil_conv)
  with Cons show ?case by (cases ws) auto
qed simp

lemma splitN2_no_sep [simp]: "c \<notin> set s \<Longrightarrow> splitN2 c s = [s]"
  by (simp add: splitN2_def)

lemma splitN2_sep: "c \<notin> set w \<Longrightarrow> splitN2 c (w @ c # s) = [w, s]"
  by (induction w) (auto simp: splitN2_def)

lemma splitN2_length: "length (splitN2 c s) = (if c \<in> set s then 2 else 1)"
  by (simp add: splitN2_def)

subsection \<open>Decimal numbers\<close>

lemma of_char_digit_char: "d < 10 \<Longrightarrow> of_char (digit_char d) = 48 + d"
  by (simp add: digit_char_def)

lemma digit_val_digit_char [simp]: "d < 10 \<Longrightarrow> digit_val (digit_char d) = int d"
  by (simp add: digit_val_def of_char_digit_char)

lemma is_digit_digit_char [simp]: "d < 10 \<Longrightarrow> is_digit (digit_char d)"
  by (simp add: is_digit_def less_eq_char_def of_char_digit_char)

lemma is_digit_bounds: "is_digit c \<Longrightarrow> 48 \<le> (of_char c :: nat) \<and> (of_char c :: nat) \<le> 57"
  by (simp add: is_digit_def less_eq_char_def)

lemma digit_val_range: "is_digit c \<Longrightarrow> 0 \<le> digit_val c \<and> digit_val c \<le> 9"
  using is_digit_bounds [of c] by (simp add: digit_val_def)

lemma digit_char_digit_val: "is_digit c \<Longrightarrow> digit_char (nat (digit_val c)) = c"
  using is_digit_bounds [of c]
  by (simp add: digit_char_def digit_val_def nat_diff_distrib)

lemma decimal_append [simp]: "decimal (s @ [c]) = decimal s * 10 + digit_val c"
  by (simp add: decimal_def)

lemma decimal_show_nat [simp]: "decimal (show_nat n) = int n"
proof (induction n rule: show_nat.induct)
  case (1 n)
  have "int (n div 10) * 10 + int (n mod 10) = int n"
    by (metis div_mult_mod_eq of_nat_add of_nat_mult of_nat_numeral)
  with 1 show ?case
    by (subst show_nat.simps) (auto simp: decimal_def)
qed

lemma all_digits_show_nat [simp]: "all_digits (show_nat n)"
proof (induction n rule: show_nat.induct)
  case (1 n)
  then show ?case by (subst show_nat.simps) (auto simp: all_digits_def)
qed

lemma hd_show_nat_digit: "is_digit (hd (show_nat n))"
  using all_digits_show_nat [of n] by (cases "show_nat n") (auto simp: all_digits_def)

lemma digit_not_sign: "is_digit c \<Longrightarrow> c \<noteq> CHR ''-'' \<and> c \<noteq> CHR ''+''"
  by (auto simp: is_digit_def less_eq_char_def)

lemma all_digits_not_sign: "all_digits s \<Longrightarrow> hd s \<noteq> CHR ''-'' \<and> hd s \<noteq> CHR ''+''"
  by (cases s) (auto simp: all_digits_def dest: digit_not_sign)

lemma atoi_digits:
  "all_digits s \<Longrightarrow> in_int64 (decimal s) \<Longrightarrow> atoi s = Some (decimal s)"
  using all_digits_not_sign [of s] by (simp add: atoi_def)

text \<open>\<open>Atoi(Itoa(i)) == i\<close> on the range of \<open>int\<close>.\<close>

lemma atoi_itoa: "in_int64 i \<Longrightarrow> atoi (itoa i) = Some i"
proof (cases "i < 0")
  case True
  then have "all_digits (show_nat (nat (- i)))" "decimal (show_nat (nat (- i))) = - i"
    by simp_all
  moreover assume "in_int64 i"
  ultimately show ?thesis using True by (simp add: atoi_def itoa_def)
next
  case False
  assume "in_int64 i"
  with False show ?thesis by (simp add: itoa_def atoi_digits)
qed

lemma itoa_inj: "in_int64 i \<Longrightarrow> in_int64 j \<Longrightarrow> itoa i = itoa j \<longleftrightarrow> i = j"
  by (metis atoi_itoa option.inject)

lemma atoi_in_int64: "atoi s = Some v \<Longrightarrow> in_int64 v"
  by (auto simp: atoi_def Let_def split: if_splits)

lemma colon_not_digit [simp]: "\<not> is_digit (CHR '':'')"
  by (simp add: is_digit_def less_eq_char_def)

end
