(* ===== verification/IpPattern.thy ===== *)
theory IpPattern
  imports GoLib
begin

text \<open>
  The pattern for IPv4 addresses of \<open>registrator.go\<close>, \<open>ipRegEx\<close>: a regular expression without
  repetition operators other than counted ones, its language, and a backtracking matcher that
  returns the remainders after every way of matching a prefix.  The result is that the pattern
  accepts exactly the dotted quads of decimal numbers up to 255 without leading zeros.
\<close>

section \<open>Regular expressions\<close>

text \<open>A class is a list of ranges of characters.\<close>

datatype rx =
    Epsilon
  | Class "(char \<times> char) list"
  | Seq rx rx
  | Alt rx rx

fun times :: "nat \<Rightarrow> rx \<Rightarrow> rx" where
  "times 0 r = Epsilon"
| "times (Suc n) r = Seq r (times n r)"

definition in_class :: "(char \<times> char) list \<Rightarrow> char \<Rightarrow> bool" where
  "in_class rs c \<longleftrightarrow> list_ex (\<lambda>(lo, hi). lo \<le> c \<and> c \<le> hi) rs"

text \<open>The remainders after matching a prefix of the text.\<close>

fun match_rx :: "rx \<Rightarrow> string \<Rightarrow> string list" where
  "match_rx Epsilon s = [s]"
| "match_rx (Class rs) s = (case s of [] \<Rightarrow> [] | c # t \<Rightarrow> if in_class rs c then [t] else [])"
| "match_rx (Seq a b) s = concat (map (match_rx b) (match_rx a s))"
| "match_rx (Alt a b) s = match_rx a s @ match_rx b s"

text \<open>\<open>MatchString\<close> of a pattern between \<open>^\<close> and \<open>$\<close>.\<close>

definition matchString :: "rx \<Rightarrow> string \<Rightarrow> bool" where
  "matchString r s \<longleftrightarrow> list_ex (\<lambda>t. t = []) (match_rx r s)"

section \<open>The pattern\<close>

definition digit_rx :: rx where
  "digit_rx = Class [(CHR ''0'', CHR ''9'')]"

text \<open>\<open>[0-9]|[1-9][0-9]|1[0-9]{2}|2[0-4][0-9]|25[0-5]\<close>.\<close>

definition octet_rx :: rx where
  "octet_rx =
     Alt digit_rx
    (Alt (Seq (Class [(CHR ''1'', CHR ''9'')]) digit_rx)
    (Alt (Seq (Class [(CHR ''1'', CHR ''1'')]) (times 2 digit_rx))
    (Alt (Seq (Class [(CHR ''2'', CHR ''2'')]) (Seq (Class [(CHR ''0'', CHR ''4'')]) digit_rx))
         (Seq (Class [(CHR ''2'', CHR ''2'')]) (Seq (Class [(CHR ''5'', CHR ''5'')]) (Class [(CHR ''0'', CHR ''5'')]))))))"

definition ipRegEx :: rx where
  "ipRegEx = Seq (times 3 (Seq octet_rx (Class [(CHR ''.'', CHR ''.'')]))) octet_rx"

section \<open>The language\<close>

fun lang :: "rx \<Rightarrow> string set" where
  "lang Epsilon = {[]}"
| "lang (Class rs) = {[c] | c. in_class rs c}"
| "lang (Seq a b) = {u @ v | u v. u \<in> lang a \<and> v \<in> lang b}"
| "lang (Alt a b) = lang a \<union> lang b"

lemma match_rx_lang: "t \<in> set (match_rx r s) \<longleftrightarrow> (\<exists>w \<in> lang r. s = w @ t)"
proof (induction r arbitrary: s t)
  case (Class rs)
  then show ?case by (cases s) auto
next
  case (Seq a b)
  then show ?case by (auto simp: Bex_def) (metis append.assoc)+
qed auto

lemma matchString_lang: "matchString r s \<longleftrightarrow> s \<in> lang r"
  unfolding matchString_def list_ex_iff using match_rx_lang [of "[]" r s] by auto

text \<open>The strings of an expression, when its classes are spelled out.\<close>

definition between :: "char \<Rightarrow> char \<Rightarrow> string list" where
  "between lo hi = map (\<lambda>n. [char_of n]) [of_char lo ..< Suc (of_char hi)]"

fun strings_of :: "rx \<Rightarrow> string list" where
  "strings_of Epsilon = [[]]"
| "strings_of (Class rs) = concat (map (\<lambda>(lo, hi). between lo hi) rs)"
| "strings_of (Seq a b) = concat (map (\<lambda>u. map (\<lambda>v. u @ v) (strings_of b)) (strings_of a))"
| "strings_of (Alt a b) = strings_of a @ strings_of b"

lemma set_between: "set (between lo hi) = {[c] | c. lo \<le> c \<and> c \<le> hi}"
proof -
  have "\<exists>c. [char_of n] = [c] \<and> lo \<le> c \<and> c \<le> hi" if "of_char lo \<le> n" "n \<le> of_char hi" for n :: nat
  proof -
    have "n < 256" using that(2) nat_of_char_less_256 [of hi] by linarith
    then have "of_char (char_of n :: char) = n" by simp
    with that show ?thesis by (auto simp: less_eq_char_def)
  qed
  moreover have "[c] \<in> (\<lambda>n. [char_of n]) ` {of_char lo ..< Suc (of_char hi)}" if "lo \<le> c" "c \<le> hi" for c
    using that by (intro image_eqI [of _ _ "of_char c"]) (auto simp: less_eq_char_def)
  ultimately have "(\<lambda>n. [char_of n]) ` {of_char lo ..< Suc (of_char hi)} = {[c] | c. lo \<le> c \<and> c \<le> hi}"
    by auto
  then show ?thesis unfolding between_def set_map set_upt .
qed

lemma class_strings: "set (strings_of (Class rs)) = lang (Class rs)"
proof (induction rs)
  case (Cons r rs)
  obtain lo hi where r: "r = (lo, hi)" by (cases r)
  have "set (strings_of (Class (r # rs))) = {[c] | c. lo \<le> c \<and> c \<le> hi} \<union> set (strings_of (Class rs))"
    by (simp add: r set_between)
  also have "\<dots> = lang (Class (r # rs))"
    unfolding Cons.IH by (auto simp: in_class_def r)
  finally show ?case .
qed (simp add: in_class_def)

lemma strings_lang: "set (strings_of r) = lang r"
  by (induction r) (auto simp: class_strings simp del: strings_of.simps(2) lang.simps(2))

text \<open>The alternatives of an octet list the numbers up to 255 in order.\<close>

lemma octet_strings: "strings_of octet_rx = map show_nat [0 ..< 256]"
  by code_simp

lemma octet_lang: "w \<in> lang octet_rx \<longleftrightarrow> (\<exists>n < 256. w = show_nat n)"
  unfolding strings_lang [symmetric] octet_strings by auto

definition dotted_quad :: "nat \<Rightarrow> nat \<Rightarrow> nat \<Rightarrow> nat \<Rightarrow> string" where
  "dotted_quad a b c d = show_nat a @ ''.'' @ show_nat b @ ''.'' @ show_nat c @ ''.'' @ show_nat d"

lemma dot_lang: "lang (Class [(CHR ''.'', CHR ''.'')]) = {''.''}"
  unfolding strings_lang [symmetric] by code_simp

lemma ipRegEx_iff:
  "matchString ipRegEx s \<longleftrightarrow> (\<exists>a < 256. \<exists>b < 256. \<exists>c < 256. \<exists>d < 256. s = dotted_quad a b c d)"
proof -
  have "s \<in> lang ipRegEx \<longleftrightarrow> (\<exists>u v w x. u \<in> lang octet_rx \<and> v \<in> lang octet_rx \<and> w \<in> lang octet_rx \<and>
      x \<in> lang octet_rx \<and> s = u @ ''.'' @ v @ ''.'' @ w @ ''.'' @ x)"
    unfolding ipRegEx_def numeral_eq_Suc pred_numeral_simps
    by (auto simp: dot_lang simp del: lang.simps(2)) (metis append_assoc append_Cons append_Nil)+
  then show ?thesis unfolding matchString_lang octet_lang dotted_quad_def by blast
qed

end
