(* ===== verification/Types.thy ===== *)
theory Types
  imports GoLib
begin

text \<open>
  The data of the program: the structs of \<open>bridge/types.go\<close>, the part of the Docker API objects
  that the bridge reads, and the registry interface.

  Pointers that can be nil are options.  A nil slice is the empty list: the program never stores an
  empty non-nil slice where it tests for nil.  Go's \<open>error\<close> is an option of the message.
\<close>

type_synonym err = "string option"

section \<open>Docker objects\<close>

record PortBinding =
  pb_HostIP :: string
  pb_HostPort :: string

text \<open>\<open>Networks\<close> maps a network name to the container's address on it.\<close>

record NetworkSettings =
  ns_Networks :: "string gomap"
  ns_IPAddress :: string
  ns_Ports :: "PortBinding list gomap"

text \<open>\<open>ExposedPorts\<close> is a map to the empty struct; \<open>Labels\<close> may be a nil map.\<close>

record DockerConfig =
  dc_Hostname :: string
  dc_Image :: string
  dc_Env :: "string list"
  dc_Labels :: "string gomap option"
  dc_ExposedPorts :: "unit gomap"

record HostConfig =
  hc_NetworkMode :: string

record State =
  st_Running :: bool
  st_ExitCode :: int

record Container =
  c_ID :: string
  c_Name :: string
  c_Config :: "DockerConfig option"
  c_State :: State
  c_NetworkSettings :: "NetworkSettings option"
  c_HostConfig :: "HostConfig option"

text \<open>The Docker client as the bridge sees it; \<open>NoSuchContainer\<close> is told apart from other errors.\<close>

datatype docker_error = NoSuchContainer | DockerError string

datatype container_filter = RunningOnly | NonExited

record DockerClient =
  dk_InspectContainer :: "string \<Rightarrow> docker_error + Container"
  dk_ListContainers :: "container_filter \<Rightarrow> docker_error + string list"

section \<open>Bridge structs\<close>

record Config =
  cf_HostIp :: string
  cf_Internal :: bool
  cf_UseIpFromLabel :: string
  cf_ForceTags :: string
  cf_RefreshTtl :: int
  cf_RefreshInterval :: int
  cf_DeregisterCheck :: string
  cf_Cleanup :: bool
  cf_RequireLabel :: bool
  cf_ExitOnIPLookupFailure :: bool

record ServicePort =
  sp_HostPort :: string
  sp_HostIP :: string
  sp_ExposedPort :: string
  sp_ExposedIP :: string
  sp_PortType :: string
  sp_ContainerHostname :: string
  sp_ContainerID :: string
  sp_ContainerName :: string
  sp_container :: "Container option"

record Service =
  sv_ID :: string
  sv_Name :: string
  sv_Port :: int
  sv_IP :: string
  sv_UseExposedPorts :: bool
  sv_Tags :: "string list"
  sv_Attrs :: "string gomap"
  sv_TTL :: int
  sv_Origin :: ServicePort

record DeadContainer =
  dd_TTL :: int
  dd_Services :: "Service list"

record SyncMessage =
  sm_Quiet :: bool
  sm_IP :: string

text \<open>The zero values that Go gives to fields a composite literal leaves out.\<close>

definition zero_port :: ServicePort where
  "zero_port = \<lparr>sp_HostPort = [], sp_HostIP = [], sp_ExposedPort = [], sp_ExposedIP = [],
     sp_PortType = [], sp_ContainerHostname = [], sp_ContainerID = [], sp_ContainerName = [],
     sp_container = None\<rparr>"

definition zero_service :: Service where
  "zero_service = \<lparr>sv_ID = [], sv_Name = [], sv_Port = 0, sv_IP = [], sv_UseExposedPorts = False,
     sv_Tags = [], sv_Attrs = [], sv_TTL = 0, sv_Origin = zero_port\<rparr>"

section \<open>The registry interface\<close>

text \<open>
  \<open>RegistryAdapter\<close>: the methods the bridge calls, on the state \<open>'r\<close> behind them (the adapter's
  own and that of the backend).  An error return is a value; a call may also panic.
\<close>

record 'r RegistryAdapter =
  ra_Ping :: "'r \<Rightarrow> (err \<times> 'r) outcome"
  ra_Register :: "Service \<Rightarrow> 'r \<Rightarrow> (err \<times> 'r) outcome"
  ra_Deregister :: "Service \<Rightarrow> 'r \<Rightarrow> (err \<times> 'r) outcome"
  ra_Refresh :: "Service \<Rightarrow> 'r \<Rightarrow> (err \<times> 'r) outcome"
  ra_Services :: "'r \<Rightarrow> ((Service list \<times> err) \<times> 'r) outcome"

text \<open>
  The calls an adapter receives, and an adapter that records them: used to state which calls an
  operation of the bridge makes, whatever the adapter behind it does.
\<close>

datatype reg_call =
    CallPing
  | CallRegister Service
  | CallDeregister Service
  | CallRefresh Service
  | CallServices

definition logged :: "reg_call \<Rightarrow> ('r \<Rightarrow> ('a \<times> 'r) outcome) \<Rightarrow>
    'r \<times> reg_call list \<Rightarrow> ('a \<times> ('r \<times> reg_call list)) outcome" where
  "logged c f rl = obind (f (fst rl)) (\<lambda>(a, r). Done (a, (r, snd rl @ [c])))"

definition recording :: "'r RegistryAdapter \<Rightarrow> ('r \<times> reg_call list) RegistryAdapter" where
  "recording A =
     \<lparr>ra_Ping = logged CallPing (ra_Ping A),
      ra_Register = (\<lambda>s. logged (CallRegister s) (ra_Register A s)),
      ra_Deregister = (\<lambda>s. logged (CallDeregister s) (ra_Deregister A s)),
      ra_Refresh = (\<lambda>s. logged (CallRefresh s) (ra_Refresh A s)),
      ra_Services = logged CallServices (ra_Services A)\<rparr>"

lemma logged_eq_Done:
  "logged c f rl = Done (a, rl') \<longleftrightarrow>
     f (fst rl) = Done (a, fst rl') \<and> snd rl' = snd rl @ [c]"
  by (cases rl; cases rl') (auto simp: logged_def obind_eq_Done_iff)

lemma recording_simps [simp]:
  "ra_Ping (recording A) = logged CallPing (ra_Ping A)"
  "ra_Register (recording A) s = logged (CallRegister s) (ra_Register A s)"
  "ra_Deregister (recording A) s = logged (CallDeregister s) (ra_Deregister A s)"
  "ra_Refresh (recording A) s = logged (CallRefresh s) (ra_Refresh A s)"
  "ra_Services (recording A) = logged CallServices (ra_Services A)"
  by (simp_all add: recording_def)

section \<open>What every adapter promises the bridge\<close>

text \<open>
  The contract the bridge relies on: no call of an adapter panics or blocks on the services
  \<open>ok\<close> says are acceptable; success and failure are both return values.
\<close>

locale registry_adapter =
  fixes A :: "'r RegistryAdapter" and ok :: "Service \<Rightarrow> bool"
  assumes register_returns: "ok s \<Longrightarrow> \<exists>e r'. ra_Register A s r = Done (e, r')"
    and deregister_returns: "ok s \<Longrightarrow> \<exists>e r'. ra_Deregister A s r = Done (e, r')"
    and refresh_returns: "ok s \<Longrightarrow> \<exists>e r'. ra_Refresh A s r = Done (e, r')"
    and services_returns: "\<exists>ss e r'. ra_Services A r = Done ((ss, e), r')"
    and services_ok: "ra_Services A r = Done ((ss, e), r') \<Longrightarrow> s \<in> set ss \<Longrightarrow> ok s"

end
