(* ===== verification/Tags.thy ===== *)
theory Tags
  imports GoLib
begin

text \<open>
  Comma-separated tags with escaped commas: \<open>recParseEscapedComma\<close> and \<open>combineTags\<close> of
  \<open>bridge/util.go\<close>, with the slicing of the source, so that an out-of-range slice would be a panic.
  \<open>tag_tokens\<close> is the reference: a one-pass tokenizer.  The two agree, up to the order of the
  tags, on every input; escaping and joining tags is undone by parsing.
\<close>

section \<open>The code\<close>

text \<open>
  The loop over \<open>offset\<close>.  It ends by splitting off the text before an unescaped comma (the tag,
  and the rest behind the comma) or by running out of commas (the tag alone).
\<close>

function commaLoop :: "string \<Rightarrow> int \<Rightarrow> (string \<times> string option) outcome" where
  "commaLoop str offset =
     obind (slice_from str offset) (\<lambda>suffix.
       if length suffix > 0 then
         (let index = indexStr suffix '','' in
          if index = - 1 then Done (str, None)
          else obind (slice str (offset + index - 1) (offset + index)) (\<lambda>prev.
            if prev \<noteq> [CHR 0x5C] then
              obind (slice_from str (offset + index + 1)) (\<lambda>rest.
              obind (slice_to str (offset + index)) (\<lambda>tag.
                Done (tag, Some rest)))
            else
              obind (slice_to str (offset + index - 1)) (\<lambda>a.
              obind (slice_from str (offset + index)) (\<lambda>b.
                commaLoop (a @ b) (offset + index)))))
       else Done (str, None))"
  by pat_completeness auto
termination
  by (relation "measure (\<lambda>(str, offset). nat (int (length str) - offset))")
    (auto simp: slice_def indexStr_def split: if_splits option.splits)

declare commaLoop.simps [simp del]

lemma commaLoop_rest_shorter:
  "commaLoop str offset = Done (tag, Some rest) \<Longrightarrow> length rest < length str"
proof (induction str offset rule: commaLoop.induct)
  case (1 str offset)
  from "1.prems" show ?case
    by (subst (asm) commaLoop.simps)
      (auto simp: Let_def slice_def split: if_splits dest!: "1.IH" [rotated -1])
qed

function recParseEscapedComma :: "string \<Rightarrow> string list outcome" where
  "recParseEscapedComma str =
     (if length str = 0 then Done []
      else if hd str = CHR '','' then recParseEscapedComma (tl str)
      else obind (commaLoop str 0) (\<lambda>(tag, more).
        case more of
          None \<Rightarrow> Done [tag]
        | Some rest \<Rightarrow> obind (recParseEscapedComma rest) (\<lambda>tags. Done (tags @ [tag]))))"
  by pat_completeness auto
termination
  by (relation "measure length") (auto dest: commaLoop_rest_shorter)

declare recParseEscapedComma.simps [simp del]

definition combineTags :: "string list \<Rightarrow> string list outcome" where
  "combineTags tagParts =
     ofold (\<lambda>element tags. obind (recParseEscapedComma element) (\<lambda>ts. Done (tags @ ts)))
       tagParts []"

section \<open>The reference tokenizer\<close>

text \<open>\<open>cur\<close> is the tag read so far.  A backslash protects the comma behind it.\<close>

definition emit :: "string \<Rightarrow> string list" where
  "emit cur = (if cur = [] then [] else [cur])"

fun tag_tokens :: "string \<Rightarrow> string \<Rightarrow> string list" where
  "tag_tokens cur [] = emit cur"
| "tag_tokens cur (c # s) =
     (if c = CHR '','' then emit cur @ tag_tokens [] s
      else if c = CHR 0x5C \<and> s \<noteq> [] \<and> hd s = CHR '','' then tag_tokens (cur @ '','') (tl s)
      else tag_tokens (cur @ [c]) s)"

text \<open>Writing a tag so that it is read back.\<close>

fun escape_tag :: "string \<Rightarrow> string" where
  "escape_tag [] = []"
| "escape_tag (c # s) = (if c = CHR '','' then CHR 0x5C # CHR '','' # escape_tag s else c # escape_tag s)"

section \<open>Agreement with the reference\<close>

text \<open>The first tag that the tokenizer completes, and the text behind its comma.\<close>

fun take_tag :: "string \<Rightarrow> string \<Rightarrow> string \<times> string option" where
  "take_tag cur [] = (cur, None)"
| "take_tag cur (c # s) =
     (if c = CHR '','' then (cur, Some s)
      else if c = CHR 0x5C \<and> s \<noteq> [] \<and> hd s = CHR '','' then take_tag (cur @ '','') (tl s)
      else take_tag (cur @ [c]) s)"

lemma tag_tokens_take_tag:
  "tag_tokens cur s =
     (case take_tag cur s of
        (t, None) \<Rightarrow> emit t
      | (t, Some r) \<Rightarrow> emit t @ tag_tokens [] r)"
  by (induction cur s rule: take_tag.induct) (auto simp del: neq_Nil_conv)

lemma take_tag_no_comma: "CHR '','' \<notin> set s \<Longrightarrow> take_tag cur s = (cur @ s, None)"
  by (induction cur s rule: take_tag.induct) (auto dest: hd_in_set)

lemma take_tag_plain:
  "CHR '','' \<notin> set w \<Longrightarrow> w = [] \<or> last w \<noteq> CHR 0x5C \<Longrightarrow>
   take_tag cur (w @ CHR '','' # r) = (cur @ w, Some r)"
proof (induction w arbitrary: cur)
  case (Cons c w)
  have "\<not> (c = CHR 0x5C \<and> hd (w @ CHR '','' # r) = CHR '','')"
    using Cons.prems by (cases w) auto
  with Cons show ?case by (auto split: if_splits)
qed simp

lemma take_tag_escaped:
  "CHR '','' \<notin> set w \<Longrightarrow>
   take_tag cur (w @ CHR 0x5C # CHR '','' # r) = take_tag (cur @ w @ '','') r"
proof (induction w arbitrary: cur)
  case (Cons c w)
  have "hd (w @ CHR 0x5C # CHR '','' # r) \<noteq> CHR '',''"
    using Cons.prems by (cases w) auto
  with Cons show ?case by auto
qed simp

text \<open>Where the first comma is, if there is one.\<close>

lemma first_comma:
  obtains (none) "CHR '','' \<notin> set s" "indexStr s '','' = - 1"
  | (at) w r where "s = w @ CHR '','' # r" "CHR '','' \<notin> set w" "indexStr s '','' = int (length w)"
proof (cases "CHR '','' \<in> set s")
  case True
  then obtain w r where "s = w @ CHR '','' # r" "CHR '','' \<notin> set w"
    by (meson split_list_first)
  moreover from this have "takeWhile (\<lambda>x. x \<noteq> CHR '','') s = w" by (induction w arbitrary: s) auto
  ultimately show ?thesis using at True by (simp add: indexStr_def find_sub_single)
next
  case False
  then show ?thesis using none by (simp add: indexStr_def find_sub_single)
qed

lemma commaLoop_take_tag:
  assumes "pre @ s \<noteq> []" and "s \<noteq> [] \<Longrightarrow> hd s = CHR '','' \<Longrightarrow> pre \<noteq> [] \<and> last pre \<noteq> CHR 0x5C"
  shows "commaLoop (pre @ s) (int (length pre)) = Done (take_tag pre s)"
  using assms
proof (induction "length s" arbitrary: pre s rule: less_induct)
  case less
  have suffix: "slice_from (pre @ s) (int (length pre)) = Done s"
    using slice_from_nat [of "length pre" "pre @ s"] by simp
  show ?case
  proof (cases s rule: first_comma)
    case none
    then show ?thesis
      using suffix by (subst commaLoop.simps) (simp add: take_tag_no_comma)
  next
    case (at w r)
    let ?p = "length pre + length w"
    let ?i = "int (length pre) + int (length w)"
    have pos: "0 < ?p" using less.prems(2) at(1) by (cases w) auto
    have ne: "length s > 0" using at(1) by simp
    have prev: "slice (pre @ s) (?i - 1) ?i = Done [last (pre @ w)]"
    proof -
      have "pre @ s = butlast (pre @ w) @ last (pre @ w) # CHR '','' # r"
        using pos at(1) by (metis append.assoc append_Cons append_Nil append_butlast_last_id
            length_append length_greater_0_conv)
      moreover have "int (length (butlast (pre @ w))) = ?i - 1"
        unfolding length_butlast length_append using pos by linarith
      ultimately show ?thesis using slice_one [of "butlast (pre @ w)"] by simp
    qed
    show ?thesis
    proof (cases "last (pre @ w) = CHR 0x5C")
      case False
      then have "w = [] \<or> last w \<noteq> CHR 0x5C" by (cases w rule: rev_cases) auto
      then have tag: "take_tag pre s = (pre @ w, Some r)" using at by (simp add: take_tag_plain)
      have rest: "slice_from (pre @ s) (?i + 1) = Done r"
        using slice_from_nat [of "Suc ?p" "pre @ s"] at(1) by (simp add: add.commute)
      have upto: "slice_to (pre @ s) ?i = Done (pre @ w)"
        using slice_to_nat [of ?p "pre @ s"] at(1) by simp
      show ?thesis
        unfolding tag by (subst commaLoop.simps) (use False ne in
          \<open>simp only: suffix obind.simps Let_def at(3) prev rest upto, simp\<close>)
    next
      case True
      have "w \<noteq> []" using True less.prems(2) at(1) by auto
      then obtain v where w: "w = v @ [CHR 0x5C]" using True by (cases w rule: rev_cases) auto
      have upto: "slice_to (pre @ s) (?i - 1) = Done (pre @ v)"
        using slice_to_nat [of "?p - 1" "pre @ s"] at(1) w by (simp add: add.commute)
      have rest: "slice_from (pre @ s) ?i = Done (CHR '','' # r)"
        using slice_from_nat [of ?p "pre @ s"] at(1) by simp
      have "commaLoop ((pre @ v @ '','') @ r) (int (length (pre @ v @ '',''))) =
          Done (take_tag (pre @ v @ '','') r)"
        using at(1) by (intro less.hyps) auto
      then have rec: "commaLoop ((pre @ v) @ CHR '','' # r) ?i = Done (take_tag pre s)"
        using at(1,2) w by (simp add: take_tag_escaped algebra_simps)
      show ?thesis
        by (subst commaLoop.simps) (use True ne in
          \<open>simp only: suffix obind.simps Let_def at(3) prev rest upto rec, simp\<close>)
    qed
  qed
qed

lemma take_tag_not_Nil: "cur \<noteq> [] \<Longrightarrow> fst (take_tag cur s) \<noteq> []"
  by (induction cur s rule: take_tag.induct) auto

lemma take_tag_start_not_Nil: "s \<noteq> [] \<Longrightarrow> hd s \<noteq> CHR '','' \<Longrightarrow> fst (take_tag [] s) \<noteq> []"
  by (cases s) (auto simp: take_tag_not_Nil)

lemma tag_tokens_not_empty: "[] \<notin> set (tag_tokens cur s)"
  by (induction cur s rule: tag_tokens.induct) (auto simp: emit_def)

text \<open>
  The parser returns on every input, without a panic, and yields the tags of the tokenizer in
  reverse order.
\<close>

lemma recParse_tokens: "recParseEscapedComma str = Done (rev (tag_tokens [] str))"
proof (induction str rule: recParseEscapedComma.induct)
  case (1 str)
  show ?case
  proof (cases str)
    case Nil
    then show ?thesis by (simp add: recParseEscapedComma.simps [of "[]"] emit_def)
  next
    case (Cons c s)
    show ?thesis
    proof (cases "c = CHR '',''")
      case True
      with Cons "1.IH"(1) show ?thesis
        by (simp add: recParseEscapedComma.simps [of "_ # _"] emit_def)
    next
      case False
      obtain tag more where tm: "take_tag [] str = (tag, more)" by (cases "take_tag [] str")
      have loop: "commaLoop str 0 = Done (tag, more)"
        using commaLoop_take_tag [of "[]" str] Cons False tm by simp
      have ne: "str \<noteq> []" "hd str \<noteq> CHR '',''" using Cons False by simp_all
      have "tag \<noteq> []" using take_tag_start_not_Nil [OF ne] tm by simp
      with ne loop "1.IH"(2) tm show ?thesis
        by (cases more)
          (auto simp: recParseEscapedComma.simps [of str] tag_tokens_take_tag [of "[]" str] emit_def)
    qed
  qed
qed

lemma combineTags_tokens:
  "combineTags parts = Done (concat (map (\<lambda>p. rev (tag_tokens [] p)) parts))"
proof -
  have "ofold (\<lambda>p ts. obind (recParseEscapedComma p) (\<lambda>us. Done (ts @ us))) parts acc =
      Done (acc @ concat (map (\<lambda>p. rev (tag_tokens [] p)) parts))" for acc
    by (induction parts arbitrary: acc) (simp_all add: recParse_tokens)
  then show ?thesis by (simp add: combineTags_def)
qed

section \<open>Reading back what was written\<close>

lemma escape_tag_last:
  "w \<noteq> [] \<Longrightarrow> escape_tag w \<noteq> [] \<and> last (escape_tag w) = last w"
  by (induction w) auto

lemma tag_tokens_escape:
  assumes "w = [] \<or> last w \<noteq> CHR 0x5C \<or> r = []"
  shows "tag_tokens cur (escape_tag w @ (if r = [] then [] else CHR '','' # r)) =
         emit (cur @ w) @ tag_tokens [] r"
  using assms
proof (induction w arbitrary: cur)
  case Nil
  then show ?case by (simp add: emit_def)
next
  case (Cons c w)
  define rest where "rest = (if r = [] then [] else CHR '','' # r)"
  have IH: "tag_tokens cur (escape_tag w @ rest) = emit (cur @ w) @ tag_tokens [] r" for cur
    unfolding rest_def using Cons.prems by (intro Cons.IH) (auto split: if_splits)
  show ?case
  proof (cases "c = CHR '',''")
    case True
    then show ?thesis using IH [of "cur @ '',''"] by (simp flip: rest_def)
  next
    case False
    have "\<not> (c = CHR 0x5C \<and> escape_tag w @ rest \<noteq> [] \<and> hd (escape_tag w @ rest) = CHR '','')"
      using Cons.prems by (cases w) (auto simp: rest_def)
    then show ?thesis using False IH [of "cur @ [c]"] by (auto simp flip: rest_def)
  qed
qed

lemma join_with_eq_Nil: "[] \<notin> set ws \<Longrightarrow> join_with sep ws = [] \<longleftrightarrow> ws = []"
  by (induction sep ws rule: join_with.induct) auto

lemma escape_tag_eq_Nil [simp]: "escape_tag w = [] \<longleftrightarrow> w = []" "[] = escape_tag w \<longleftrightarrow> w = []"
  by (cases w; auto)+

lemma tag_tokens_join:
  assumes "[] \<notin> set ts" and "\<forall>t \<in> set (butlast ts). last t \<noteq> CHR 0x5C"
  shows "tag_tokens [] (join_with '','' (map escape_tag ts)) = ts"
  using assms
proof (induction ts)
  case Nil
  then show ?case by (simp add: emit_def)
next
  case (Cons t ts)
  let ?r = "join_with '','' (map escape_tag ts)"
  have r: "?r = [] \<longleftrightarrow> ts = []"
    using Cons.prems(1) join_with_eq_Nil [of "map escape_tag ts" "'',''"]
    by (auto simp: image_iff)
  have "join_with '','' (map escape_tag (t # ts)) =
      escape_tag t @ (if ?r = [] then [] else CHR '','' # ?r)"
    using r by (cases ts) auto
  moreover have "t = [] \<or> last t \<noteq> CHR 0x5C \<or> ?r = []"
    using Cons.prems(2) r by (cases ts) auto
  moreover have "tag_tokens [] ?r = ts"
    using Cons by (cases ts) auto
  ultimately show ?case
    using tag_tokens_escape [of t ?r "[]"] Cons.prems(1) by (auto simp: emit_def)
qed

end
