(* ===== verification/Metadata.thy ===== *)
theory Metadata
  imports Types
begin

text \<open>
  Container metadata: \<open>mapDefault\<close>, \<open>lookupMetaData\<close>, \<open>serviceMetaData\<close> and \<open>servicePort\<close> of
  \<open>bridge/util.go\<close>.  The main result is a specification of \<open>serviceMetaData\<close> as a map: the
  variables of the port in question override the generic ones, environment variables override
  labels, and the order in which Go visits the map does not matter.
\<close>

section \<open>The code\<close>

definition mapDefault :: "string gomap \<Rightarrow> string \<Rightarrow> string \<Rightarrow> string" where
  "mapDefault m key dflt =
     (case map_of m key of
        None \<Rightarrow> dflt
      | Some v \<Rightarrow> if v = [] then dflt else v)"

text \<open>\<open>lookupMetaData\<close>: the first environment entry with the key, compared without case.\<close>

fun lookupEnv :: "string list \<Rightarrow> string \<Rightarrow> string outcome" where
  "lookupEnv [] key = Done []"
| "lookupEnv (v # env) key =
     (let str = splitN2 (CHR ''='') v in
      obind (elem_at str 0) (\<lambda>name.
        if equalFold name key then elem_at str 1 else lookupEnv env key))"

definition lookupMetaData :: "DockerConfig \<Rightarrow> string \<Rightarrow> string outcome" where
  "lookupMetaData config key = lookupEnv (dc_Env config) key"

text \<open>
  The first loop of \<open>serviceMetaData\<close> writes the environment into \<open>meta\<close>, which is the container's
  own label map.
\<close>

definition merge_entry :: "string \<Rightarrow> string gomap option \<Rightarrow> string gomap option outcome" where
  "merge_entry v meta =
     (let str = splitN2 (CHR ''='') v in
      obind (elem_at str 0) (\<lambda>name.
      obind (elem_at str 1) (\<lambda>val.
        case meta of
          None \<Rightarrow> Panic NilMapWrite
        | Some m \<Rightarrow> Done (Some (AList.update name val m)))))"

definition mergeEnv :: "string list \<Rightarrow> string gomap option \<Rightarrow> string gomap option outcome" where
  "mergeEnv env meta = ofold merge_entry env meta"

text \<open>The body of the second loop.\<close>

definition meta_step :: "string \<Rightarrow> string \<times> string \<Rightarrow> string gomap \<times> bool gomap \<Rightarrow>
    string gomap \<times> bool gomap" where
  "meta_step port kv acc =
     (let (ks, v) = kv; (metadata, metadataFromPort) = acc in
      if hasPrefix ks ''SERVICE_'' \<and> length ks > 1 then
        (let key = toLower (trimPrefix ks ''SERVICE_'') in
         if map_of metadataFromPort key = Some True then acc
         else
           (let portkey = splitN2 (CHR ''_'') key in
            if atoi (portkey ! 0) \<noteq> None \<and> length portkey > 1 then
              (if portkey ! 0 \<noteq> port then acc
               else (AList.update (portkey ! 1) v metadata,
                     AList.update (portkey ! 1) True metadataFromPort))
            else (AList.update key v metadata, metadataFromPort)))
      else acc)"

text \<open>
  \<open>serviceMetaData\<close> returns its two maps, and the configuration whose label map it has written to.
\<close>

definition serviceMetaData ::
    "order \<Rightarrow> DockerConfig \<Rightarrow> string \<Rightarrow> ((string gomap \<times> bool gomap) \<times> DockerConfig) outcome" where
  "serviceMetaData ord config port =
     obind (mergeEnv (dc_Env config) (dc_Labels config)) (\<lambda>meta.
       let es = entries ord (AtMeta port) (case meta of None \<Rightarrow> [] | Some m \<Rightarrow> m) in
       Done (fold (meta_step port) es ([], []), config\<lparr>dc_Labels := meta\<rparr>))"

definition servicePort ::
    "order \<Rightarrow> Container \<Rightarrow> string \<Rightarrow> PortBinding list \<Rightarrow> ServicePort outcome" where
  "servicePort ord container port published =
     (let hp = (case published of [] \<Rightarrow> [] | b # _ \<Rightarrow> pb_HostPort b);
          hip0 = (case published of [] \<Rightarrow> [] | b # _ \<Rightarrow> pb_HostIP b);
          hip1 = (if hip0 = [] then ''0.0.0.0'' else hip0) in
      obind (deref (c_HostConfig container)) (\<lambda>hc.
      let nm = hc_NetworkMode hc in
      obind (if nm \<noteq> ''bridge'' \<and> nm \<noteq> ''default'' \<and> nm \<noteq> ''host''
             then obind (deref (c_NetworkSettings container)) (\<lambda>ns. Done (get_str (ns_Networks ns) nm))
             else Done hip1) (\<lambda>hip.
      let exposedPort = split_on (CHR ''/'') port;
          ep = hd exposedPort;
          ept = (if length exposedPort = 2 then exposedPort ! 1 else ''tcp'') in
      obind (deref (c_NetworkSettings container)) (\<lambda>ns.
      let eip = (if ns_IPAddress ns = []
                 then fold (\<lambda>(_, ip) _. ip) (entries ord (AtNetworks port) (ns_Networks ns)) []
                 else ns_IPAddress ns) in
      obind (deref (c_Config container)) (\<lambda>cfg.
      Done \<lparr>sp_HostPort = hp, sp_HostIP = hip, sp_ExposedPort = ep, sp_ExposedIP = eip,
            sp_PortType = ept, sp_ContainerHostname = dc_Hostname cfg,
            sp_ContainerID = c_ID container, sp_ContainerName = c_Name container,
            sp_container = Some container\<rparr>)))))"

section \<open>Environment variables override labels\<close>

definition env_pairs :: "string list \<Rightarrow> string gomap" where
  "env_pairs env = map (\<lambda>v. (splitN2 (CHR ''='') v ! 0, splitN2 (CHR ''='') v ! 1)) env"

definition wf_env :: "string list \<Rightarrow> bool" where
  "wf_env env \<longleftrightarrow> list_all (\<lambda>v. CHR ''='' \<in> set v) env"

definition merged :: "string list \<Rightarrow> string gomap \<Rightarrow> string gomap" where
  "merged env m = fold (\<lambda>(k, v). AList.update k v) (env_pairs env) m"

lemma merge_entry_Some:
  "CHR ''='' \<in> set v \<Longrightarrow>
   merge_entry v (Some m) =
     Done (Some (AList.update (splitN2 (CHR ''='') v ! 0) (splitN2 (CHR ''='') v ! 1) m))"
  by (simp add: merge_entry_def Let_def splitN2_def)

lemma mergeEnv_Some: "wf_env env \<Longrightarrow> mergeEnv env (Some m) = Done (Some (merged env m))"
  by (induction env arbitrary: m)
    (auto simp: mergeEnv_def merged_def env_pairs_def wf_env_def merge_entry_Some)

lemma wf_map_merged [simp, intro]: "wf_map m \<Longrightarrow> wf_map (merged env m)"
proof -
  have "wf_map m \<Longrightarrow> wf_map (fold (\<lambda>(k, v). AList.update k v) ps m)" for ps
    by (induction ps arbitrary: m) auto
  then show "wf_map m \<Longrightarrow> wf_map (merged env m)" by (simp add: merged_def)
qed

text \<open>The last assignment of a variable wins, and any assignment wins over a label.\<close>

lemma map_of_merged: "map_of (merged env m) = map_of m ++ map_of (rev (env_pairs env))"
proof -
  have "map_of (fold (\<lambda>(k, v). AList.update k v) ps m) = map_of m ++ map_of (rev ps)" for ps
    by (induction ps arbitrary: m) (auto simp: update_conv' fun_eq_iff map_add_def split: option.splits)
  then show ?thesis by (simp add: merged_def)
qed

text \<open>
  The ports of a container share its label map, which the first of them writes to.  Merging the
  environment again changes nothing, so the ports can be processed on copies of the container.
\<close>

lemma keys_fold_update:
  "set (map fst ps) \<subseteq> set (map fst m) \<Longrightarrow>
   map fst (fold (\<lambda>(k, v). AList.update k v) ps m) = map fst m"
proof (induction ps arbitrary: m)
  case (Cons p ps)
  then have keys: "map fst (AList.update (fst p) (snd p) m) = map fst m" by (auto simp: update_keys)
  then have "set (map fst ps) \<subseteq> set (map fst (AList.update (fst p) (snd p) m))"
    using Cons.prems unfolding keys by simp
  from Cons.IH [OF this] keys show ?case by (simp add: split_def)
qed simp

lemma alist_eqI:
  assumes "map fst m = map fst m'" and "wf_map m" and "map_of m = map_of m'"
  shows "m = m'"
proof -
  have by_key: "x = map (\<lambda>k. (k, the (map_of x k))) (map fst x)" if "distinct (map fst x)"
    for x :: "'a gomap"
    using that by (auto simp: comp_def map_idI intro!: map_idI [symmetric])
  have "distinct (map fst m')" using assms(1,2) by (simp add: wf_map_def)
  with assms show ?thesis using by_key [of m] by_key [of m'] by (simp add: wf_map_def)
qed

lemma merged_again:
  assumes "wf_map m"
  shows "merged env (merged env m) = merged env m"
proof (rule alist_eqI)
  have "set (map fst (env_pairs env)) \<subseteq> dom (map_of (merged env m))"
    unfolding map_of_merged by (auto simp: dom_map_of_conv_image_fst)
  then have "set (map fst (env_pairs env)) \<subseteq> set (map fst (merged env m))"
    by (simp add: dom_map_of_conv_image_fst)
  then show "map fst (merged env (merged env m)) = map fst (merged env m)"
    unfolding merged_def [of env "merged env m"] by (rule keys_fold_update)
  show "map_of (merged env (merged env m)) = map_of (merged env m)"
    by (simp add: map_of_merged map_add_def fun_eq_iff split: option.splits)
qed (use assms in simp)

section \<open>What the second loop computes\<close>

text \<open>What a key of the metadata map means for a port.\<close>

datatype meta_class = NotMeta | OtherPort | ForPort string | Generic string

definition meta_key :: "string \<Rightarrow> string" where
  "meta_key ks = toLower (trimPrefix ks ''SERVICE_'')"

definition meta_class :: "string \<Rightarrow> string \<Rightarrow> meta_class" where
  "meta_class port ks =
     (if \<not> hasPrefix ks ''SERVICE_'' then NotMeta
      else case splitN2 (CHR ''_'') (meta_key ks) of
             [p, k] \<Rightarrow> if atoi p = None then Generic (meta_key ks)
                      else if p = port then ForPort k else OtherPort
           | _ \<Rightarrow> Generic (meta_key ks))"

definition port_entries :: "string \<Rightarrow> string gomap \<Rightarrow> string gomap" where
  "port_entries port es =
     List.map_filter (\<lambda>(ks, v). case meta_class port ks of ForPort k \<Rightarrow> Some (k, v) | _ \<Rightarrow> None) es"

definition generic_entries :: "string \<Rightarrow> string gomap \<Rightarrow> string gomap" where
  "generic_entries port es =
     List.map_filter (\<lambda>(ks, v). case meta_class port ks of Generic k \<Rightarrow> Some (k, v) | _ \<Rightarrow> None) es"

text \<open>
  No two keys differ in letter case only, and no variable of the port has a name that starts with
  the port again (as in \<open>SERVICE_80_80_NAME\<close> beside \<open>SERVICE_80_NAME\<close>).
\<close>

definition unambiguous :: "string \<Rightarrow> string gomap \<Rightarrow> bool" where
  "unambiguous port es \<longleftrightarrow>
     distinct (map fst (port_entries port es)) \<and>
     distinct (map fst (generic_entries port es)) \<and>
     list_all (\<lambda>k. port @ ''_'' @ k \<notin> set (map fst (port_entries port es)))
       (map fst (port_entries port es))"

lemma split_meta_class:
  obtains (not_meta) "meta_class port ks = NotMeta" "\<not> hasPrefix ks ''SERVICE_''"
  | (other) "meta_class port ks = OtherPort" "hasPrefix ks ''SERVICE_''"
      "\<exists>p k. splitN2 (CHR ''_'') (meta_key ks) = [p, k] \<and> atoi p \<noteq> None \<and> p \<noteq> port"
  | (port) k where "meta_class port ks = ForPort k" "hasPrefix ks ''SERVICE_''"
      "splitN2 (CHR ''_'') (meta_key ks) = [port, k]" "atoi port \<noteq> None"
      "meta_key ks = port @ ''_'' @ k"
  | (generic) "meta_class port ks = Generic (meta_key ks)" "hasPrefix ks ''SERVICE_''"
      "length (splitN2 (CHR ''_'') (meta_key ks)) > 1 \<Longrightarrow>
         atoi (splitN2 (CHR ''_'') (meta_key ks) ! 0) = None"
proof (cases "hasPrefix ks ''SERVICE_''")
  case False
  then show ?thesis using not_meta by (simp add: meta_class_def)
next
  case True
  show ?thesis
  proof (cases "CHR ''_'' \<in> set (meta_key ks)")
    case False
    then show ?thesis using generic True by (simp add: meta_class_def)
  next
    case sep: True
    then obtain p k where pk: "splitN2 (CHR ''_'') (meta_key ks) = [p, k]" "meta_key ks = p @ ''_'' @ k"
      by (metis append_Cons append_Nil split_list_first splitN2_sep)
    show ?thesis
    proof (cases "atoi p = None")
      case True
      with pk \<open>hasPrefix ks _\<close> show ?thesis using generic by (simp add: meta_class_def)
    next
      case False
      with pk \<open>hasPrefix ks _\<close> show ?thesis
        using port [of k] other by (cases "p = port") (auto simp: meta_class_def)
    qed
  qed
qed

lemma meta_step_class:
  "meta_step port (ks, v) (md, fp) =
     (case meta_class port ks of
        NotMeta \<Rightarrow> (md, fp)
      | OtherPort \<Rightarrow> (md, fp)
      | ForPort k \<Rightarrow>
          if map_of fp (meta_key ks) = Some True then (md, fp)
          else (AList.update k v md, AList.update k True fp)
      | Generic k \<Rightarrow>
          if map_of fp (meta_key ks) = Some True then (md, fp) else (AList.update k v md, fp))"
proof (cases port ks rule: split_meta_class)
  case not_meta
  then show ?thesis by (simp add: meta_step_def)
next
  case other
  then show ?thesis by (auto simp: meta_step_def Let_def meta_key_def dest: prefix_length_le)
next
  case (port k)
  then show ?thesis
    by (auto simp: meta_step_def Let_def simp flip: meta_key_def dest: prefix_length_le)
next
  case generic
  then show ?thesis
    by (auto simp: meta_step_def Let_def simp flip: meta_key_def dest: prefix_length_le)
qed

lemma port_entries_simps [simp]:
  "port_entries port [] = []"
  "port_entries port ((ks, v) # es) =
     (case meta_class port ks of ForPort k \<Rightarrow> [(k, v)] | _ \<Rightarrow> []) @ port_entries port es"
  by (auto simp: port_entries_def split: meta_class.splits)

lemma generic_entries_simps [simp]:
  "generic_entries port [] = []"
  "generic_entries port ((ks, v) # es) =
     (case meta_class port ks of Generic k \<Rightarrow> [(k, v)] | _ \<Rightarrow> []) @ generic_entries port es"
  by (auto simp: generic_entries_def split: meta_class.splits)

text \<open>The loop, from any accumulator: port variables win over what is there, generic ones over nothing.\<close>

lemma fold_meta_step:
  assumes "fold (meta_step port) es (md, fp) = (md', fp')"
    and "distinct (map fst (port_entries port es))"
    and "distinct (map fst (generic_entries port es))"
    and "\<forall>k \<in> set (map fst (port_entries port es)).
           port @ ''_'' @ k \<notin> set (map fst (port_entries port es)) \<and>
           map_of fp (port @ ''_'' @ k) \<noteq> Some True"
  shows "map_of md' x =
           (case map_of (port_entries port es) x of
              Some v \<Rightarrow> Some v
            | None \<Rightarrow> if map_of fp x = Some True then map_of md x
                      else (case map_of (generic_entries port es) x of
                              Some v \<Rightarrow> Some v | None \<Rightarrow> map_of md x)) \<and>
         (map_of fp' x = Some True \<longleftrightarrow>
            map_of fp x = Some True \<or> x \<in> set (map fst (port_entries port es)))"
  using assms
proof (induction es arbitrary: md fp)
  case Nil
  then show ?case by simp
next
  case (Cons e es)
  obtain ks v where e: "e = (ks, v)" by (cases e)
  note prems = Cons.prems [unfolded e]
  show ?case
  proof (cases port ks rule: split_meta_class)
    case not_meta
    with Cons.IH prems show ?thesis
      by (auto simp: e meta_step_class split: option.splits)
  next
    case other
    with Cons.IH prems show ?thesis
      by (auto simp: e meta_step_class split: option.splits)
  next
    case (port k)
    have new: "map_of (port_entries port es) k = None"
      using prems(2) port(1) by (auto simp: map_of_eq_None_iff)
    have "fold (meta_step port) es (AList.update k v md, AList.update k True fp) = (md', fp')"
      using prems(1,4) port by (simp add: meta_step_class)
    note IH = Cons.IH [OF this]
    have prem4: "\<forall>k' \<in> set (map fst (port_entries port es)).
        port @ ''_'' @ k' \<notin> set (map fst (port_entries port es)) \<and>
        map_of (AList.update k True fp) (port @ ''_'' @ k') \<noteq> Some True"
      using prems(4) port(1) by (auto simp: update_conv')
    have "distinct (map fst (port_entries port es))" "distinct (map fst (generic_entries port es))"
      using prems(2,3) port(1) by auto
    from IH [OF this prem4] new port(1) show ?thesis
      by (auto simp: e update_conv' split: option.splits if_splits)
  next
    case generic
    show ?thesis
    proof (cases "map_of fp (meta_key ks) = Some True")
      case True
      with Cons.IH prems generic show ?thesis
        by (auto simp: e meta_step_class split: option.splits)
    next
      case False
      have new: "map_of (generic_entries port es) (meta_key ks) = None"
        using prems(3) generic(1) by (auto simp: map_of_eq_None_iff)
      have "fold (meta_step port) es (AList.update (meta_key ks) v md, fp) = (md', fp')"
        using prems(1) generic False by (simp add: meta_step_class)
      note IH = Cons.IH [OF this]
      from IH prems(2-4) new generic(1) False show ?thesis
        by (auto simp: e update_conv' split: option.splits if_splits)
    qed
  qed
qed

text \<open>
  The specification: for containers whose environment entries all have a value and whose keys are
  unambiguous, the metadata of a port is the generic map overridden by the port's own map, and
  \<open>metadataFromPort\<close> is the set of keys the port defines, whatever order the loop uses.
\<close>

lemma serviceMetaData_spec:
  assumes ord: "is_order ord" and labels: "dc_Labels cfg = Some m" and wf: "wf_map m"
    and env: "wf_env (dc_Env cfg)" and un: "unambiguous port (merged (dc_Env cfg) m)"
  shows "\<exists>md fp. serviceMetaData ord cfg port =
             Done ((md, fp), cfg\<lparr>dc_Labels := Some (merged (dc_Env cfg) m)\<rparr>) \<and>
           map_of md = map_of (generic_entries port (merged (dc_Env cfg) m)) ++
                       map_of (port_entries port (merged (dc_Env cfg) m)) \<and>
           (\<forall>k. map_of fp k = Some True \<longleftrightarrow>
                k \<in> set (map fst (port_entries port (merged (dc_Env cfg) m))))"
proof -
  let ?m = "merged (dc_Env cfg) m"
  let ?es = "entries ord (AtMeta port) ?m"
  have ms: "mset ?es = mset ?m" using ord wf by (simp add: mset_entries)
  obtain md fp where f: "fold (meta_step port) ?es ([], []) = (md, fp)"
    by (cases "fold (meta_step port) ?es ([], [])")
  have P: "mset (port_entries port ?es) = mset (port_entries port ?m)"
    and G: "mset (generic_entries port ?es) = mset (generic_entries port ?m)"
    unfolding port_entries_def generic_entries_def using ms by (rule map_filter_mset)+
  have dP: "distinct (map fst (port_entries port ?es))"
    and dG: "distinct (map fst (generic_entries port ?es))"
    using un P G unfolding unambiguous_def by (metis mset_eq_imp_distinct_iff mset_map)+
  have sP: "set (map fst (port_entries port ?es)) = set (map fst (port_entries port ?m))"
    using P by (metis mset_map set_mset_mset)
  have "\<forall>k \<in> set (map fst (port_entries port ?es)).
      port @ ''_'' @ k \<notin> set (map fst (port_entries port ?es)) \<and>
      map_of ([] :: bool gomap) (port @ ''_'' @ k) \<noteq> Some True"
    unfolding sP using un by (simp add: unambiguous_def list_all_iff)
  note res = fold_meta_step [OF f dP dG this]
  have eqs: "map_of (port_entries port ?es) = map_of (port_entries port ?m)"
    "map_of (generic_entries port ?es) = map_of (generic_entries port ?m)"
    using map_of_mset_eq [OF P dP] map_of_mset_eq [OF G dG] by simp_all
  have "map_of md = map_of (generic_entries port ?m) ++ map_of (port_entries port ?m)"
    using res by (auto simp: fun_eq_iff map_add_def eqs split: option.splits)
  moreover have "\<forall>k. map_of fp k = Some True \<longleftrightarrow> k \<in> set (map fst (port_entries port ?m))"
    using res sP by auto
  ultimately show ?thesis
    using f labels env by (auto simp: serviceMetaData_def mergeEnv_Some)
qed

end
