(* ===== verification/ServiceId.thy ===== *)
theory ServiceId
  imports GoLib
begin

text \<open>
  The service identifiers \<open><hostname>:<container-name>:<exposed-port>[:udp]\<close> and the pattern that
  recognises them, \<open>serviceIDPattern\<close> of \<open>bridge/bridge.go\<close>:
  \<open>^(.+?):([a-zA-Z0-9][a-zA-Z0-9_.-]+):[0-9]+(?::udp)?$\<close>.

  The matcher follows the regular expression: the first group grows one byte at a time (\<open>.+?\<close>, which
  does not match a newline) until the remainder matches.  Inside the remainder no choice is left,
  since neither a name nor a port contains a colon.  The main result is that the identifier has one
  reading only, also when the host name contains colons.
\<close>

section \<open>The matcher\<close>

definition name_start :: "char \<Rightarrow> bool" where
  "name_start c \<longleftrightarrow>
     is_digit c \<or> list_ex (\<lambda>(lo, hi). lo \<le> c \<and> c \<le> hi) [(CHR ''A'', CHR ''Z''), (CHR ''a'', CHR ''z'')]"

definition name_char :: "char \<Rightarrow> bool" where
  "name_char c \<longleftrightarrow> name_start c \<or> c = CHR ''_'' \<or> c = CHR ''.'' \<or> c = CHR ''-''"

definition valid_name :: "string \<Rightarrow> bool" where
  "valid_name n \<longleftrightarrow> 2 \<le> length n \<and> name_start (hd n) \<and> list_all name_char (tl n)"

text \<open>\<open>([a-zA-Z0-9][a-zA-Z0-9_.-]+):[0-9]+(?::udp)?$\<close>: the name.\<close>

definition match_tail :: "string \<Rightarrow> string option" where
  "match_tail s =
     (let name = takeWhile name_char s; rest = dropWhile name_char s in
      if valid_name name \<and> rest \<noteq> [] \<and> hd rest = CHR '':'' then
        (let port = takeWhile is_digit (tl rest); end = dropWhile is_digit (tl rest) in
         if port \<noteq> [] \<and> (end = [] \<or> end = '':udp'') then Some name else None)
      else None)"

text \<open>\<open>pre\<close> is what the first group holds so far.\<close>

fun match_id :: "string \<Rightarrow> string \<Rightarrow> (string \<times> string) option" where
  "match_id pre [] = None"
| "match_id pre (c # s) =
     (case (if pre \<noteq> [] \<and> c = CHR '':'' then match_tail s else None) of
        Some name \<Rightarrow> Some (pre, name)
      | None \<Rightarrow> if c = CHR 0x0A then None else match_id (pre @ [c]) s)"

text \<open>\<open>serviceIDPattern.FindStringSubmatch\<close>: the two groups, or no match.\<close>

definition serviceIDMatch :: "string \<Rightarrow> (string \<times> string) option" where
  "serviceIDMatch s = match_id [] s"

section \<open>The language of the pattern\<close>

definition udp_suffix :: "string \<Rightarrow> bool" where
  "udp_suffix u \<longleftrightarrow> u = [] \<or> u = '':udp''"

definition id_shape :: "string \<Rightarrow> string \<Rightarrow> string \<Rightarrow> bool" where
  "id_shape s h n \<longleftrightarrow>
     (\<exists>p u. s = h @ CHR '':'' # n @ CHR '':'' # p @ u \<and> h \<noteq> [] \<and> CHR 0x0A \<notin> set h \<and>
        valid_name n \<and> all_digits p \<and> udp_suffix u)"

lemma name_char_not_colon [simp]: "\<not> name_char (CHR '':'')"
  by (simp add: name_char_def name_start_def less_eq_char_def is_digit_def)

lemma valid_name_chars: "valid_name n \<Longrightarrow> list_all name_char n"
  by (cases n) (auto simp: valid_name_def name_char_def)

lemma valid_name_no_colon: "valid_name n \<Longrightarrow> CHR '':'' \<notin> set n"
  using valid_name_chars [of n] by (auto simp: list_all_iff)

lemma all_digits_no_colon: "all_digits p \<Longrightarrow> CHR '':'' \<notin> set p"
  by (auto simp: all_digits_def list_all_iff)

lemma takeWhile_all_append: "list_all P a \<Longrightarrow> \<not> P x \<Longrightarrow> takeWhile P (a @ x # b) = a"
  by (induction a) auto

lemma dropWhile_all_append: "list_all P a \<Longrightarrow> \<not> P x \<Longrightarrow> dropWhile P (a @ x # b) = x # b"
  by (induction a) auto

lemma digits_split:
  assumes "all_digits p" and "udp_suffix u"
  shows "takeWhile is_digit (p @ u) = p \<and> dropWhile is_digit (p @ u) = u"
proof (cases u)
  case Nil
  with assms show ?thesis by (auto simp: all_digits_def list_all_iff)
next
  case (Cons c v)
  with assms(2) have "c = CHR '':''" by (simp add: udp_suffix_def)
  with assms(1) Cons show ?thesis
    by (simp add: all_digits_def takeWhile_all_append dropWhile_all_append)
qed

lemma match_tail_complete:
  assumes "valid_name n" and "all_digits p" and "udp_suffix u"
  shows "match_tail (n @ CHR '':'' # p @ u) = Some n"
proof -
  have "takeWhile name_char (n @ CHR '':'' # p @ u) = n"
    "dropWhile name_char (n @ CHR '':'' # p @ u) = CHR '':'' # p @ u"
    using assms(1) by (simp_all add: takeWhile_all_append dropWhile_all_append valid_name_chars)
  then show ?thesis
    using assms digits_split [OF assms(2,3)]
    by (auto simp: match_tail_def Let_def udp_suffix_def all_digits_def)
qed

lemma match_tail_sound:
  assumes "match_tail s = Some n"
  shows "\<exists>p u. s = n @ CHR '':'' # p @ u \<and> valid_name n \<and> all_digits p \<and> udp_suffix u"
proof -
  let ?rest = "dropWhile name_char s"
  from assms have n: "n = takeWhile name_char s" "valid_name n" "?rest \<noteq> []" "hd ?rest = CHR '':''"
    and p: "takeWhile is_digit (tl ?rest) \<noteq> []"
    and u: "udp_suffix (dropWhile is_digit (tl ?rest))"
    by (auto simp: match_tail_def Let_def udp_suffix_def split: if_splits)
  have "s = n @ CHR '':'' # tl ?rest"
    using n by (metis list.collapse takeWhile_dropWhile_id)
  moreover have "tl ?rest = takeWhile is_digit (tl ?rest) @ dropWhile is_digit (tl ?rest)" by simp
  moreover have "all_digits (takeWhile is_digit (tl ?rest))"
    using p by (auto simp: all_digits_def list_all_iff dest: set_takeWhileD)
  ultimately show ?thesis using n(2) u by metis
qed

text \<open>The colon in front of a colon-free part is determined.\<close>

lemma last_sep_unique:
  assumes "x @ c # a = y @ c # b" and "c \<notin> set a" and "c \<notin> set b"
  shows "x = y \<and> a = b"
proof -
  have "rev a @ c # rev x = rev b @ c # rev y" using assms(1) by (metis rev.simps(2) rev_append append.assoc append_Cons append_Nil)
  moreover have "takeWhile (\<lambda>d. d \<noteq> c) (rev a @ c # rev x) = rev a"
    "takeWhile (\<lambda>d. d \<noteq> c) (rev b @ c # rev y) = rev b"
    using assms(2,3) by (auto intro!: takeWhile_all_append simp: list_all_iff)
  ultimately have "a = b" by (metis rev_rev_ident)
  with assms(1) show ?thesis by simp
qed

lemma id_shape_unique:
  assumes "id_shape s h n" and "id_shape s h' n'"
  shows "h = h' \<and> n = n'"
proof -
  from assms(1) obtain p u where s: "s = h @ CHR '':'' # n @ CHR '':'' # p @ u"
    "valid_name n" "all_digits p" "udp_suffix u" by (auto simp: id_shape_def)
  from assms(2) obtain p' u' where s': "s = h' @ CHR '':'' # n' @ CHR '':'' # p' @ u'"
    "valid_name n'" "all_digits p'" "udp_suffix u'" by (auto simp: id_shape_def)
  have "u = [] \<longleftrightarrow> last s \<noteq> CHR ''p''" using s(1,3,4)
    by (cases p rule: rev_cases)
      (auto simp: udp_suffix_def all_digits_def is_digit_def less_eq_char_def)
  moreover have "u' = [] \<longleftrightarrow> last s \<noteq> CHR ''p''" using s'(1,3,4)
    by (cases p' rule: rev_cases)
      (auto simp: udp_suffix_def all_digits_def is_digit_def less_eq_char_def)
  ultimately have "u = u'" using s(4) s'(4) by (auto simp: udp_suffix_def)
  then have "(h @ CHR '':'' # n) @ CHR '':'' # p = (h' @ CHR '':'' # n') @ CHR '':'' # p'"
    using s(1) s'(1) by simp
  then have "h @ CHR '':'' # n = h' @ CHR '':'' # n'"
    using last_sep_unique all_digits_no_colon s(3) s'(3) by metis
  then show ?thesis
    using last_sep_unique valid_name_no_colon s(2) s'(2) by metis
qed

lemma match_id_sound:
  assumes "match_id pre s = Some (h, n)" and "CHR 0x0A \<notin> set pre"
  shows "id_shape (pre @ s) h n"
  using assms
proof (induction pre s rule: match_id.induct)
  case (2 pre c s)
  show ?case
  proof (cases "pre \<noteq> [] \<and> c = CHR '':'' \<and> match_tail s \<noteq> None")
    case True
    then obtain m where "match_tail s = Some m" by auto
    with True "2.prems" show ?thesis
      using match_tail_sound [of s m] by (auto simp: id_shape_def)
  next
    case False
    then have "c \<noteq> CHR 0x0A" "match_id (pre @ [c]) s = Some (h, n)"
      using "2.prems"(1) by (auto split: if_splits option.splits)
    with "2.IH" False "2.prems"(2) show ?thesis by (auto split: if_splits)
  qed
qed simp

lemma match_id_complete:
  assumes "CHR 0x0A \<notin> set w" and "match_tail t \<noteq> None" and "pre @ w \<noteq> []"
  shows "match_id pre (w @ CHR '':'' # t) \<noteq> None"
  using assms
proof (induction w arbitrary: pre)
  case (Cons c w)
  then show ?case by (auto split: option.splits)
qed auto

text \<open>The pattern matches exactly the identifiers, with the only possible reading.\<close>

lemma serviceIDMatch_iff: "serviceIDMatch s = Some (h, n) \<longleftrightarrow> id_shape s h n"
proof
  assume "serviceIDMatch s = Some (h, n)"
  then show "id_shape s h n" using match_id_sound [of "[]" s h n] by (simp add: serviceIDMatch_def)
next
  assume shape: "id_shape s h n"
  then obtain p u where s: "s = h @ CHR '':'' # n @ CHR '':'' # p @ u" "h \<noteq> []"
    "CHR 0x0A \<notin> set h" "valid_name n" "all_digits p" "udp_suffix u" by (auto simp: id_shape_def)
  then have "match_id [] s \<noteq> None"
    using match_id_complete [of h "n @ CHR '':'' # p @ u" "[]"] match_tail_complete by simp
  then obtain h' n' where m: "match_id [] s = Some (h', n')" by auto
  then have "id_shape s h' n'" using match_id_sound [of "[]" s] by simp
  with shape m show "serviceIDMatch s = Some (h, n)"
    using id_shape_unique by (auto simp: serviceIDMatch_def)
qed

end
