(* ===== verification/Bridge.thy ===== *)
theory Bridge
  imports Types Tags Metadata ServiceId
begin

text \<open>
  The bridge of \<open>bridge/bridge.go\<close>: its state, \<open>newService\<close> and the operations \<open>Add\<close>, \<open>Remove\<close>,
  \<open>RemoveOnExit\<close>, \<open>Refresh\<close> and \<open>PruneDeadContainers\<close>, over an arbitrary registry adapter and an
  arbitrary Docker client.  Logging is left out, but for the slices \<open>containerId[:12]\<close> in the
  arguments of log calls, which are evaluated at every log level and panic on shorter identifiers.

  The mutex of the bridge is part of its state.  An operation is one run of the Go method without
  interference; a method that finds the mutex held is \<open>Blocked\<close>.
\<close>

section \<open>State\<close>

record 'r Bridge =
  br_locked :: bool
  br_registry :: 'r
  br_services :: "Service list gomap"
  br_deadContainers :: "DeadContainer gomap"
  br_config :: Config

text \<open>
  What the process sees of its surroundings during an operation: the global \<open>Hostname\<close>, DNS
  resolution (\<open>net.ResolveIPAddr\<close>), the Docker daemon, and the iteration order of maps.
\<close>

record Env =
  en_Hostname :: string
  en_ResolveIPAddr :: "string \<Rightarrow> string option"
  en_docker :: DockerClient
  en_order :: order

definition acquire :: "'r Bridge \<Rightarrow> 'r Bridge outcome" where
  "acquire b = (if br_locked b then Blocked else Done (b\<lparr>br_locked := True\<rparr>))"

definition release :: "'r Bridge \<Rightarrow> 'r Bridge" where
  "release b = b\<lparr>br_locked := False\<rparr>"

text \<open>\<open>b.services[containerId]\<close>; the empty list is nil.\<close>

definition services_of :: "'r Bridge \<Rightarrow> string \<Rightarrow> Service list" where
  "services_of b cid = (case map_of (br_services b) cid of None \<Rightarrow> [] | Some ss \<Rightarrow> ss)"

text \<open>The slice \<open>id[:12]\<close> of a log argument.\<close>

definition log_id :: "string \<Rightarrow> unit outcome" where
  "log_id cid = obind (slice_to cid 12) (\<lambda>_. Done ())"

section \<open>Small operations\<close>

definition Ping :: "'r RegistryAdapter \<Rightarrow> 'r Bridge \<Rightarrow> (err \<times> 'r Bridge) outcome" where
  "Ping A b = obind (ra_Ping A (br_registry b)) (\<lambda>(e, r). Done (e, b\<lparr>br_registry := r\<rparr>))"

text \<open>The body of the loop of \<open>PruneDeadContainers\<close>: the time to live is a 64-bit integer.\<close>

definition prune_step :: "int \<Rightarrow> string \<times> DeadContainer \<Rightarrow> DeadContainer gomap \<Rightarrow> DeadContainer gomap" where
  "prune_step interval cd dead =
     (let (cid, d) = cd; ttl = int64 (dd_TTL d - interval) in
      if ttl \<le> 0 then AList.delete cid dead else AList.update cid (d\<lparr>dd_TTL := ttl\<rparr>) dead)"

definition PruneDeadContainers :: "Env \<Rightarrow> 'r Bridge \<Rightarrow> 'r Bridge outcome" where
  "PruneDeadContainers E b =
     obind (acquire b) (\<lambda>b.
       let dead = br_deadContainers b in
       Done (release (b\<lparr>br_deadContainers :=
         fold (prune_step (cf_RefreshInterval (br_config b)))
           (entries (en_order E) AtDeadContainers dead) dead\<rparr>)))"

definition getServicesCopy :: "Env \<Rightarrow> 'r Bridge \<Rightarrow> (Service list gomap \<times> 'r Bridge) outcome" where
  "getServicesCopy E b =
     obind (acquire b) (\<lambda>b.
       let svcsCopy = fold (\<lambda>(cid, svc). AList.update cid (map (\<lambda>s. s) svc))
                        (entries (en_order E) AtServices (br_services b)) [] in
       Done (svcsCopy, release b))"

definition refresh_one :: "'r RegistryAdapter \<Rightarrow> string \<Rightarrow> Service \<Rightarrow> 'r Bridge \<Rightarrow> 'r Bridge outcome" where
  "refresh_one A cid service b =
     obind (ra_Refresh A service (br_registry b)) (\<lambda>(e, r).
       let b = b\<lparr>br_registry := r\<rparr> in
       if e \<noteq> None then Done b else obind (log_id cid) (\<lambda>_. Done b))"

definition Refresh :: "'r RegistryAdapter \<Rightarrow> Env \<Rightarrow> 'r Bridge \<Rightarrow> 'r Bridge outcome" where
  "Refresh A E b =
     obind (getServicesCopy E b) (\<lambda>(svcs, b).
       ofold (\<lambda>(cid, services). ofold (refresh_one A cid) services)
         (entries (en_order E) AtCopy svcs) b)"

definition deleteDeadContainer :: "string \<Rightarrow> 'r Bridge \<Rightarrow> 'r Bridge outcome" where
  "deleteDeadContainer cid b =
     obind (acquire b) (\<lambda>b.
       case map_of (br_deadContainers b) cid of
         None \<Rightarrow> Done (release b)
       | Some d \<Rightarrow>
           Done (release (b\<lparr>br_services := AList.update cid (dd_Services d) (br_services b),
                            br_deadContainers := AList.delete cid (br_deadContainers b)\<rparr>)))"

definition appendService :: "string \<Rightarrow> Service \<Rightarrow> 'r Bridge \<Rightarrow> 'r Bridge outcome" where
  "appendService cid service b =
     obind (acquire b) (\<lambda>b.
       if services_of b cid \<noteq> [] then obind (log_id cid) (\<lambda>_. Done (release b))
       else
         (let b = b\<lparr>br_services := AList.update cid (services_of b cid @ [service]) (br_services b)\<rparr> in
          obind (log_id cid) (\<lambda>_. Done (release b))))"

section \<open>Creating services\<close>

text \<open>\<open>newService\<close>, lines 229-242: the host name of the identifier and the host address.\<close>

definition id_hostname :: "Env \<Rightarrow> ServicePort \<Rightarrow> string" where
  "id_hostname E port = (if en_Hostname E = [] then sp_HostIP port else en_Hostname E)"

definition resolve_host :: "Env \<Rightarrow> Config \<Rightarrow> ServicePort \<Rightarrow> ServicePort" where
  "resolve_host E cfg port =
     (let port1 = (if sp_HostIP port = ''0.0.0.0''
                   then (case en_ResolveIPAddr E (id_hostname E port) of
                           Some ip \<Rightarrow> port\<lparr>sp_HostIP := ip\<rparr>
                         | None \<Rightarrow> port)
                   else port)
      in if cf_HostIp cfg \<noteq> [] then port1\<lparr>sp_HostIP := cf_HostIp cfg\<rparr> else port1)"

text \<open>Lines 276-299: the port number, 0 when it does not parse.\<close>

definition service_port_number :: "Config \<Rightarrow> bool \<Rightarrow> ServicePort \<Rightarrow> int" where
  "service_port_number cfg useExposed port =
     (let p = (if cf_Internal cfg \<or> useExposed then sp_ExposedPort port else sp_HostPort port)
      in case atoi p of None \<Rightarrow> 0 | Some v \<Rightarrow> v)"

text \<open>Lines 279-283 and 301-316: the address, possibly taken from a label.\<close>

definition label_ip :: "Config \<Rightarrow> string gomap option \<Rightarrow> string \<Rightarrow> string outcome" where
  "label_ip cfg labels ip =
     (if cf_UseIpFromLabel cfg \<noteq> [] then
        (let containerIp = get_str (case labels of None \<Rightarrow> [] | Some m \<Rightarrow> m) (cf_UseIpFromLabel cfg) in
         if containerIp \<noteq> [] then
           (let slashIndex = lastIndexByte containerIp (CHR ''/'') in
            if slashIndex > - 1 then slice_to containerIp slashIndex else Done containerIp)
         else Done ip)
      else Done ip)"

text \<open>Lines 318-332: the address of another container whose network is shared.\<close>

definition network_ip :: "Env \<Rightarrow> Container \<Rightarrow> string \<Rightarrow> string outcome" where
  "network_ip E container ip =
     obind (deref (c_HostConfig container)) (\<lambda>hc.
       let networkMode = hc_NetworkMode hc in
       if networkMode \<noteq> [] \<and> hasPrefix networkMode ''container:'' then
         obind (elem_at (split_on (CHR '':'') networkMode) 1) (\<lambda>nid.
         obind (log_id nid) (\<lambda>_.
           case dk_InspectContainer (en_docker E) nid of
             Inl e \<Rightarrow> obind (log_id nid) (\<lambda>_. Done ip)
           | Inr nc \<Rightarrow> obind (deref (c_NetworkSettings nc)) (\<lambda>ns. Done (ns_IPAddress ns))))
       else Done ip)"

text \<open>Lines 343-348: the ECS labels are added to the metadata.\<close>

definition add_ecs_labels :: "order \<Rightarrow> string \<Rightarrow> string gomap option \<Rightarrow> string gomap \<Rightarrow> string gomap" where
  "add_ecs_labels ord port labels metadata =
     fold (\<lambda>(k, v) md. if containsStr k ''com.amazonaws.ecs'' then AList.update k v md else md)
       (entries ord (AtLabels port) (case labels of None \<Rightarrow> [] | Some m \<Rightarrow> m)) metadata"

text \<open>
  \<open>newService\<close> from line 259 on, when the port is neither ignored nor lacks a required label.
  \<open>port\<close> is the port after \<^const>\<open>resolve_host\<close>, pointing to the container whose labels
  \<^const>\<open>serviceMetaData\<close> has written to.
\<close>

definition build_service ::
    "Env \<Rightarrow> Config \<Rightarrow> ServicePort \<Rightarrow> string \<Rightarrow> Container \<Rightarrow> DockerConfig \<Rightarrow>
     string gomap \<Rightarrow> bool gomap \<Rightarrow> bool \<Rightarrow> Service option outcome" where
  "build_service E cfg port hostname container cc metadata metadataFromPort isgroup =
     obind (slice_from (c_Name container) 1) (\<lambda>cname.
     let id0 = hostname @ '':'' @ cname @ '':'' @ sp_ExposedPort port;
         defaultName = hd (split_on (CHR '':'') (pathBase (dc_Image cc)));
         name0 = mapDefault metadata ''name'' defaultName in
     if name0 = defaultName then Done None
     else
       (let useExposed = (toLower (mapDefault metadata ''use_exposed_ports'' ''false'') = ''true'');
            name = (if isgroup \<and> map_of metadataFromPort ''name'' \<noteq> Some True
                    then name0 @ ''-'' @ sp_ExposedPort port else name0);
            ip0 = (if cf_Internal cfg then sp_ExposedIP port else sp_HostIP port) in
        obind (label_ip cfg (dc_Labels cc) ip0) (\<lambda>ip1.
        obind (network_ip E container ip1) (\<lambda>ip.
        let udp = (sp_PortType port = ''udp'') in
        obind (combineTags ([mapDefault metadata ''tags'' [], cf_ForceTags cfg] @
                 (if udp then [''udp''] else []))) (\<lambda>tags.
        let id1 = (if udp then id0 @ '':udp'' else id0);
            metadata = add_ecs_labels (en_order E) (sp_ExposedPort port) (dc_Labels cc) metadata;
            id = mapDefault metadata ''id'' [] in
        Done (Some
          \<lparr>sv_ID = (if id \<noteq> [] then id else id1),
           sv_Name = name,
           sv_Port = service_port_number cfg useExposed port,
           sv_IP = ip,
           sv_UseExposedPorts = useExposed,
           sv_Tags = tags,
           sv_Attrs = AList.delete ''name'' (AList.delete ''tags'' (AList.delete ''id'' metadata)),
           sv_TTL = cf_RefreshTtl cfg,
           sv_Origin = port\<rparr>))))))"

text \<open>\<open>newService\<close>; \<open>None\<close> is the nil pointer: the port is not registered.\<close>

definition newService :: "Env \<Rightarrow> Config \<Rightarrow> ServicePort \<Rightarrow> bool \<Rightarrow> Service option outcome" where
  "newService E cfg port isgroup =
     obind (deref (sp_container port)) (\<lambda>container.
     obind (deref (c_Config container)) (\<lambda>cc0.
     let hostname = id_hostname E port;
         port = resolve_host E cfg port in
     obind (serviceMetaData (en_order E) cc0 (sp_ExposedPort port)) (\<lambda>((metadata, metadataFromPort), cc).
     let container = container\<lparr>c_Config := Some cc\<rparr>;
         port = port\<lparr>sp_container := Some container\<rparr> in
     if mapDefault metadata ''ignore'' [] \<noteq> [] then Done None
     else if cf_RequireLabel cfg \<and> toLower (mapDefault metadata ''register'' ''false'') = ''false''
     then Done None
     else build_service E cfg port hostname container cc metadata metadataFromPort isgroup)))"

section \<open>Adding a container\<close>

text \<open>Lines 168-183: the ports of the container, exposed and published.\<close>

definition collectPorts ::
    "Env \<Rightarrow> Container \<Rightarrow> string \<Rightarrow> ServicePort gomap outcome" where
  "collectPorts E container newIP =
     obind (deref (c_Config container)) (\<lambda>cc.
     obind (ofold (\<lambda>(port, _) ports.
              obind (servicePort (en_order E) container port
                       [\<lparr>pb_HostIP = ''0.0.0.0'', pb_HostPort = hd (split_on (CHR ''/'') port)\<rparr>]) (\<lambda>sp.
              let sp = (if newIP \<noteq> [] then sp\<lparr>sp_HostIP := newIP\<rparr> else sp) in
              Done (AList.update port sp ports)))
            (entries (en_order E) AtExposedPorts (dc_ExposedPorts cc)) []) (\<lambda>ports.
     obind (deref (c_NetworkSettings container)) (\<lambda>ns.
     ofold (\<lambda>(port, published) ports.
              obind (servicePort (en_order E) container port published) (\<lambda>sp.
              Done (AList.update port sp ports)))
            (entries (en_order E) AtPublishedPorts (ns_Ports ns)) ports)))"

text \<open>Lines 190-205: the ports that get a service.\<close>

definition selectPorts ::
    "Env \<Rightarrow> Config \<Rightarrow> Container \<Rightarrow> bool \<Rightarrow> ServicePort gomap \<Rightarrow> ServicePort gomap outcome" where
  "selectPorts E cfg container quiet ports =
     ofold (\<lambda>(key, port) servicePorts.
         obind (deref (c_Config container)) (\<lambda>cc.
         obind (lookupMetaData cc ''SERVICE_USE_EXPOSED_PORTS'') (\<lambda>useExposedPorts.
           if \<not> cf_Internal cfg \<and> useExposedPorts = [] \<and> sp_HostPort port = [] then
             (if \<not> quiet then obind (log_id (c_ID container)) (\<lambda>_. Done servicePorts)
              else Done servicePorts)
           else Done (AList.update key port servicePorts))))
       (entries (en_order E) AtPorts ports) []"

text \<open>Lines 208-222: the body of the registration loop.\<close>

definition registerPort ::
    "'r RegistryAdapter \<Rightarrow> Env \<Rightarrow> Container \<Rightarrow> bool \<Rightarrow> bool \<Rightarrow> ServicePort \<Rightarrow> 'r Bridge \<Rightarrow> 'r Bridge outcome" where
  "registerPort A E container quiet isGroup port b =
     obind (newService E (br_config b) port isGroup) (\<lambda>service.
       case service of
         None \<Rightarrow> if \<not> quiet then obind (log_id (c_ID container)) (\<lambda>_. Done b) else Done b
       | Some service \<Rightarrow>
           obind (ra_Register A service (br_registry b)) (\<lambda>(e, r).
             let b = b\<lparr>br_registry := r\<rparr> in
             if e \<noteq> None then Done b else appendService (c_ID container) service b))"

definition registerPorts ::
    "'r RegistryAdapter \<Rightarrow> Env \<Rightarrow> Container \<Rightarrow> bool \<Rightarrow> ServicePort gomap \<Rightarrow> 'r Bridge \<Rightarrow> 'r Bridge outcome" where
  "registerPorts A E container quiet servicePorts b =
     (let isGroup = length servicePorts > 1 in
      ofold (\<lambda>(_, port). registerPort A E container quiet isGroup port)
        (entries (en_order E) AtServicePorts servicePorts) b)"

text \<open>
  \<open>add\<close>.  On line 158 it returns with the mutex held: the container is known already.
\<close>

definition add ::
    "'r RegistryAdapter \<Rightarrow> Env \<Rightarrow> string \<Rightarrow> bool \<Rightarrow> string \<Rightarrow> 'r Bridge \<Rightarrow> 'r Bridge outcome" where
  "add A E cid quiet newIP b =
     obind (deleteDeadContainer cid b) (\<lambda>b.
     obind (acquire b) (\<lambda>b.
     if services_of b cid \<noteq> [] then obind (log_id cid) (\<lambda>_. Done b)
     else
       (let b = release b in
        case dk_InspectContainer (en_docker E) cid of
          Inl e \<Rightarrow> obind (log_id cid) (\<lambda>_. Done b)
        | Inr container \<Rightarrow>
            obind (collectPorts E container newIP) (\<lambda>ports.
            if length ports = 0 \<and> \<not> quiet then obind (log_id (c_ID container)) (\<lambda>_. Done b)
            else
              obind (selectPorts E (br_config b) container quiet ports) (\<lambda>servicePorts.
              registerPorts A E container quiet servicePorts b)))))"

definition Add :: "'r RegistryAdapter \<Rightarrow> Env \<Rightarrow> string \<Rightarrow> string \<Rightarrow> 'r Bridge \<Rightarrow> 'r Bridge outcome" where
  "Add A E cid ipToUse b = add A E cid False ipToUse b"

section \<open>Removing a container\<close>

definition deregister_one :: "'r RegistryAdapter \<Rightarrow> Service \<Rightarrow> 'r Bridge \<Rightarrow> 'r Bridge outcome" where
  "deregister_one A service b =
     obind (ra_Deregister A service (br_registry b)) (\<lambda>(e, r). Done (b\<lparr>br_registry := r\<rparr>))"

definition deregisterAll :: "'r RegistryAdapter \<Rightarrow> Service list \<Rightarrow> 'r Bridge \<Rightarrow> 'r Bridge outcome" where
  "deregisterAll A services b = ofold (deregister_one A) services b"

definition remove :: "'r RegistryAdapter \<Rightarrow> string \<Rightarrow> bool \<Rightarrow> 'r Bridge \<Rightarrow> 'r Bridge outcome" where
  "remove A cid deregister b =
     obind (acquire b) (\<lambda>b.
     obind
       (if deregister then
          obind (deregisterAll A (services_of b cid) b) (\<lambda>b.
            case map_of (br_deadContainers b) cid of
              None \<Rightarrow> Done b
            | Some d \<Rightarrow>
                obind (deregisterAll A (dd_Services d) b) (\<lambda>b.
                  Done (b\<lparr>br_deadContainers := AList.delete cid (br_deadContainers b)\<rparr>)))
        else if cf_RefreshTtl (br_config b) \<noteq> 0 \<and> services_of b cid \<noteq> [] then
          Done (b\<lparr>br_deadContainers :=
                   AList.update cid \<lparr>dd_TTL = cf_RefreshTtl (br_config b), dd_Services = services_of b cid\<rparr>
                     (br_deadContainers b)\<rparr>)
        else Done b)
       (\<lambda>b. Done (release (b\<lparr>br_services := AList.delete cid (br_services b)\<rparr>))))"

definition Remove :: "'r RegistryAdapter \<Rightarrow> string \<Rightarrow> 'r Bridge \<Rightarrow> 'r Bridge outcome" where
  "Remove A cid b = remove A cid True b"

unbundle bit_operations_syntax

definition dockerSignaledBit :: int where
  "dockerSignaledBit = 128"

definition shouldRemove :: "Env \<Rightarrow> Config \<Rightarrow> string \<Rightarrow> bool outcome" where
  "shouldRemove E cfg cid =
     (if cf_DeregisterCheck cfg = ''always'' then Done True
      else
        (case dk_InspectContainer (en_docker E) cid of
           Inl NoSuchContainer \<Rightarrow> obind (log_id cid) (\<lambda>_. Done True)
         | Inl (DockerError e) \<Rightarrow> obind (log_id cid) (\<lambda>_. Done False)
         | Inr container \<Rightarrow>
             if st_Running (c_State container) then obind (log_id cid) (\<lambda>_. Done False)
             else if st_ExitCode (c_State container) = 0 then Done True
             else if (st_ExitCode (c_State container) AND dockerSignaledBit) = dockerSignaledBit
             then Done True
             else Done False))"

definition RemoveOnExit :: "'r RegistryAdapter \<Rightarrow> Env \<Rightarrow> string \<Rightarrow> 'r Bridge \<Rightarrow> 'r Bridge outcome" where
  "RemoveOnExit A E cid b =
     obind (shouldRemove E (br_config b) cid) (\<lambda>deregister. remove A cid deregister b)"

end
