(* ===== verification/BridgeFacts.thy ===== *)
theory BridgeFacts
  imports Bridge
begin

text \<open>
  The laws of the bridge operations: the invariant of the two container maps and the discipline of
  the mutex, stated once as the interface \<open>bridge_op\<close> and interpreted for each operation; then
  what each operation does to the maps and which calls it makes to the registry.
\<close>

section \<open>Rewriting of states\<close>

lemma acquire_eq_Done [simp]:
  "acquire b = Done b' \<longleftrightarrow> \<not> br_locked b \<and> b' = b\<lparr>br_locked := True\<rparr>"
  by (auto simp: acquire_def)

lemma acquire_free [simp]: "\<not> br_locked b \<Longrightarrow> acquire b = Done (b\<lparr>br_locked := True\<rparr>)"
  by simp

lemma acquire_held [simp]: "br_locked b \<Longrightarrow> acquire b = Blocked"
  by (simp add: acquire_def)

lemma release_simps [simp]:
  "br_locked (release b) = False"
  "br_registry (release b) = br_registry b"
  "br_services (release b) = br_services b"
  "br_deadContainers (release b) = br_deadContainers b"
  "br_config (release b) = br_config b"
  by (simp_all add: release_def)

lemma services_of_cong: "br_services b = br_services b' \<Longrightarrow> services_of b cid = services_of b' cid"
  by (simp add: services_of_def)

lemma services_of_simps [simp]:
  "services_of (release b) cid = services_of b cid"
  "services_of (b\<lparr>br_locked := l\<rparr>) cid = services_of b cid"
  "services_of (b\<lparr>br_registry := r\<rparr>) cid = services_of b cid"
  "services_of (b\<lparr>br_deadContainers := d\<rparr>) cid = services_of b cid"
  "services_of (b\<lparr>br_services := AList.update k ss m\<rparr>) cid =
     (if cid = k then ss else services_of (b\<lparr>br_services := m\<rparr>) cid)"
  "services_of (b\<lparr>br_services := AList.delete k m\<rparr>) cid =
     (if cid = k then [] else services_of (b\<lparr>br_services := m\<rparr>) cid)"
  by (simp_all add: services_of_def gomap_simps)

lemma services_of_same [simp]: "services_of (b\<lparr>br_services := br_services b\<rparr>) cid = services_of b cid"
  by (simp add: services_of_def)

lemma log_id_Done [simp]: "log_id cid = Done u \<longleftrightarrow> 12 \<le> length cid"
  by (auto simp: log_id_def slice_def obind_eq_Done_iff)

lemma log_id_cases: "log_id cid = (if 12 \<le> length cid then Done () else Panic SliceOutOfRange)"
  by (simp add: log_id_def slice_def)

section \<open>The invariant\<close>

text \<open>
  The maps have distinct keys, hold no nil slice, and no container is tracked and dead at once.
\<close>

definition wf_bridge :: "'r Bridge \<Rightarrow> bool" where
  "wf_bridge b \<longleftrightarrow>
     wf_map (br_services b) \<and> wf_map (br_deadContainers b) \<and>
     list_all (\<lambda>(_, ss). ss \<noteq> []) (br_services b) \<and>
     list_all (\<lambda>(_, d). dd_Services d \<noteq> []) (br_deadContainers b) \<and>
     list_all (\<lambda>(cid, _). cid \<notin> set (map fst (br_deadContainers b))) (br_services b)"

lemma wf_bridge_alt:
  "wf_bridge b \<longleftrightarrow>
     wf_map (br_services b) \<and> wf_map (br_deadContainers b) \<and>
     (\<forall>cid. map_of (br_services b) cid \<noteq> Some []) \<and>
     (\<forall>cid d. map_of (br_deadContainers b) cid = Some d \<longrightarrow> dd_Services d \<noteq> []) \<and>
     (\<forall>cid ss. map_of (br_services b) cid = Some ss \<longrightarrow> map_of (br_deadContainers b) cid = None)"
  unfolding wf_bridge_def list_all_iff
  by (rule conj_cong [OF refl], rule conj_cong [OF refl])
    (auto simp: map_of_Some_iff_mem map_of_eq_None_iff image_iff split_def; force)

lemma wf_bridge_cong:
  "br_services b = br_services b' \<Longrightarrow> br_deadContainers b = br_deadContainers b' \<Longrightarrow>
   wf_bridge b = wf_bridge b'"
  by (simp add: wf_bridge_def)

lemma wf_bridge_simps [simp]:
  "wf_bridge (release b) = wf_bridge b"
  "wf_bridge (b\<lparr>br_locked := l\<rparr>) = wf_bridge b"
  "wf_bridge (b\<lparr>br_registry := r\<rparr>) = wf_bridge b"
  by (simp_all add: wf_bridge_def release_def)

lemma wf_bridge_forget: "wf_bridge b \<Longrightarrow> wf_bridge (b\<lparr>br_services := AList.delete cid (br_services b)\<rparr>)"
  by (auto simp: wf_bridge_alt gomap_simps)

lemma wf_bridge_forget_dead:
  "wf_bridge b \<Longrightarrow> wf_bridge (b\<lparr>br_deadContainers := AList.delete cid (br_deadContainers b)\<rparr>)"
  by (auto simp: wf_bridge_alt gomap_simps)

lemma services_of_eq_Nil: "wf_bridge b \<Longrightarrow> services_of b cid = [] \<longleftrightarrow> map_of (br_services b) cid = None"
  by (auto simp: wf_bridge_alt services_of_def split: option.splits)

section \<open>The interface of an operation\<close>

text \<open>
  What the callers of the bridge rely on: an operation waits while the mutex is held, gives it
  back, leaves the configuration alone and keeps the invariant.
\<close>

locale bridge_op =
  fixes oper :: "'r Bridge \<Rightarrow> 'r Bridge outcome"
  assumes waits: "br_locked b \<Longrightarrow> oper b \<noteq> Done b'"
    and unlocks: "oper b = Done b' \<Longrightarrow> \<not> br_locked b'"
    and keeps_config: "oper b = Done b' \<Longrightarrow> br_config b' = br_config b"
    and keeps_wf: "wf_bridge b \<Longrightarrow> oper b = Done b' \<Longrightarrow> wf_bridge b'"
begin

lemma ran_unlocked: "oper b = Done b' \<Longrightarrow> \<not> br_locked b"
  using waits by blast

text \<open>Operations compose: running one and then another satisfies the same laws.\<close>

lemma compose:
  assumes "bridge_op other"
  shows "bridge_op (\<lambda>b. obind (oper b) other)"
proof
  fix b b' :: "'r Bridge"
  show "br_locked b \<Longrightarrow> obind (oper b) other \<noteq> Done b'"
    by (auto dest: waits)
  assume "obind (oper b) other = Done b'"
  then obtain b1 where b1: "oper b = Done b1" "other b1 = Done b'" by auto
  show "\<not> br_locked b'" using b1 bridge_op.unlocks [OF assms] by blast
  show "br_config b' = br_config b"
    using b1 bridge_op.keeps_config [OF assms b1(2)] keeps_config [OF b1(1)] by simp
  show "wf_bridge b \<Longrightarrow> wf_bridge b'"
    using b1 keeps_wf bridge_op.keeps_wf [OF assms] by blast
qed

text \<open>Running the operation again and again keeps the invariant.\<close>

lemma iterate:
  assumes "wf_bridge b" and "ofold (\<lambda>_. oper) xs b = Done b'"
  shows "wf_bridge b' \<and> br_config b' = br_config b"
  using assms(2)
  by (rule ofold_invariant) (use assms(1) keeps_wf keeps_config in auto)

end

section \<open>Registry calls leave the bridge alone\<close>

text \<open>Two states that differ in the registry at most.\<close>

definition same_maps :: "'r Bridge \<Rightarrow> 'r Bridge \<Rightarrow> bool" where
  "same_maps b b' \<longleftrightarrow>
     br_locked b' = br_locked b \<and> br_services b' = br_services b \<and>
     br_deadContainers b' = br_deadContainers b \<and> br_config b' = br_config b"

lemma same_mapsD:
  assumes "same_maps b b'"
  shows "br_locked b' = br_locked b" "br_services b' = br_services b"
    "br_deadContainers b' = br_deadContainers b" "br_config b' = br_config b"
    "services_of b' cid = services_of b cid" "wf_bridge b' = wf_bridge b"
  using assms by (simp_all add: same_maps_def services_of_def wf_bridge_def)

lemma same_maps_refl [simp]: "same_maps b b"
  by (simp add: same_maps_def)

lemma same_maps_registry [simp]: "same_maps b (b'\<lparr>br_registry := r\<rparr>) \<longleftrightarrow> same_maps b b'"
  by (simp add: same_maps_def)

lemma deregister_one_same: "deregister_one A s b1 = Done b2 \<Longrightarrow> same_maps b b1 \<Longrightarrow> same_maps b b2"
  by (auto simp: deregister_one_def)

lemma deregisterAll_same:
  assumes "deregisterAll A ss b = Done b'"
  shows "same_maps b b'"
  using assms unfolding deregisterAll_def
  by (rule ofold_invariant) (auto dest: deregister_one_same)

lemma refresh_one_same: "refresh_one A cid s b1 = Done b2 \<Longrightarrow> same_maps b b1 \<Longrightarrow> same_maps b b2"
  by (auto simp: refresh_one_def Let_def split: if_splits)

lemma refresh_all_same:
  assumes "ofold (\<lambda>(cid, services). ofold (refresh_one A cid) services) es b = Done b'"
  shows "same_maps b b'"
  using assms
proof (rule ofold_invariant)
  fix e and b1 b2 :: "'a Bridge"
  assume "same_maps b b1" and "(case e of (cid, ss) \<Rightarrow> ofold (refresh_one A cid) ss) b1 = Done b2"
  then show "same_maps b b2"
    by (cases e) (auto elim!: ofold_invariant dest: refresh_one_same)
qed simp

section \<open>Operations that keep the laws\<close>

subsection \<open>PruneDeadContainers\<close>

lemma fold_prune_wf:
  assumes "wf_map dead" and "\<And>cid d. map_of dead cid = Some d \<Longrightarrow> dd_Services d \<noteq> [] \<and> cid \<notin> K"
    and "\<And>cid d. (cid, d) \<in> set es \<Longrightarrow> dd_Services d \<noteq> [] \<and> cid \<notin> K"
  shows "wf_map (fold (prune_step i) es dead) \<and>
    (\<forall>cid d. map_of (fold (prune_step i) es dead) cid = Some d \<longrightarrow> dd_Services d \<noteq> [] \<and> cid \<notin> K)"
  using assms
proof (induction es arbitrary: dead)
  case (Cons e es)
  obtain k d where e: "e = (k, d)" by (cases e)
  have "wf_map (prune_step i e dead)" using Cons.prems(1) by (simp add: prune_step_def e Let_def)
  moreover have "dd_Services d' \<noteq> [] \<and> cid \<notin> K" if "map_of (prune_step i e dead) cid = Some d'" for cid d'
    using that Cons.prems(2) Cons.prems(3) [of k d] e
    by (auto simp: prune_step_def Let_def gomap_simps split: if_splits)
  moreover have "dd_Services d' \<noteq> [] \<and> cid \<notin> K" if "(cid, d') \<in> set es" for cid d'
    using Cons.prems(3) that by auto
  ultimately show ?case unfolding fold_simps comp_def by (rule Cons.IH)
qed auto

lemma PruneDeadContainers_wf:
  assumes "wf_bridge b" and "PruneDeadContainers E b = Done b'"
  shows "wf_bridge b'"
proof -
  let ?dead = "br_deadContainers b"
  let ?K = "dom (map_of (br_services b))"
  let ?dead' = "fold (prune_step (cf_RefreshInterval (br_config b)))
      (entries (en_order E) AtDeadContainers ?dead) ?dead"
  have dead: "map_of ?dead cid = Some d \<Longrightarrow> dd_Services d \<noteq> [] \<and> cid \<notin> ?K" for cid d
    using assms(1) by (auto simp: wf_bridge_alt)
  have "wf_map ?dead' \<and> (\<forall>cid d. map_of ?dead' cid = Some d \<longrightarrow> dd_Services d \<noteq> [] \<and> cid \<notin> ?K)"
    using assms(1) dead by (intro fold_prune_wf) (auto simp: wf_bridge_alt dest!: entries_sound)
  moreover have "b' = b\<lparr>br_deadContainers := ?dead', br_locked := False\<rparr>"
    using assms(2) by (auto simp: PruneDeadContainers_def Let_def release_def)
  ultimately show ?thesis
    using assms(1) unfolding wf_bridge_alt by (auto; metis domI not_None_eq)
qed

interpretation prune: bridge_op "PruneDeadContainers E" for E
  by unfold_locales (auto simp: PruneDeadContainers_def Let_def intro: PruneDeadContainers_wf)

subsection \<open>Refresh\<close>

lemma getServicesCopy_Done:
  "getServicesCopy E b = Done (svcs, b') \<Longrightarrow> \<not> br_locked b \<and> b' = b"
  by (cases b) (auto simp: getServicesCopy_def Let_def release_def)

lemma Refresh_same: "Refresh A E b = Done b' \<Longrightarrow> \<not> br_locked b \<and> same_maps b b'"
  unfolding Refresh_def by (auto dest!: getServicesCopy_Done dest: refresh_all_same)

interpretation refresh: bridge_op "Refresh A E" for A E
proof
  fix b b' :: "'a Bridge"
  show "br_locked b \<Longrightarrow> Refresh A E b \<noteq> Done b'" by (auto dest: Refresh_same)
  assume "Refresh A E b = Done b'"
  then have "\<not> br_locked b" "same_maps b b'" by (auto dest: Refresh_same)
  then show "\<not> br_locked b'" "br_config b' = br_config b" "wf_bridge b \<Longrightarrow> wf_bridge b'"
    by (simp_all add: same_mapsD)
qed

subsection \<open>remove and RemoveOnExit\<close>

text \<open>What \<open>remove\<close> does to the maps, when it deregisters and when it does not.\<close>

lemma remove_deregister_maps:
  assumes "remove A cid True b = Done b'"
  shows "\<not> br_locked b \<and> \<not> br_locked b' \<and> br_config b' = br_config b \<and>
    br_services b' = AList.delete cid (br_services b) \<and>
    br_deadContainers b' = AList.delete cid (br_deadContainers b)"
proof -
  from assms have "\<not> br_locked b" by (auto simp: remove_def)
  with assms obtain b1 where b1: "deregisterAll A (services_of b cid) (b\<lparr>br_locked := True\<rparr>) = Done b1"
    by (auto simp: remove_def)
  note s1 = same_mapsD [OF deregisterAll_same [OF b1]]
  show ?thesis
  proof (cases "map_of (br_deadContainers b) cid")
    case None
    with assms b1 s1 \<open>\<not> br_locked b\<close> show ?thesis
      by (auto simp: remove_def map_of_eq_None_iff)
  next
    case (Some d)
    with assms b1 s1 \<open>\<not> br_locked b\<close> show ?thesis
      by (auto simp: remove_def dest!: deregisterAll_same simp: same_maps_def)
  qed
qed

lemma remove_keep_maps:
  "remove A cid False b = Done b' \<longleftrightarrow>
     \<not> br_locked b \<and>
     b' = b\<lparr>br_locked := False, br_services := AList.delete cid (br_services b),
       br_deadContainers :=
         (if cf_RefreshTtl (br_config b) \<noteq> 0 \<and> services_of b cid \<noteq> []
          then AList.update cid \<lparr>dd_TTL = cf_RefreshTtl (br_config b), dd_Services = services_of b cid\<rparr>
                 (br_deadContainers b)
          else br_deadContainers b)\<rparr>"
  by (auto simp: remove_def release_def obind_eq_Done_iff)

lemma remove_laws:
  assumes "remove A cid deregister b = Done b'"
  shows "\<not> br_locked b" "\<not> br_locked b'" "br_config b' = br_config b"
    "br_services b' = AList.delete cid (br_services b)" "wf_bridge b \<Longrightarrow> wf_bridge b'"
proof -
  have "\<not> br_locked b \<and> \<not> br_locked b' \<and> br_config b' = br_config b \<and>
      br_services b' = AList.delete cid (br_services b) \<and> (wf_bridge b \<longrightarrow> wf_bridge b')"
  proof (cases deregister)
    case True
    with assms show ?thesis
      by (auto dest!: remove_deregister_maps simp: wf_bridge_alt gomap_simps split: if_splits)
  next
    case False
    with assms show ?thesis
      by (auto simp: remove_keep_maps wf_bridge_alt gomap_simps split: if_splits)
  qed
  then show "\<not> br_locked b" "\<not> br_locked b'" "br_config b' = br_config b"
    "br_services b' = AList.delete cid (br_services b)" "wf_bridge b \<Longrightarrow> wf_bridge b'" by auto
qed

interpretation remove_op: bridge_op "remove A cid deregister" for A cid deregister
  by unfold_locales (auto dest: remove_laws)

interpretation remove_on_exit: bridge_op "RemoveOnExit A E cid" for A E cid
  by unfold_locales (auto simp: RemoveOnExit_def dest: remove_laws)

subsection \<open>deleteDeadContainer and appendService\<close>

lemma deleteDeadContainer_free:
  "\<not> br_locked b \<Longrightarrow>
   deleteDeadContainer cid b =
     Done (case map_of (br_deadContainers b) cid of
       None \<Rightarrow> b
     | Some d \<Rightarrow> b\<lparr>br_services := AList.update cid (dd_Services d) (br_services b),
                   br_deadContainers := AList.delete cid (br_deadContainers b)\<rparr>)"
  by (cases b) (auto simp: deleteDeadContainer_def release_def split: option.splits)

lemma deleteDeadContainer_held: "br_locked b \<Longrightarrow> deleteDeadContainer cid b = Blocked"
  by (simp add: deleteDeadContainer_def)

lemma deleteDeadContainer_Done:
  assumes "deleteDeadContainer cid b = Done b'"
  shows "\<not> br_locked b" "\<not> br_locked b'" "br_config b' = br_config b" "br_registry b' = br_registry b"
    "map_of (br_deadContainers b') cid = None" "wf_bridge b \<Longrightarrow> wf_bridge b'"
proof -
  show l: "\<not> br_locked b" using assms deleteDeadContainer_held by fastforce
  show "\<not> br_locked b'" "br_config b' = br_config b" "br_registry b' = br_registry b"
    "map_of (br_deadContainers b') cid = None"
    using assms l by (auto simp: deleteDeadContainer_free gomap_simps split: option.splits)
  show "wf_bridge b \<Longrightarrow> wf_bridge b'"
    using assms l
    by (auto simp: deleteDeadContainer_free wf_bridge_alt gomap_simps split: option.splits if_splits)
qed

interpretation delete_dead: bridge_op "deleteDeadContainer cid" for cid
  by unfold_locales (auto dest: deleteDeadContainer_Done)

lemma appendService_free:
  "\<not> br_locked b \<Longrightarrow>
   appendService cid s b =
     obind (log_id cid) (\<lambda>_. Done (if services_of b cid \<noteq> [] then b
       else b\<lparr>br_services := AList.update cid [s] (br_services b)\<rparr>))"
  by (cases b) (auto simp: appendService_def release_def Let_def log_id_cases services_of_def)

section \<open>Adding a container\<close>

text \<open>
  \<open>registered cid b b'\<close>: from \<open>b\<close> to \<open>b'\<close>, registry calls were made and at most one service was
  stored, under \<open>cid\<close>, where none was.
\<close>

definition registered :: "string \<Rightarrow> 'r Bridge \<Rightarrow> 'r Bridge \<Rightarrow> bool" where
  "registered cid b b' \<longleftrightarrow>
     \<not> br_locked b' \<and> br_config b' = br_config b \<and> br_deadContainers b' = br_deadContainers b \<and>
     (br_services b' = br_services b \<or>
      services_of b cid = [] \<and> (\<exists>s. br_services b' = AList.update cid [s] (br_services b)))"

lemma registered_refl: "\<not> br_locked b \<Longrightarrow> registered cid b b"
  by (simp add: registered_def)

lemma registered_registry [simp]:
  "registered cid b (b'\<lparr>br_registry := r\<rparr>) \<longleftrightarrow> registered cid b b'"
  by (simp add: registered_def)

lemma registered_append:
  assumes "registered cid b b1" and "appendService cid s b1 = Done b2"
  shows "registered cid b b2"
proof -
  have free: "\<not> br_locked b1" using assms(1) by (simp add: registered_def)
  then have b2: "b2 = (if services_of b1 cid \<noteq> [] then b1
      else b1\<lparr>br_services := AList.update cid [s] (br_services b1)\<rparr>)"
    using assms(2) by (auto simp: appendService_free)
  show ?thesis
  proof (cases "br_services b1 = br_services b")
    case True
    with assms(1) b2 show ?thesis by (auto simp: registered_def services_of_def)
  next
    case False
    then obtain t where "br_services b1 = AList.update cid [t] (br_services b)"
      using assms(1) by (auto simp: registered_def)
    then have "services_of b1 cid \<noteq> []" by (simp add: services_of_def gomap_simps)
    with assms(1) b2 show ?thesis by simp
  qed
qed

lemma registered_port:
  assumes "registered (c_ID c) b b1" and "registerPort A E c quiet g port b1 = Done b2"
  shows "registered (c_ID c) b b2"
  using assms
  by (auto simp: registerPort_def Let_def split: option.splits if_splits
      elim!: registered_append [rotated])

lemma registered_ports:
  assumes "\<not> br_locked b" and "registerPorts A E c quiet ports b = Done b'"
  shows "registered (c_ID c) b b'"
proof -
  from assms(2) have "ofold (\<lambda>(_, port). registerPort A E c quiet (length ports > 1) port)
      (entries (en_order E) AtServicePorts ports) b = Done b'"
    by (simp add: registerPorts_def)
  then show ?thesis
    by (rule ofold_invariant) (use assms(1) in \<open>auto intro: registered_refl registered_port\<close>)
qed

text \<open>A container is known when it is tracked or dead.\<close>

definition known :: "'r Bridge \<Rightarrow> string \<Rightarrow> bool" where
  "known b cid \<longleftrightarrow> services_of b cid \<noteq> [] \<or> map_of (br_deadContainers b) cid \<noteq> None"

text \<open>The Docker daemon answers a query for a container with that container.\<close>

definition inspects_by_id :: "Env \<Rightarrow> bool" where
  "inspects_by_id E \<longleftrightarrow> (\<forall>cid c. dk_InspectContainer (en_docker E) cid = Inr c \<longrightarrow> c_ID c = cid)"

lemma add_blocked: "br_locked b \<Longrightarrow> add A E cid quiet ip b = Blocked"
  by (simp add: add_def deleteDeadContainer_held)

text \<open>Adding a known container returns with the mutex held.\<close>

lemma add_known:
  assumes "\<not> br_locked b" and "wf_bridge b" and "known b cid" and "12 \<le> length cid"
  shows "\<exists>b'. add A E cid quiet ip b = Done b' \<and> br_locked b' \<and> br_registry b' = br_registry b \<and>
           services_of b' cid =
             (case map_of (br_deadContainers b) cid of
                None \<Rightarrow> services_of b cid | Some d \<Rightarrow> dd_Services d)"
proof (cases "map_of (br_deadContainers b) cid")
  case None
  with assms show ?thesis
    by (simp add: add_def deleteDeadContainer_free known_def log_id_cases)
next
  case (Some d)
  with assms(2) have "dd_Services d \<noteq> []" by (auto simp: wf_bridge_alt)
  with Some assms show ?thesis
    by (simp add: add_def deleteDeadContainer_free log_id_cases)
qed

text \<open>Adding an unknown container gives the mutex back.\<close>

lemma add_unknown:
  assumes "\<not> known b cid" and "inspects_by_id E" and "add A E cid quiet ip b = Done b'"
  shows "\<not> br_locked b \<and> registered cid b b'"
proof -
  have free: "\<not> br_locked b" using assms(3) add_blocked by fastforce
  have dead: "map_of (br_deadContainers b) cid = None" "services_of b cid = []"
    using assms(1) by (auto simp: known_def)
  have same: "release (b\<lparr>br_locked := True\<rparr>) = b" using free by (cases b) (simp add: release_def)
  show ?thesis
  proof (cases "dk_InspectContainer (en_docker E) cid")
    case (Inl e)
    with assms(3) free dead same show ?thesis
      by (auto simp: add_def deleteDeadContainer_free intro: registered_refl)
  next
    case (Inr c)
    then have "c_ID c = cid" using assms(2) by (simp add: inspects_by_id_def)
    with Inr assms(3) free dead same show ?thesis
      by (auto simp: add_def deleteDeadContainer_free intro: registered_refl
          dest: registered_ports split: if_splits)
  qed
qed

lemma wf_bridge_registered:
  assumes "wf_bridge b" and "registered cid b b'" and "map_of (br_deadContainers b) cid = None"
  shows "wf_bridge b'"
  using assms unfolding registered_def
  by (elim conjE disjE exE) (auto simp: wf_bridge_alt gomap_simps)

lemma add_wf:
  assumes "wf_bridge b" and "inspects_by_id E" and "add A E cid quiet ip b = Done b'"
  shows "wf_bridge b'"
proof (cases "known b cid")
  case False
  then have "map_of (br_deadContainers b) cid = None" by (simp add: known_def)
  with add_unknown [OF False assms(2,3)] assms(1) show ?thesis
    by (auto intro: wf_bridge_registered)
next
  case True
  have free: "\<not> br_locked b" using assms(3) add_blocked by fastforce
  obtain b1 where b1: "deleteDeadContainer cid b = Done b1" using free by (simp add: deleteDeadContainer_free)
  have "services_of b1 cid \<noteq> []"
    using b1 True free assms(1)
    by (auto simp: deleteDeadContainer_free known_def wf_bridge_alt split: option.splits)
  then have "b' = b1\<lparr>br_locked := True\<rparr>"
    using assms(3) b1 deleteDeadContainer_Done(2) [OF b1] by (auto simp: add_def)
  with deleteDeadContainer_Done(6) [OF b1 assms(1)] show ?thesis by simp
qed

section \<open>Calls to the registry\<close>

abbreviation calls :: "('r \<times> reg_call list) Bridge \<Rightarrow> reg_call list" where
  "calls b \<equiv> snd (br_registry b)"

lemma deregisterAll_calls:
  "deregisterAll (recording A) ss b = Done b' \<Longrightarrow> calls b' = calls b @ map CallDeregister ss"
  unfolding deregisterAll_def
  by (induction ss arbitrary: b) (fastforce simp: deregister_one_def logged_eq_Done)+

text \<open>The services the bridge holds for a container: tracked ones, then those of a dead container.\<close>

definition held_services :: "'r Bridge \<Rightarrow> string \<Rightarrow> Service list" where
  "held_services b cid =
     services_of b cid @
     (case map_of (br_deadContainers b) cid of None \<Rightarrow> [] | Some d \<Rightarrow> dd_Services d)"

lemma remove_deregister_calls:
  assumes "remove (recording A) cid True b = Done b'"
  shows "calls b' = calls b @ map CallDeregister (held_services b cid)"
proof -
  from assms obtain b1 where b1:
    "deregisterAll (recording A) (services_of b cid) (b\<lparr>br_locked := True\<rparr>) = Done b1"
    by (auto simp: remove_def)
  have c1: "calls b1 = calls b @ map CallDeregister (services_of b cid)"
    using deregisterAll_calls [OF b1] by simp
  have d1: "br_deadContainers b1 = br_deadContainers b"
    using same_mapsD(3) [OF deregisterAll_same [OF b1]] by simp
  show ?thesis
  proof (cases "map_of (br_deadContainers b) cid")
    case None
    with assms b1 c1 d1 show ?thesis by (auto simp: remove_def held_services_def)
  next
    case (Some d)
    with assms b1 d1 obtain b2 where "deregisterAll (recording A) (dd_Services d) b1 = Done b2"
      and "calls b' = calls b2" by (auto simp: remove_def)
    with Some c1 show ?thesis by (simp add: held_services_def deregisterAll_calls)
  qed
qed

lemma refresh_services_calls:
  "ofold (refresh_one (recording A) cid) ss b = Done b' \<Longrightarrow> calls b' = calls b @ map CallRefresh ss"
  by (induction ss arbitrary: b)
    (fastforce simp: refresh_one_def logged_eq_Done Let_def split: if_splits)+

lemma refresh_all_calls:
  "ofold (\<lambda>(cid, ss). ofold (refresh_one (recording A) cid) ss) es b = Done b' \<Longrightarrow>
   calls b' = calls b @ map CallRefresh (concat (map snd es))"
proof (induction es arbitrary: b)
  case (Cons e es)
  then obtain b1 where "ofold (refresh_one (recording A) (fst e)) (snd e) b = Done b1"
    and "ofold (\<lambda>(cid, ss). ofold (refresh_one (recording A) cid) ss) es b1 = Done b'"
    by (cases e) auto
  with Cons.IH show ?case by (auto dest: refresh_services_calls)
qed simp

lemma mset_concat_snd: "mset es = mset es' \<Longrightarrow> mset (concat (map snd es)) = mset (concat (map snd es'))"
  by (metis mset_concat mset_map sum_mset_sum_list)

lemma getServicesCopy_mset:
  assumes "getServicesCopy E b = Done (svcs, b')" and "is_order (en_order E)" and "wf_bridge b"
  shows "mset svcs = mset (br_services b) \<and> wf_map svcs"
proof -
  let ?es = "entries (en_order E) AtServices (br_services b)"
  have wf: "wf_map (br_services b)" using assms(3) by (simp add: wf_bridge_def)
  have "svcs = fold (\<lambda>(k, v). AList.update k v) ?es []"
    using assms(1) by (auto simp: getServicesCopy_def Let_def)
  then have "svcs = ?es"
    using fold_update_copy [of ?es "[]"] distinct_entries [OF assms(2) wf] by simp
  then show ?thesis
    using assms(2) wf by (simp add: mset_entries wf_map_def distinct_entries)
qed

text \<open>A refresh renews every tracked service exactly once and changes nothing else.\<close>

lemma Refresh_calls:
  assumes "Refresh (recording A) E b = Done b'" and "is_order (en_order E)" and "wf_bridge b"
  shows "\<exists>cs. calls b' = calls b @ cs \<and> mset cs = mset (map CallRefresh (concat (map snd (br_services b))))"
proof -
  from assms(1) obtain svcs where c: "getServicesCopy E b = Done (svcs, b)"
    and f: "ofold (\<lambda>(cid, ss). ofold (refresh_one (recording A) cid) ss)
        (entries (en_order E) AtCopy svcs) b = Done b'"
    by (auto simp: Refresh_def dest: getServicesCopy_Done)
  have "mset (entries (en_order E) AtCopy svcs) = mset (br_services b)"
    using getServicesCopy_mset [OF c assms(2,3)] assms(2) by (simp add: mset_entries)
  then show ?thesis using refresh_all_calls [OF f] mset_concat_snd by (metis mset_map)
qed

subsection \<open>Registrations of a container\<close>

text \<open>The services that \<open>newService\<close> creates for a list of ports, in order.\<close>

fun new_services :: "Env \<Rightarrow> Config \<Rightarrow> bool \<Rightarrow> ServicePort list \<Rightarrow> Service list outcome" where
  "new_services E cfg g [] = Done []"
| "new_services E cfg g (p # ps) =
     obind (newService E cfg p g) (\<lambda>s.
     obind (new_services E cfg g ps) (\<lambda>ss.
       Done (case s of None \<Rightarrow> ss | Some x \<Rightarrow> x # ss)))"

text \<open>A registry that accepts every registration.\<close>

definition accepts_all :: "'r RegistryAdapter \<Rightarrow> bool" where
  "accepts_all A \<longleftrightarrow> (\<forall>s r e r'. ra_Register A s r = Done (e, r') \<longrightarrow> e = None)"

lemma registerPort_calls:
  assumes "registerPort (recording A) E c quiet g port b = Done b'" and "\<not> br_locked b"
    and "accepts_all A"
  shows "\<exists>s. newService E (br_config b) port g = Done s \<and>
    calls b' = calls b @ (case s of None \<Rightarrow> [] | Some x \<Rightarrow> [CallRegister x]) \<and>
    services_of b' (c_ID c) =
      (if services_of b (c_ID c) = [] then (case s of None \<Rightarrow> [] | Some x \<Rightarrow> [x])
       else services_of b (c_ID c))"
proof -
  from assms(1) obtain s where s: "newService E (br_config b) port g = Done s"
    by (auto simp: registerPort_def)
  show ?thesis
  proof (cases s)
    case None
    with s assms(1) show ?thesis by (auto simp: registerPort_def split: if_splits)
  next
    case (Some x)
    with s assms(1) obtain e r where
      r: "logged (CallRegister x) (ra_Register A x) (br_registry b) = Done (e, r)"
      and e: "(if e \<noteq> None then Done (b\<lparr>br_registry := r\<rparr>)
               else appendService (c_ID c) x (b\<lparr>br_registry := r\<rparr>)) = Done b'"
      by (auto simp: registerPort_def Let_def)
    from r assms(3) have "e = None" "snd r = calls b @ [CallRegister x]"
      by (auto simp: logged_eq_Done accepts_all_def)
    with e assms(2) s Some show ?thesis
      by (auto simp: appendService_free services_of_def gomap_simps)
  qed
qed

lemma register_loop_calls:
  assumes "ofold (\<lambda>(_, port). registerPort (recording A) E c quiet g port) es b = Done b'"
    and "\<not> br_locked b" and "accepts_all A"
  shows "\<exists>ss. new_services E (br_config b) g (map snd es) = Done ss \<and>
    calls b' = calls b @ map CallRegister ss \<and>
    services_of b' (c_ID c) = (if services_of b (c_ID c) = [] then take 1 ss else services_of b (c_ID c))"
  using assms
proof (induction es arbitrary: b)
  case (Cons e es)
  obtain k port where e: "e = (k, port)" by (cases e)
  from Cons.prems(1) obtain b1 where
    b1: "registerPort (recording A) E c quiet g port b = Done b1"
    and rest: "ofold (\<lambda>(_, port). registerPort (recording A) E c quiet g port) es b1 = Done b'"
    by (auto simp: e)
  have reg: "registered (c_ID c) b b1"
    using registered_port [OF registered_refl b1] Cons.prems(2) by simp
  then have free: "\<not> br_locked b1" and cfg: "br_config b1 = br_config b" by (auto simp: registered_def)
  obtain s where s: "newService E (br_config b) port g = Done s"
    "calls b1 = calls b @ (case s of None \<Rightarrow> [] | Some x \<Rightarrow> [CallRegister x])"
    "services_of b1 (c_ID c) =
      (if services_of b (c_ID c) = [] then (case s of None \<Rightarrow> [] | Some x \<Rightarrow> [x])
       else services_of b (c_ID c))"
    using registerPort_calls [OF b1 Cons.prems(2,3)] by blast
  obtain ss where "new_services E (br_config b1) g (map snd es) = Done ss"
    "calls b' = calls b1 @ map CallRegister ss"
    "services_of b' (c_ID c) =
       (if services_of b1 (c_ID c) = [] then take 1 ss else services_of b1 (c_ID c))"
    using Cons.IH [OF rest free Cons.prems(3)] by blast
  with s cfg e show ?case by (cases s) auto
qed auto

text \<open>
  Adding an unknown container: every created service is registered, and the first of them is what
  the bridge remembers.
\<close>

lemma add_calls:
  assumes "\<not> known b cid" and "inspects_by_id E" and "accepts_all A"
    and "add (recording A) E cid quiet ip b = Done b'"
  shows "\<exists>ss. calls b' = calls b @ map CallRegister ss \<and> services_of b' cid = take 1 ss"
proof -
  have free: "\<not> br_locked b" using assms(4) add_blocked by fastforce
  have dead: "map_of (br_deadContainers b) cid = None" "services_of b cid = []"
    using assms(1) by (auto simp: known_def)
  have same: "release (b\<lparr>br_locked := True\<rparr>) = b" using free by (cases b) (simp add: release_def)
  have none: ?thesis if "b' = b" using that dead by (intro exI [of _ "[]"]) simp
  show ?thesis
  proof (cases "dk_InspectContainer (en_docker E) cid")
    case (Inl e)
    with assms(4) free dead same show ?thesis
      by (intro none) (auto simp: add_def deleteDeadContainer_free)
  next
    case (Inr c)
    then have cid: "c_ID c = cid" using assms(2) by (simp add: inspects_by_id_def)
    from Inr assms(4) free dead same consider "b' = b"
      | ports where "registerPorts (recording A) E c quiet ports b = Done b'"
      by (auto simp: add_def deleteDeadContainer_free split: if_splits)
    then show ?thesis
    proof cases
      case 2
      then show ?thesis
        using register_loop_calls [of A E c quiet "length ports > 1" _ b b'] free assms(3) dead cid
        by (auto simp: registerPorts_def)
    qed (rule none)
  qed
qed

section \<open>Dead containers\<close>

text \<open>What one run of \<open>PruneDeadContainers\<close> leaves of a dead container.\<close>

definition aged :: "int \<Rightarrow> DeadContainer \<Rightarrow> DeadContainer option" where
  "aged interval d =
     (let ttl = int64 (dd_TTL d - interval) in if ttl \<le> 0 then None else Some (d\<lparr>dd_TTL := ttl\<rparr>))"

lemma fold_prune:
  "distinct (map fst es) \<Longrightarrow>
   map_of (fold (prune_step i) es dead) cid =
     (case map_of es cid of None \<Rightarrow> map_of dead cid | Some d \<Rightarrow> aged i d)"
proof (induction es arbitrary: dead)
  case (Cons e es)
  obtain k d where e: "e = (k, d)" by (cases e)
  have "map_of es k = None" using Cons.prems e by (simp add: map_of_eq_None_iff)
  with Cons e show ?case
    by (auto simp: prune_step_def aged_def Let_def gomap_simps split: option.splits)
qed simp

lemma PruneDeadContainers_spec:
  assumes "\<not> br_locked b" and "wf_bridge b" and "is_order (en_order E)"
  shows "\<exists>b'. PruneDeadContainers E b = Done b' \<and> \<not> br_locked b' \<and>
    br_services b' = br_services b \<and> br_config b' = br_config b \<and> br_registry b' = br_registry b \<and>
    (\<forall>cid. map_of (br_deadContainers b') cid =
       Option.bind (map_of (br_deadContainers b) cid) (aged (cf_RefreshInterval (br_config b))))"
proof -
  have wf: "wf_map (br_deadContainers b)" using assms(2) by (simp add: wf_bridge_def)
  then show ?thesis
    using assms(1,3) distinct_entries [OF assms(3) wf]
    by (auto simp: PruneDeadContainers_def Let_def fold_prune split: option.splits)
qed

fun prune_times :: "Env list \<Rightarrow> 'r Bridge \<Rightarrow> 'r Bridge outcome" where
  "prune_times [] b = Done b"
| "prune_times (E # Es) b = obind (PruneDeadContainers E b) (prune_times Es)"

lemma aged_iterate:
  assumes "0 < i" and "in_int64 i" and "0 < dd_TTL d" and "in_int64 (dd_TTL d)"
  shows "aged i d = (if dd_TTL d \<le> i then None else Some (d\<lparr>dd_TTL := dd_TTL d - i\<rparr>))"
proof -
  have "in_int64 (dd_TTL d - i)" using assms by (simp add: in_int64_def)
  then show ?thesis by (simp add: aged_def Let_def)
qed

lemma prune_times_gone:
  assumes "\<not> br_locked b" and "wf_bridge b" and "list_all (\<lambda>E. is_order (en_order E)) Es"
    and "map_of (br_deadContainers b) cid = None"
  shows "\<exists>b'. prune_times Es b = Done b' \<and> map_of (br_deadContainers b') cid = None"
  using assms
proof (induction Es arbitrary: b)
  case (Cons E Es)
  obtain b1 where b1: "PruneDeadContainers E b = Done b1" "\<not> br_locked b1"
    "map_of (br_deadContainers b1) cid = None"
    using PruneDeadContainers_spec [OF Cons.prems(1,2), of E] Cons.prems(3,4) by auto
  have "wf_bridge b1" using PruneDeadContainers_wf [OF Cons.prems(2) b1(1)] .
  with Cons b1 show ?case by simp
qed simp

text \<open>
  After \<open>n\<close> runs a dead container has lost \<open>n\<close> intervals of its time to live and is gone exactly
  when nothing is left.
\<close>

lemma prune_times_spec:
  assumes "\<not> br_locked b" and "wf_bridge b" and "list_all (\<lambda>E. is_order (en_order E)) Es"
    and "0 < cf_RefreshInterval (br_config b)" and "in_int64 (cf_RefreshInterval (br_config b))"
    and "map_of (br_deadContainers b) cid = Some d" and "0 < dd_TTL d" and "in_int64 (dd_TTL d)"
  shows "\<exists>b'. prune_times Es b = Done b' \<and>
    map_of (br_deadContainers b') cid =
      (if dd_TTL d \<le> int (length Es) * cf_RefreshInterval (br_config b) then None
       else Some (d\<lparr>dd_TTL := dd_TTL d - int (length Es) * cf_RefreshInterval (br_config b)\<rparr>))"
  using assms
proof (induction Es arbitrary: b d)
  case Nil
  then show ?case by simp
next
  case (Cons E Es)
  let ?i = "cf_RefreshInterval (br_config b)"
  obtain b1 where b1: "PruneDeadContainers E b = Done b1" "\<not> br_locked b1" "br_config b1 = br_config b"
    "\<And>cid. map_of (br_deadContainers b1) cid = Option.bind (map_of (br_deadContainers b) cid) (aged ?i)"
    using PruneDeadContainers_spec [OF Cons.prems(1,2), of E] Cons.prems(3) by auto
  have wf1: "wf_bridge b1" using PruneDeadContainers_wf [OF Cons.prems(2) b1(1)] .
  have orders: "list_all (\<lambda>E. is_order (en_order E)) Es" using Cons.prems(3) by simp
  show ?case
  proof (cases "dd_TTL d \<le> ?i")
    case True
    have "map_of (br_deadContainers b1) cid = None"
      using True Cons.prems aged_iterate [of ?i d] b1(4) by simp
    then obtain b' where "prune_times Es b1 = Done b'" "map_of (br_deadContainers b') cid = None"
      using prune_times_gone [OF b1(2) wf1 orders] by blast
    moreover have "0 \<le> int (length Es) * ?i" using Cons.prems(4) by simp
    then have "dd_TTL d \<le> int (length (E # Es)) * ?i" using True by (simp add: distrib_right)
    ultimately show ?thesis using b1(1) by simp
  next
    case False
    let ?d = "d\<lparr>dd_TTL := dd_TTL d - ?i\<rparr>"
    have "map_of (br_deadContainers b1) cid = Some ?d"
      using False Cons.prems aged_iterate [of ?i d] b1(4) by simp
    moreover have "in_int64 (dd_TTL ?d)" "0 < dd_TTL ?d"
      using False Cons.prems(4,5,7,8) by (auto simp: in_int64_def)
    ultimately obtain b' where "prune_times Es b1 = Done b'"
      "map_of (br_deadContainers b') cid =
        (if dd_TTL d - ?i \<le> int (length Es) * ?i then None
         else Some (d\<lparr>dd_TTL := dd_TTL d - ?i - int (length Es) * ?i\<rparr>))"
      using Cons.IH [of b1 ?d] b1(2,3) wf1 orders Cons.prems(4,5) by auto
    then show ?thesis using b1(1) by (simp add: algebra_simps)
  qed
qed

section \<open>Exit codes\<close>

lemma signaled_bit:
  assumes "0 \<le> x" and "x < 256"
  shows "(x AND dockerSignaledBit) = dockerSignaledBit \<longleftrightarrow> 128 \<le> x"
proof -
  have "list_all (\<lambda>x. ((x AND dockerSignaledBit) = dockerSignaledBit) = (128 \<le> x)) [0..255]"
    by code_simp
  with assms show ?thesis by (simp add: list_all_iff)
qed

text \<open>A container that has exited is deregistered when it ended well or by a signal.\<close>

lemma shouldRemove_exited:
  assumes "dk_InspectContainer (en_docker E) cid = Inr c" and "\<not> st_Running (c_State c)"
    and "0 \<le> st_ExitCode (c_State c)" and "st_ExitCode (c_State c) < 256"
  shows "shouldRemove E cfg cid =
    Done (cf_DeregisterCheck cfg = ''always'' \<or> st_ExitCode (c_State c) = 0 \<or> 128 \<le> st_ExitCode (c_State c))"
  using assms by (simp add: shouldRemove_def signaled_bit)

end
