(* ===== verification/ServiceFacts.thy ===== *)
theory ServiceFacts
  imports BridgeFacts
begin

text \<open>
  What \<open>newService\<close> of \<open>bridge/bridge.go\<close> guarantees of the services it creates: where their fields
  come from, that the identifiers it makes up are the ones \<open>serviceIDPattern\<close> recognises, and which
  containers and ports get no service at all.
\<close>

section \<open>The fields of a new service\<close>

text \<open>A service that came from \<open>newService\<close> has its container at hand, with a name.\<close>

definition origin_ok :: "Service \<Rightarrow> bool" where
  "origin_ok s \<longleftrightarrow> (case sp_container (sv_Origin s) of None \<Rightarrow> False | Some c \<Rightarrow> c_Name c \<noteq> [])"

text \<open>The container name without its leading slash.\<close>

definition origin_name :: "Service \<Rightarrow> string" where
  "origin_name s = (case sp_container (sv_Origin s) of None \<Rightarrow> [] | Some c \<Rightarrow> tl (c_Name c))"

text \<open>The name a service would have without metadata.\<close>

definition default_name :: "DockerConfig \<Rightarrow> string" where
  "default_name cc = hd (split_on (CHR '':'') (pathBase (dc_Image cc)))"

text \<open>The identifier \<open>newService\<close> makes up when the metadata names none.\<close>

definition made_id :: "string \<Rightarrow> string \<Rightarrow> ServicePort \<Rightarrow> string" where
  "made_id hostname cname port =
     hostname @ '':'' @ cname @ '':'' @ sp_ExposedPort port @
     (if sp_PortType port = ''udp'' then '':udp'' else [])"

lemma slice_from_one_Done [simp]: "slice_from s 1 = Done t \<longleftrightarrow> s \<noteq> [] \<and> t = tl s"
  by (cases s) (auto simp: slice_def)

lemma slice_from_tl [simp]: "s \<noteq> [] \<Longrightarrow> slice_from s 1 = Done (tl s)"
  by simp

lemma mapDefault_or [simp]:
  "(if mapDefault m k [] = [] then d else mapDefault m k []) = mapDefault m k d"
  "(if mapDefault m k [] \<noteq> [] then mapDefault m k [] else d) = mapDefault m k d"
  by (simp_all add: mapDefault_def split: option.split)

lemma add_ecs_labels_id [simp]:
  assumes "\<not> containsStr k ''com.amazonaws.ecs''"
  shows "map_of (add_ecs_labels ord port labels md) k = map_of md k"
proof -
  have "map_of (fold (\<lambda>(k, v) md. if containsStr k ''com.amazonaws.ecs'' then AList.update k v md else md)
      es md) k = map_of md k" for es
    using assms by (induction es arbitrary: md) (auto simp: gomap_simps)
  then show ?thesis by (simp add: add_ecs_labels_def)
qed

lemma ecs_keys [simp]:
  "\<not> containsStr ''id'' ''com.amazonaws.ecs''" "\<not> containsStr ''name'' ''com.amazonaws.ecs''"
  "\<not> containsStr ''tags'' ''com.amazonaws.ecs''"
  by (simp_all add: containsStr_def find_sub.simps)

lemma mapDefault_add_ecs [simp]:
  "mapDefault (add_ecs_labels ord port labels md) ''id'' d = mapDefault md ''id'' d"
  by (simp add: mapDefault_def)

lemma build_service_Some:
  assumes "build_service E cfg port hostname c cc md fp g = Done (Some s)"
  shows "c_Name c \<noteq> [] \<and> mapDefault md ''name'' (default_name cc) \<noteq> default_name cc \<and>
    sv_Name s = mapDefault md ''name'' (default_name cc) @
      (if g \<and> map_of fp ''name'' \<noteq> Some True then ''-'' @ sp_ExposedPort port else []) \<and>
    sv_ID s = mapDefault md ''id'' (made_id hostname (tl (c_Name c)) port) \<and>
    sv_TTL s = cf_RefreshTtl cfg \<and> sv_Origin s = port \<and>
    sv_Port s = service_port_number cfg (sv_UseExposedPorts s) port \<and>
    sv_Tags s = rev (tag_tokens [] (mapDefault md ''tags'' [])) @ rev (tag_tokens [] (cf_ForceTags cfg)) @
      (if sp_PortType port = ''udp'' then [''udp''] else []) \<and>
    map_of (sv_Attrs s) ''id'' = None \<and> map_of (sv_Attrs s) ''name'' = None \<and>
    map_of (sv_Attrs s) ''tags'' = None"
proof -
  let ?udp = "sp_PortType port = ''udp''"
  let ?name = "mapDefault md ''name'' (default_name cc)"
  let ?exposed = "toLower (mapDefault md ''use_exposed_ports'' ''false'') = ''true''"
  note def = build_service_def [of E cfg port hostname c cc md fp g, folded default_name_def]
  have ne: "c_Name c \<noteq> []"
  proof
    assume "c_Name c = []"
    then show False using assms unfolding def by (simp add: slice_def)
  qed
  have slice: "slice_from (c_Name c) 1 = Done (tl (c_Name c))" using ne by simp
  have name: "?name \<noteq> default_name cc"
  proof
    assume "?name = default_name cc"
    then show False using assms unfolding def slice by (simp add: Let_def)
  qed
  obtain ip1 where ip1: "label_ip cfg (dc_Labels cc)
      (if cf_Internal cfg then sp_ExposedIP port else sp_HostIP port) = Done ip1"
    using assms name unfolding def slice by (auto simp: Let_def)
  obtain ip where ip: "network_ip E c ip1 = Done ip"
    using assms name ip1 unfolding def slice by (auto simp: Let_def)
  have udp: "tag_tokens [] ''udp'' = [''udp'']" by (simp add: emit_def)
  define md' where "md' = add_ecs_labels (en_order E) (sp_ExposedPort port) (dc_Labels cc) md"
  define tags where "tags = rev (tag_tokens [] (mapDefault md ''tags'' [])) @ rev (tag_tokens [] (cf_ForceTags cfg)) @
      (if ?udp then [''udp''] else [])"
  have tags': "combineTags ([mapDefault md ''tags'' [], cf_ForceTags cfg] @ (if ?udp then [''udp''] else [])) = Done tags"
    unfolding combineTags_tokens tags_def by (cases ?udp) (simp_all add: udp del: tag_tokens.simps)
  have md'_id: "mapDefault md' ''id'' d = mapDefault md ''id'' d" for d by (simp add: md'_def)
  have "s = \<lparr>sv_ID = mapDefault md ''id'' (made_id hostname (tl (c_Name c)) port),
      sv_Name = (if g \<and> map_of fp ''name'' \<noteq> Some True then ?name @ ''-'' @ sp_ExposedPort port else ?name),
      sv_Port = service_port_number cfg ?exposed port, sv_IP = ip, sv_UseExposedPorts = ?exposed,
      sv_Tags = tags, sv_Attrs = AList.delete ''name'' (AList.delete ''tags'' (AList.delete ''id'' md')),
      sv_TTL = cf_RefreshTtl cfg, sv_Origin = port\<rparr>"
    using assms name unfolding def slice Let_def obind.simps md'_def [symmetric] tags'
    by (cases ?udp) (simp_all add: ip1 ip made_id_def md'_id eq_commute [of _ s] split del: if_split cong: if_cong)
  then show ?thesis using ne name by (simp add: tags_def gomap_simps)
qed

section \<open>newService\<close>

text \<open>The metadata a port gets, and the port and container a service made for it points to.\<close>

definition port_metadata :: "Env \<Rightarrow> ServicePort \<Rightarrow> ((string gomap \<times> bool gomap) \<times> DockerConfig) outcome" where
  "port_metadata E port =
     obind (deref (sp_container port)) (\<lambda>c.
     obind (deref (c_Config c)) (\<lambda>cc. serviceMetaData (en_order E) cc (sp_ExposedPort port)))"

definition origin_container :: "ServicePort \<Rightarrow> Container" where
  "origin_container port = the (sp_container port)"

definition origin_port :: "Env \<Rightarrow> Config \<Rightarrow> ServicePort \<Rightarrow> DockerConfig \<Rightarrow> ServicePort" where
  "origin_port E cfg port cc =
     (resolve_host E cfg port)\<lparr>sp_container := Some ((origin_container port)\<lparr>c_Config := Some cc\<rparr>)\<rparr>"

lemma resolve_host_simps [simp]:
  "sp_ExposedPort (resolve_host E cfg port) = sp_ExposedPort port"
  "sp_PortType (resolve_host E cfg port) = sp_PortType port"
  "sp_HostPort (resolve_host E cfg port) = sp_HostPort port"
  by (simp_all add: resolve_host_def Let_def split: option.split)

lemma origin_port_simps [simp]:
  "sp_ExposedPort (origin_port E cfg port cc) = sp_ExposedPort port"
  "sp_PortType (origin_port E cfg port cc) = sp_PortType port"
  "sp_HostPort (origin_port E cfg port cc) = sp_HostPort port"
  by (simp_all add: origin_port_def)

text \<open>A port is refused when it is ignored, lacks the required label, or has no name of its own.\<close>

definition refused :: "Config \<Rightarrow> DockerConfig \<Rightarrow> string gomap \<Rightarrow> bool" where
  "refused cfg cc md \<longleftrightarrow>
     mapDefault md ''ignore'' [] \<noteq> [] \<or>
     cf_RequireLabel cfg \<and> toLower (mapDefault md ''register'' ''false'') = ''false'' \<or>
     mapDefault md ''name'' (default_name cc) = default_name cc"

lemma newService_alt:
  "newService E cfg port g =
     obind (port_metadata E port) (\<lambda>((md, fp), cc).
       if mapDefault md ''ignore'' [] \<noteq> [] then Done None
       else if cf_RequireLabel cfg \<and> toLower (mapDefault md ''register'' ''false'') = ''false''
       then Done None
       else build_service E cfg (origin_port E cfg port cc) (id_hostname E port)
              ((origin_container port)\<lparr>c_Config := Some cc\<rparr>) cc md fp g)"
  by (cases "sp_container port"; cases "c_Config (the (sp_container port))")
    (simp_all add: newService_def port_metadata_def origin_port_def origin_container_def Let_def
      cong: if_cong)

lemma build_service_refused:
  assumes "build_service E cfg port hostname c cc md fp g = Done r"
  shows "r = None \<longleftrightarrow> mapDefault md ''name'' (default_name cc) = default_name cc"
proof (cases r)
  case None
  have "c_Name c \<noteq> []"
  proof
    assume "c_Name c = []"
    then show False using assms unfolding build_service_def by (simp add: slice_def)
  qed
  then have "slice_from (c_Name c) 1 = Done (tl (c_Name c))" by simp
  with assms None show ?thesis
    unfolding build_service_def default_name_def [symmetric] by (auto simp: Let_def split: if_splits)
next
  case (Some s)
  with build_service_Some assms show ?thesis by blast
qed

lemma newService_refused:
  assumes "newService E cfg port g = Done r" and "port_metadata E port = Done ((md, fp), cc)"
  shows "r = None \<longleftrightarrow> refused cfg cc md"
  using assms build_service_refused
  by (auto simp: newService_alt refused_def split: if_splits)

lemma newService_Some:
  assumes "newService E cfg port g = Done (Some s)"
  obtains md fp cc where "port_metadata E port = Done ((md, fp), cc)"
    and "\<not> refused cfg cc md"
    and "build_service E cfg (origin_port E cfg port cc) (id_hostname E port)
           ((origin_container port)\<lparr>c_Config := Some cc\<rparr>) cc md fp g = Done (Some s)"
proof -
  from assms obtain md fp cc where m: "port_metadata E port = Done ((md, fp), cc)"
    and b: "build_service E cfg (origin_port E cfg port cc) (id_hostname E port)
           ((origin_container port)\<lparr>c_Config := Some cc\<rparr>) cc md fp g = Done (Some s)"
    by (auto simp: newService_alt split: if_splits)
  with newService_refused [OF assms m] that show ?thesis by blast
qed

text \<open>The services that \<open>newService\<close> creates can be looked at by \<open>cleanupServices\<close>.\<close>

lemma newService_origin:
  assumes "newService E cfg port g = Done (Some s)"
  shows "origin_ok s \<and> origin_name s = tl (c_Name (origin_container port))"
proof -
  from assms obtain md fp cc where
    "build_service E cfg (origin_port E cfg port cc) (id_hostname E port)
       ((origin_container port)\<lparr>c_Config := Some cc\<rparr>) cc md fp g = Done (Some s)"
    by (rule newService_Some)
  from build_service_Some [OF this] show ?thesis
    by (simp add: origin_ok_def origin_name_def origin_port_def)
qed

text \<open>An identifier that is made up, not taken from the metadata, is recognised and read back.\<close>

lemma made_id_recognised:
  assumes "valid_name cname" and "all_digits (sp_ExposedPort port)"
    and "hostname \<noteq> []" and "CHR 0x0A \<notin> set hostname"
  shows "serviceIDMatch (made_id hostname cname port) = Some (hostname, cname)"
  using assms unfolding serviceIDMatch_iff id_shape_def made_id_def udp_suffix_def
  by (intro exI [of _ "sp_ExposedPort port"] exI [of _ "if sp_PortType port = ''udp'' then '':udp'' else []"]) simp

lemma newService_id:
  assumes "newService E cfg port g = Done (Some s)" and "port_metadata E port = Done ((md, fp), cc)"
  shows "sv_ID s = mapDefault md ''id'' (made_id (id_hostname E port) (origin_name s) port)"
proof -
  from assms have "build_service E cfg (origin_port E cfg port cc) (id_hostname E port)
       ((origin_container port)\<lparr>c_Config := Some cc\<rparr>) cc md fp g = Done (Some s)"
    by (auto elim!: newService_Some)
  from build_service_Some [OF this] newService_origin [OF assms(1)] show ?thesis
    by (simp add: made_id_def)
qed

section \<open>Every list of services satisfies a predicate\<close>

text \<open>
  The lists of services that the bridge keeps, tracked or dead.  An operation moves these lists
  around; \<open>add\<close> alone makes a new one, with one service in it.
\<close>

definition lists_sat :: "(Service list \<Rightarrow> bool) \<Rightarrow> 'r Bridge \<Rightarrow> bool" where
  "lists_sat P b \<longleftrightarrow>
     list_all (\<lambda>(_, ss). P ss) (br_services b) \<and>
     list_all (\<lambda>(_, d). P (dd_Services d)) (br_deadContainers b)"

lemma lists_sat_iff:
  "lists_sat P b \<longleftrightarrow>
     (\<forall>(cid, ss) \<in> set (br_services b). P ss) \<and>
     (\<forall>(cid, d) \<in> set (br_deadContainers b). P (dd_Services d))"
  by (simp add: lists_sat_def list_all_iff)

lemma list_all_update [intro]: "list_all Q m \<Longrightarrow> Q (k, v) \<Longrightarrow> list_all Q (AList.update k v m)"
  by (induction m) auto

lemma list_all_delete [intro]: "list_all Q m \<Longrightarrow> list_all Q (AList.delete k m)"
  by (auto simp: AList.delete_eq list_all_iff)

lemma lists_sat_services:
  assumes "lists_sat P b" and "services_of b cid \<noteq> []"
  shows "P (services_of b cid)"
  using assms by (auto simp: lists_sat_iff services_of_def split: option.splits dest!: map_of_SomeD)

lemma lists_sat_same_maps: "same_maps b b' \<Longrightarrow> lists_sat P b \<Longrightarrow> lists_sat P b'"
  by (simp add: lists_sat_def same_mapsD)

lemma lists_sat_simps [simp]:
  "lists_sat P (release b) = lists_sat P b"
  "lists_sat P (b\<lparr>br_locked := l\<rparr>) = lists_sat P b"
  "lists_sat P (b\<lparr>br_registry := r\<rparr>) = lists_sat P b"
  by (simp_all add: lists_sat_def)

lemma lists_sat_update:
  assumes "lists_sat P b" and "P ss" and "br_deadContainers b' = br_deadContainers b"
    and "br_services b' = AList.update cid ss (br_services b)"
  shows "lists_sat P b'"
  using assms by (auto simp: lists_sat_def)

lemma lists_sat_prune:
  assumes "lists_sat P b" and "PruneDeadContainers E b = Done b'"
  shows "lists_sat P b'"
proof -
  let ?Q = "\<lambda>(cid, d). P (dd_Services d)"
  have step: "list_all ?Q (prune_step i e dead)" if "list_all ?Q dead" "?Q e" for i e dead
    using that by (cases e) (auto simp: prune_step_def Let_def)
  have loop: "list_all ?Q dead \<Longrightarrow> list_all ?Q es \<Longrightarrow> list_all ?Q (fold (prune_step i) es dead)" for i es dead
    by (induction es arbitrary: dead) (simp_all add: step)
  have dead: "list_all ?Q (br_deadContainers b)" using assms(1) by (simp add: lists_sat_def)
  then have "list_all ?Q (entries (en_order E) AtDeadContainers (br_deadContainers b))"
    unfolding list_all_iff by (auto dest!: entries_sound map_of_SomeD)
  from loop [OF dead this] assms show ?thesis
    by (auto simp: PruneDeadContainers_def Let_def lists_sat_def)
qed

lemma lists_sat_remove:
  assumes "lists_sat P b" and "remove A cid deregister b = Done b'"
  shows "lists_sat P b'"
proof (cases deregister)
  case True
  with assms show ?thesis by (auto simp: lists_sat_def dest!: remove_deregister_maps)
next
  case False
  with assms lists_sat_services [OF assms(1), of cid] show ?thesis
    by (auto simp: remove_keep_maps lists_sat_def split: if_splits)
qed

lemma lists_sat_delete_dead:
  assumes "lists_sat P b" and "deleteDeadContainer cid b = Done b'"
  shows "lists_sat P b'"
proof (cases "map_of (br_deadContainers b) cid")
  case None
  with assms deleteDeadContainer_Done(1) [OF assms(2)] show ?thesis
    by (simp add: deleteDeadContainer_free)
next
  case (Some d)
  with assms deleteDeadContainer_Done(1) [OF assms(2)]
  have "b' = b\<lparr>br_services := AList.update cid (dd_Services d) (br_services b),
      br_deadContainers := AList.delete cid (br_deadContainers b)\<rparr>"
    by (simp add: deleteDeadContainer_free)
  moreover have "P (dd_Services d)" using assms(1) map_of_SomeD [OF Some] by (auto simp: lists_sat_iff)
  ultimately show ?thesis using assms(1) by (auto simp: lists_sat_def)
qed

lemma lists_sat_append:
  assumes "lists_sat P b" and "P [s]" and "appendService cid s b = Done b'"
  shows "lists_sat P b'"
proof -
  have "\<not> br_locked b" using assms(3) by (auto simp: appendService_def)
  with assms show ?thesis
    by (auto simp: appendService_free split: if_splits intro: lists_sat_update)
qed

lemma lists_sat_add:
  assumes sat: "lists_sat P b" and new: "\<And>s. origin_ok s \<Longrightarrow> P [s]"
    and add: "add A E cid quiet ip b = Done b'"
  shows "lists_sat P b'"
proof -
  obtain b1 where b1: "deleteDeadContainer cid b = Done b1" using add by (auto simp: add_def)
  have sat1: "lists_sat P b1" using lists_sat_delete_dead [OF sat b1] .
  have port: "lists_sat P b3" if "lists_sat P b2" "registerPort A E c quiet g port b2 = Done b3"
    for b2 b3 c g port
    using that newService_origin new
    by (fastforce simp: registerPort_def Let_def split: option.splits if_splits
        intro: lists_sat_append [rotated 2])
  have ports: "lists_sat P b3" if "lists_sat P b2" "registerPorts A E c quiet ports b2 = Done b3"
    for b2 b3 c ports
    using that(2) unfolding registerPorts_def Let_def
    by (rule ofold_invariant) (use that(1) port in auto)
  show ?thesis
    using add b1 sat1
    by (auto simp: add_def Let_def split: if_splits sum.splits elim!: ports [rotated])
qed

end
