(* ===== verification/ServiceSync.thy ===== *)
theory ServiceSync
  imports ServiceFacts
begin

text \<open>
  Synchronisation, \<open>bridge/servicesync.go\<close>: re-registering the services of the running containers,
  starting goroutines for unknown and vanished containers, and removing dangling registrations.
  \<open>serviceSync\<close> runs while \<open>channelRun\<close> holds the mutex of the bridge; the goroutines it starts are
  returned as tasks, in the order of the \<open>go\<close> statements.
\<close>

section \<open>The code\<close>

text \<open>The bodies of the goroutines the program starts on a bridge.\<close>

datatype task =
    TaskAdd string bool string
  | TaskRemoveOnExit string

text \<open>\<open>reregisterService\<close> mutates the service it is given; the updated service is returned.\<close>

definition reregisterService ::
    "'r RegistryAdapter \<Rightarrow> Service \<Rightarrow> string \<Rightarrow> 'r \<Rightarrow> (Service \<times> 'r) outcome" where
  "reregisterService A service newIP r =
     (if newIP \<noteq> [] then
        (if sv_IP service = newIP then Done (service, r)
         else
           obind (ra_Deregister A service r) (\<lambda>(e, r).
             if e \<noteq> None then Done (service, r)
             else
               (let service = service\<lparr>sv_IP := newIP, sv_Origin := (sv_Origin service)\<lparr>sp_HostIP := newIP\<rparr>\<rparr> in
                obind (ra_Register A service r) (\<lambda>(e, r). Done (service, r)))))
      else obind (ra_Register A service r) (\<lambda>(e, r). Done (service, r)))"

text \<open>The loop over the services of one container.\<close>

fun reregisterAll ::
    "'r RegistryAdapter \<Rightarrow> string \<Rightarrow> Service list \<Rightarrow> 'r \<Rightarrow> (Service list \<times> 'r) outcome" where
  "reregisterAll A newIP [] r = Done ([], r)"
| "reregisterAll A newIP (s # ss) r =
     obind (reregisterService A s newIP r) (\<lambda>(s', r).
     obind (reregisterAll A newIP ss r) (\<lambda>(ss', r). Done (s' # ss', r)))"

text \<open>Lines 91-100: is there a tracked service with this name, of a container of this name?\<close>

fun isTracked :: "Service list \<Rightarrow> string \<Rightarrow> string \<Rightarrow> bool outcome" where
  "isTracked [] name cname = Done False"
| "isTracked (s # ss) name cname =
     (if sv_Name s = name then
        obind (deref (sp_container (sv_Origin s))) (\<lambda>c.
        obind (slice_from (c_Name c) 1) (\<lambda>n.
          if cname = n then Done True else isTracked ss name cname))
      else isTracked ss name cname)"

definition cleanup_one ::
    "'r RegistryAdapter \<Rightarrow> Env \<Rightarrow> Service \<Rightarrow> 'r Bridge \<Rightarrow> 'r Bridge outcome" where
  "cleanup_one A E extService b =
     (case serviceIDMatch (sv_ID extService) of
        None \<Rightarrow> Done b
      | Some (serviceHostname, serviceContainerName) \<Rightarrow>
          if serviceHostname \<noteq> en_Hostname E then Done b
          else
            obind (isTracked (concat (map snd (entries (en_order E) (AtListing (sv_ID extService)) (br_services b))))
                     (sv_Name extService) serviceContainerName) (\<lambda>tracked.
              if tracked then Done b
              else obind (ra_Deregister A extService (br_registry b)) (\<lambda>(e, r).
                     Done (b\<lparr>br_registry := r\<rparr>))))"

definition cleanupServices ::
    "'r RegistryAdapter \<Rightarrow> Env \<Rightarrow> Service list \<Rightarrow> 'r Bridge \<Rightarrow> 'r Bridge outcome" where
  "cleanupServices A E danglingServices b = ofold (cleanup_one A E) danglingServices b"

text \<open>Lines 131-141: the body of the loop over the running containers.\<close>

definition sync_container ::
    "'r RegistryAdapter \<Rightarrow> SyncMessage \<Rightarrow> string \<Rightarrow> 'r Bridge \<times> task list \<Rightarrow> ('r Bridge \<times> task list) outcome" where
  "sync_container A message listing bt =
     (let (b, tasks) = bt; services = services_of b listing in
      if services = [] then Done (b, tasks @ [TaskAdd listing (sm_Quiet message) (sm_IP message)])
      else
        obind (reregisterAll A (sm_IP message) services (br_registry b)) (\<lambda>(services, r).
          Done (b\<lparr>br_registry := r, br_services := AList.update listing services (br_services b)\<rparr>, tasks)))"

text \<open>Lines 153-166: the containers that are tracked but do not exist any more.\<close>

definition stale :: "Env \<Rightarrow> string list \<Rightarrow> 'r Bridge \<Rightarrow> string list" where
  "stale E nonExited b =
     filter (\<lambda>cid. cid \<notin> set nonExited)
       (map fst (entries (en_order E) AtServices (br_services b)))"

definition serviceSync ::
    "'r RegistryAdapter \<Rightarrow> Env \<Rightarrow> SyncMessage \<Rightarrow> 'r Bridge \<Rightarrow> ('r Bridge \<times> task list) outcome" where
  "serviceSync A E message b =
     (case dk_ListContainers (en_docker E) RunningOnly of
        Inl e \<Rightarrow> if sm_Quiet message then Done (b, []) else Exit 1
      | Inr containers \<Rightarrow>
          obind (ofold (sync_container A message) containers (b, [])) (\<lambda>(b, tasks).
          if cf_Cleanup (br_config b) then
            (case dk_ListContainers (en_docker E) NonExited of
               Inl e \<Rightarrow> Done (b, tasks)
             | Inr nonExited \<Rightarrow>
                 let tasks = tasks @ map TaskRemoveOnExit (stale E nonExited b) in
                 obind (ra_Services A (br_registry b)) (\<lambda>((extServices, e), r).
                 let b = b\<lparr>br_registry := r\<rparr> in
                 if e \<noteq> None then Done (b, tasks)
                 else obind (cleanupServices A E extServices b) (\<lambda>b. Done (b, tasks))))
          else Done (b, tasks)))"

text \<open>
  One round of the loop of \<open>channelRun\<close>, with the counter of the global wait group; no message means
  that the channel was closed.  The result says whether the loop goes on.
\<close>

definition channelRun ::
    "'r RegistryAdapter \<Rightarrow> Env \<Rightarrow> SyncMessage option \<Rightarrow> nat \<Rightarrow> 'r Bridge \<Rightarrow>
     ('r Bridge \<times> task list \<times> nat \<times> bool) outcome" where
  "channelRun A E val wg b =
     (if wg \<noteq> 0 then Blocked
      else
        (let wg = wg + 1 in
         case val of
           None \<Rightarrow> Done (b, [], wg, False)
         | Some message \<Rightarrow>
             obind (acquire b) (\<lambda>b.
             obind (serviceSync A E message b) (\<lambda>(b, tasks).
             Done (release b, tasks, wg - 1, True)))))"

definition run_task :: "'r RegistryAdapter \<Rightarrow> Env \<Rightarrow> task \<Rightarrow> 'r Bridge \<Rightarrow> 'r Bridge outcome" where
  "run_task A E t b =
     (case t of
        TaskAdd cid quiet ip \<Rightarrow> add A E cid quiet ip b
      | TaskRemoveOnExit cid \<Rightarrow> RemoveOnExit A E cid b)"

section \<open>Re-registering a service\<close>

lemma reregisterService_ID:
  assumes "reregisterService A s ip r = Done (s', r')"
  shows "sv_ID s' = sv_ID s \<and> sv_Name s' = sv_Name s \<and> sv_Port s' = sv_Port s \<and>
    sp_container (sv_Origin s') = sp_container (sv_Origin s)"
  using assms by (auto simp: reregisterService_def Let_def split: if_splits)

lemma reregisterAll_length:
  "reregisterAll A ip ss r = Done (ss', r') \<Longrightarrow> length ss' = length ss"
  by (induction ss arbitrary: r ss' r') fastforce+

lemma reregisterAll_Nil [simp]: "reregisterAll A ip ss r = Done ([], r') \<longleftrightarrow> ss = [] \<and> r' = r"
  by (cases ss) auto

text \<open>The calls made when the address of the host changes, and when a plain resync is asked for.\<close>

lemma reregister_plain:
  "ra_Register A s r = Done (e, r') \<Longrightarrow> reregisterService A s [] r = Done (s, r')"
  by (simp add: reregisterService_def)

lemma reregister_same_ip: "ip \<noteq> [] \<Longrightarrow> sv_IP s = ip \<Longrightarrow> reregisterService A s ip r = Done (s, r)"
  by (simp add: reregisterService_def)

definition moved :: "string \<Rightarrow> Service \<Rightarrow> Service" where
  "moved ip s = s\<lparr>sv_IP := ip, sv_Origin := (sv_Origin s)\<lparr>sp_HostIP := ip\<rparr>\<rparr>"

lemma reregister_new_ip:
  assumes "ip \<noteq> []" and "sv_IP s \<noteq> ip" and "ra_Deregister A s r = Done (None, r1)"
    and "ra_Register A (moved ip s) r1 = Done (e, r2)"
  shows "reregisterService A s ip r = Done (moved ip s, r2)"
  using assms by (simp add: reregisterService_def moved_def Let_def)

lemma reregister_deregister_fails:
  assumes "ip \<noteq> []" and "sv_IP s \<noteq> ip" and "ra_Deregister A s r = Done (Some e, r1)"
  shows "reregisterService A s ip r = Done (s, r1)"
  using assms by (simp add: reregisterService_def)

lemma moved_IP [simp]: "sv_IP (moved ip s) = ip"
  by (simp add: moved_def)

section \<open>Dangling services\<close>

lemma isTracked_spec:
  "list_all origin_ok ss \<Longrightarrow>
   isTracked ss name cname = Done (list_ex (\<lambda>s. sv_Name s = name \<and> origin_name s = cname) ss)"
proof (induction ss)
  case (Cons s ss)
  then obtain c where c: "sp_container (sv_Origin s) = Some c" "c_Name c \<noteq> []"
    by (auto simp: origin_ok_def split: option.splits)
  then have "origin_name s = tl (c_Name c)" by (simp add: origin_name_def)
  with Cons c show ?case by simp
qed simp

text \<open>
  A registration is dangling when its identifier is one of this host and no tracked service has
  its name and its container.
\<close>

definition dangling :: "string \<Rightarrow> Service list gomap \<Rightarrow> Service \<Rightarrow> bool" where
  "dangling hostname services ext \<longleftrightarrow>
     (case serviceIDMatch (sv_ID ext) of
        None \<Rightarrow> False
      | Some (h, n) \<Rightarrow>
          h = hostname \<and>
          \<not> list_ex (\<lambda>(_, ss). list_ex (\<lambda>s. sv_Name s = sv_Name ext \<and> origin_name s = n) ss) services)"

lemma list_ex_entries:
  assumes "is_order ord" and "wf_map m"
  shows "list_ex P (concat (map snd (entries ord site m))) \<longleftrightarrow> list_ex (\<lambda>(_, ss). list_ex P ss) m"
proof -
  have "list_ex P (concat (map snd es)) \<longleftrightarrow> (\<exists>e\<in>set es. list_ex P (snd e))" for es :: "(string \<times> 'a list) list"
    by (induction es) auto
  then show ?thesis using set_entries [OF assms, of site] by (simp add: list_ex_iff split_def)
qed

lemma list_all_entries:
  assumes "is_order ord" and "wf_map m" and "list_all (\<lambda>(_, ss). list_all P ss) m"
  shows "list_all P (concat (map snd (entries ord site m)))"
  using set_entries [OF assms(1,2), of site] assms(3) by (fastforce simp: list_all_iff)

lemma cleanup_one_spec:
  assumes "is_order (en_order E)" and "wf_bridge b" and "lists_sat (list_all origin_ok) b"
  shows "cleanup_one A E ext b =
    (if dangling (en_Hostname E) (br_services b) ext then deregister_one A ext b else Done b)"
proof (cases "serviceIDMatch (sv_ID ext)")
  case None
  then show ?thesis by (simp add: cleanup_one_def dangling_def)
next
  case (Some hn)
  obtain h n where hn: "hn = (h, n)" by (cases hn)
  let ?ss = "concat (map snd (entries (en_order E) (AtListing (sv_ID ext)) (br_services b)))"
  have wf: "wf_map (br_services b)" using assms(2) by (simp add: wf_bridge_def)
  have "list_all origin_ok ?ss"
    using assms(1,3) wf by (intro list_all_entries) (auto simp: lists_sat_def)
  then have "isTracked ?ss (sv_Name ext) n =
      Done (list_ex (\<lambda>s. sv_Name s = sv_Name ext \<and> origin_name s = n) ?ss)"
    by (rule isTracked_spec)
  then show ?thesis
    using Some hn assms(1) wf
    by (simp add: cleanup_one_def dangling_def deregister_one_def list_ex_entries)
qed

lemma cleanupServices_simps:
  "cleanupServices A E [] b = Done b"
  "cleanupServices A E (ext # exts) b = obind (cleanup_one A E ext b) (cleanupServices A E exts)"
  by (simp_all add: cleanupServices_def [abs_def])

lemma deregisterAll_simps:
  "deregisterAll A [] b = Done b"
  "deregisterAll A (s # ss) b = obind (deregister_one A s b) (deregisterAll A ss)"
  by (simp_all add: deregisterAll_def [abs_def])

lemma cleanupServices_spec:
  assumes "is_order (en_order E)" and "wf_bridge b" and "lists_sat (list_all origin_ok) b"
  shows "cleanupServices A E exts b =
    deregisterAll A (filter (dangling (en_Hostname E) (br_services b)) exts) b"
  using assms(2,3)
proof (induction exts arbitrary: b)
  case Nil
  then show ?case by (simp add: cleanupServices_simps deregisterAll_simps)
next
  case (Cons ext exts)
  show ?case
  proof (cases "dangling (en_Hostname E) (br_services b) ext")
    case True
    have "obind (deregister_one A ext b) (cleanupServices A E exts) =
        obind (deregister_one A ext b)
          (deregisterAll A (filter (dangling (en_Hostname E) (br_services b)) exts))"
    proof (rule obind_cong [OF refl])
      fix b1
      assume "deregister_one A ext b = Done b1"
      then have "same_maps b b1" by (rule deregister_one_same) simp
      then show "cleanupServices A E exts b1 =
          deregisterAll A (filter (dangling (en_Hostname E) (br_services b)) exts) b1"
        using Cons.IH [of b1] Cons.prems by (simp add: same_mapsD lists_sat_def)
    qed
    with True Cons.prems show ?thesis
      by (simp add: cleanupServices_simps deregisterAll_simps cleanup_one_spec assms(1))
  next
    case False
    with Cons show ?thesis
      by (simp add: cleanupServices_simps cleanup_one_spec assms(1))
  qed
qed

section \<open>The loop over the running containers\<close>

text \<open>The same service, possibly at another address.\<close>

definition resited :: "Service \<Rightarrow> Service \<Rightarrow> bool" where
  "resited s s' \<longleftrightarrow> s' = s \<or> (\<exists>ip. s' = moved ip s)"

lemma moved_moved [simp]: "moved ip (moved ip' s) = moved ip s"
  by (simp add: moved_def)

lemma resited_refl [simp]: "resited s s"
  by (simp add: resited_def)

lemma resited_trans: "resited s t \<Longrightarrow> resited t u \<Longrightarrow> resited s u"
  by (auto simp: resited_def)

lemma resited_simps:
  "resited s s' \<Longrightarrow> sv_ID s' = sv_ID s"
  "resited s s' \<Longrightarrow> sv_Name s' = sv_Name s"
  "resited s s' \<Longrightarrow> origin_ok s' = origin_ok s"
  "resited s s' \<Longrightarrow> origin_name s' = origin_name s"
  by (auto simp: resited_def moved_def origin_ok_def origin_name_def)

lemma reregisterService_resited:
  "reregisterService A s ip r = Done (s', r') \<Longrightarrow> resited s s'"
  by (auto simp: reregisterService_def resited_def moved_def Let_def split: if_splits)

lemma reregisterAll_resited:
  "reregisterAll A ip ss r = Done (ss', r') \<Longrightarrow> list_all2 resited ss ss'"
  by (induction ss arbitrary: r ss' r') (fastforce dest: reregisterService_resited)+

text \<open>Two states of the bridge that differ in the registry and in the addresses of services at most.\<close>

definition synced_map :: "Service list gomap \<Rightarrow> Service list gomap \<Rightarrow> bool" where
  "synced_map m m' \<longleftrightarrow> list_all2 (\<lambda>(k, ss) (k', ss'). k' = k \<and> list_all2 resited ss ss') m m'"

definition synced :: "'r Bridge \<Rightarrow> 'r Bridge \<Rightarrow> bool" where
  "synced b b' \<longleftrightarrow>
     br_locked b' = br_locked b \<and> br_config b' = br_config b \<and>
     br_deadContainers b' = br_deadContainers b \<and> synced_map (br_services b) (br_services b')"

lemma synced_map_refl [simp]: "synced_map m m"
  by (auto simp: synced_map_def intro!: list.rel_refl)

lemma synced_map_trans:
  assumes "synced_map m1 m2" and "synced_map m2 m3"
  shows "synced_map m1 m3"
  using assms unfolding synced_map_def
  by (rule list_all2_trans [rotated]) (auto intro: list_all2_trans resited_trans)

lemma synced_refl [simp]: "synced b b"
  by (simp add: synced_def)

lemma synced_trans: "synced b1 b2 \<Longrightarrow> synced b2 b3 \<Longrightarrow> synced b1 b3"
  by (auto simp: synced_def intro: synced_map_trans)

lemma synced_registry [simp]: "synced b (b'\<lparr>br_registry := r\<rparr>) \<longleftrightarrow> synced b b'"
  by (simp add: synced_def)

lemma synced_map_keys: "synced_map m m' \<Longrightarrow> map fst m' = map fst m"
  unfolding synced_map_def by (induction m m' rule: list_all2_induct) auto

lemma synced_map_update:
  "map_of m k = Some ss \<Longrightarrow> list_all2 resited ss ss' \<Longrightarrow> synced_map m (AList.update k ss' m)"
  by (induction m) (auto simp: synced_map_def intro!: list.rel_refl)

lemma synced_map_of:
  assumes "synced_map m m'"
  shows "rel_option (list_all2 resited) (map_of m k) (map_of m' k)"
  using assms unfolding synced_map_def
  by (induction m m' rule: list_all2_induct) auto

lemma synced_services:
  assumes "synced b b'"
  shows "list_all2 resited (services_of b cid) (services_of b' cid)"
proof -
  have "rel_option (list_all2 resited) (map_of (br_services b) cid) (map_of (br_services b') cid)"
    using assms by (intro synced_map_of) (simp add: synced_def)
  then show ?thesis by (auto simp: services_of_def split: option.splits)
qed

lemma synced_tracked: "synced b b' \<Longrightarrow> services_of b' cid = [] \<longleftrightarrow> services_of b cid = []"
  using synced_services [of b b' cid] by auto

lemma synced_map_list_all:
  assumes "synced_map m m'" and "list_all (\<lambda>(_, ss). P ss) m"
    and "\<And>ss ss'. list_all2 resited ss ss' \<Longrightarrow> P ss \<Longrightarrow> P ss'"
  shows "list_all (\<lambda>(_, ss). P ss) m'"
  using assms(1,2) unfolding synced_map_def
  by (induction m m' rule: list_all2_induct) (auto intro: assms(3))

lemma synced_wf:
  assumes "synced b b'" and "wf_bridge b"
  shows "wf_bridge b'"
proof -
  have keys: "map fst (br_services b') = map fst (br_services b)"
    using assms(1) by (intro synced_map_keys) (simp add: synced_def)
  have dead: "br_deadContainers b' = br_deadContainers b" using assms(1) by (simp add: synced_def)
  have ne: "list_all (\<lambda>(_, ss). ss \<noteq> []) (br_services b')"
    by (rule synced_map_list_all [of "br_services b"]) (use assms in \<open>auto simp: synced_def wf_bridge_def\<close>)
  have on_keys: "list_all (\<lambda>(k, _). Q k) m \<longleftrightarrow> list_all Q (map fst m)" for Q and m :: "Service list gomap"
    by (simp add: list.pred_map comp_def split_def)
  show ?thesis
    using assms(2) keys dead ne unfolding wf_bridge_def wf_map_def on_keys by simp
qed

lemma synced_lists_sat:
  assumes "synced b b'" and "lists_sat P b" and "\<And>ss ss'. list_all2 resited ss ss' \<Longrightarrow> P ss \<Longrightarrow> P ss'"
  shows "lists_sat P b'"
proof -
  have "list_all (\<lambda>(_, ss). P ss) (br_services b')"
    by (rule synced_map_list_all [of "br_services b"]) (use assms in \<open>auto simp: synced_def lists_sat_def\<close>)
  with assms(1,2) show ?thesis by (simp add: synced_def lists_sat_def)
qed

text \<open>The body of the loop and the loop.\<close>

definition add_task :: "SyncMessage \<Rightarrow> string \<Rightarrow> task" where
  "add_task message cid = TaskAdd cid (sm_Quiet message) (sm_IP message)"

lemma sync_container_spec:
  assumes "sync_container A message cid (b, ts) = Done (b', ts')"
  shows "synced b b' \<and> ts' = ts @ (if services_of b cid = [] then [add_task message cid] else [])"
proof (cases "services_of b cid = []")
  case True
  with assms show ?thesis by (auto simp: sync_container_def add_task_def)
next
  case False
  then obtain ss where ss: "map_of (br_services b) cid = Some ss" "services_of b cid = ss"
    by (auto simp: services_of_def split: option.splits)
  from False assms obtain ss' r where
    rr: "reregisterAll A (sm_IP message) ss (br_registry b) = Done (ss', r)"
    and b': "b' = b\<lparr>br_registry := r, br_services := AList.update cid ss' (br_services b)\<rparr>" "ts' = ts"
    by (auto simp: sync_container_def ss)
  have "synced_map (br_services b) (AList.update cid ss' (br_services b))"
    using synced_map_update [OF ss(1) reregisterAll_resited [OF rr]] .
  with b' False show ?thesis by (simp add: synced_def)
qed

lemma sync_loop_spec:
  assumes "ofold (sync_container A message) cids (b, ts) = Done (b', ts')"
  shows "synced b b' \<and> ts' = ts @ map (add_task message) (filter (\<lambda>cid. services_of b cid = []) cids)"
  using assms
proof (induction cids arbitrary: b ts)
  case (Cons cid cids)
  then obtain b1 ts1 where s1: "sync_container A message cid (b, ts) = Done (b1, ts1)"
    and s2: "ofold (sync_container A message) cids (b1, ts1) = Done (b', ts')" by auto
  have "synced b b1" using sync_container_spec [OF s1] by blast
  then show ?case
    using sync_container_spec [OF s1] Cons.IH [OF s2]
    by (auto simp: synced_tracked intro: synced_trans)
qed simp

lemma stale_synced:
  assumes "synced b b'" and "is_order (en_order E)"
  shows "stale E nonExited b' = stale E nonExited b"
proof -
  have "map fst (br_services b') = map fst (br_services b)"
    using assms(1) by (intro synced_map_keys) (simp add: synced_def)
  then show ?thesis by (simp add: stale_def entries_keys [OF assms(2)])
qed

section \<open>A whole synchronisation\<close>

definition cleanup_tasks :: "Env \<Rightarrow> 'r Bridge \<Rightarrow> task list" where
  "cleanup_tasks E b =
     (if cf_Cleanup (br_config b) then
        (case dk_ListContainers (en_docker E) NonExited of
           Inl e \<Rightarrow> []
         | Inr nonExited \<Rightarrow> map TaskRemoveOnExit (stale E nonExited b))
      else [])"

definition sync_tasks :: "Env \<Rightarrow> SyncMessage \<Rightarrow> 'r Bridge \<Rightarrow> task list" where
  "sync_tasks E message b =
     (case dk_ListContainers (en_docker E) RunningOnly of
        Inl e \<Rightarrow> []
      | Inr containers \<Rightarrow>
          map (add_task message) (filter (\<lambda>cid. services_of b cid = []) containers) @ cleanup_tasks E b)"

lemma cleanupServices_same: "cleanupServices A E exts b = Done b' \<Longrightarrow> same_maps b b'"
  unfolding cleanupServices_def
  by (erule ofold_invariant) (auto simp: cleanup_one_def split: option.splits if_splits)

lemma synced_same: "synced b b1 \<Longrightarrow> same_maps b1 b2 \<Longrightarrow> synced b b2"
  by (simp add: synced_def same_mapsD)

lemma serviceSync_spec:
  assumes "is_order (en_order E)" and "serviceSync A E message b = Done (b', tasks)"
  shows "synced b b' \<and> tasks = sync_tasks E message b"
proof (cases "dk_ListContainers (en_docker E) RunningOnly")
  case (Inl e)
  with assms(2) show ?thesis by (simp add: serviceSync_def sync_tasks_def split: if_splits)
next
  case (Inr cids)
  with assms(2) obtain b1 ts1 where
    loop: "ofold (sync_container A message) cids (b, []) = Done (b1, ts1)" by (auto simp: serviceSync_def)
  note l = sync_loop_spec [OF loop]
  then have cfg: "br_config b1 = br_config b" by (simp add: synced_def)
  have stale: "stale E ne b1 = stale E ne b" for ne using stale_synced l assms(1) by blast
  have fin: "same_maps (b1\<lparr>br_registry := r\<rparr>) b2 \<Longrightarrow> synced b b2" for r b2
    using l synced_same [of b "b1\<lparr>br_registry := r\<rparr>" b2] by simp
  from assms(2) Inr loop show ?thesis
    using l cfg
    by (auto simp: serviceSync_def sync_tasks_def cleanup_tasks_def Let_def stale
        split: if_splits sum.splits dest!: cleanupServices_same intro: fin)
qed

lemma stale_iff:
  assumes "is_order (en_order E)" and "wf_bridge b"
  shows "cid \<in> set (stale E nonExited b) \<longleftrightarrow> services_of b cid \<noteq> [] \<and> cid \<notin> set nonExited"
  using assms services_of_eq_Nil [OF assms(2), of cid]
  by (auto simp: stale_def entries_keys is_order_set map_of_eq_None_iff image_iff)

section \<open>The calls of a synchronisation\<close>

text \<open>What a synchronisation with address \<open>ip\<close> asks of the registry for one service, and what it leaves.\<close>

definition resync_calls :: "string \<Rightarrow> Service \<Rightarrow> reg_call list" where
  "resync_calls ip s =
     (if ip = [] then [CallRegister s]
      else if sv_IP s = ip then []
      else [CallDeregister s, CallRegister (moved ip s)])"

definition resynced :: "string \<Rightarrow> Service \<Rightarrow> Service" where
  "resynced ip s = (if ip = [] \<or> sv_IP s = ip then s else moved ip s)"

text \<open>A registry that accepts every deregistration.\<close>

definition releases_all :: "'r RegistryAdapter \<Rightarrow> bool" where
  "releases_all A \<longleftrightarrow> (\<forall>s r e r'. ra_Deregister A s r = Done (e, r') \<longrightarrow> e = None)"

lemma reregisterService_calls:
  assumes "reregisterService (recording A) s ip r = Done (s', r')" and "releases_all A"
  shows "s' = resynced ip s \<and> snd r' = snd r @ resync_calls ip s"
proof -
  have "e = None" if "ra_Deregister A s (fst r) = Done (e, r1)" for e r1
    using assms(2) that unfolding releases_all_def by blast
  with assms(1) show ?thesis
    by (auto simp: reregisterService_def resynced_def resync_calls_def logged_eq_Done
        moved_def Let_def split: if_splits)
qed

lemma reregisterAll_calls:
  assumes "reregisterAll (recording A) ip ss r = Done (ss', r')" and "releases_all A"
  shows "ss' = map (resynced ip) ss \<and> snd r' = snd r @ concat (map (resync_calls ip) ss)"
  using assms(1)
proof (induction ss arbitrary: r ss')
  case (Cons s ss)
  from Cons.prems obtain s1 r1 ss1 where
    s1: "reregisterService (recording A) s ip r = Done (s1, r1)"
    and ss1: "reregisterAll (recording A) ip ss r1 = Done (ss1, r')" and ss': "ss' = s1 # ss1" by auto
  from reregisterService_calls [OF s1 assms(2)] Cons.IH [OF ss1] ss' show ?case by simp
qed simp

lemma sync_container_calls:
  assumes "sync_container (recording A) message cid (b, ts) = Done (b', ts')" and "releases_all A"
  shows "calls b' = calls b @ concat (map (resync_calls (sm_IP message)) (services_of b cid)) \<and>
    services_of b' k = (if k = cid then map (resynced (sm_IP message)) (services_of b cid) else services_of b k)"
  using assms(1)
  by (auto simp: sync_container_def Let_def split: if_splits dest!: reregisterAll_calls [OF _ assms(2)])

lemma sync_loop_calls:
  assumes "ofold (sync_container (recording A) message) cids (b, ts) = Done (b', ts')"
    and "releases_all A" and "distinct cids"
  shows "calls b' = calls b @ concat (map (\<lambda>cid. concat (map (resync_calls (sm_IP message)) (services_of b cid))) cids) \<and>
    (\<forall>k. services_of b' k =
       (if k \<in> set cids then map (resynced (sm_IP message)) (services_of b k) else services_of b k))"
  using assms(1,3)
proof (induction cids arbitrary: b ts)
  case (Cons cid cids)
  then obtain b1 ts1 where s1: "sync_container (recording A) message cid (b, ts) = Done (b1, ts1)"
    and s2: "ofold (sync_container (recording A) message) cids (b1, ts1) = Done (b', ts')" by auto
  note c1 = sync_container_calls [OF s1 assms(2)]
  have IH: "calls b' = calls b1 @ concat (map (\<lambda>k. concat (map (resync_calls (sm_IP message)) (services_of b1 k))) cids)"
    "services_of b' k = (if k \<in> set cids then map (resynced (sm_IP message)) (services_of b1 k)
       else services_of b1 k)" for k
    using Cons.IH [OF s2] Cons.prems(2) by auto
  have "map (\<lambda>k. concat (map (resync_calls (sm_IP message)) (services_of b1 k))) cids =
      map (\<lambda>k. concat (map (resync_calls (sm_IP message)) (services_of b k))) cids"
    using c1 Cons.prems(2) by (intro map_cong) auto
  then have "calls b' = calls b1 @ concat (map (\<lambda>k. concat (map (resync_calls (sm_IP message)) (services_of b k))) cids)"
    using IH(1) by (simp only:)
  moreover have "services_of b' k =
      (if k \<in> set (cid # cids) then map (resynced (sm_IP message)) (services_of b k) else services_of b k)" for k
    using IH(2) [of k] c1 [of k] Cons.prems(2) by auto
  ultimately show ?case using c1 by simp
qed auto

text \<open>Without cleanup, the whole synchronisation.\<close>

lemma serviceSync_calls:
  assumes "serviceSync (recording A) E message b = Done (b', tasks)"
    and "dk_ListContainers (en_docker E) RunningOnly = Inr cids" and "distinct cids"
    and "\<not> cf_Cleanup (br_config b)" and "releases_all A"
  shows "calls b' = calls b @ concat (map (\<lambda>cid. concat (map (resync_calls (sm_IP message)) (services_of b cid))) cids) \<and>
    (\<forall>k. services_of b' k =
       (if k \<in> set cids then map (resynced (sm_IP message)) (services_of b k) else services_of b k))"
proof -
  from assms(1,2) obtain b1 ts1 where
    loop: "ofold (sync_container (recording A) message) cids (b, []) = Done (b1, ts1)"
    by (auto simp: serviceSync_def)
  have "br_config b1 = br_config b" using sync_loop_spec [OF loop] by (simp add: synced_def)
  with assms(1,2,4) loop have "b' = b1" by (auto simp: serviceSync_def)
  with sync_loop_calls [OF loop assms(5,3)] show ?thesis by simp
qed

section \<open>The synchronisation goroutine keeps the laws of the bridge\<close>

definition sync_round :: "'r RegistryAdapter \<Rightarrow> Env \<Rightarrow> SyncMessage \<Rightarrow> 'r Bridge \<Rightarrow> 'r Bridge outcome" where
  "sync_round A E message b = obind (channelRun A E (Some message) 0 b) (\<lambda>(b, _). Done b)"

lemma channelRun_round:
  "channelRun A E (Some message) 0 b =
     obind (acquire b) (\<lambda>b. obind (serviceSync A E message b) (\<lambda>(b, tasks). Done (release b, tasks, 0, True)))"
  by (simp add: channelRun_def Let_def)

lemma serviceSync_synced: "serviceSync A E message b = Done (b', tasks) \<Longrightarrow> synced b b'"
proof (cases "dk_ListContainers (en_docker E) RunningOnly")
  case (Inr cids)
  assume s: "serviceSync A E message b = Done (b', tasks)"
  with Inr obtain b1 ts1 where
    loop: "ofold (sync_container A message) cids (b, []) = Done (b1, ts1)" by (auto simp: serviceSync_def)
  note l = sync_loop_spec [OF loop]
  have fin: "same_maps (b1\<lparr>br_registry := r\<rparr>) b2 \<Longrightarrow> synced b b2" for r b2
    using l synced_same [of b "b1\<lparr>br_registry := r\<rparr>" b2] by simp
  show ?thesis
    using s Inr loop l
    by (auto simp: serviceSync_def Let_def split: if_splits sum.splits
        dest!: cleanupServices_same intro: fin)
qed (simp add: serviceSync_def split: if_splits)

lemma sync_round_synced:
  assumes "sync_round A E message b = Done b'"
  shows "\<not> br_locked b \<and> synced b b' \<and> \<not> br_locked b'"
  using assms
  by (auto simp: sync_round_def channelRun_round synced_def dest!: serviceSync_synced)

interpretation sync: bridge_op "sync_round A E message" for A E message
  by unfold_locales
    (auto dest!: sync_round_synced intro: synced_wf simp: synced_def)

section \<open>More consequences\<close>

text \<open>The calls of a cleanup: exactly the dangling registrations are deregistered, in order.\<close>

lemma cleanupServices_calls:
  assumes "is_order (en_order E)" and "wf_bridge b" and "lists_sat (list_all origin_ok) b"
    and "cleanupServices (recording A) E exts b = Done b'"
  shows "calls b' = calls b @ map CallDeregister (filter (dangling (en_Hostname E) (br_services b)) exts) \<and>
    same_maps b b'"
  using assms(4) deregisterAll_calls cleanupServices_same [OF assms(4)]
  by (simp add: cleanupServices_spec [OF assms(1-3)])

text \<open>A registration that has the identifier and the name of a tracked service is not dangling.\<close>

lemma tracked_not_dangling:
  assumes "s \<in> set (services_of b cid)" and "sv_ID ext = sv_ID s" and "sv_Name ext = sv_Name s"
    and "serviceIDMatch (sv_ID s) = Some (h, origin_name s)"
  shows "\<not> dangling hostname (br_services b) ext"
proof -
  obtain ss where "(cid, ss) \<in> set (br_services b)" "s \<in> set ss"
    using assms(1) by (cases "map_of (br_services b) cid") (auto simp: services_of_def dest: map_of_SomeD)
  then have "list_ex (\<lambda>(_, ss). list_ex (\<lambda>t. sv_Name t = sv_Name s \<and> origin_name t = origin_name s) ss) (br_services b)"
    unfolding list_ex_iff by (intro bexI [of _ "(cid, ss)"]) auto
  with assms(2-4) show ?thesis by (simp add: dangling_def)
qed

text \<open>
  When the registration at the new address fails, the service stays deregistered: it is remembered
  at the new address, and synchronisations with that address make no call for it.
\<close>

lemma failed_move_sticks:
  assumes "ip \<noteq> []" and "sv_IP s \<noteq> ip"
    and "ra_Deregister A s r = Done (None, r1)" and "ra_Register A (moved ip s) r1 = Done (Some e, r2)"
  shows "reregisterService A s ip r = Done (moved ip s, r2) \<and>
    (\<forall>r. reregisterService A (moved ip s) ip r = Done (moved ip s, r))"
  using reregister_new_ip [OF assms] reregister_same_ip [OF assms(1), of "moved ip s" A] by simp

end
