(* ===== verification/Startup.thy ===== *)
theory Startup
  imports IpPattern ServiceSync
begin

text \<open>
  The process around the bridge: looking up the host address at an external source
  (\<open>bridge/util.go\<close>), and from \<open>registrator.go\<close> the validation of the command line, the loop that
  waits for the backend, \<open>resyncProcess\<close> and the reaction to Docker events.  HTTP responses, and the
  results of creating clients, are parameters.
\<close>

section \<open>Address lookup\<close>

text \<open>The two ways a lookup fails, and the body of a response that was read.\<close>

datatype lookup_result = GetFailed string | ReadFailed string | Body string

record IpLookup =
  il_address :: string
  il_retries :: int

definition SetExternalIPSource :: "string \<Rightarrow> IpLookup \<Rightarrow> IpLookup" where
  "SetExternalIPSource lookupAddress il = il\<lparr>il_address := lookupAddress\<rparr>"

definition SetIPLookupRetries :: "int \<Rightarrow> IpLookup \<Rightarrow> IpLookup" where
  "SetIPLookupRetries number il = il\<lparr>il_retries := number\<rparr>"

definition ShouldExitOnIPLookupFailure :: "'r Bridge \<Rightarrow> bool" where
  "ShouldExitOnIPLookupFailure b = cf_ExitOnIPLookupFailure (br_config b)"

definition ipRetryInterval :: int where
  "ipRetryInterval = 10"

text \<open>
  The loop of \<open>GetIPFromExternalSource\<close>.  \<open>get k\<close> is what attempt \<open>k\<close> gets; the seconds waited after
  failed attempts are returned too.
\<close>

function lookupLoop :: "(int \<Rightarrow> lookup_result) \<Rightarrow> int \<Rightarrow> int \<Rightarrow> int list \<Rightarrow> string \<times> int list" where
  "lookupLoop get retries attempt waits =
     (if attempt \<le> retries then
        (case get attempt of
           Body ip \<Rightarrow> (ip, waits)
         | _ \<Rightarrow> lookupLoop get retries (attempt + 1) (waits @ [ipRetryInterval * attempt]))
      else ([], waits))"
  by pat_completeness auto
termination
  by (relation "measure (\<lambda>(_, retries, attempt, _). nat (retries + 1 - attempt))") auto

declare lookupLoop.simps [simp del]

definition GetIPFromExternalSource ::
    "(string \<Rightarrow> int \<Rightarrow> lookup_result) \<Rightarrow> IpLookup \<Rightarrow> (string \<times> bool) \<times> int list" where
  "GetIPFromExternalSource get il =
     (let (ip, waits) = lookupLoop (get (il_address il)) (il_retries il) 1 [] in
      if length ip = 0 then (([], False), waits) else ((ip, True), waits))"

definition failed :: "lookup_result \<Rightarrow> bool" where
  "failed r \<longleftrightarrow> (case r of Body _ \<Rightarrow> False | _ \<Rightarrow> True)"

text \<open>The waiting times when attempts \<open>from\<close> up to \<open>k - 1\<close> fail.\<close>

definition waits_before :: "int \<Rightarrow> int \<Rightarrow> int list" where
  "waits_before start k = map (\<lambda>j. ipRetryInterval * j) [start..k - 1]"

lemma waits_before_Cons: "start < k \<Longrightarrow> waits_before start k = ipRetryInterval * start # waits_before (start + 1) k"
  by (simp add: waits_before_def upto.simps)

lemma waits_before_empty [simp]: "k \<le> start \<Longrightarrow> waits_before start k = []"
  by (simp add: waits_before_def)

lemma lookupLoop_success:
  assumes "start \<le> k" and "k \<le> retries" and "get k = Body ip" and "\<forall>j. start \<le> j \<and> j < k \<longrightarrow> failed (get j)"
  shows "lookupLoop get retries start ws = (ip, ws @ waits_before start k)"
  using assms
proof (induction get retries start ws rule: lookupLoop.induct)
  case (1 get retries attempt waits)
  show ?case
  proof (cases "attempt = k")
    case True
    with 1 show ?thesis by (simp add: lookupLoop.simps)
  next
    case False
    with 1 have "failed (get attempt)" "attempt < k" by auto
    with 1 show ?thesis
      by (cases "get attempt") (simp_all add: lookupLoop.simps [of _ _ attempt] waits_before_Cons failed_def)
  qed
qed

lemma lookupLoop_failure:
  assumes "\<forall>j. start \<le> j \<and> j \<le> retries \<longrightarrow> failed (get j)"
  shows "lookupLoop get retries start ws = ([], ws @ waits_before start (retries + 1))"
  using assms
proof (induction get retries start ws rule: lookupLoop.induct)
  case (1 get retries attempt waits)
  show ?case
  proof (cases "attempt \<le> retries")
    case True
    with 1 have "failed (get attempt)" by simp
    with 1 True show ?thesis
      by (cases "get attempt") (simp_all add: lookupLoop.simps [of _ _ attempt] waits_before_Cons failed_def)
  qed (simp add: lookupLoop.simps)
qed

section \<open>The command line\<close>

record Flags =
  fl_args :: "string list"
  fl_hostIp :: string
  fl_internal :: bool
  fl_useIpFromLabel :: string
  fl_refreshInterval :: int
  fl_refreshTtl :: int
  fl_forceTags :: string
  fl_resyncInterval :: int
  fl_deregister :: string
  fl_retryAttempts :: int
  fl_retryInterval :: int
  fl_cleanup :: bool
  fl_requireLabel :: bool
  fl_ipLookupSource :: string
  fl_ipLookupRetries :: int
  fl_exitOnIpLookupFailure :: bool

text \<open>Lines 119-132 of \<open>main\<close>: the address found at startup.\<close>

definition discover ::
    "(string \<Rightarrow> int \<Rightarrow> lookup_result) \<Rightarrow> Flags \<Rightarrow> IpLookup \<Rightarrow> (string \<times> IpLookup) outcome" where
  "discover get fl il =
     (if fl_ipLookupSource fl \<noteq> [] then
        (let il = SetExternalIPSource (fl_ipLookupSource fl) il;
             ((externalIPSource, success), _) = GetIPFromExternalSource get il in
         if \<not> success then Exit 2
         else if \<not> matchString ipRegEx externalIPSource then Done ([], il)
         else Done (externalIPSource, il))
      else Done ([], il))"

text \<open>
  Lines 87-172 of \<open>main\<close>: the checks of the command line in their order, and the configuration of
  the bridge.  \<open>dockerErr\<close> is the result of creating the Docker client.
\<close>

definition configure ::
    "(string \<Rightarrow> int \<Rightarrow> lookup_result) \<Rightarrow> err \<Rightarrow> Flags \<Rightarrow> IpLookup \<Rightarrow> (Config \<times> string \<times> IpLookup) outcome" where
  "configure get dockerErr fl il =
     (if length (fl_args fl) \<noteq> 1 then Exit 2
      else if fl_hostIp fl \<noteq> [] \<and> \<not> matchString ipRegEx (fl_hostIp fl) then Exit 2
      else if \<not> fl_ipLookupRetries fl > 0 then Exit 2
      else
        obind (discover get fl (SetIPLookupRetries (fl_ipLookupRetries fl) il)) (\<lambda>(discoveredIP, il).
        if fl_refreshTtl fl = 0 \<and> fl_refreshInterval fl > 0 \<or>
           fl_refreshTtl fl > 0 \<and> fl_refreshInterval fl = 0 then Exit 1
        else if fl_refreshTtl fl > 0 \<and> fl_refreshTtl fl \<le> fl_refreshInterval fl then Exit 1
        else if fl_retryInterval fl \<le> 0 then Exit 1
        else if dockerErr \<noteq> None then Exit 1
        else if fl_deregister fl \<noteq> ''always'' \<and> fl_deregister fl \<noteq> ''on-success'' then Exit 1
        else
          (let selectedIP = (if discoveredIP \<noteq> [] then discoveredIP else fl_hostIp fl) in
           Done (\<lparr>cf_HostIp = selectedIP, cf_Internal = fl_internal fl,
                  cf_UseIpFromLabel = fl_useIpFromLabel fl, cf_ForceTags = fl_forceTags fl,
                  cf_RefreshTtl = fl_refreshTtl fl, cf_RefreshInterval = fl_refreshInterval fl,
                  cf_DeregisterCheck = fl_deregister fl, cf_Cleanup = fl_cleanup fl,
                  cf_RequireLabel = fl_requireLabel fl,
                  cf_ExitOnIPLookupFailure = fl_exitOnIpLookupFailure fl\<rparr>,
                 discoveredIP, il))))"

section \<open>Waiting for the backend\<close>

text \<open>Lines 176-191 of \<open>main\<close>; \<open>None\<close> is a loop that does not end.\<close>

partial_function (option) pingLoop ::
    "('s \<Rightarrow> (err \<times> 's) outcome) \<Rightarrow> int \<Rightarrow> int \<Rightarrow> 's \<Rightarrow> 's outcome option" where
  "pingLoop ping retryAttempts attempt s =
     (if retryAttempts = - 1 \<or> attempt \<le> retryAttempts then
        (case ping s of
           Done (e, s') \<Rightarrow>
             if e = None then Some (Done s')
             else if attempt = retryAttempts then Some (Exit 1)
             else pingLoop ping retryAttempts (attempt + 1) s'
         | Blocked \<Rightarrow> Some Blocked
         | Panic p \<Rightarrow> Some (Panic p)
         | Exit n \<Rightarrow> Some (Exit n))
      else Some (Done s))"

declare pingLoop.simps [code]

definition waitForBackend :: "'r RegistryAdapter \<Rightarrow> Flags \<Rightarrow> 'r Bridge \<Rightarrow> 'r Bridge outcome option" where
  "waitForBackend A fl b = pingLoop (Ping A) (fl_retryAttempts fl) 0 b"

section \<open>Resynchronisation and Docker events\<close>

text \<open>
  \<open>resyncProcess\<close>, with the global \<open>discoveredIP\<close> passed along; it returns the messages it pushes
  on the channel of the bridge.
\<close>

definition Sync :: "bool \<Rightarrow> SyncMessage list" where
  "Sync quiet = [\<lparr>sm_Quiet = quiet, sm_IP = []\<rparr>]"

definition resyncProcess ::
    "(string \<Rightarrow> int \<Rightarrow> lookup_result) \<Rightarrow> IpLookup \<Rightarrow> 'r Bridge \<Rightarrow> string \<Rightarrow> string \<Rightarrow>
     (string \<times> SyncMessage list) outcome" where
  "resyncProcess get il b ipLookupSource discoveredIP =
     (if ipLookupSource \<noteq> [] then
        (let ((temporaryIP, success), _) = GetIPFromExternalSource get il in
         if \<not> success \<and> ShouldExitOnIPLookupFailure b then Exit 2
         else if success then
           (let discoveredIP = temporaryIP in
            if \<not> matchString ipRegEx discoveredIP then Done (discoveredIP, [])
            else Done (discoveredIP, [\<lparr>sm_Quiet = True, sm_IP = discoveredIP\<rparr>]))
         else Done (discoveredIP, []))
      else Done (discoveredIP, Sync True))"

text \<open>The event loop: a status other than start and die is ignored.\<close>

definition dockerEvent :: "string \<Rightarrow> string \<times> string \<Rightarrow> task list" where
  "dockerEvent discoveredIP msg =
     (let (status, id) = msg in
      if status = ''start'' then [TaskAdd id False discoveredIP]
      else if status = ''die'' then [TaskRemoveOnExit id]
      else [])"

section \<open>Facts about the lookup\<close>

text \<open>Whether the first attempt that is not a failure comes in time decides the result.\<close>

lemma first_success:
  fixes get :: "int \<Rightarrow> lookup_result"
  obtains (all_fail) "\<forall>j. 1 \<le> j \<and> j \<le> retries \<longrightarrow> failed (get j)"
  | (found) k ip where "1 \<le> k" "k \<le> retries" "get k = Body ip" "\<forall>j. 1 \<le> j \<and> j < k \<longrightarrow> failed (get j)"
proof (cases "\<exists>n :: nat. int n < retries \<and> \<not> failed (get (1 + int n))")
  case True
  define n where "n = (LEAST n. int n < retries \<and> \<not> failed (get (1 + int n)))"
  have n: "int n < retries" "\<not> failed (get (1 + int n))"
    using LeastI_ex [OF True] by (simp_all add: n_def)
  have "failed (get j)" if "1 \<le> j" "j < 1 + int n" for j
    using not_less_Least [of "nat (j - 1)" "\<lambda>n. int n < retries \<and> \<not> failed (get (1 + int n))"] that n(1)
    by (auto simp: n_def [symmetric])
  moreover obtain ip where "get (1 + int n) = Body ip"
    using n(2) by (auto simp: failed_def split: lookup_result.splits)
  ultimately show ?thesis using found [of "1 + int n" ip] n(1) by simp
next
  case False
  have "failed (get j)" if "1 \<le> j" "j \<le> retries" for j
  proof -
    have "int (nat (j - 1)) < retries" "1 + int (nat (j - 1)) = j" using that by auto
    with False show ?thesis by metis
  qed
  then show ?thesis using all_fail by blast
qed

lemma GetIP_found:
  assumes "1 \<le> k" and "k \<le> il_retries il" and "get (il_address il) k = Body ip"
    and "\<forall>j. 1 \<le> j \<and> j < k \<longrightarrow> failed (get (il_address il) j)"
  shows "GetIPFromExternalSource get il =
    ((if ip = [] then ([], False) else (ip, True)), waits_before 1 k)"
  using lookupLoop_success [OF assms, of "[]"] by (simp add: GetIPFromExternalSource_def)

lemma GetIP_failed:
  assumes "\<forall>j. 1 \<le> j \<and> j \<le> il_retries il \<longrightarrow> failed (get (il_address il) j)"
  shows "GetIPFromExternalSource get il = (([], False), waits_before 1 (il_retries il + 1))"
  using lookupLoop_failure [OF assms, of "[]"] by (simp add: GetIPFromExternalSource_def)

lemma GetIP_success_iff:
  "fst (GetIPFromExternalSource get il) = (ip, True) \<longleftrightarrow>
     ip \<noteq> [] \<and> (\<exists>k. 1 \<le> k \<and> k \<le> il_retries il \<and> get (il_address il) k = Body ip \<and>
       (\<forall>j. 1 \<le> j \<and> j < k \<longrightarrow> failed (get (il_address il) j)))"
proof (cases "il_retries il" "get (il_address il)" rule: first_success)
  case all_fail
  then show ?thesis by (auto simp: GetIP_failed failed_def)
next
  case (found k ip')
  have unique: "k' = k \<and> w = ip'" if "1 \<le> k'" "get (il_address il) k' = Body w"
    "\<forall>j. 1 \<le> j \<and> j < k' \<longrightarrow> failed (get (il_address il) j)" for k' w
  proof -
    have "\<not> failed (get (il_address il) k)" "\<not> failed (get (il_address il) k')"
      using found(3) that(2) by (simp_all add: failed_def)
    with found that have "k' = k" by (meson not_less_iff_gr_or_eq)
    with found that show ?thesis by simp
  qed
  have eq: "fst (GetIPFromExternalSource get il) = (ip, True) \<longleftrightarrow> ip \<noteq> [] \<and> ip = ip'"
    using GetIP_found [of k il get ip', OF found] by auto
  show ?thesis unfolding eq using found unique by blast
qed

section \<open>Facts about the command line\<close>

lemma configure_Done:
  assumes "configure get dockerErr fl il = Done (cfg, discoveredIP, il')"
  shows "cf_HostIp cfg = [] \<or> matchString ipRegEx (cf_HostIp cfg)"
    and "discoveredIP = [] \<or> matchString ipRegEx discoveredIP"
    and "cf_RefreshTtl cfg = 0 \<Longrightarrow> cf_RefreshInterval cfg \<le> 0"
    and "0 < cf_RefreshTtl cfg \<Longrightarrow> cf_RefreshInterval cfg \<noteq> 0 \<and> cf_RefreshInterval cfg < cf_RefreshTtl cfg"
    and "cf_DeregisterCheck cfg = ''always'' \<or> cf_DeregisterCheck cfg = ''on-success''"
    and "il_retries il' = fl_ipLookupRetries fl" and "0 < il_retries il'"
proof -
  from assms have args: "fl_hostIp fl = [] \<or> matchString ipRegEx (fl_hostIp fl)"
    "0 < fl_ipLookupRetries fl" by (auto simp: configure_def split: if_splits)
  from assms have d: "discover get fl (SetIPLookupRetries (fl_ipLookupRetries fl) il) = Done (discoveredIP, il')"
    and cfg: "cf_HostIp cfg = (if discoveredIP \<noteq> [] then discoveredIP else fl_hostIp fl)"
      "cf_RefreshTtl cfg = fl_refreshTtl fl" "cf_RefreshInterval cfg = fl_refreshInterval fl"
      "cf_DeregisterCheck cfg = fl_deregister fl"
    and checks: "\<not> (fl_refreshTtl fl = 0 \<and> fl_refreshInterval fl > 0 \<or> fl_refreshTtl fl > 0 \<and> fl_refreshInterval fl = 0)"
      "\<not> (fl_refreshTtl fl > 0 \<and> fl_refreshTtl fl \<le> fl_refreshInterval fl)"
      "fl_deregister fl = ''always'' \<or> fl_deregister fl = ''on-success''"
    by (auto simp: configure_def Let_def split: if_splits)
  from d show ip: "discoveredIP = [] \<or> matchString ipRegEx discoveredIP"
    by (auto simp: discover_def Let_def split: if_splits prod.splits)
  from d show "il_retries il' = fl_ipLookupRetries fl"
    by (auto simp: discover_def Let_def SetIPLookupRetries_def SetExternalIPSource_def
        split: if_splits prod.splits)
  then show "0 < il_retries il'" using args by simp
  show "cf_HostIp cfg = [] \<or> matchString ipRegEx (cf_HostIp cfg)" using cfg(1) ip args(1) by auto
  show "cf_RefreshTtl cfg = 0 \<Longrightarrow> cf_RefreshInterval cfg \<le> 0"
    "0 < cf_RefreshTtl cfg \<Longrightarrow> cf_RefreshInterval cfg \<noteq> 0 \<and> cf_RefreshInterval cfg < cf_RefreshTtl cfg"
    "cf_DeregisterCheck cfg = ''always'' \<or> cf_DeregisterCheck cfg = ''on-success''"
    using cfg checks by auto
qed

section \<open>Facts about the ping loop\<close>

text \<open>The state after \<open>n\<close> pings that all report an error.\<close>

fun after_failures :: "('s \<Rightarrow> (err \<times> 's) outcome) \<Rightarrow> nat \<Rightarrow> 's \<Rightarrow> 's option" where
  "after_failures ping 0 s = Some s"
| "after_failures ping (Suc n) s =
     (case ping s of Done (Some e, s') \<Rightarrow> after_failures ping n s' | _ \<Rightarrow> None)"

lemma after_failures_SucE:
  assumes "after_failures ping (Suc n) s = Some s1"
  obtains e s' where "ping s = Done (Some e, s')" and "after_failures ping n s' = Some s1"
  using assms by (auto split: outcome.splits prod.splits option.splits)

lemma pingLoop_success:
  assumes "after_failures ping n s = Some s1" and "ping s1 = Done (None, s2)"
    and "retryAttempts = - 1 \<and> 0 \<le> attempt \<or> attempt + int n \<le> retryAttempts"
  shows "pingLoop ping retryAttempts attempt s = Some (Done s2)"
  using assms
proof (induction n arbitrary: s attempt)
  case 0
  then show ?case by (auto simp: pingLoop.simps)
next
  case (Suc n)
  from Suc.prems(1) obtain e s' where s': "ping s = Done (Some e, s')"
    and rest: "after_failures ping n s' = Some s1" by (rule after_failures_SucE)
  have "attempt \<noteq> retryAttempts" using Suc.prems(3) by auto
  moreover have "pingLoop ping retryAttempts (attempt + 1) s' = Some (Done s2)"
    using Suc.prems(2,3) by (intro Suc.IH [OF rest]) auto
  ultimately show ?case using s' Suc.prems(3) by (subst pingLoop.simps) auto
qed

lemma pingLoop_gives_up:
  assumes "after_failures ping (Suc n) s = Some s1" and "attempt + int n = retryAttempts"
    and "retryAttempts \<noteq> - 1"
  shows "pingLoop ping retryAttempts attempt s = Some (Exit 1)"
  using assms
proof (induction n arbitrary: s attempt)
  case 0
  from 0(1) obtain e s' where "ping s = Done (Some e, s')" by (rule after_failures_SucE)
  with 0 show ?case by (subst pingLoop.simps) simp
next
  case (Suc n)
  from Suc.prems(1) obtain e s' where s': "ping s = Done (Some e, s')"
    and rest: "after_failures ping (Suc n) s' = Some s1" by (rule after_failures_SucE)
  have "pingLoop ping retryAttempts (attempt + 1) s' = Some (Exit 1)"
    using Suc.prems(2,3) by (intro Suc.IH [OF rest]) auto
  with s' Suc.prems show ?case by (subst pingLoop.simps) auto
qed

lemma pingLoop_skips: "retryAttempts < - 1 \<Longrightarrow> 0 \<le> attempt \<Longrightarrow> pingLoop ping retryAttempts attempt s = Some (Done s)"
  by (subst pingLoop.simps) simp

lemma pingLoop_returned:
  assumes "pingLoop ping retryAttempts attempt s = Some y"
  shows "retryAttempts = - 1 \<and> 0 \<le> attempt \<longrightarrow> (\<exists>n. after_failures ping n s = None)"
  using assms
proof (rule pingLoop.raw_induct [rotated])
  fix rec :: "('a \<Rightarrow> (err \<times> 'a) outcome) \<Rightarrow> int \<Rightarrow> int \<Rightarrow> 'a \<Rightarrow> 'a outcome option"
    and ping retryAttempts attempt s y
  assume IH: "\<And>ping retryAttempts attempt s y. rec ping retryAttempts attempt s = Some y \<Longrightarrow>
      retryAttempts = - 1 \<and> 0 \<le> attempt \<longrightarrow> (\<exists>n. after_failures ping n s = None)"
    and ret: "(if retryAttempts = - 1 \<or> attempt \<le> retryAttempts then
        (case ping s of
           Done (e, s') \<Rightarrow>
             if e = None then Some (Done s')
             else if attempt = retryAttempts then Some (Exit 1)
             else rec ping retryAttempts (attempt + 1) s'
         | Blocked \<Rightarrow> Some Blocked
         | Panic p \<Rightarrow> Some (Panic p)
         | Exit n \<Rightarrow> Some (Exit n))
      else Some (Done s)) = Some y"
  show "retryAttempts = - 1 \<and> 0 \<le> attempt \<longrightarrow> (\<exists>n. after_failures ping n s = None)"
  proof
    assume r: "retryAttempts = - 1 \<and> 0 \<le> attempt"
    show "\<exists>n. after_failures ping n s = None"
    proof (cases "\<exists>e s'. ping s = Done (Some e, s')")
      case True
      then obtain e s' where s': "ping s = Done (Some e, s')" by auto
      with ret r have "rec ping retryAttempts (attempt + 1) s' = Some y" by simp
      with IH [of ping retryAttempts "attempt + 1" s' y] r
      obtain n where "after_failures ping n s' = None" by auto
      with s' show ?thesis by (intro exI [of _ "Suc n"]) simp
    next
      case False
      then show ?thesis
        by (intro exI [of _ "Suc 0"]) (auto split: outcome.splits option.splits)
    qed
  qed
qed

end
