(* ===== verification/System.thy ===== *)
theory System
  imports Startup
begin

text \<open>
  The running process as a state machine: the bridge, the address found last, the goroutines that
  have been started and have not run yet, and the messages pushed to the synchronisation channel.
  A step is a Docker event, a tick of one of the timers, a round of the synchronisation goroutine,
  or the run of one waiting goroutine, in any order.  Every step sees the surroundings (the Docker
  daemon, DNS, map order) anew, and a run of an operation of the bridge is one step.

  The invariant of all reachable states, and what happens once the mutex is left held, are proved
  by induction over the steps.
\<close>

section \<open>Steps\<close>

record 'r System =
  sys_bridge :: "'r Bridge"
  sys_ip :: string
  sys_tasks :: "task list"
  sys_messages :: "SyncMessage list"

datatype event =
    DockerEvent string string
  | PruneTick
  | RefreshTick
  | ResyncTick
  | SyncRound
  | RunTask task

text \<open>What is assumed of the surroundings: map order visits each key once, Docker answers by identifier.\<close>

definition env_ok :: "Env \<Rightarrow> bool" where
  "env_ok E \<longleftrightarrow> is_order (en_order E) \<and> inspects_by_id E"

inductive sys_step ::
    "'r RegistryAdapter \<Rightarrow> IpLookup \<Rightarrow> string \<Rightarrow> 'r System \<Rightarrow> event \<Rightarrow> 'r System \<Rightarrow> bool"
  for A :: "'r RegistryAdapter" and il :: IpLookup and source :: string where
  docker:
    "sys_step A il source s (DockerEvent status cid)
       (s\<lparr>sys_tasks := sys_tasks s @ dockerEvent (sys_ip s) (status, cid)\<rparr>)"
| prune_tick:
    "env_ok E \<Longrightarrow> PruneDeadContainers E (sys_bridge s) = Done b \<Longrightarrow>
     sys_step A il source s PruneTick (s\<lparr>sys_bridge := b\<rparr>)"
| refresh_tick:
    "env_ok E \<Longrightarrow> Refresh A E (sys_bridge s) = Done b \<Longrightarrow>
     sys_step A il source s RefreshTick (s\<lparr>sys_bridge := b\<rparr>)"
| resync_tick:
    "resyncProcess get il (sys_bridge s) source (sys_ip s) = Done (ip, ms) \<Longrightarrow>
     sys_step A il source s ResyncTick (s\<lparr>sys_ip := ip, sys_messages := sys_messages s @ ms\<rparr>)"
| sync_message:
    "env_ok E \<Longrightarrow> sys_messages s = m # ms \<Longrightarrow>
     channelRun A E (Some m) 0 (sys_bridge s) = Done (b, ts, wg, True) \<Longrightarrow>
     sys_step A il source s SyncRound
       (s\<lparr>sys_bridge := b, sys_messages := ms, sys_tasks := sys_tasks s @ ts\<rparr>)"
| run_goroutine:
    "env_ok E \<Longrightarrow> sys_tasks s = xs @ t # ys \<Longrightarrow> run_task A E t (sys_bridge s) = Done b \<Longrightarrow>
     sys_step A il source s (RunTask t) (s\<lparr>sys_bridge := b, sys_tasks := xs @ ys\<rparr>)"

inductive_cases docker_stepE: "sys_step A il source s (DockerEvent status cid) s'"
inductive_cases prune_stepE: "sys_step A il source s PruneTick s'"
inductive_cases refresh_stepE: "sys_step A il source s RefreshTick s'"
inductive_cases sync_stepE: "sys_step A il source s SyncRound s'"
inductive_cases run_stepE: "sys_step A il source s (RunTask t) s'"

inductive_simps docker_step_iff: "sys_step A il source s (DockerEvent status cid) s'"

inductive sys_run ::
    "'r RegistryAdapter \<Rightarrow> IpLookup \<Rightarrow> string \<Rightarrow> 'r System \<Rightarrow> event list \<Rightarrow> 'r System \<Rightarrow> bool"
  for A :: "'r RegistryAdapter" and il :: IpLookup and source :: string where
  run_nil: "sys_run A il source s [] s"
| run_cons: "sys_step A il source s e s1 \<Longrightarrow> sys_run A il source s1 es s2 \<Longrightarrow> sys_run A il source s (e # es) s2"

text \<open>The state when \<open>main\<close> enters its event loop: an empty bridge and the first message.\<close>

definition new_bridge :: "'r \<Rightarrow> Config \<Rightarrow> 'r Bridge" where
  "new_bridge r cfg = \<lparr>br_locked = False, br_registry = r, br_services = [], br_deadContainers = [], br_config = cfg\<rparr>"

definition sys_init :: "'r \<Rightarrow> Config \<Rightarrow> string \<Rightarrow> 'r System" where
  "sys_init r cfg discoveredIP =
     \<lparr>sys_bridge = new_bridge r cfg, sys_ip = discoveredIP, sys_tasks = [],
      sys_messages = [\<lparr>sm_Quiet = False, sm_IP = cf_HostIp cfg\<rparr>]\<rparr>"

section \<open>The invariant\<close>

text \<open>What every kept list of services looks like: exactly one service, made by \<open>newService\<close>.\<close>

definition one_service :: "Service list \<Rightarrow> bool" where
  "one_service ss \<longleftrightarrow> length ss = 1 \<and> list_all origin_ok ss"

definition bridge_inv :: "Config \<Rightarrow> 'r Bridge \<Rightarrow> bool" where
  "bridge_inv cfg b \<longleftrightarrow> wf_bridge b \<and> lists_sat one_service b \<and> br_config b = cfg"

lemma one_service_resited:
  assumes "list_all2 resited ss ss'" and "one_service ss"
  shows "one_service ss'"
  using assms by (induction ss ss' rule: list_all2_induct) (auto simp: one_service_def resited_simps)

lemma one_service_new: "origin_ok s \<Longrightarrow> one_service [s]"
  by (simp add: one_service_def)

lemma add_config: "add A E cid quiet ip b = Done b' \<Longrightarrow> br_config b' = br_config b"
proof -
  assume add: "add A E cid quiet ip b = Done b'"
  then obtain b1 where b1: "deleteDeadContainer cid b = Done b1" by (auto simp: add_def)
  have "br_config b1 = br_config b" "\<not> br_locked b1" using deleteDeadContainer_Done [OF b1] by auto
  with add b1 show ?thesis
    by (auto simp: add_def Let_def registered_def dest!: registered_ports [rotated]
        split: if_splits sum.splits)
qed

lemma inv_run_task:
  assumes "env_ok E" and "run_task A E t b = Done b'" and "bridge_inv cfg b"
  shows "bridge_inv cfg b'"
proof (cases t)
  case (TaskAdd cid quiet ip)
  with assms show ?thesis
    by (auto simp: run_task_def bridge_inv_def env_ok_def
        intro: add_wf lists_sat_add one_service_new dest: add_config)
next
  case (TaskRemoveOnExit cid)
  with assms show ?thesis
    by (auto simp: run_task_def bridge_inv_def RemoveOnExit_def
        intro: lists_sat_remove dest: remove_laws)
qed

lemma inv_synced: "synced b b' \<Longrightarrow> bridge_inv cfg b \<Longrightarrow> bridge_inv cfg b'"
  using synced_wf [of b b'] synced_lists_sat [of b b' one_service] one_service_resited
  by (auto simp: bridge_inv_def) (simp_all add: synced_def)

lemma inv_step:
  assumes "sys_step A il source s e s'" and "bridge_inv cfg (sys_bridge s)"
  shows "bridge_inv cfg (sys_bridge s')"
  using assms
proof (induction rule: sys_step.induct)
  case (prune_tick E s b)
  then show ?case
    by (auto simp: bridge_inv_def prune.keeps_config intro: PruneDeadContainers_wf lists_sat_prune)
next
  case (refresh_tick E s b)
  then show ?case
    by (auto simp: bridge_inv_def same_mapsD lists_sat_same_maps dest!: Refresh_same)
next
  case (sync_message E s m ms b ts wg)
  then have "sync_round A E m (sys_bridge s) = Done b" by (simp add: sync_round_def)
  with sync_message show ?case by (auto dest: sync_round_synced intro: inv_synced)
next
  case (run_goroutine E s xs t ys b)
  then show ?case by (auto intro: inv_run_task)
qed simp_all

lemma inv_init: "bridge_inv cfg (sys_bridge (sys_init r cfg ip))"
  by (simp add: bridge_inv_def sys_init_def new_bridge_def wf_bridge_def lists_sat_def)

lemma inv_run:
  assumes "sys_run A il source s es s'" and "bridge_inv cfg (sys_bridge s)"
  shows "bridge_inv cfg (sys_bridge s')"
  using assms by (induction rule: sys_run.induct) (auto intro: inv_step)

text \<open>The invariant, as seen from a container: at most one service, tracked or dead but not both.\<close>

lemma inv_container:
  assumes "bridge_inv cfg b"
  shows "length (held_services b cid) \<le> 1"
proof -
  have wf: "wf_bridge b" and sat: "lists_sat one_service b" using assms by (auto simp: bridge_inv_def)
  show ?thesis
  proof (cases "map_of (br_deadContainers b) cid")
    case None
    then show ?thesis
      using lists_sat_services [OF sat, of cid]
      by (cases "services_of b cid = []") (auto simp: held_services_def one_service_def)
  next
    case (Some d)
    then have "map_of (br_services b) cid = None" using wf by (auto simp: wf_bridge_alt)
    moreover have "one_service (dd_Services d)"
      using sat map_of_SomeD [OF Some] by (auto simp: lists_sat_iff)
    ultimately show ?thesis using Some by (simp add: held_services_def services_of_def one_service_def)
  qed
qed

section \<open>A mutex that stays held\<close>

text \<open>Steps that go through while the mutex of the bridge is held: those that do not touch it.\<close>

definition lock_free_event :: "event \<Rightarrow> bool" where
  "lock_free_event e \<longleftrightarrow> (case e of DockerEvent _ _ \<Rightarrow> True | ResyncTick \<Rightarrow> True | _ \<Rightarrow> False)"

lemma run_task_held: "br_locked b \<Longrightarrow> run_task A E t b \<noteq> Done b'"
  by (cases t) (auto simp: run_task_def add_blocked dest: remove_on_exit.ran_unlocked)

lemma held_step:
  assumes "sys_step A il source s e s'" and "br_locked (sys_bridge s)"
  shows "lock_free_event e \<and> sys_bridge s' = sys_bridge s \<and> length (sys_tasks s) \<le> length (sys_tasks s')"
  using assms
proof (induction rule: sys_step.induct)
  case (docker s status cid)
  then show ?case by (simp add: lock_free_event_def)
next
  case (prune_tick E s b)
  then show ?case by (auto dest: prune.ran_unlocked)
next
  case (refresh_tick E s b)
  then show ?case by (auto dest: refresh.ran_unlocked)
next
  case (resync_tick get s ip ms)
  then show ?case by (simp add: lock_free_event_def)
next
  case (sync_message E s m ms b ts wg)
  then show ?case by (simp add: channelRun_round)
next
  case (run_goroutine E s xs t ys b)
  then show ?case using run_task_held by blast
qed

text \<open>From there on nothing happens to the bridge, and the goroutines pile up.\<close>

lemma held_run:
  assumes "sys_run A il source s es s'" and "br_locked (sys_bridge s)"
  shows "list_all lock_free_event es \<and> sys_bridge s' = sys_bridge s \<and>
    length (sys_tasks s) \<le> length (sys_tasks s')"
  using assms
proof (induction rule: sys_run.induct)
  case (run_cons s e s1 es s2)
  then have "lock_free_event e \<and> sys_bridge s1 = sys_bridge s \<and> length (sys_tasks s) \<le> length (sys_tasks s1)"
    using held_step by blast
  with run_cons show ?case by auto
qed simp

text \<open>Running the add goroutine of a container that is known takes the system there.\<close>

lemma add_known_step:
  assumes "sys_step A il source s (RunTask (TaskAdd cid quiet ip)) s'"
    and "bridge_inv cfg (sys_bridge s)" and "known (sys_bridge s) cid"
  shows "br_locked (sys_bridge s')"
proof -
  from assms(1) obtain E b where b: "add A E cid quiet ip (sys_bridge s) = Done b" "sys_bridge s' = b"
    by (elim run_stepE) (auto simp: run_task_def)
  have free: "\<not> br_locked (sys_bridge s)" using b(1) add_blocked by fastforce
  have wf: "wf_bridge (sys_bridge s)" using assms(2) by (simp add: bridge_inv_def)
  have "12 \<le> length cid"
  proof (rule ccontr)
    assume "\<not> 12 \<le> length cid"
    with assms(3) wf free b(1) show False
      by (auto simp: add_def deleteDeadContainer_free known_def log_id_cases wf_bridge_alt split: option.splits)
  qed
  with add_known [OF free wf assms(3)] b show ?thesis by (metis outcome.inject(1))
qed

end
