(* ===== verification/Extpoints.thy ===== *)
theory Extpoints
  imports System
begin

text \<open>
  The registry of adapter factories: the extension points of \<open>bridge/extpoints.go\<close>, the
  registrations that the adapter packages make when they are loaded (\<open>modules.go\<close> and the \<open>init\<close>
  functions), and \<open>New\<close> of \<open>bridge/bridge.go\<close>, which picks the factory by the scheme of the URI.

  Reflection is a parameter: the type name of a component and whether it implements an interface.
\<close>

section \<open>Extension points\<close>

record 'c extensionPoint =
  ep_iface :: string
  ep_components :: "'c gomap"

definition newExtensionPoint ::
    "string \<Rightarrow> 'c extensionPoint gomap \<Rightarrow> 'c extensionPoint gomap" where
  "newExtensionPoint iface reg = AList.update iface \<lparr>ep_iface = iface, ep_components = []\<rparr> reg"

definition ep_lookup :: "string \<Rightarrow> 'c extensionPoint \<Rightarrow> 'c option" where
  "ep_lookup name ep = map_of (ep_components ep) name"

definition ep_all :: "order \<Rightarrow> 'c extensionPoint \<Rightarrow> 'c gomap" where
  "ep_all ord ep = fold (\<lambda>(k, v). AList.update k v) (entries ord AtServices (ep_components ep)) []"

definition ep_register ::
    "('c \<Rightarrow> string) \<Rightarrow> 'c \<Rightarrow> string \<Rightarrow> 'c extensionPoint \<Rightarrow> bool \<times> 'c extensionPoint" where
  "ep_register typeName component name ep =
     (let name = (if name = [] then typeName component else name) in
      if map_of (ep_components ep) name \<noteq> None then (False, ep)
      else (True, ep\<lparr>ep_components := AList.update name component (ep_components ep)\<rparr>))"

definition ep_unregister :: "string \<Rightarrow> 'c extensionPoint \<Rightarrow> bool \<times> 'c extensionPoint" where
  "ep_unregister name ep =
     (if map_of (ep_components ep) name = None then (False, ep)
      else (True, ep\<lparr>ep_components := AList.delete name (ep_components ep)\<rparr>))"

text \<open>The names of the extension points whose interface the component implements.\<close>

definition implements ::
    "order \<Rightarrow> ('c \<Rightarrow> string \<Rightarrow> bool) \<Rightarrow> 'c \<Rightarrow> 'c extensionPoint gomap \<Rightarrow> string list" where
  "implements ord impl component reg =
     map fst (filter (\<lambda>(name, ep). impl component (ep_iface ep)) (entries ord AtServices reg))"

text \<open>\<open>Register\<close> returns the interfaces it registered the component under.\<close>

definition register_iface ::
    "('c \<Rightarrow> string) \<Rightarrow> 'c \<Rightarrow> string \<Rightarrow> string \<Rightarrow> string list \<times> 'c extensionPoint gomap \<Rightarrow>
     string list \<times> 'c extensionPoint gomap" where
  "register_iface typeName component name iface acc =
     (let (ifaces, reg) = acc in
      case map_of reg iface of
        None \<Rightarrow> acc
      | Some ep \<Rightarrow>
          let (ok, ep') = ep_register typeName component name ep in
          (if ok then ifaces @ [iface] else ifaces, AList.update iface ep' reg))"

definition Register ::
    "order \<Rightarrow> ('c \<Rightarrow> string \<Rightarrow> bool) \<Rightarrow> ('c \<Rightarrow> string) \<Rightarrow> 'c \<Rightarrow> string \<Rightarrow> 'c extensionPoint gomap \<Rightarrow>
     string list \<times> 'c extensionPoint gomap" where
  "Register ord impl typeName component name reg =
     fold (register_iface typeName component name) (implements ord impl component reg) ([], reg)"

definition unregister_iface ::
    "string \<Rightarrow> string \<times> 'c extensionPoint \<Rightarrow> string list \<times> 'c extensionPoint gomap \<Rightarrow>
     string list \<times> 'c extensionPoint gomap" where
  "unregister_iface name e acc =
     (let (iface, ep) = e; (ifaces, reg) = acc; (ok, ep') = ep_unregister name ep in
      (if ok then ifaces @ [iface] else ifaces, AList.update iface ep' reg))"

definition Unregister :: "order \<Rightarrow> string \<Rightarrow> 'c extensionPoint gomap \<Rightarrow> string list \<times> 'c extensionPoint gomap" where
  "Unregister ord name reg = fold (unregister_iface name) (entries ord AtServices reg) ([], reg)"

section \<open>Adapter factories\<close>

datatype factory =
    ConsulFactory
  | ConsulKVFactory
  | EtcdFactory
  | EurekaFactory
  | Skydns2Factory
  | ZookeeperFactory

text \<open>
  The \<open>init\<close> functions of the packages that \<open>modules.go\<close> imports, in that order.  Every factory
  implements the one interface there is.
\<close>

definition init_registrations :: "(factory \<times> string) list" where
  "init_registrations =
     [(ConsulFactory, ''consul''), (ConsulFactory, ''consul-tls''), (ConsulFactory, ''consul-unix''),
      (ConsulKVFactory, ''consulkv''), (ConsulKVFactory, ''consulkv-unix''),
      (EtcdFactory, ''etcd''), (EurekaFactory, ''eureka''), (Skydns2Factory, ''skydns2''),
      (ZookeeperFactory, ''zookeeper'')]"

definition loadModules :: "order \<Rightarrow> factory extensionPoint gomap" where
  "loadModules ord =
     fold (\<lambda>(f, name) reg. snd (Register ord (\<lambda>_ iface. iface = ''AdapterFactory'') (\<lambda>_. ''Factory'') f name reg))
       init_registrations (newExtensionPoint ''AdapterFactory'' [])"

text \<open>\<open>AdapterFactories.Lookup\<close>.\<close>

definition Lookup :: "string \<Rightarrow> factory extensionPoint gomap \<Rightarrow> factory option" where
  "Lookup name reg =
     (case map_of reg ''AdapterFactory'' of None \<Rightarrow> None | Some ep \<Rightarrow> ep_lookup name ep)"

text \<open>The other methods of \<open>adapterFactoryExt\<close>, on the extension point it embeds.\<close>

definition factories_Register ::
    "(factory \<Rightarrow> string) \<Rightarrow> factory \<Rightarrow> string \<Rightarrow> factory extensionPoint \<Rightarrow> bool \<times> factory extensionPoint" where
  "factories_Register typeName component name ep = ep_register typeName component name ep"

definition factories_Unregister :: "string \<Rightarrow> factory extensionPoint \<Rightarrow> bool \<times> factory extensionPoint" where
  "factories_Unregister name ep = ep_unregister name ep"

definition factories_All :: "order \<Rightarrow> factory extensionPoint \<Rightarrow> factory gomap" where
  "factories_All ord ep = fold (\<lambda>(k, v). AList.update k v) (entries ord AtCopy (ep_all ord ep)) []"

text \<open>
  \<open>New\<close>.  \<open>scheme\<close> is the scheme of the parsed URI, \<open>None\<close> when the URI does not parse; \<open>factoryNew\<close> runs the
  factory.  The synchronisation goroutine is started with an empty channel.
\<close>

datatype new_error = BadAdapterUri string | UnrecognizedAdapter string

definition New ::
    "factory extensionPoint gomap \<Rightarrow> (factory \<Rightarrow> 'r outcome) \<Rightarrow> string option \<Rightarrow> string \<Rightarrow> Config \<Rightarrow>
     (new_error + 'r Bridge) outcome" where
  "New reg factoryNew scheme adapterUri config =
     (case scheme of
        None \<Rightarrow> Done (Inl (BadAdapterUri adapterUri))
      | Some s \<Rightarrow>
          (case Lookup s reg of
             None \<Rightarrow> Done (Inl (UnrecognizedAdapter adapterUri))
           | Some f \<Rightarrow> obind (factoryNew f) (\<lambda>r. Done (Inr (new_bridge r config)))))"

section \<open>Facts\<close>

text \<open>The table of schemes.\<close>

definition scheme_factory :: "string \<Rightarrow> factory option" where
  "scheme_factory s = map_of (map (\<lambda>(f, n). (n, f)) init_registrations) s"

text \<open>Registering under a name that is free makes the component the answer to that name alone.\<close>

lemma ep_register_lookup:
  assumes "ep_register typeName c name ep = (ok, ep')" and "name \<noteq> []"
  shows "ok \<longleftrightarrow> ep_lookup name ep = None"
    and "ep_lookup k ep' = (if k = name \<and> ok then Some c else ep_lookup k ep)"
  using assms
  by (auto simp: ep_register_def ep_lookup_def Let_def gomap_simps split: if_splits)

lemma ep_unregister_lookup:
  assumes "ep_unregister name ep = (ok, ep')"
  shows "ok \<longleftrightarrow> ep_lookup name ep \<noteq> None" and "ep_lookup k ep' = (if k = name then None else ep_lookup k ep)"
  using assms by (auto simp: ep_unregister_def ep_lookup_def gomap_simps split: if_splits)

text \<open>Listing the factories gives a map with the same entries.\<close>

lemma ep_all_entries:
  assumes "is_order ord" and "wf_map (ep_components ep)"
  shows "ep_all ord ep = entries ord AtServices (ep_components ep)"
  using fold_update_copy [of "entries ord AtServices (ep_components ep)" "[]"] distinct_entries [OF assms]
  by (simp add: ep_all_def)

lemma factories_All_lookup:
  assumes "is_order ord" and "wf_map (ep_components ep)"
  shows "map_of (factories_All ord ep) name = ep_lookup name ep"
proof -
  have wf: "wf_map (ep_all ord ep)"
    using distinct_entries [OF assms] by (simp add: ep_all_entries [OF assms] wf_map_def)
  have "factories_All ord ep = entries ord AtCopy (ep_all ord ep)"
    using fold_update_copy [of "entries ord AtCopy (ep_all ord ep)" "[]"] distinct_entries [OF assms(1) wf]
    by (simp add: factories_All_def)
  then show ?thesis using assms wf by (simp add: ep_all_entries ep_lookup_def)
qed

text \<open>With one extension point, \<open>Register\<close> is the registration there.\<close>

definition one_point :: "factory gomap \<Rightarrow> factory extensionPoint gomap" where
  "one_point m = [(''AdapterFactory'', \<lparr>ep_iface = ''AdapterFactory'', ep_components = m\<rparr>)]"

lemma Register_one_point:
  assumes "is_order ord" and "name \<noteq> []" and "map_of m name = None"
  shows "snd (Register ord (\<lambda>_ iface. iface = ''AdapterFactory'') tn f name (one_point m)) =
    one_point (AList.update name f m)"
proof -
  have "wf_map (one_point m)" by (simp add: wf_map_def one_point_def)
  then have "mset (entries ord AtServices (one_point m)) = mset (one_point m)"
    using mset_entries [OF assms(1)] by blast
  then have "entries ord AtServices (one_point m) = one_point m" by (simp add: one_point_def)
  then have "implements ord (\<lambda>_ iface. iface = ''AdapterFactory'') f (one_point m) = [''AdapterFactory'']"
    unfolding implements_def by (simp add: one_point_def)
  then show ?thesis
    using assms(2,3) by (simp add: Register_def register_iface_def one_point_def ep_register_def Let_def)
qed

lemma loadModules_one_point:
  assumes "is_order ord"
  shows "loadModules ord = one_point (map (\<lambda>(f, n). (n, f)) init_registrations)"
proof -
  have "fold (\<lambda>(f, name) reg. snd (Register ord (\<lambda>_ iface. iface = ''AdapterFactory'') (\<lambda>_. ''Factory'') f name reg))
      rs (one_point m) = one_point (m @ map (\<lambda>(f, n). (n, f)) rs)"
    if "distinct (map fst m @ map snd rs)" "[] \<notin> set (map snd rs)" for rs m
    using that
  proof (induction rs arbitrary: m)
    case (Cons r rs)
    obtain f n where r: "r = (f, n)" by (cases r)
    have free: "map_of m n = None" using Cons.prems r by (simp add: map_of_eq_None_iff)
    have "AList.update n f m = m @ [(n, f)]" using Cons.prems r by (intro update_new) auto
    with Register_one_point [OF assms, of n m] free Cons.prems r Cons.IH [of "m @ [(n, f)]"]
    show ?case by auto
  qed simp
  from this [of "[]" init_registrations] show ?thesis
    by (simp add: loadModules_def newExtensionPoint_def init_registrations_def flip: one_point_def [of "[]"])
qed

lemma Lookup_loaded: "is_order ord \<Longrightarrow> Lookup scheme (loadModules ord) = scheme_factory scheme"
  by (simp add: Lookup_def loadModules_one_point one_point_def ep_lookup_def scheme_factory_def)

end
