(* ===== verification/Backends.thy ===== *)
theory Backends
  imports ServiceFacts
begin

text \<open>
  What the bridge and the adapters promise each other.  An adapter that never panics lets the
  operations of the bridge return; an adapter that keeps one key per service in a key-value store
  makes registered services visible there, and removed ones invisible.  Both interfaces are
  interpreted in the theories of the adapters.
\<close>

section \<open>URLs\<close>

text \<open>The fields of a parsed registry URI that the factories read.\<close>

record URL =
  url_Scheme :: string
  url_Host :: string
  url_Path :: string
  url_String :: string

section \<open>Operations return\<close>

text \<open>The bridge holds services that the adapter accepts only, under identifiers that can be logged.\<close>

definition holds :: "(Service \<Rightarrow> bool) \<Rightarrow> 'r Bridge \<Rightarrow> bool" where
  "holds ok b \<longleftrightarrow> lists_sat (list_all ok) b \<and> list_all (\<lambda>(cid, _). 12 \<le> length cid) (br_services b)"

context registry_adapter
begin

lemma deregisterAll_returns:
  assumes "list_all ok ss"
  shows "\<exists>b'. deregisterAll A ss b = Done b'"
proof -
  have "\<exists>b'. deregister_one A s b = Done b'" if "s \<in> set ss" for s b
  proof -
    have "ok s" using assms that by (simp add: list_all_iff)
    then obtain e r where "ra_Deregister A s (br_registry b) = Done (e, r)"
      using deregister_returns by blast
    then show ?thesis by (simp add: deregister_one_def)
  qed
  then show ?thesis unfolding deregisterAll_def by (rule ofold_returns_all)
qed

lemma services_of_ok: "holds ok b \<Longrightarrow> list_all ok (services_of b cid)"
  using lists_sat_services [of "list_all ok" b cid]
  by (cases "services_of b cid = []") (auto simp: holds_def)

lemma dead_ok: "holds ok b \<Longrightarrow> map_of (br_deadContainers b) cid = Some d \<Longrightarrow> list_all ok (dd_Services d)"
  by (auto simp: holds_def lists_sat_iff dest: map_of_SomeD)

text \<open>Removing a container always completes while the mutex is free.\<close>

lemma remove_returns:
  assumes "\<not> br_locked b" and "holds ok b"
  shows "\<exists>b'. remove A cid deregister b = Done b'"
proof (cases deregister)
  case True
  obtain b1 where b1: "deregisterAll A (services_of b cid) (b\<lparr>br_locked := True\<rparr>) = Done b1"
    using deregisterAll_returns services_of_ok [OF assms(2)] by blast
  have dead: "br_deadContainers b1 = br_deadContainers b"
    using same_mapsD(3) [OF deregisterAll_same [OF b1]] by simp
  show ?thesis
  proof (cases "map_of (br_deadContainers b) cid")
    case None
    with True assms(1) b1 dead show ?thesis by (simp add: remove_def)
  next
    case (Some d)
    then obtain b2 where "deregisterAll A (dd_Services d) b1 = Done b2"
      using deregisterAll_returns dead_ok [OF assms(2)] by blast
    with Some True assms(1) b1 dead show ?thesis by (simp add: remove_def)
  qed
next
  case False
  with assms(1) show ?thesis by (auto simp: remove_keep_maps)
qed

text \<open>So does a refresh.\<close>

lemma refresh_one_returns: "ok s \<Longrightarrow> 12 \<le> length cid \<Longrightarrow> \<exists>b'. refresh_one A cid s b = Done b'"
  using refresh_returns [of s "br_registry b"] by (auto simp: refresh_one_def log_id_cases Let_def)

lemma refresh_services_return:
  assumes "list_all ok ss" and "12 \<le> length cid"
  shows "\<exists>b'. ofold (refresh_one A cid) ss b = Done b'"
  by (rule ofold_returns_all) (use assms in \<open>simp add: list_all_iff refresh_one_returns\<close>)

lemma Refresh_returns:
  assumes "\<not> br_locked b" and "holds ok b" and "wf_bridge b" and "is_order (en_order E)"
  shows "\<exists>b'. Refresh A E b = Done b'"
proof -
  obtain svcs where c: "getServicesCopy E b = Done (svcs, b)"
    using assms(1) by (cases b) (auto simp: getServicesCopy_def Let_def release_def)
  have m: "mset svcs = mset (br_services b)" and wf: "wf_map svcs"
    using getServicesCopy_mset [OF c assms(4,3)] by simp_all
  have "list_all ok ss \<and> 12 \<le> length cid" if "(cid, ss) \<in> set (entries (en_order E) AtCopy svcs)" for cid ss
  proof -
    have "(cid, ss) \<in> set (br_services b)"
      using that set_entries [OF assms(4) wf] m by (metis set_mset_mset)
    with assms(2) show ?thesis by (auto simp: holds_def lists_sat_iff list_all_iff)
  qed
  then have "\<exists>b'. (case e of (cid, ss) \<Rightarrow> ofold (refresh_one A cid) ss) b1 = Done b'"
    if "e \<in> set (entries (en_order E) AtCopy svcs)" for e b1
    using that refresh_services_return by (cases e) auto
  then have "\<exists>b'. ofold (\<lambda>(cid, ss). ofold (refresh_one A cid) ss)
      (entries (en_order E) AtCopy svcs) b = Done b'"
    by (rule ofold_returns_all)
  with c show ?thesis by (simp add: Refresh_def)
qed

end

section \<open>One key per service\<close>

text \<open>
  The laws of a key-value store behind an adapter: a successful write or deletion changes the one
  key, a failed one changes nothing, and what the client does beforehand changes nothing either.
\<close>

definition kv_laws ::
    "('w \<Rightarrow> string \<Rightarrow> string option) \<Rightarrow> ('w \<Rightarrow> 'w) \<Rightarrow> (string \<Rightarrow> string \<Rightarrow> int \<Rightarrow> 'w \<Rightarrow> err \<times> 'w) \<Rightarrow>
     (string \<Rightarrow> 'w \<Rightarrow> err \<times> 'w) \<Rightarrow> bool" where
  "kv_laws store pre put del \<longleftrightarrow>
     (\<forall>w. store (pre w) = store w) \<and>
     (\<forall>k v t w w'. put k v t w = (None, w') \<longrightarrow> store w' = (store w)(k \<mapsto> v)) \<and>
     (\<forall>k v t e w w'. put k v t w = (Some e, w') \<longrightarrow> store w' = store w) \<and>
     (\<forall>k w w'. del k w = (None, w') \<longrightarrow> store w' = (store w)(k := None)) \<and>
     (\<forall>k e w w'. del k w = (Some e, w') \<longrightarrow> store w' = store w)"

locale path_registry =
  fixes A :: "'w RegistryAdapter"
    and path :: "Service \<Rightarrow> string" and val :: "Service \<Rightarrow> string" and ttl :: "Service \<Rightarrow> int"
    and pre :: "'w \<Rightarrow> 'w" and put :: "string \<Rightarrow> string \<Rightarrow> int \<Rightarrow> 'w \<Rightarrow> err \<times> 'w"
    and del :: "string \<Rightarrow> 'w \<Rightarrow> err \<times> 'w"
  assumes register: "ra_Register A s w = Done (put (path s) (val s) (ttl s) (pre w))"
    and deregister: "ra_Deregister A s w = Done (del (path s) (pre w))"
begin

lemma registered_visible:
  assumes "kv_laws store pre put del" and "ra_Register A s w = Done (None, w')"
  shows "store w' = (store w)(path s \<mapsto> val s)"
  using assms by (simp add: kv_laws_def register)

lemma deregistered_gone:
  assumes "kv_laws store pre put del" and "ra_Deregister A s w = Done (None, w')"
  shows "store w' = (store w)(path s := None)"
  using assms by (simp add: kv_laws_def deregister)

text \<open>A failing call leaves the store alone.\<close>

lemma failed_unchanged:
  assumes "kv_laws store pre put del"
  shows "ra_Register A s w = Done (Some e, w') \<Longrightarrow> store w' = store w"
    and "ra_Deregister A s w = Done (Some e, w') \<Longrightarrow> store w' = store w"
proof -
  have put: "put k v t u = (Some e, w') \<Longrightarrow> store w' = store u" and del: "del k u = (Some e, w') \<Longrightarrow> store w' = store u"
    and pre: "store (pre u) = store u" for k v t u
    using assms by (auto simp: kv_laws_def)
  show "ra_Register A s w = Done (Some e, w') \<Longrightarrow> store w' = store w"
    using put [of "path s" "val s" "ttl s" "pre w"] pre [of w] by (simp add: register)
  show "ra_Deregister A s w = Done (Some e, w') \<Longrightarrow> store w' = store w"
    using del [of "path s" "pre w"] pre [of w] by (simp add: deregister)
qed

text \<open>Registering and deregistering a service that was not there leaves no trace.\<close>

lemma register_deregister:
  assumes "kv_laws store pre put del" and "store w (path s) = None"
    and "ra_Register A s w = Done (None, w1)" and "ra_Deregister A s w1 = Done (None, w2)"
  shows "store w2 = store w"
  using registered_visible [OF assms(1,3)] deregistered_gone [OF assms(1,4)] assms(2) by auto

text \<open>Removing a container clears the keys of every service the bridge holds for it.\<close>

lemma deregister_one_store:
  assumes "kv_laws store pre put del" and "\<And>k w. fst (del k w) = None" and "deregister_one A s b = Done b'"
  shows "store (br_registry b') = (store (br_registry b))(path s := None)"
proof -
  obtain e w' where d: "ra_Deregister A s (br_registry b) = Done (e, w')" "b' = b\<lparr>br_registry := w'\<rparr>"
    using assms(3) by (auto simp: deregister_one_def)
  have "e = None" using d(1) assms(2) [of "path s" "pre (br_registry b)"] by (simp add: deregister)
  with d deregistered_gone [OF assms(1)] show ?thesis by simp
qed

lemma deregisterAll_store:
  assumes "kv_laws store pre put del" and "\<And>k w. fst (del k w) = None" and "deregisterAll A ss b = Done b'"
  shows "store (br_registry b') k = (if k \<in> path ` set ss then None else store (br_registry b) k)"
  using assms(3) unfolding deregisterAll_def
proof (induction ss arbitrary: b)
  case (Cons s ss)
  then obtain b1 where b1: "deregister_one A s b = Done b1" "ofold (deregister_one A) ss b1 = Done b'"
    by auto
  with Cons.IH [OF b1(2)] deregister_one_store [OF assms(1,2) b1(1)] show ?case by auto
qed simp

lemma remove_clears:
  assumes "kv_laws store pre put del" and "\<And>k w. fst (del k w) = None"
    and "remove A cid True b = Done b'"
  shows "store (br_registry b') k =
    (if k \<in> path ` set (held_services b cid) then None else store (br_registry b) k)"
proof -
  from assms(3) obtain b1 where b1: "deregisterAll A (services_of b cid) (b\<lparr>br_locked := True\<rparr>) = Done b1"
    by (auto simp: remove_def)
  have dead: "br_deadContainers b1 = br_deadContainers b"
    using same_mapsD(3) [OF deregisterAll_same [OF b1]] by simp
  note s1 = deregisterAll_store [OF assms(1,2) b1]
  show ?thesis
  proof (cases "map_of (br_deadContainers b) cid")
    case None
    with assms(3) b1 dead have "br_registry b' = br_registry b1" by (auto simp: remove_def)
    with None s1 show ?thesis by (simp add: held_services_def)
  next
    case (Some d)
    with assms(3) b1 dead obtain b2 where b2: "deregisterAll A (dd_Services d) b1 = Done b2"
      "br_registry b' = br_registry b2" by (auto simp: remove_def)
    with Some s1 deregisterAll_store [OF assms(1,2) b2(1)] show ?thesis
      by (simp add: held_services_def image_Un)
  qed
qed

end

end
