(* ===== verification/Consul.thy ===== *)
theory Consul
  imports Backends
begin

text \<open>
  The Consul agent adapter, \<open>consul/consul.go\<close>, and the Consul key-value adapter,
  \<open>consulkv/consulkv.go\<close>.  The Consul client library is a parameter.
\<close>

section \<open>The client\<close>

record AgentServiceCheck =
  ck_Script :: string
  ck_Interval :: string
  ck_Timeout :: string
  ck_TTL :: string
  ck_HTTP :: string
  ck_TCP :: string
  ck_Status :: string

record AgentServiceRegistration =
  rg_ID :: string
  rg_Name :: string
  rg_Tags :: "string list"
  rg_Port :: int
  rg_Address :: string
  rg_Check :: "AgentServiceCheck option"

record AgentService =
  ag_ID :: string
  ag_Service :: string
  ag_Tags :: "string list"
  ag_Port :: int
  ag_Address :: string

record 'w ConsulClient =
  cc_Leader :: "'w \<Rightarrow> (string \<times> err) \<times> 'w"
  cc_ServiceRegister :: "AgentServiceRegistration \<Rightarrow> 'w \<Rightarrow> err \<times> 'w"
  cc_ServiceDeregister :: "string \<Rightarrow> 'w \<Rightarrow> err \<times> 'w"
  cc_Services :: "'w \<Rightarrow> (AgentService gomap \<times> err) \<times> 'w"
  cc_Put :: "string \<Rightarrow> string \<Rightarrow> 'w \<Rightarrow> err \<times> 'w"
  cc_Delete :: "string \<Rightarrow> 'w \<Rightarrow> err \<times> 'w"

text \<open>The part of the client configuration that the factories set.\<close>

record ConsulConfig =
  co_Address :: string
  co_Scheme :: string

section \<open>The agent adapter\<close>

definition DefaultInterval :: string where
  "DefaultInterval = ''10s''"

text \<open>
  \<open>Factory.New\<close>: the configuration of the client.  \<open>config\<close> is the default configuration, \<open>tlsErr\<close> the
  result of setting up TLS, \<open>newClient\<close> makes the client.
\<close>

definition consul_New ::
    "ConsulConfig \<Rightarrow> err \<Rightarrow> (ConsulConfig \<Rightarrow> string + 'w ConsulClient) \<Rightarrow> URL \<Rightarrow> 'w ConsulClient outcome" where
  "consul_New config tlsErr newClient uri =
     obind
       (if url_Scheme uri = ''consul-unix'' then
          Done (config\<lparr>co_Address := trimPrefix (url_String uri) ''consul-''\<rparr>)
        else if url_Scheme uri = ''consul-tls'' then
          (if tlsErr \<noteq> None then Exit 1
           else Done (config\<lparr>co_Scheme := ''https'', co_Address := url_Host uri\<rparr>))
        else if url_Host uri \<noteq> [] then Done (config\<lparr>co_Address := url_Host uri\<rparr>)
        else Done config)
       (\<lambda>config. case newClient config of Inl e \<Rightarrow> Exit 1 | Inr client \<Rightarrow> Done client)"

definition interpolateService :: "string \<Rightarrow> Service \<Rightarrow> string" where
  "interpolateService script service =
     (let withIp = replaceAll script ''$SERVICE_IP'' (sp_HostIP (sv_Origin service));
          withPort = replaceAll withIp ''$SERVICE_PORT'' (sp_HostPort (sv_Origin service))
      in withPort)"

definition consul_Ping :: "'w ConsulClient \<Rightarrow> 'w \<Rightarrow> (err \<times> 'w) outcome" where
  "consul_Ping client w =
     (let ((leader, e), w) = cc_Leader client w in if e \<noteq> None then Done (e, w) else Done (None, w))"

definition zero_check :: AgentServiceCheck where
  "zero_check = \<lparr>ck_Script = [], ck_Interval = [], ck_Timeout = [], ck_TTL = [], ck_HTTP = [],
     ck_TCP = [], ck_Status = []\<rparr>"

text \<open>Setting the timeout of a check when the attribute is there.\<close>

definition set_timeout :: "string gomap \<Rightarrow> AgentServiceCheck \<Rightarrow> AgentServiceCheck" where
  "set_timeout attrs check =
     (let timeout = get_str attrs ''check_timeout'' in
      if timeout \<noteq> [] then check\<lparr>ck_Timeout := timeout\<rparr> else check)"

text \<open>Lines 93-116 of \<open>buildCheck\<close>: the first attribute that asks for a check decides its kind.\<close>

definition choose_check :: "Service \<Rightarrow> AgentServiceCheck \<Rightarrow> AgentServiceCheck option outcome" where
  "choose_check service check =
     (let attrs = sv_Attrs service;
          hostport = sv_IP service @ '':'' @ itoa (sv_Port service) in
      if get_str attrs ''check_http'' \<noteq> [] then
        Done (Some (set_timeout attrs (check\<lparr>ck_HTTP := ''http://'' @ hostport @ get_str attrs ''check_http''\<rparr>)))
      else if get_str attrs ''check_https'' \<noteq> [] then
        Done (Some (set_timeout attrs (check\<lparr>ck_HTTP := ''https://'' @ hostport @ get_str attrs ''check_https''\<rparr>)))
      else if get_str attrs ''check_cmd'' \<noteq> [] then
        obind (slice_to (sp_ContainerID (sv_Origin service)) 12) (\<lambda>cid.
          Done (Some (check\<lparr>ck_Script := ''check-cmd '' @ cid @ '' '' @
            sp_ExposedPort (sv_Origin service) @ '' '' @ get_str attrs ''check_cmd''\<rparr>)))
      else if get_str attrs ''check_script'' \<noteq> [] then
        Done (Some (check\<lparr>ck_Script := interpolateService (get_str attrs ''check_script'') service\<rparr>))
      else if get_str attrs ''check_ttl'' \<noteq> [] then
        Done (Some (check\<lparr>ck_TTL := get_str attrs ''check_ttl''\<rparr>))
      else if get_str attrs ''check_tcp'' \<noteq> [] then
        Done (Some (set_timeout attrs (check\<lparr>ck_TCP := hostport\<rparr>)))
      else Done None)"

text \<open>Lines 117-123.\<close>

definition set_interval :: "string gomap \<Rightarrow> AgentServiceCheck \<Rightarrow> AgentServiceCheck" where
  "set_interval attrs check =
     (if ck_Script check \<noteq> [] \<or> ck_HTTP check \<noteq> [] \<or> ck_TCP check \<noteq> [] then
        (let interval = get_str attrs ''check_interval'' in
         check\<lparr>ck_Interval := (if interval \<noteq> [] then interval else DefaultInterval)\<rparr>)
      else check)"

definition buildCheck :: "Service \<Rightarrow> AgentServiceCheck option outcome" where
  "buildCheck service =
     (let status = get_str (sv_Attrs service) ''check_initial_status'';
          check = (if status \<noteq> [] then zero_check\<lparr>ck_Status := status\<rparr> else zero_check) in
      obind (choose_check service check) (\<lambda>c. Done (map_option (set_interval (sv_Attrs service)) c)))"

definition consul_Register :: "'w ConsulClient \<Rightarrow> Service \<Rightarrow> 'w \<Rightarrow> (err \<times> 'w) outcome" where
  "consul_Register client service w =
     obind (buildCheck service) (\<lambda>check.
       Done (cc_ServiceRegister client
         \<lparr>rg_ID = sv_ID service, rg_Name = sv_Name service, rg_Tags = sv_Tags service,
          rg_Port = sv_Port service, rg_Address = sv_IP service, rg_Check = check\<rparr> w))"

definition consul_Deregister :: "'w ConsulClient \<Rightarrow> Service \<Rightarrow> 'w \<Rightarrow> (err \<times> 'w) outcome" where
  "consul_Deregister client service w = Done (cc_ServiceDeregister client (sv_ID service) w)"

definition consul_Refresh :: "'w ConsulClient \<Rightarrow> Service \<Rightarrow> 'w \<Rightarrow> (err \<times> 'w) outcome" where
  "consul_Refresh client service w = Done (None, w)"

definition agent_service :: "AgentService \<Rightarrow> Service" where
  "agent_service v =
     zero_service\<lparr>sv_ID := ag_ID v, sv_Name := ag_Service v, sv_Port := ag_Port v,
       sv_Tags := ag_Tags v, sv_IP := ag_Address v\<rparr>"

definition consul_Services ::
    "order \<Rightarrow> 'w ConsulClient \<Rightarrow> 'w \<Rightarrow> ((Service list \<times> err) \<times> 'w) outcome" where
  "consul_Services ord client w =
     (let ((services, e), w) = cc_Services client w in
      if e \<noteq> None then Done (([], e), w)
      else Done ((map (\<lambda>(_, v). agent_service v) (entries ord AtAgentServices services), None), w))"

definition consul_adapter :: "order \<Rightarrow> 'w ConsulClient \<Rightarrow> 'w RegistryAdapter" where
  "consul_adapter ord client =
     \<lparr>ra_Ping = consul_Ping client, ra_Register = consul_Register client,
      ra_Deregister = consul_Deregister client, ra_Refresh = consul_Refresh client,
      ra_Services = consul_Services ord client\<rparr>"

section \<open>The key-value adapter\<close>

record 'w ConsulKVAdapter =
  kv_client :: "'w ConsulClient"
  kv_path :: string

definition consulkv_New ::
    "ConsulConfig \<Rightarrow> (ConsulConfig \<Rightarrow> string + 'w ConsulClient) \<Rightarrow> URL \<Rightarrow> 'w ConsulKVAdapter outcome" where
  "consulkv_New config newClient uri =
     obind
       (if url_Scheme uri = ''consulkv-unix'' then
          (let spl = splitN2 (CHR '':'') (url_Path uri) in
           obind (elem_at spl 0) (\<lambda>sock.
           obind (elem_at spl 1) (\<lambda>path.
             Done (config\<lparr>co_Address := ''unix://'' @ sock\<rparr>, path))))
        else if url_Host uri \<noteq> [] then Done (config\<lparr>co_Address := url_Host uri\<rparr>, url_Path uri)
        else Done (config, url_Path uri))
       (\<lambda>(config, path).
          case newClient config of
            Inl e \<Rightarrow> Exit 1
          | Inr client \<Rightarrow> Done \<lparr>kv_client = client, kv_path = path\<rparr>)"

definition consulkv_Ping :: "'w ConsulKVAdapter \<Rightarrow> 'w \<Rightarrow> (err \<times> 'w) outcome" where
  "consulkv_Ping r w =
     (let ((leader, e), w) = cc_Leader (kv_client r) w in
      if e \<noteq> None then Done (e, w) else Done (None, w))"

definition consulkv_Register :: "'w ConsulKVAdapter \<Rightarrow> Service \<Rightarrow> 'w \<Rightarrow> (err \<times> 'w) outcome" where
  "consulkv_Register r service w =
     obind (slice_from (kv_path r) 1) (\<lambda>base.
     let path = base @ ''/'' @ sv_Name service @ ''/'' @ sv_ID service;
         port = itoa (sv_Port service);
         addr = joinHostPort (sv_IP service) port in
     Done (cc_Put (kv_client r) path addr w))"

definition consulkv_Deregister :: "'w ConsulKVAdapter \<Rightarrow> Service \<Rightarrow> 'w \<Rightarrow> (err \<times> 'w) outcome" where
  "consulkv_Deregister r service w =
     obind (slice_from (kv_path r) 1) (\<lambda>base.
     let path = base @ ''/'' @ sv_Name service @ ''/'' @ sv_ID service in
     Done (cc_Delete (kv_client r) path w))"

definition consulkv_Refresh :: "'w ConsulKVAdapter \<Rightarrow> Service \<Rightarrow> 'w \<Rightarrow> (err \<times> 'w) outcome" where
  "consulkv_Refresh r service w = Done (None, w)"

definition consulkv_Services :: "'w ConsulKVAdapter \<Rightarrow> 'w \<Rightarrow> ((Service list \<times> err) \<times> 'w) outcome" where
  "consulkv_Services r w = Done (([], None), w)"

definition consulkv_adapter :: "'w ConsulKVAdapter \<Rightarrow> 'w RegistryAdapter" where
  "consulkv_adapter r =
     \<lparr>ra_Ping = consulkv_Ping r, ra_Register = consulkv_Register r, ra_Deregister = consulkv_Deregister r,
      ra_Refresh = consulkv_Refresh r, ra_Services = consulkv_Services r\<rparr>"

section \<open>Checks\<close>

text \<open>The one input on which building a check panics is a command check of a short container identifier.\<close>

definition consul_ok :: "Service \<Rightarrow> bool" where
  "consul_ok s \<longleftrightarrow>
     get_str (sv_Attrs s) ''check_cmd'' = [] \<or> 12 \<le> length (sp_ContainerID (sv_Origin s))"

lemma choose_check_returns: "consul_ok s \<Longrightarrow> \<exists>c. choose_check s check = Done c"
proof (cases "get_str (sv_Attrs s) ''check_cmd'' = []")
  case True
  then show ?thesis by (simp add: choose_check_def Let_def)
next
  case False
  moreover assume "consul_ok s"
  ultimately obtain cid where "slice_to (sp_ContainerID (sv_Origin s)) 12 = Done cid"
    by (auto simp: consul_ok_def slice_def)
  then show ?thesis by (simp add: choose_check_def Let_def)
qed

lemma buildCheck_returns: "consul_ok s \<Longrightarrow> \<exists>c. buildCheck s = Done c"
proof -
  assume "consul_ok s"
  then obtain c where "choose_check s (if get_str (sv_Attrs s) ''check_initial_status'' \<noteq> []
      then zero_check\<lparr>ck_Status := get_str (sv_Attrs s) ''check_initial_status''\<rparr> else zero_check) = Done c"
    using choose_check_returns by blast
  then show ?thesis unfolding buildCheck_def Let_def by simp
qed

text \<open>The attributes that ask for a check, in the order in which they are considered.\<close>

definition check_attrs :: "string list" where
  "check_attrs = [''check_http'', ''check_https'', ''check_cmd'', ''check_script'', ''check_ttl'', ''check_tcp'']"

lemma choose_check_None_iff:
  "choose_check s check = Done None \<longleftrightarrow> list_all (\<lambda>a. get_str (sv_Attrs s) a = []) check_attrs"
  by (simp add: choose_check_def Let_def check_attrs_def obind_eq_Done_iff)

lemma buildCheck_None_iff:
  "buildCheck s = Done None \<longleftrightarrow> list_all (\<lambda>a. get_str (sv_Attrs s) a = []) check_attrs"
  by (simp add: buildCheck_def Let_def obind_eq_Done_iff choose_check_None_iff)

lemma set_timeout_simps [simp]:
  "ck_HTTP (set_timeout attrs c) = ck_HTTP c" "ck_TCP (set_timeout attrs c) = ck_TCP c"
  "ck_Script (set_timeout attrs c) = ck_Script c" "ck_TTL (set_timeout attrs c) = ck_TTL c"
  by (simp_all add: set_timeout_def Let_def)

lemma zero_check_simps [simp]:
  "ck_HTTP zero_check = []" "ck_TCP zero_check = []" "ck_Script zero_check = []" "ck_TTL zero_check = []"
  "ck_Interval zero_check = []"
  by (simp_all add: zero_check_def)

text \<open>
  A check is of one kind only; it has an interval exactly when Consul is to run it, that is, unless
  it is a TTL check (or a script that is empty once interpolated).
\<close>

definition check_kinds :: "AgentServiceCheck \<Rightarrow> string list" where
  "check_kinds c = filter (\<lambda>f. f \<noteq> []) [ck_HTTP c, ck_Script c, ck_TCP c, ck_TTL c]"

lemma choose_check_kind:
  assumes "choose_check s check = Done (Some c)"
    and "check_kinds check = []"
  shows "length (check_kinds c) \<le> 1 \<and> ck_Interval c = ck_Interval check"
proof -
  have none: "ck_Interval (set_timeout a x) = ck_Interval x" for a x
    by (simp add: set_timeout_def Let_def)
  have empty: "ck_HTTP check = []" "ck_TCP check = []" "ck_Script check = []" "ck_TTL check = []"
    using assms(2) by (auto simp: check_kinds_def split: if_splits)
  from assms(1) empty show ?thesis
    by (auto simp: choose_check_def Let_def check_kinds_def none split: if_split_asm)
qed

lemma buildCheck_kind:
  assumes "buildCheck s = Done (Some c)"
  shows "length (check_kinds c) \<le> 1 \<and>
    (ck_Interval c \<noteq> [] \<longleftrightarrow> ck_Script c \<noteq> [] \<or> ck_HTTP c \<noteq> [] \<or> ck_TCP c \<noteq> [])"
proof -
  from assms obtain st c0 where c0: "choose_check s (zero_check\<lparr>ck_Status := st\<rparr>) = Done (Some c0)"
    and c: "c = set_interval (sv_Attrs s) c0"
    by (auto simp: buildCheck_def Let_def zero_check_def split: if_splits)
  have "check_kinds (zero_check\<lparr>ck_Status := st\<rparr>) = []" by (simp add: check_kinds_def)
  from choose_check_kind [OF c0 this] show ?thesis
    by (auto simp: c set_interval_def Let_def check_kinds_def DefaultInterval_def split: if_splits)
qed

section \<open>What the adapters promise\<close>

lemma consul_ok_agent_service [simp]: "consul_ok (agent_service v)"
  by (simp add: consul_ok_def agent_service_def zero_service_def get_str_def)

interpretation consul: registry_adapter "consul_adapter ord client" consul_ok for ord client
proof unfold_locales
  fix s w
  show "\<exists>e r'. ra_Register (consul_adapter ord client) s w = Done (e, r')" if "consul_ok s"
    using buildCheck_returns [OF that] by (auto simp: consul_adapter_def consul_Register_def)
next
  fix w ss e w' s
  show "\<exists>ss e r'. ra_Services (consul_adapter ord client) w = Done ((ss, e), r')"
    by (auto simp: consul_adapter_def consul_Services_def split: prod.splits)
  assume "ra_Services (consul_adapter ord client) w = Done ((ss, e), w')" and "s \<in> set ss"
  then show "consul_ok s"
    by (auto simp: consul_adapter_def consul_Services_def split: prod.splits if_splits)
qed (simp_all add: consul_adapter_def consul_Deregister_def consul_Refresh_def)

text \<open>The agent of Consul as a table of services by identifier: the documented behaviour of its API.\<close>

definition agent_laws :: "('w \<Rightarrow> string \<Rightarrow> AgentService option) \<Rightarrow> 'w ConsulClient \<Rightarrow> bool" where
  "agent_laws agents client \<longleftrightarrow>
     (\<forall>rg w w'. cc_ServiceRegister client rg w = (None, w') \<longrightarrow>
        agents w' = (agents w)(rg_ID rg \<mapsto>
          \<lparr>ag_ID = rg_ID rg, ag_Service = rg_Name rg, ag_Tags = rg_Tags rg, ag_Port = rg_Port rg,
           ag_Address = rg_Address rg\<rparr>)) \<and>
     (\<forall>k w w'. cc_ServiceDeregister client k w = (None, w') \<longrightarrow> agents w' = (agents w)(k := None)) \<and>
     (\<forall>m w w'. cc_Services client w = ((m, None), w') \<longrightarrow> wf_map m \<and> map_of m = agents w)"

text \<open>The view of a service that comes back from the agent.\<close>

definition as_listed :: "Service \<Rightarrow> Service" where
  "as_listed s =
     zero_service\<lparr>sv_ID := sv_ID s, sv_Name := sv_Name s, sv_Port := sv_Port s, sv_Tags := sv_Tags s,
       sv_IP := sv_IP s\<rparr>"

lemma consul_listed_iff:
  assumes "agent_laws agents client" and "is_order ord"
    and "consul_Services ord client w = Done ((ss, None), w')"
  shows "x \<in> set ss \<longleftrightarrow> (\<exists>k v. agents w k = Some v \<and> x = agent_service v)"
proof -
  obtain m where m: "cc_Services client w = ((m, None), w')"
    and ss: "ss = map (\<lambda>(_, v). agent_service v) (entries ord AtAgentServices m)"
    using assms(3) by (auto simp: consul_Services_def split: prod.splits if_splits)
  have wf: "wf_map m" and mo: "map_of m = agents w" using m assms(1) unfolding agent_laws_def by blast+
  have "x \<in> set ss \<longleftrightarrow> (\<exists>k v. (k, v) \<in> set m \<and> x = agent_service v)"
    unfolding ss using set_entries [OF assms(2) wf] by force
  then show ?thesis using mo map_of_Some_iff_mem [OF wf] by metis
qed

lemma consul_register_listed:
  assumes "agent_laws agents client" and "is_order ord"
    and "consul_Register client s w = Done (None, w1)"
    and "consul_Services ord client w1 = Done ((ss, None), w2)"
  shows "as_listed s \<in> set ss"
proof -
  from assms(3) obtain check where
    "cc_ServiceRegister client \<lparr>rg_ID = sv_ID s, rg_Name = sv_Name s, rg_Tags = sv_Tags s,
       rg_Port = sv_Port s, rg_Address = sv_IP s, rg_Check = check\<rparr> w = (None, w1)"
    by (auto simp: consul_Register_def)
  with assms(1) have "agents w1 (sv_ID s) =
      Some \<lparr>ag_ID = sv_ID s, ag_Service = sv_Name s, ag_Tags = sv_Tags s, ag_Port = sv_Port s,
        ag_Address = sv_IP s\<rparr>"
    unfolding agent_laws_def by fastforce
  then show ?thesis
    unfolding consul_listed_iff [OF assms(1,2,4)]
    by (intro exI) (auto simp: as_listed_def agent_service_def)
qed

interpretation consulkv: path_registry "consulkv_adapter \<lparr>kv_client = client, kv_path = c # p\<rparr>"
  "\<lambda>s. p @ ''/'' @ sv_Name s @ ''/'' @ sv_ID s" "\<lambda>s. joinHostPort (sv_IP s) (itoa (sv_Port s))"
  "\<lambda>_. 0" "\<lambda>w. w" "\<lambda>k v t. cc_Put client k v" "cc_Delete client"
  for client c p
  by unfold_locales (simp_all add: consulkv_adapter_def consulkv_Register_def consulkv_Deregister_def slice_def)

interpretation consulkv_total: registry_adapter "consulkv_adapter \<lparr>kv_client = client, kv_path = c # p\<rparr>"
  "\<lambda>_. True" for client c p
  by unfold_locales
    (simp_all add: consulkv_adapter_def consulkv_Register_def consulkv_Deregister_def
      consulkv_Refresh_def consulkv_Services_def slice_def)

end
