(* ===== verification/Etcd.thy ===== *)
theory Etcd
  imports Backends
begin

text \<open>
  The etcd adapter, \<open>etcd/etcd.go\<close>.  The etcd client libraries are parameters: the operations the
  adapter calls, on the state \<open>'w\<close> of the store behind them.
\<close>

section \<open>The adapter\<close>

record 'w EtcdClient =
  ec_SyncCluster :: "'w \<Rightarrow> bool \<times> 'w"
  ec_Version :: "'w \<Rightarrow> err \<times> 'w"
  ec_Set :: "string \<Rightarrow> string \<Rightarrow> int \<Rightarrow> 'w \<Rightarrow> err \<times> 'w"
  ec_Delete :: "string \<Rightarrow> bool \<Rightarrow> 'w \<Rightarrow> err \<times> 'w"

record 'w EtcdAdapter =
  ea_client :: "'w EtcdClient option"
  ea_client2 :: "'w EtcdClient option"
  ea_path :: string

text \<open>
  \<open>Factory.New\<close>.  \<open>version\<close> is the body of the answer to the version request at the URL given, or
  \<open>None\<close> when that fails; \<open>v0\<close> and \<open>v2\<close> make clients for a list of URLs.  The pattern \<open>0\.4\.*\<close> matches
  anywhere in the body.
\<close>

definition etcd_urls :: "URL \<Rightarrow> string list" where
  "etcd_urls uri =
     (if url_Host uri \<noteq> [] then [''http://'' @ url_Host uri] else [''http://127.0.0.1:2379''])"

definition etcd_New ::
    "(string \<Rightarrow> string option) \<Rightarrow> (string list \<Rightarrow> 'w EtcdClient) \<Rightarrow> (string list \<Rightarrow> 'w EtcdClient) \<Rightarrow>
     URL \<Rightarrow> 'w EtcdAdapter outcome" where
  "etcd_New version v0 v2 uri =
     (let urls = etcd_urls uri in
      obind (elem_at urls 0) (\<lambda>u.
      case version (u @ ''/version'') of
        None \<Rightarrow> Exit 1
      | Some body \<Rightarrow>
          if containsStr body ''0.4''
          then Done \<lparr>ea_client = Some (v0 urls), ea_client2 = None, ea_path = url_Path uri\<rparr>
          else Done \<lparr>ea_client = None, ea_client2 = Some (v2 urls), ea_path = url_Path uri\<rparr>))"

text \<open>Every method uses the first client if there is one, else the second.\<close>

definition etcd_client :: "'w EtcdAdapter \<Rightarrow> 'w EtcdClient outcome" where
  "etcd_client r = (if ea_client r \<noteq> None then deref (ea_client r) else deref (ea_client2 r))"

definition syncEtcdCluster :: "'w EtcdAdapter \<Rightarrow> 'w \<Rightarrow> 'w outcome" where
  "syncEtcdCluster r w = obind (etcd_client r) (\<lambda>c. Done (snd (ec_SyncCluster c w)))"

definition etcd_Ping :: "'w EtcdAdapter \<Rightarrow> 'w \<Rightarrow> (err \<times> 'w) outcome" where
  "etcd_Ping r w =
     obind (syncEtcdCluster r w) (\<lambda>w. obind (etcd_client r) (\<lambda>c. Done (ec_Version c w)))"

definition etcd_Register :: "'w EtcdAdapter \<Rightarrow> Service \<Rightarrow> 'w \<Rightarrow> (err \<times> 'w) outcome" where
  "etcd_Register r service w =
     obind (syncEtcdCluster r w) (\<lambda>w.
     let path = ea_path r @ ''/'' @ sv_Name service @ ''/'' @ sv_ID service;
         port = itoa (sv_Port service);
         addr = joinHostPort (sv_IP service) port in
     obind (etcd_client r) (\<lambda>c. Done (ec_Set c path addr (uint64 (sv_TTL service)) w)))"

definition etcd_Deregister :: "'w EtcdAdapter \<Rightarrow> Service \<Rightarrow> 'w \<Rightarrow> (err \<times> 'w) outcome" where
  "etcd_Deregister r service w =
     obind (syncEtcdCluster r w) (\<lambda>w.
     let path = ea_path r @ ''/'' @ sv_Name service @ ''/'' @ sv_ID service in
     obind (etcd_client r) (\<lambda>c. Done (ec_Delete c path False w)))"

definition etcd_Refresh :: "'w EtcdAdapter \<Rightarrow> Service \<Rightarrow> 'w \<Rightarrow> (err \<times> 'w) outcome" where
  "etcd_Refresh r service w = etcd_Register r service w"

definition etcd_Services :: "'w EtcdAdapter \<Rightarrow> 'w \<Rightarrow> ((Service list \<times> err) \<times> 'w) outcome" where
  "etcd_Services r w = Done (([], None), w)"

definition etcd_adapter :: "'w EtcdAdapter \<Rightarrow> 'w RegistryAdapter" where
  "etcd_adapter r =
     \<lparr>ra_Ping = etcd_Ping r, ra_Register = etcd_Register r, ra_Deregister = etcd_Deregister r,
      ra_Refresh = etcd_Refresh r, ra_Services = etcd_Services r\<rparr>"

section \<open>What it promises\<close>

text \<open>An adapter as \<open>New\<close> makes it has exactly one client, the one its version asks for.\<close>

lemma etcd_New_client:
  assumes "etcd_New version v0 v2 uri = Done r"
  shows "\<exists>c. etcd_client r = Done c \<and> ea_path r = url_Path uri \<and> (ea_client r = None) \<noteq> (ea_client2 r = None)"
  using assms
  by (auto simp: etcd_New_def etcd_client_def Let_def split: option.splits if_splits)

definition with_client :: "'w EtcdClient \<Rightarrow> string \<Rightarrow> 'w EtcdAdapter" where
  "with_client c path = \<lparr>ea_client = None, ea_client2 = Some c, ea_path = path\<rparr>"

lemma etcd_calls:
  assumes "etcd_client r = Done c"
  shows "etcd_Register r s w =
      Done (ec_Set c (ea_path r @ ''/'' @ sv_Name s @ ''/'' @ sv_ID s)
        (joinHostPort (sv_IP s) (itoa (sv_Port s))) (uint64 (sv_TTL s)) (snd (ec_SyncCluster c w)))"
    and "etcd_Deregister r s w =
      Done (ec_Delete c (ea_path r @ ''/'' @ sv_Name s @ ''/'' @ sv_ID s) False (snd (ec_SyncCluster c w)))"
  using assms by (simp_all add: etcd_Register_def etcd_Deregister_def syncEtcdCluster_def Let_def)

lemma with_client [simp]: "etcd_client (with_client c path) = Done c" "ea_path (with_client c path) = path"
  by (simp_all add: etcd_client_def with_client_def)

interpretation etcd: path_registry "etcd_adapter (with_client c p)"
  "\<lambda>s. p @ ''/'' @ sv_Name s @ ''/'' @ sv_ID s" "\<lambda>s. joinHostPort (sv_IP s) (itoa (sv_Port s))"
  "\<lambda>s. uint64 (sv_TTL s)" "\<lambda>w. snd (ec_SyncCluster c w)" "ec_Set c" "\<lambda>k. ec_Delete c k False"
  for c p
  by unfold_locales (simp_all add: etcd_adapter_def etcd_calls)

interpretation etcd_total: registry_adapter "etcd_adapter (with_client c p)" "\<lambda>_. True" for c p
proof unfold_locales
  show "\<exists>e r'. ra_Register (etcd_adapter (with_client c p)) s r = Done (e, r')" for s r
    by (simp add: etcd_adapter_def etcd_calls)
  show "\<exists>e r'. ra_Deregister (etcd_adapter (with_client c p)) s r = Done (e, r')" for s r
    by (simp add: etcd_adapter_def etcd_calls)
  show "\<exists>e r'. ra_Refresh (etcd_adapter (with_client c p)) s r = Done (e, r')" for s r
    by (simp add: etcd_adapter_def etcd_Refresh_def etcd_calls)
qed (simp_all add: etcd_adapter_def etcd_Services_def)

end
