(* ===== verification/Skydns2.thy ===== *)
theory Skydns2
  imports Etcd
begin

text \<open>
  The SkyDNS adapter, \<open>skydns2/skydns2.go\<close>, over the same etcd client interface, and the
  translation of a domain name to a path with its components in reverse order.
\<close>

section \<open>The adapter\<close>

record 'w Skydns2Adapter =
  sk_client :: "'w EtcdClient"
  sk_path :: string

text \<open>The loop that swaps the components from both ends towards the middle.\<close>

function swapLoop :: "nat \<Rightarrow> int \<Rightarrow> string list \<Rightarrow> string list" where
  "swapLoop i j cs =
     (if int i < j then swapLoop (i + 1) (j - 1) (cs[i := cs ! nat j, nat j := cs ! i]) else cs)"
  by pat_completeness auto
termination
  by (relation "measure (\<lambda>(i, j, _). nat (j - int i))") auto

declare swapLoop.simps [simp del]

definition domainPath :: "string \<Rightarrow> string" where
  "domainPath domain =
     (let components = split_on (CHR ''.'') domain in
      ''/skydns/'' @ join_with ''/'' (swapLoop 0 (int (length components) - 1) components))"

text \<open>\<open>Factory.New\<close>; \<open>newClient\<close> makes an etcd client for a list of URLs.\<close>

definition skydns2_New :: "(string list \<Rightarrow> 'w EtcdClient) \<Rightarrow> URL \<Rightarrow> 'w Skydns2Adapter outcome" where
  "skydns2_New newClient uri =
     (let urls = (if url_Host uri \<noteq> [] then [''http://'' @ url_Host uri] else []) in
      if length (url_Path uri) < 2 then Exit 1
      else obind (slice_from (url_Path uri) 1) (\<lambda>domain.
             Done \<lparr>sk_client = newClient urls, sk_path = domainPath domain\<rparr>))"

definition servicePath :: "'w Skydns2Adapter \<Rightarrow> Service \<Rightarrow> string" where
  "servicePath r service = sk_path r @ ''/'' @ sv_Name service @ ''/'' @ sv_ID service"

definition skydns2_record :: "Service \<Rightarrow> string" where
  "skydns2_record service =
     ''{'' @ [CHR 0x22] @ ''host'' @ [CHR 0x22] @ '':'' @ [CHR 0x22] @ sv_IP service @ [CHR 0x22] @
     '','' @ [CHR 0x22] @ ''port'' @ [CHR 0x22] @ '':'' @ itoa (sv_Port service) @ ''}''"

definition skydns2_Ping :: "'w Skydns2Adapter \<Rightarrow> 'w \<Rightarrow> (err \<times> 'w) outcome" where
  "skydns2_Ping r w = Done (ec_Version (sk_client r) w)"

definition skydns2_Register :: "'w Skydns2Adapter \<Rightarrow> Service \<Rightarrow> 'w \<Rightarrow> (err \<times> 'w) outcome" where
  "skydns2_Register r service w =
     Done (ec_Set (sk_client r) (servicePath r service) (skydns2_record service) (uint64 (sv_TTL service)) w)"

definition skydns2_Deregister :: "'w Skydns2Adapter \<Rightarrow> Service \<Rightarrow> 'w \<Rightarrow> (err \<times> 'w) outcome" where
  "skydns2_Deregister r service w = Done (ec_Delete (sk_client r) (servicePath r service) False w)"

definition skydns2_Refresh :: "'w Skydns2Adapter \<Rightarrow> Service \<Rightarrow> 'w \<Rightarrow> (err \<times> 'w) outcome" where
  "skydns2_Refresh r service w = skydns2_Register r service w"

definition skydns2_Services :: "'w Skydns2Adapter \<Rightarrow> 'w \<Rightarrow> ((Service list \<times> err) \<times> 'w) outcome" where
  "skydns2_Services r w = Done (([], None), w)"

definition skydns2_adapter :: "'w Skydns2Adapter \<Rightarrow> 'w RegistryAdapter" where
  "skydns2_adapter r =
     \<lparr>ra_Ping = skydns2_Ping r, ra_Register = skydns2_Register r, ra_Deregister = skydns2_Deregister r,
      ra_Refresh = skydns2_Refresh r, ra_Services = skydns2_Services r\<rparr>"

section \<open>What it promises\<close>

text \<open>The loop reverses the part of the list between its two indices.\<close>

lemma swapLoop_rev:
  "int i + int (length mid) = j + 1 \<Longrightarrow> length pre = i \<Longrightarrow>
   swapLoop i j (pre @ mid @ post) = pre @ rev mid @ post"
proof (induction "length mid" arbitrary: i j pre mid post rule: less_induct)
  case less
  consider "mid = []" | x where "mid = [x]" | x m y where "mid = x # m @ [y]"
    by (metis append_butlast_last_id list.exhaust)
  then show ?case
  proof cases
    case (3 x m y)
    have j: "nat j = i + Suc (length m)" "int i < j" using less.prems 3 by auto
    have "(pre @ mid @ post)[i := (pre @ mid @ post) ! nat j, nat j := (pre @ mid @ post) ! i] =
        (pre @ [y]) @ m @ (x # post)"
      using less.prems(2) unfolding j(1) 3 by (auto simp: nth_append list_update_append)
    moreover have "swapLoop (i + 1) (j - 1) ((pre @ [y]) @ m @ (x # post)) = (pre @ [y]) @ rev m @ (x # post)"
      using less.prems 3 by (intro less.hyps) auto
    ultimately show ?thesis using j(2) 3 by (simp add: swapLoop.simps [of i])
  qed (use less.prems in \<open>simp_all add: swapLoop.simps\<close>)
qed

lemma domainPath_spec: "domainPath domain = ''/skydns/'' @ join_with ''/'' (rev (split_on (CHR ''.'') domain))"
  using swapLoop_rev [of 0 "split_on (CHR ''.'') domain" "int (length (split_on (CHR ''.'') domain)) - 1" "[]" "[]"]
  by (simp add: domainPath_def Let_def)

text \<open>The domain can be read back from the path, when its labels have no slash.\<close>

lemma domainPath_roundtrip:
  assumes "CHR ''/'' \<notin> set domain"
  shows "join_with ''.'' (rev (split_on (CHR ''/'') (drop 8 (domainPath domain)))) = domain"
proof -
  let ?cs = "rev (split_on (CHR ''.'') domain)"
  have "CHR ''/'' \<notin> set w" if "w \<in> set ?cs" for w
    using that split_on_parts_subset [of w "CHR ''.''" domain] assms by auto
  then have "split_on (CHR ''/'') (join_with ''/'' ?cs) = ?cs"
    by (intro split_on_join) auto
  then show ?thesis by (simp add: domainPath_spec join_split_on)
qed

interpretation skydns2: path_registry "skydns2_adapter r" "servicePath r" skydns2_record
  "\<lambda>s. uint64 (sv_TTL s)" "\<lambda>w. w" "ec_Set (sk_client r)" "\<lambda>k. ec_Delete (sk_client r) k False"
  for r
  by unfold_locales (simp_all add: skydns2_adapter_def skydns2_Register_def skydns2_Deregister_def)

interpretation skydns2_total: registry_adapter "skydns2_adapter r" "\<lambda>_. True" for r
  by unfold_locales
    (simp_all add: skydns2_adapter_def skydns2_Register_def skydns2_Deregister_def skydns2_Refresh_def
      skydns2_Services_def)

end
