(* ===== verification/Zookeeper.thy ===== *)
theory Zookeeper
  imports Backends "HOL-Library.List_Lexorder"
begin

text \<open>
  The ZooKeeper adapter, \<open>zookeeper/zookeeper.go\<close>, over a client given as a parameter, with the JSON
  text of a node as \<open>encoding/json\<close> writes it for ASCII data.
\<close>

section \<open>The node body\<close>

record ZnodeBody =
  zb_Name :: string
  zb_IP :: string
  zb_PublicPort :: int
  zb_PrivatePort :: int
  zb_ContainerID :: string
  zb_Tags :: "string list"
  zb_Attrs :: "string gomap"

definition hex_digit :: "nat \<Rightarrow> char" where
  "hex_digit n = (if n < 10 then char_of (48 + n) else char_of (87 + n))"

definition json_char :: "char \<Rightarrow> string" where
  "json_char c =
     (if c = CHR 0x22 \<or> c = CHR 0x5C then [CHR 0x5C, c]
      else if c = CHR 0x0A then [CHR 0x5C, CHR ''n'']
      else if c = CHR 0x0D then [CHR 0x5C, CHR ''r'']
      else if c = CHR 0x09 then [CHR 0x5C, CHR ''t'']
      else if of_char c < (32 :: nat) \<or> c = CHR ''<'' \<or> c = CHR ''>'' \<or> c = CHR ''&''
      then CHR 0x5C # ''u00'' @ [hex_digit (of_char c div 16), hex_digit (of_char c mod 16)]
      else [c])"

definition json_string :: "string \<Rightarrow> string" where
  "json_string s = CHR 0x22 # concat (map json_char s) @ [CHR 0x22]"

definition json_list :: "string list \<Rightarrow> string" where
  "json_list ss = ''['' @ join_with '','' (map json_string ss) @ '']''"

text \<open>A map is written with its keys in order.\<close>

definition json_map :: "string gomap \<Rightarrow> string" where
  "json_map m =
     ''{'' @ join_with '','' (map (\<lambda>k. json_string k @ '':'' @ json_string (get_str m k)) (sort (map fst m))) @ ''}''"

definition json_Marshal :: "ZnodeBody \<Rightarrow> string" where
  "json_Marshal z =
     ''{'' @ join_with '',''
       [json_string ''Name'' @ '':'' @ json_string (zb_Name z),
        json_string ''IP'' @ '':'' @ json_string (zb_IP z),
        json_string ''PublicPort'' @ '':'' @ itoa (zb_PublicPort z),
        json_string ''PrivatePort'' @ '':'' @ itoa (zb_PrivatePort z),
        json_string ''ContainerID'' @ '':'' @ json_string (zb_ContainerID z),
        json_string ''Tags'' @ '':'' @ json_list (zb_Tags z),
        json_string ''Attrs'' @ '':'' @ json_map (zb_Attrs z)] @ ''}''"

section \<open>The adapter\<close>

record 'w ZkClient =
  zk_Exists :: "string \<Rightarrow> 'w \<Rightarrow> (bool \<times> err) \<times> 'w"
  zk_Create :: "string \<Rightarrow> string \<Rightarrow> int \<Rightarrow> 'w \<Rightarrow> err \<times> 'w"
  zk_Delete :: "string \<Rightarrow> int \<Rightarrow> 'w \<Rightarrow> err \<times> 'w"
  zk_Children :: "string \<Rightarrow> 'w \<Rightarrow> (string list \<times> err) \<times> 'w"

record 'w ZkAdapter =
  za_client :: "'w ZkClient"
  za_path :: string

text \<open>\<open>Factory.New\<close>, from a connection that was made.\<close>

definition zookeeper_New :: "'w ZkClient \<Rightarrow> URL \<Rightarrow> 'w \<Rightarrow> 'w ZkAdapter \<times> 'w" where
  "zookeeper_New c uri w =
     (let ((exists, e), w) = zk_Exists c (url_Path uri) w;
          w = (if \<not> exists then snd (zk_Create c (url_Path uri) [] 0 w) else w)
      in (\<lparr>za_client = c, za_path = url_Path uri\<rparr>, w))"

definition zk_basePath :: "'w ZkAdapter \<Rightarrow> Service \<Rightarrow> string" where
  "zk_basePath r service =
     (if za_path r = ''/'' then za_path r @ sv_Name service else za_path r @ ''/'' @ sv_Name service)"

definition znode_body :: "Service \<Rightarrow> ZnodeBody" where
  "znode_body service =
     \<lparr>zb_Name = sv_Name service, zb_IP = sv_IP service, zb_PublicPort = sv_Port service,
      zb_PrivatePort = atoiValue (sp_ExposedPort (sv_Origin service)),
      zb_ContainerID = sp_ContainerHostname (sv_Origin service), zb_Tags = sv_Tags service,
      zb_Attrs = sv_Attrs service\<rparr>"

text \<open>
  \<open>Register\<close>.  The errors of the two \<open>Create\<close> calls are stored in variables that shadow the one
  that is returned.
\<close>

definition zk_Register :: "'w ZkAdapter \<Rightarrow> Service \<Rightarrow> 'w \<Rightarrow> (err \<times> 'w) outcome" where
  "zk_Register r service w =
     (let basePath = zk_basePath r service;
          ((exists, err), w) = zk_Exists (za_client r) basePath w in
      if err \<noteq> None then Done (err, w)
      else
        (let w = (if \<not> exists then snd (zk_Create (za_client r) basePath [] 0 w) else w);
             body = json_Marshal (znode_body service);
             path = basePath @ ''/'' @ sv_IP service @ '':'' @ itoa (sv_Port service);
             (err', w) = zk_Create (za_client r) path body 1 w
         in Done (err, w)))"

definition zk_Ping :: "'w ZkAdapter \<Rightarrow> 'w \<Rightarrow> (err \<times> 'w) outcome" where
  "zk_Ping r w =
     (let ((exists, err), w) = zk_Exists (za_client r) ''/'' w in
      if err \<noteq> None then Done (err, w) else Done (None, w))"

text \<open>\<open>Deregister\<close>: the error of the first deletion is overwritten by that of \<open>Children\<close>.\<close>

definition zk_Deregister :: "'w ZkAdapter \<Rightarrow> Service \<Rightarrow> 'w \<Rightarrow> (err \<times> 'w) outcome" where
  "zk_Deregister r service w =
     (let basePath = zk_basePath r service;
          servicePortPath = basePath @ ''/'' @ sv_IP service @ '':'' @ itoa (sv_Port service);
          (err, w) = zk_Delete (za_client r) servicePortPath (- 1) w;
          ((children, err), w) = zk_Children (za_client r) basePath w;
          w = (if length children = 0 then snd (zk_Delete (za_client r) basePath (- 1) w) else w)
      in Done (err, w))"

definition zk_Refresh :: "'w ZkAdapter \<Rightarrow> Service \<Rightarrow> 'w \<Rightarrow> (err \<times> 'w) outcome" where
  "zk_Refresh r service w = zk_Register r service w"

definition zk_Services :: "'w ZkAdapter \<Rightarrow> 'w \<Rightarrow> ((Service list \<times> err) \<times> 'w) outcome" where
  "zk_Services r w = Done (([], None), w)"

definition zk_adapter :: "'w ZkAdapter \<Rightarrow> 'w RegistryAdapter" where
  "zk_adapter r =
     \<lparr>ra_Ping = zk_Ping r, ra_Register = zk_Register r, ra_Deregister = zk_Deregister r,
      ra_Refresh = zk_Refresh r, ra_Services = zk_Services r\<rparr>"

section \<open>What it promises\<close>

text \<open>A registration reports success whenever the existence test does, whatever the writes do.\<close>

lemma zk_Register_error:
  "\<exists>w'. zk_Register r s w = Done (snd (fst (zk_Exists (za_client r) (zk_basePath r s) w)), w')"
  by (auto simp: zk_Register_def Let_def split: prod.splits)

interpretation zookeeper_total: registry_adapter "zk_adapter r" "\<lambda>_. True" for r
proof unfold_locales
  show "\<exists>e r'. ra_Register (zk_adapter r) s w = Done (e, r')" for s w
    using zk_Register_error [of r s w] by (auto simp: zk_adapter_def)
  show "\<exists>e r'. ra_Refresh (zk_adapter r) s w = Done (e, r')" for s w
    using zk_Register_error [of r s w] by (auto simp: zk_adapter_def zk_Refresh_def)
  show "\<exists>e r'. ra_Deregister (zk_adapter r) s w = Done (e, r')" for s w
    by (auto simp: zk_adapter_def zk_Deregister_def Let_def split: prod.splits)
qed (simp_all add: zk_adapter_def zk_Services_def)

end
