(* ===== verification/Examples.thy ===== *)
theory Examples
  imports Extpoints Consul Skydns2 Zookeeper
begin

text \<open>
  Concrete data on which the theorems are instantiated: a container with two published ports, the
  surroundings of a host, an adapter that accepts everything, and a key-value store in memory.
\<close>

definition ex_id :: string where
  "ex_id = ''0123456789ab''"

definition ex_binding :: "string \<Rightarrow> PortBinding" where
  "ex_binding p = \<lparr>pb_HostIP = ''0.0.0.0'', pb_HostPort = p\<rparr>"

definition ex_container_config :: DockerConfig where
  "ex_container_config =
     \<lparr>dc_Hostname = ''c1'', dc_Image = ''nginx:1'', dc_Env = [''SERVICE_NAME=web''],
      dc_Labels = Some [], dc_ExposedPorts = []\<rparr>"

definition ex_container :: Container where
  "ex_container =
     \<lparr>c_ID = ex_id, c_Name = ''/web1'', c_Config = Some ex_container_config,
      c_State = \<lparr>st_Running = False, st_ExitCode = 137\<rparr>,
      c_NetworkSettings = Some \<lparr>ns_Networks = [], ns_IPAddress = ''172.17.0.2'',
        ns_Ports = [(''80/tcp'', [ex_binding ''8080'']), (''81/udp'', [ex_binding ''8081''])]\<rparr>,
      c_HostConfig = Some \<lparr>hc_NetworkMode = ''default''\<rparr>\<rparr>"

definition ex_docker :: DockerClient where
  "ex_docker =
     \<lparr>dk_InspectContainer = (\<lambda>c. if c = ex_id then Inr ex_container else Inl NoSuchContainer),
      dk_ListContainers = (\<lambda>_. Inr [ex_id])\<rparr>"

definition ex_env :: Env where
  "ex_env = \<lparr>en_Hostname = ''host1'', en_ResolveIPAddr = (\<lambda>_. None), en_docker = ex_docker, en_order = listed\<rparr>"

definition ex_config :: Config where
  "ex_config =
     \<lparr>cf_HostIp = ''10.0.0.1'', cf_Internal = False, cf_UseIpFromLabel = [], cf_ForceTags = [],
      cf_RefreshTtl = 60, cf_RefreshInterval = 25, cf_DeregisterCheck = ''on-success'',
      cf_Cleanup = False, cf_RequireLabel = False, cf_ExitOnIPLookupFailure = False\<rparr>"

definition ex_port :: ServicePort where
  "ex_port =
     \<lparr>sp_HostPort = ''8080'', sp_HostIP = ''0.0.0.0'', sp_ExposedPort = ''80'', sp_ExposedIP = ''172.17.0.2'',
      sp_PortType = ''tcp'', sp_ContainerHostname = ''c1'', sp_ContainerID = ex_id,
      sp_ContainerName = ''/web1'', sp_container = Some ex_container\<rparr>"

definition ex_service :: Service where
  "ex_service =
     \<lparr>sv_ID = ''host1:web1:80'', sv_Name = ''web'', sv_Port = 8080, sv_IP = ''10.0.0.1'',
      sv_UseExposedPorts = False, sv_Tags = [], sv_Attrs = [], sv_TTL = 60, sv_Origin = ex_port\<rparr>"

definition yes_adapter :: "unit RegistryAdapter" where
  "yes_adapter =
     \<lparr>ra_Ping = (\<lambda>r. Done (None, r)), ra_Register = (\<lambda>s r. Done (None, r)),
      ra_Deregister = (\<lambda>s r. Done (None, r)), ra_Refresh = (\<lambda>s r. Done (None, r)),
      ra_Services = (\<lambda>r. Done (([], None), r))\<rparr>"

definition ex_bridge :: "(unit \<times> reg_call list) Bridge" where
  "ex_bridge =
     \<lparr>br_locked = False, br_registry = ((), []), br_services = [(ex_id, [ex_service])],
      br_deadContainers = [], br_config = ex_config\<rparr>"

definition ex_dead_bridge :: "(unit \<times> reg_call list) Bridge" where
  "ex_dead_bridge =
     ex_bridge\<lparr>br_services := [], br_deadContainers := [(ex_id, \<lparr>dd_TTL = 60, dd_Services = [ex_service]\<rparr>)]\<rparr>"

definition ex_empty_bridge :: "(unit \<times> reg_call list) Bridge" where
  "ex_empty_bridge = new_bridge ((), []) ex_config"

lemmas ex_defs = ex_id_def ex_binding_def ex_container_config_def ex_container_def ex_docker_def
  ex_env_def ex_config_def ex_port_def ex_service_def yes_adapter_def ex_bridge_def ex_dead_bridge_def
  ex_empty_bridge_def new_bridge_def

lemma ex_env_ok: "env_ok ex_env" "is_order (en_order ex_env)" "inspects_by_id ex_env"
  by (simp_all add: env_ok_def ex_env_def inspects_by_id_def ex_docker_def ex_container_def)

lemma ex_wf: "wf_bridge ex_bridge" "wf_bridge ex_dead_bridge" "wf_bridge ex_empty_bridge"
  by (simp_all add: wf_bridge_def ex_bridge_def ex_dead_bridge_def ex_empty_bridge_def new_bridge_def wf_map_def)

lemma ex_free: "\<not> br_locked ex_bridge" "\<not> br_locked ex_dead_bridge" "\<not> br_locked ex_empty_bridge"
  by (simp_all add: ex_bridge_def ex_dead_bridge_def ex_empty_bridge_def new_bridge_def)

lemma ex_accepts: "accepts_all yes_adapter" "releases_all yes_adapter"
  by (simp_all add: accepts_all_def releases_all_def yes_adapter_def)

text \<open>A key-value store in memory, as an etcd client.\<close>

definition mem_etcd :: "(string \<Rightarrow> string option) EtcdClient" where
  "mem_etcd =
     \<lparr>ec_SyncCluster = (\<lambda>w. (True, w)), ec_Version = (\<lambda>w. (None, w)),
      ec_Set = (\<lambda>k v t w. (None, w(k \<mapsto> v))), ec_Delete = (\<lambda>k rec w. (None, w(k := None)))\<rparr>"

section \<open>Runs of the process\<close>

abbreviation ex_il :: IpLookup where
  "ex_il \<equiv> \<lparr>il_address = [], il_retries = 1\<rparr>"

abbreviation ex_init :: "(unit \<times> reg_call list) System" where
  "ex_init \<equiv> sys_init ((), []) ex_config []"

lemma ex_add_runs:
  "\<exists>b. add (recording yes_adapter) ex_env ex_id False [] ex_empty_bridge = Done b \<and>
     services_of b ex_id \<noteq> [] \<and> \<not> br_locked b \<and> length (calls b) = 2 \<and> length (services_of b ex_id) = 1"
  by (rule returned) code_simp

text \<open>The container is started, its goroutine runs.\<close>

lemma ex_run_start:
  "\<exists>s. sys_run (recording yes_adapter) ex_il [] ex_init
         [DockerEvent ''start'' ex_id, RunTask (TaskAdd ex_id False [])] s \<and>
     known (sys_bridge s) ex_id \<and> \<not> br_locked (sys_bridge s) \<and> sys_tasks s = [] \<and> sys_ip s = []"
proof -
  obtain b where b: "add (recording yes_adapter) ex_env ex_id False [] ex_empty_bridge = Done b"
    "services_of b ex_id \<noteq> []" "\<not> br_locked b" using ex_add_runs by blast
  let ?s1 = "ex_init\<lparr>sys_tasks := sys_tasks ex_init @ dockerEvent (sys_ip ex_init) (''start'', ex_id)\<rparr>"
  have t: "sys_tasks ?s1 = [] @ TaskAdd ex_id False [] # []"
    by (simp add: dockerEvent_def sys_init_def)
  have "run_task (recording yes_adapter) ex_env (TaskAdd ex_id False []) (sys_bridge ?s1) = Done b"
    using b(1) by (simp add: run_task_def sys_init_def ex_empty_bridge_def)
  then have "sys_step (recording yes_adapter) ex_il [] ?s1 (RunTask (TaskAdd ex_id False []))
      (?s1\<lparr>sys_bridge := b, sys_tasks := [] @ []\<rparr>)"
    by (rule run_goroutine [OF ex_env_ok(1) t])
  then have "sys_run (recording yes_adapter) ex_il [] ex_init
      [DockerEvent ''start'' ex_id, RunTask (TaskAdd ex_id False [])] (?s1\<lparr>sys_bridge := b, sys_tasks := [] @ []\<rparr>)"
    by (intro run_cons [OF docker] run_cons [OF _ run_nil])
  then show ?thesis using b by (intro exI conjI) (auto simp: known_def sys_init_def)
qed

text \<open>A second start event for the same container.\<close>

lemma run_append:
  "sys_run A il source s es s1 \<Longrightarrow> sys_step A il source s1 e s2 \<Longrightarrow> sys_run A il source s (es @ [e]) s2"
  by (induction rule: sys_run.induct) (auto intro: sys_run.intros)

lemma ex_run_twice:
  "\<exists>s s1. sys_run (recording yes_adapter) ex_il [] ex_init
      [DockerEvent ''start'' ex_id, RunTask (TaskAdd ex_id False []), DockerEvent ''start'' ex_id] s \<and>
     known (sys_bridge s) ex_id \<and>
     sys_step (recording yes_adapter) ex_il [] s (RunTask (TaskAdd ex_id False [])) s1"
proof -
  obtain s0 where s0: "sys_run (recording yes_adapter) ex_il [] ex_init
      [DockerEvent ''start'' ex_id, RunTask (TaskAdd ex_id False [])] s0"
    and k: "known (sys_bridge s0) ex_id" and f: "\<not> br_locked (sys_bridge s0)"
    and t: "sys_tasks s0 = []" and ip: "sys_ip s0 = []"
    using ex_run_start by blast
  let ?s = "s0\<lparr>sys_tasks := sys_tasks s0 @ dockerEvent (sys_ip s0) (''start'', ex_id)\<rparr>"
  have run: "sys_run (recording yes_adapter) ex_il [] ex_init
      [DockerEvent ''start'' ex_id, RunTask (TaskAdd ex_id False []), DockerEvent ''start'' ex_id] ?s"
    using run_append [OF s0 docker] by simp
  have wf: "wf_bridge (sys_bridge s0)" using inv_run [OF s0 inv_init] by (simp add: bridge_inv_def)
  have len: "12 \<le> length ex_id" by (simp add: ex_id_def)
  obtain b where "add (recording yes_adapter) ex_env ex_id False [] (sys_bridge s0) = Done b"
    using add_known [OF f wf k len] by blast
  then have r: "run_task (recording yes_adapter) ex_env (TaskAdd ex_id False []) (sys_bridge ?s) = Done b"
    by (simp add: run_task_def)
  have tasks: "sys_tasks ?s = [] @ TaskAdd ex_id False [] # []" using t ip by (simp add: dockerEvent_def)
  have "sys_step (recording yes_adapter) ex_il [] ?s (RunTask (TaskAdd ex_id False []))
      (?s\<lparr>sys_bridge := b, sys_tasks := [] @ []\<rparr>)"
    by (rule run_goroutine [OF ex_env_ok(1) tasks r])
  moreover have "known (sys_bridge ?s) ex_id" using k by simp
  ultimately show ?thesis using run by blast
qed

lemma ex_refresh_runs: "\<exists>b. Refresh (recording yes_adapter) ex_env ex_bridge = Done b"
  by (rule returns) code_simp

lemma ex_remove_runs: "\<exists>b. remove (recording yes_adapter) ex_id True ex_bridge = Done b"
  by (rule returns) code_simp

lemma ex_new_service:
  "\<exists>s. newService ex_env ex_config ex_port False = Done (Some s) \<and> origin_name s = ''web1''"
proof -
  have "\<exists>r. newService ex_env ex_config ex_port False = Done r \<and>
      (case r of None \<Rightarrow> False | Some s \<Rightarrow> origin_name s = ''web1'')"
    by (rule returned) code_simp
  then show ?thesis by (auto split: option.splits)
qed

lemma ex_port_metadata:
  "\<exists>md fp cc. port_metadata ex_env ex_port = Done ((md, fp), cc) \<and> mapDefault md ''id'' [] = []"
proof -
  have "\<exists>r. port_metadata ex_env ex_port = Done r \<and> mapDefault (fst (fst r)) ''id'' [] = []"
    by (rule returned) code_simp
  then show ?thesis by auto
qed

lemma ex_sync_empty:
  "\<exists>b' tasks. serviceSync (recording yes_adapter) ex_env \<lparr>sm_Quiet = True, sm_IP = []\<rparr> ex_empty_bridge = Done (b', tasks)"
proof -
  have "\<exists>x. serviceSync (recording yes_adapter) ex_env \<lparr>sm_Quiet = True, sm_IP = []\<rparr> ex_empty_bridge = Done x"
    by (rule returns) code_simp
  then show ?thesis by auto
qed

lemma ex_sync_moved:
  "\<exists>b' tasks. serviceSync (recording yes_adapter) ex_env \<lparr>sm_Quiet = True, sm_IP = ''10.0.0.2''\<rparr> ex_bridge = Done (b', tasks)"
proof -
  have "\<exists>x. serviceSync (recording yes_adapter) ex_env \<lparr>sm_Quiet = True, sm_IP = ''10.0.0.2''\<rparr> ex_bridge = Done x"
    by (rule returns) code_simp
  then show ?thesis by auto
qed

lemma ex_cleanup_runs:
  "\<exists>b'. cleanupServices (recording yes_adapter) ex_env [ex_service, ex_service\<lparr>sv_ID := ''host1:gone:80''\<rparr>] ex_bridge = Done b'"
  by (rule returns) code_simp

text \<open>A Consul agent in memory.\<close>

definition mem_consul :: "AgentService gomap ConsulClient" where
  "mem_consul =
     \<lparr>cc_Leader = (\<lambda>w. (([], None), w)),
      cc_ServiceRegister = (\<lambda>rg w. (None, AList.update (rg_ID rg)
        \<lparr>ag_ID = rg_ID rg, ag_Service = rg_Name rg, ag_Tags = rg_Tags rg, ag_Port = rg_Port rg,
         ag_Address = rg_Address rg\<rparr> w)),
      cc_ServiceDeregister = (\<lambda>k w. (None, AList.delete k w)),
      cc_Services = (\<lambda>w. ((AList.clearjunk w, None), w)),
      cc_Put = (\<lambda>k v w. (None, w)), cc_Delete = (\<lambda>k w. (None, w))\<rparr>"

lemma mem_consul_laws: "agent_laws map_of mem_consul"
  by (auto simp: agent_laws_def mem_consul_def wf_map_def map_of_clearjunk update_conv' delete_conv' fun_eq_iff
      intro: distinct_clearjunk)

lemma ex_consul_register: "\<exists>w. consul_Register mem_consul ex_service [] = Done (None, w)"
proof -
  have "\<exists>c. buildCheck ex_service = Done c"
    by (rule buildCheck_returns) (simp add: consul_ok_def ex_service_def get_str_def)
  then show ?thesis by (auto simp: consul_Register_def mem_consul_def)
qed

definition ex_etcd_bridge :: "(string \<Rightarrow> string option) \<Rightarrow> (string \<Rightarrow> string option) Bridge" where
  "ex_etcd_bridge w =
     \<lparr>br_locked = False, br_registry = w, br_services = [(ex_id, [ex_service])],
      br_deadContainers = [], br_config = ex_config\<rparr>"

definition ex_consul_bridge :: "AgentService gomap \<Rightarrow> AgentService gomap Bridge" where
  "ex_consul_bridge w =
     \<lparr>br_locked = False, br_registry = w, br_services = [(ex_id, [ex_service])],
      br_deadContainers = [], br_config = ex_config\<rparr>"

lemma mem_etcd_laws:
  "kv_laws (\<lambda>w. w) (\<lambda>w. snd (ec_SyncCluster mem_etcd w)) (ec_Set mem_etcd) (\<lambda>k. ec_Delete mem_etcd k False)"
  by (auto simp: kv_laws_def mem_etcd_def)

definition ex_flags :: Flags where
  "ex_flags =
     \<lparr>fl_args = [''etcd://host/svc''], fl_hostIp = [], fl_internal = False, fl_useIpFromLabel = [],
      fl_refreshInterval = 25, fl_refreshTtl = 60, fl_forceTags = [], fl_resyncInterval = 0,
      fl_deregister = ''always'', fl_retryAttempts = 0, fl_retryInterval = 2000, fl_cleanup = False,
      fl_requireLabel = False, fl_ipLookupSource = [], fl_ipLookupRetries = 1,
      fl_exitOnIpLookupFailure = False\<rparr>"

end
