(* ===== verification/AwsTypes.thy ===== *)
theory AwsTypes
  imports Types
begin

text \<open>
  The data of the AWS support and of the Eureka adapter: the structs of \<open>aws/structs.go\<close> and
  \<open>aws/metadata.go\<close>, the Eureka objects of the client library fargo, the parts of the answers of the
  AWS interfaces that the program reads, and the state of the package \<open>aws\<close>.

  The AWS interfaces, the Eureka server, the clock and the random numbers are parameters, operations on
  a state \<open>'w\<close> of the outside world.  Pointers are options.  A client of an AWS interface is made from a
  session and a region; the region is all that is kept of it.
\<close>

section \<open>Eureka objects\<close>

type_synonym StatusType = string

definition UP :: StatusType where "UP = ''UP''"
definition DOWN :: StatusType where "DOWN = ''DOWN''"
definition STARTING :: StatusType where "STARTING = ''STARTING''"
definition UNKNOWN :: StatusType where "UNKNOWN = ''UNKNOWN''"

lemmas status_defs = UP_def DOWN_def STARTING_def UNKNOWN_def

lemma status_distinct [simp]:
  "UP \<noteq> DOWN" "UP \<noteq> STARTING" "UP \<noteq> UNKNOWN" "STARTING \<noteq> UP" "UNKNOWN \<noteq> UP" "DOWN \<noteq> UP"
  "STARTING \<noteq> UNKNOWN" "UNKNOWN \<noteq> STARTING"
  by (simp_all add: status_defs)

definition Amazon :: string where "Amazon = ''Amazon''"
definition MyOwn :: string where "MyOwn = ''MyOwn''"

text \<open>The fields that the program sets; every other field keeps its zero value.\<close>

record AmazonMetadataType =
  am_LocalHostname :: string
  am_AvailabilityZone :: string
  am_InstanceID :: string
  am_PublicIpv4 :: string
  am_PublicHostname :: string
  am_LocalIpv4 :: string
  am_HostName :: string

record DataCenterInfo =
  di_Name :: string
  di_Metadata :: AmazonMetadataType

text \<open>The two fields are 32-bit integers.\<close>

record LeaseInfo =
  li_RenewalIntervalInSecs :: int
  li_DurationInSecs :: int

record Instance =
  in_HostName :: string
  in_App :: string
  in_IPAddr :: string
  in_VipAddress :: string
  in_Status :: StatusType
  in_Port :: int
  in_DataCenterInfo :: DataCenterInfo
  in_LeaseInfo :: LeaseInfo
  in_Metadata :: "string gomap"

definition zero_amazon :: AmazonMetadataType where
  "zero_amazon = \<lparr>am_LocalHostname = [], am_AvailabilityZone = [], am_InstanceID = [], am_PublicIpv4 = [],
     am_PublicHostname = [], am_LocalIpv4 = [], am_HostName = []\<rparr>"

definition zero_instance :: Instance where
  "zero_instance = \<lparr>in_HostName = [], in_App = [], in_IPAddr = [], in_VipAddress = [], in_Status = [],
     in_Port = 0, in_DataCenterInfo = \<lparr>di_Name = [], di_Metadata = zero_amazon\<rparr>,
     in_LeaseInfo = \<lparr>li_RenewalIntervalInSecs = 0, li_DurationInSecs = 0\<rparr>, in_Metadata = []\<rparr>"

definition SetMetadataString :: "string \<Rightarrow> string \<Rightarrow> Instance \<Rightarrow> Instance" where
  "SetMetadataString key val ins = in_Metadata_update (AList.update key val) ins"

text \<open>
  The calls of the Eureka client.  \<open>GetInstance\<close> takes the application and the unique identifier;
  \<open>GetApps\<close> is kept as the number of applications.
\<close>

record 'w EurekaConnection =
  ek_GetApps :: "'w \<Rightarrow> (nat \<times> err) \<times> 'w"
  ek_GetInstance :: "string \<Rightarrow> string \<Rightarrow> 'w \<Rightarrow> (Instance option \<times> err) \<times> 'w"
  ek_RegisterInstance :: "Instance \<Rightarrow> 'w \<Rightarrow> err \<times> 'w"
  ek_ReregisterInstance :: "Instance \<Rightarrow> 'w \<Rightarrow> err \<times> 'w"
  ek_HeartBeatInstance :: "Instance \<Rightarrow> 'w \<Rightarrow> err \<times> 'w"
  ek_DeregisterInstance :: "Instance \<Rightarrow> 'w \<Rightarrow> err \<times> 'w"

section \<open>Structs of the package\<close>

record lookupValues =
  lv_InstanceID :: string
  lv_Port :: int
  lv_ClusterName :: string
  lv_ServiceName :: string
  lv_TaskArn :: string

record LoadBalancerRegistrationInfo =
  lr_DNSName :: string
  lr_Port :: int
  lr_ELBEndpoint :: string
  lr_TargetGroupArn :: string
  lr_IpAddress :: string
  lr_VipAddress :: string

definition zero_info :: LoadBalancerRegistrationInfo where
  "zero_info = \<lparr>lr_DNSName = [], lr_Port = 0, lr_ELBEndpoint = [], lr_TargetGroupArn = [], lr_IpAddress = [],
     lr_VipAddress = []\<rparr>"

record aws_Metadata =
  md_InstanceID :: string
  md_PrivateIP :: string
  md_PublicIP :: string
  md_PrivateHostname :: string
  md_PublicHostname :: string
  md_AvailabilityZone :: string
  md_Region :: string

section \<open>Answers of the AWS interfaces\<close>

text \<open>
  A list of load balancers that is absent (a nil slice) is told apart from an empty one, because the
  program tests for it.
\<close>

record TargetGroup =
  tg_TargetGroupArn :: "string option"
  tg_LoadBalancerArns :: "string option list option"

record DescribeTargetGroupsInput =
  gi_PageSize :: "int option"
  gi_Marker :: "string option"
  gi_TargetGroupArns :: "string option list"

record DescribeTargetGroupsOutput =
  go_TargetGroups :: "TargetGroup option list"
  go_NextMarker :: "string option"

record TargetDescription =
  td_Id :: "string option"
  td_Port :: "int option"

record TargetHealth =
  th_State :: "string option"

record TargetHealthDescription =
  hd_Target :: "TargetDescription option"
  hd_TargetHealth :: "TargetHealth option"

record Action =
  ac_TargetGroupArn :: "string option"

record Listener =
  ls_ListenerArn :: "string option"
  ls_Port :: "int option"
  ls_DefaultActions :: "Action option list"

record LoadBalancer =
  lb_LoadBalancerArn :: "string option"
  lb_DNSName :: "string option"

record EcsLoadBalancer =
  el_TargetGroupArn :: "string option"

record EcsService =
  es_ServiceName :: "string option"
  es_TaskDefinition :: "string option"
  es_LoadBalancers :: "EcsLoadBalancer option list"

record EcsTask =
  et_TaskDefinitionArn :: "string option"

text \<open>Outputs with one field that is read are named after the list in it.\<close>

type_synonym DescribeTargetHealthOutput = "TargetHealthDescription option list"
type_synonym DescribeListenersOutput = "Listener option list"
type_synonym DescribeLoadBalancersOutput = "LoadBalancer option list"

section \<open>State and surroundings of the package\<close>

text \<open>
  What is stored in the cache, an \<open>interface{}\<close> in the code: the types that its six users store.  Five of
  them are pointers or slices that may be nil inside the interface.
\<close>

datatype Any =
    AnyInfo "LoadBalancerRegistrationInfo option"
  | AnyTargetGroups "DescribeTargetGroupsOutput option list"
  | AnyTargetHealth "DescribeTargetHealthOutput option"
  | AnyHealthyTargets "TargetHealthDescription option list"
  | AnyListeners "DescribeListenersOutput option"
  | AnyLoadBalancers "DescribeLoadBalancersOutput option"

text \<open>An item of the cache with the time at which it expires, in nanoseconds; zero is never.\<close>

record 'v Item =
  it_Object :: 'v
  it_Expiration :: int

text \<open>
  The package variables \<open>generalCache\<close>, \<open>previousStatus\<close>, \<open>metadataCache\<close> and \<open>once\<close> (whether it has run),
  and the world outside.
\<close>

record 'w Aws =
  aw_generalCache :: "Any Item gomap"
  aw_previousStatus :: "StatusType gomap"
  aw_metadataCache :: "aws_Metadata option"
  aw_once :: bool
  aw_world :: 'w

record 'w EC2MetadataGetter =
  mg_GetMetadata :: "string \<Rightarrow> 'w \<Rightarrow> (string \<times> err) \<times> 'w"
  mg_Available :: "'w \<Rightarrow> bool \<times> 'w"
  mg_GetInstanceIdentityDocument :: "'w \<Rightarrow> (string \<times> err) \<times> 'w"

text \<open>
  \<open>Now\<close> is \<open>time.Now().UnixNano()\<close>; \<open>Intn seed k n\<close> the draw number \<open>k\<close> below \<open>n\<close> of a generator with
  that seed; a session is \<open>None\<close> when it could not be made; an identity document is its region;
  \<open>ListServicesPages\<close> gives the pages with the flag that is passed to the callback.
\<close>

record 'w AwsEnv =
  ae_Now :: "'w \<Rightarrow> int"
  ae_Sleep :: "int \<Rightarrow> 'w \<Rightarrow> 'w"
  ae_Intn :: "int \<Rightarrow> nat \<Rightarrow> int \<Rightarrow> int"
  ae_NewSession :: "'w \<Rightarrow> (unit option \<times> err) \<times> 'w"
  ae_NewEC2Metadata :: "unit option \<Rightarrow> 'w EC2MetadataGetter outcome"
  ae_DescribeTargetGroups :: "string \<Rightarrow> DescribeTargetGroupsInput \<Rightarrow> 'w \<Rightarrow> (DescribeTargetGroupsOutput option \<times> err) \<times> 'w"
  ae_DescribeTargetHealth :: "string \<Rightarrow> string option \<Rightarrow> 'w \<Rightarrow> (DescribeTargetHealthOutput option \<times> err) \<times> 'w"
  ae_DescribeListeners :: "string \<Rightarrow> string option \<Rightarrow> 'w \<Rightarrow> (DescribeListenersOutput option \<times> err) \<times> 'w"
  ae_DescribeLoadBalancers :: "string \<Rightarrow> string option list option \<Rightarrow> 'w \<Rightarrow> (DescribeLoadBalancersOutput option \<times> err) \<times> 'w"
  ae_DescribeServices :: "string \<Rightarrow> string \<Rightarrow> string option list \<Rightarrow> 'w \<Rightarrow> (EcsService option list option \<times> err) \<times> 'w"
  ae_DescribeTasks :: "string \<Rightarrow> string \<Rightarrow> string option list \<Rightarrow> 'w \<Rightarrow> (EcsTask option list option \<times> err) \<times> 'w"
  ae_ListServicesPages :: "string \<Rightarrow> string \<Rightarrow> 'w \<Rightarrow> ((string option list \<times> bool) list \<times> err) \<times> 'w"

text \<open>A call of the outside world from the state of the package.\<close>

definition calling :: "('w \<Rightarrow> 'a \<times> 'w) \<Rightarrow> 'w Aws \<Rightarrow> 'a \<times> 'w Aws" where
  "calling f a = (let (x, w) = f (aw_world a) in (x, a\<lparr>aw_world := w\<rparr>))"

lemma calling_world [simp]:
  "snd (calling f a) = a\<lparr>aw_world := snd (f (aw_world a))\<rparr>" "fst (calling f a) = fst (f (aw_world a))"
  by (simp_all add: calling_def split: prod.split)

lemma calling_eq: "calling f a = (fst (f (aw_world a)), a\<lparr>aw_world := snd (f (aw_world a))\<rparr>)"
  by (simp add: prod_eq_iff)

end
