(* ===== verification/AwsCache.thy ===== *)
theory AwsCache
  imports AwsTypes
begin

text \<open>
  The cache of the AWS support, \<open>aws/cache.go\<close>, over the library go-cache: the items of a map with a
  time of expiry.  The interface that the users of the cache rely on is the locale \<open>expiring_store\<close>.
  The library's own goroutine that drops expired items is not modelled: \<open>Get\<close> never shows such items.
\<close>

section \<open>The library\<close>

text \<open>Durations are in nanoseconds.  \<open>NoExpiration\<close> is a constant of the library.\<close>

definition second :: int where
  "second = 10 ^ 9"

definition DEFAULT_EXP_TIME :: int where
  "DEFAULT_EXP_TIME = 10 * second"

definition NoExpiration :: int where
  "NoExpiration = - 1"

definition cache_Set :: "int \<Rightarrow> string \<Rightarrow> 'v \<Rightarrow> int \<Rightarrow> 'v Item gomap \<Rightarrow> 'v Item gomap" where
  "cache_Set now k x d items =
     (let d = (if d = 0 then DEFAULT_EXP_TIME else d);
          e = (if d > 0 then now + d else 0)
      in AList.update k \<lparr>it_Object = x, it_Expiration = e\<rparr> items)"

definition cache_Get :: "int \<Rightarrow> 'v Item gomap \<Rightarrow> string \<Rightarrow> 'v option" where
  "cache_Get now items k =
     (case map_of items k of
        None \<Rightarrow> None
      | Some item \<Rightarrow>
          if it_Expiration item > 0 \<and> now > it_Expiration item then None else Some (it_Object item))"

definition cache_Delete :: "string \<Rightarrow> 'v Item gomap \<Rightarrow> 'v Item gomap" where
  "cache_Delete k items = AList.delete k items"

section \<open>The package\<close>

text \<open>The function called on a miss is \<open>f\<close>; a result is stored unless it comes with an error.\<close>

definition GetAndCache ::
    "'w AwsEnv \<Rightarrow> string \<Rightarrow> 'i \<Rightarrow> ('i \<Rightarrow> 'w Aws \<Rightarrow> ((Any \<times> err) \<times> 'w Aws) outcome) \<Rightarrow> int \<Rightarrow> 'w Aws \<Rightarrow>
     ((Any option \<times> err) \<times> 'w Aws) outcome" where
  "GetAndCache E key input f cacheTime a =
     (case cache_Get (ae_Now E (aw_world a)) (aw_generalCache a) key of
        Some result \<Rightarrow> Done ((Some result, None), a)
      | None \<Rightarrow>
          obind (f input a) (\<lambda>((output, e), a).
            if e = None then
              Done ((Some output, None),
                a\<lparr>aw_generalCache := cache_Set (ae_Now E (aw_world a)) key output cacheTime (aw_generalCache a)\<rparr>)
            else Done ((None, e), a)))"

definition AddToCache :: "'w AwsEnv \<Rightarrow> string \<Rightarrow> Any \<Rightarrow> int \<Rightarrow> 'w Aws \<Rightarrow> 'w Aws" where
  "AddToCache E key val cacheTime a =
     a\<lparr>aw_generalCache := cache_Set (ae_Now E (aw_world a)) key val cacheTime (aw_generalCache a)\<rparr>"

definition RemoveKeyFromCache :: "string \<Rightarrow> 'w Aws \<Rightarrow> 'w Aws" where
  "RemoveKeyFromCache key a = a\<lparr>aw_generalCache := cache_Delete key (aw_generalCache a)\<rparr>"

section \<open>A store whose items expire\<close>

locale expiring_store =
  fixes get :: "int \<Rightarrow> 's \<Rightarrow> string \<Rightarrow> 'v option"
    and put :: "int \<Rightarrow> string \<Rightarrow> 'v \<Rightarrow> int \<Rightarrow> 's \<Rightarrow> 's"
    and del :: "string \<Rightarrow> 's \<Rightarrow> 's"
    and lifetime :: "int \<Rightarrow> int option"
  assumes get_put: "0 \<le> now \<Longrightarrow> get t (put now k v d s) k =
      (case lifetime d of None \<Rightarrow> Some v | Some l \<Rightarrow> if t \<le> now + l then Some v else None)"
    and get_put_other: "k' \<noteq> k \<Longrightarrow> get t (put now k v d s) k' = get t s k'"
    and get_del: "get t (del k s) k' = (if k' = k then None else get t s k')"
    and lifetime_pos: "lifetime d = Some l \<Longrightarrow> 0 < l"
begin

text \<open>Just after it is stored a value is there, and deleting it undoes storing it.\<close>

lemma get_put_now: "0 \<le> now \<Longrightarrow> get now (put now k v d s) k = Some v"
  by (auto simp: get_put dest!: lifetime_pos split: option.split)

lemma del_put: "get t (del k (put now k v d s)) = get t (del k s)"
  by (rule ext) (simp add: get_del get_put_other)

text \<open>Time only takes values away: what is there later was there before.\<close>

lemma get_put_mono:
  assumes "0 \<le> now" and "t \<le> t'" and "get t' (put now k v d s) k = Some x"
  shows "get t (put now k v d s) k = Some x"
  using assms by (simp add: get_put split: option.splits if_splits)

lemma put_twice: "0 \<le> now \<Longrightarrow> 0 \<le> now' \<Longrightarrow>
    get t (put now' k v' d' (put now k v d s)) k = get t (put now' k v' d' s) k"
  by (simp add: get_put)

end

definition item_lifetime :: "int \<Rightarrow> int option" where
  "item_lifetime d = (if d < 0 then None else Some (if d = 0 then DEFAULT_EXP_TIME else d))"

interpretation gocache: expiring_store cache_Get cache_Set cache_Delete item_lifetime
proof unfold_locales
  fix now t d :: int and k k' :: string and v :: 'v and s :: "'v Item gomap"
  show "0 \<le> now \<Longrightarrow> cache_Get t (cache_Set now k v d s) k =
      (case item_lifetime d of None \<Rightarrow> Some v | Some l \<Rightarrow> if t \<le> now + l then Some v else None)"
    by (simp add: cache_Get_def cache_Set_def item_lifetime_def update_conv' DEFAULT_EXP_TIME_def second_def)
qed (simp_all add: cache_Get_def cache_Set_def cache_Delete_def item_lifetime_def update_conv'
      delete_conv' DEFAULT_EXP_TIME_def second_def split: if_splits)

lemma item_lifetime_simps [simp]:
  "item_lifetime NoExpiration = None" "item_lifetime DEFAULT_EXP_TIME = Some DEFAULT_EXP_TIME"
  by (simp_all add: item_lifetime_def NoExpiration_def DEFAULT_EXP_TIME_def second_def)

section \<open>The cache in use\<close>

text \<open>What a look into the cache shows at the time of a state.\<close>

definition cached :: "'w AwsEnv \<Rightarrow> 'w Aws \<Rightarrow> string \<Rightarrow> Any option" where
  "cached E a k = cache_Get (ae_Now E (aw_world a)) (aw_generalCache a) k"

lemma GetAndCache_hit: "cached E a k = Some v \<Longrightarrow> GetAndCache E k i f d a = Done ((Some v, None), a)"
  by (simp add: GetAndCache_def cached_def)

lemma GetAndCache_miss:
  assumes "cached E a k = None" and "f i a = Done ((v, e), a1)"
  shows "GetAndCache E k i f d a =
    (if e = None then Done ((Some v, None), AddToCache E k v d a1) else Done ((None, e), a1))"
  using assms by (simp add: GetAndCache_def cached_def AddToCache_def)

lemma GetAndCache_result:
  assumes "GetAndCache E k i f d a = Done ((out, e), a')"
  shows "out = None \<longleftrightarrow> e \<noteq> None"
proof (cases "cached E a k")
  case None
  with assms show ?thesis by (auto simp: GetAndCache_def cached_def split: if_splits)
next
  case (Some v)
  from assms GetAndCache_hit [OF Some, of i f d] have "out = Some v" "e = None" by auto
  then show ?thesis by simp
qed

lemma cached_AddToCache:
  "0 \<le> ae_Now E (aw_world a) \<Longrightarrow>
   cached E (AddToCache E k v d a) k' = (if k' = k then Some v else cached E a k')"
  by (simp add: cached_def AddToCache_def gocache.get_put_now gocache.get_put_other)

lemma cached_RemoveKey: "cached E (RemoveKeyFromCache k a) k' = (if k' = k then None else cached E a k')"
  by (simp add: cached_def RemoveKeyFromCache_def gocache.get_del)

text \<open>
  After a successful call, a state with the same item at a time within its lifetime gets the same
  result from every call with that key, without another call of a function.
\<close>

lemma GetAndCache_again:
  assumes "GetAndCache E k i f d a = Done ((Some v, None), a1)" and "cached E a k = None"
    and "0 \<le> ae_Now E (aw_world a1)"
    and "aw_generalCache a2 = aw_generalCache a1"
    and "item_lifetime d = None \<or> ae_Now E (aw_world a2) \<le> ae_Now E (aw_world a1) + the (item_lifetime d)"
  shows "GetAndCache E k j g d' a2 = Done ((Some v, None), a2)"
proof (rule GetAndCache_hit)
  from assms(1,2) obtain a0 where a1: "a1 = AddToCache E k v d a0"
    by (auto simp: GetAndCache_def cached_def AddToCache_def split: if_splits)
  with assms(3) have "0 \<le> ae_Now E (aw_world a0)" by (simp add: AddToCache_def)
  with assms(4,5) a1 show "cached E a2 k = Some v"
    by (auto simp: cached_def AddToCache_def gocache.get_put split: option.split)
qed

end
