(* ===== verification/AwsMetadata.thy ===== *)
theory AwsMetadata
  imports AwsCache
begin

text \<open>
  The metadata of the EC2 instance, \<open>aws/metadata.go\<close>, and the sessions with the AWS interfaces made
  from it (\<open>getSession\<close>, \<open>getECSSession\<close> of \<open>aws/elb.go\<close>).
\<close>

section \<open>Retrieval\<close>

definition getDataOrFail :: "'w EC2MetadataGetter \<Rightarrow> string \<Rightarrow> 'w \<Rightarrow> string \<times> 'w" where
  "getDataOrFail svc key w =
     (let ((val, e), w) = mg_GetMetadata svc key w in if e \<noteq> None then ([], w) else (val, w))"

definition zero_metadata :: aws_Metadata where
  "zero_metadata = \<lparr>md_InstanceID = [], md_PrivateIP = [], md_PublicIP = [], md_PrivateHostname = [],
     md_PublicHostname = [], md_AvailabilityZone = [], md_Region = []\<rparr>"

definition retrieveMetadata :: "'w EC2MetadataGetter \<Rightarrow> 'w \<Rightarrow> aws_Metadata \<times> 'w" where
  "retrieveMetadata svc w =
     (let m = zero_metadata; (available, w) = mg_Available svc w in
      if available then
        (let ((region, e), w) = mg_GetInstanceIdentityDocument svc w;
             m = m\<lparr>md_Region := (if e \<noteq> None then [] else region)\<rparr>;
             (v, w) = getDataOrFail svc ''instance-id'' w; m = m\<lparr>md_InstanceID := v\<rparr>;
             (v, w) = getDataOrFail svc ''local-ipv4'' w; m = m\<lparr>md_PrivateIP := v\<rparr>;
             (v, w) = getDataOrFail svc ''public-ipv4'' w; m = m\<lparr>md_PublicIP := v\<rparr>;
             (v, w) = getDataOrFail svc ''local-hostname'' w; m = m\<lparr>md_PrivateHostname := v\<rparr>;
             (v, w) = getDataOrFail svc ''public-hostname'' w; m = m\<lparr>md_PublicHostname := v\<rparr>;
             (v, w) = getDataOrFail svc ''placement/availability-zone'' w; m = m\<lparr>md_AvailabilityZone := v\<rparr>
         in (m, w))
      else (m, w))"

text \<open>\<open>SetMetadata\<close> also uses up \<open>once\<close>, so that a later \<open>GetMetadata\<close> retrieves nothing.\<close>

definition SetMetadata :: "aws_Metadata option \<Rightarrow> 'w Aws \<Rightarrow> 'w Aws" where
  "SetMetadata md a = a\<lparr>aw_metadataCache := md, aw_once := True\<rparr>"

text \<open>The error of the session is only logged.\<close>

definition GetMetadata :: "'w AwsEnv \<Rightarrow> 'w Aws \<Rightarrow> (aws_Metadata option \<times> 'w Aws) outcome" where
  "GetMetadata E a =
     obind
       (if aw_once a then Done a
        else
          (let ((sess, e), a) = calling (ae_NewSession E) a in
           obind (ae_NewEC2Metadata E sess) (\<lambda>svc.
             let (m, a) = calling (retrieveMetadata svc) a in
             Done (a\<lparr>aw_metadataCache := Some m, aw_once := True\<rparr>))))
       (\<lambda>a. Done (aw_metadataCache a, a))"

section \<open>Sessions\<close>

text \<open>Both kinds of session fail and succeed alike; what differs is the interface they speak to.\<close>

definition getSession :: "'w AwsEnv \<Rightarrow> 'w Aws \<Rightarrow> ((string option \<times> err) \<times> 'w Aws) outcome" where
  "getSession E a =
     (let ((sess, e), a) = calling (ae_NewSession E) a in
      case e of
        Some m \<Rightarrow> Done ((None, Some (''Failed to create session connecting to AWS: '' @ m)), a)
      | None \<Rightarrow>
          obind (GetMetadata E a) (\<lambda>(awsMetadata, a).
          obind (deref awsMetadata) (\<lambda>awsMetadata. Done ((Some (md_Region awsMetadata), None), a))))"

definition getECSSession :: "'w AwsEnv \<Rightarrow> 'w Aws \<Rightarrow> ((string option \<times> err) \<times> 'w Aws) outcome" where
  "getECSSession E a =
     (let ((sess, e), a) = calling (ae_NewSession E) a in
      case e of
        Some m \<Rightarrow> Done ((None, Some (''Failed to create session connecting to AWS: '' @ m)), a)
      | None \<Rightarrow>
          obind (GetMetadata E a) (\<lambda>(awsMetadata, a).
          obind (deref awsMetadata) (\<lambda>awsMetadata. Done ((Some (md_Region awsMetadata), None), a))))"

section \<open>Facts\<close>

text \<open>The metadata is known, so that no retrieval happens any more.\<close>

definition has_metadata :: "'w Aws \<Rightarrow> bool" where
  "has_metadata a \<longleftrightarrow> aw_once a \<and> aw_metadataCache a \<noteq> None"

lemma GetMetadata_known: "aw_once a \<Longrightarrow> GetMetadata E a = Done (aw_metadataCache a, a)"
  by (simp add: GetMetadata_def)

lemma GetMetadata_set: "GetMetadata E (SetMetadata md a) = Done (md, SetMetadata md a)"
  by (simp add: GetMetadata_def SetMetadata_def)

text \<open>Retrieval happens at most once: a second call returns the same and changes nothing.\<close>

lemma GetMetadata_once: "GetMetadata E a = Done (md, a') \<Longrightarrow> GetMetadata E a' = Done (md, a')"
  by (auto simp: GetMetadata_def Let_def split: if_splits prod.splits)

lemma GetMetadata_keeps:
  assumes "GetMetadata E a = Done (md, a')"
  shows "aw_generalCache a' = aw_generalCache a \<and> aw_previousStatus a' = aw_previousStatus a \<and> aw_once a'"
  using assms by (auto simp: GetMetadata_def calling_eq Let_def split: if_splits prod.splits)

lemma GetMetadata_has:
  "has_metadata a \<or> \<not> aw_once a \<Longrightarrow> GetMetadata E a = Done (md, a') \<Longrightarrow> has_metadata a' \<and> md \<noteq> None"
  by (auto simp: GetMetadata_def has_metadata_def Let_def split: if_splits prod.splits)

lemma getECSSession_getSession: "getECSSession = getSession"
  by (intro ext) (simp add: getECSSession_def getSession_def)

end
