(* ===== verification/AwsElb.thy ===== *)
theory AwsElb
  imports AwsMetadata
begin

text \<open>
  Finding the load balancer of a container: the flags, the pages of target groups, the lookup by
  service name and the lookup by target health of \<open>aws/elb.go\<close>.
\<close>

section \<open>Flags\<close>

text \<open>
  Lines 55-84.  The outcome of parsing the port is logged only: \<open>hasExplicit\<close> is set after it either way.
  A flag that is no boolean counts as false, which is the value that comes with the error.
\<close>

definition explicit_endpoint :: "string gomap \<Rightarrow> bool" where
  "explicit_endpoint attrs \<longleftrightarrow> get_str attrs ''eureka_elbv2_hostname'' \<noteq> [] \<and>
     get_str attrs ''eureka_elbv2_port'' \<noteq> [] \<and> get_str attrs ''eureka_elbv2_targetgroup'' \<noteq> []"

definition CheckELBFlags :: "Service \<Rightarrow> bool" where
  "CheckELBFlags service =
     (let attrs = sv_Attrs service;
          isAws = (get_str attrs ''eureka_datacenterinfo_name'' \<noteq> MyOwn);
          (hasExplicit, useLookup) =
            (if explicit_endpoint attrs then
               (let hasExplicit = False;
                    v = parseUint16 (get_str attrs ''eureka_elbv2_port'');
                    hasExplicit = (if v = None then False else hasExplicit);
                    hasExplicit = True
                in (hasExplicit, True))
             else (False, False));
          useLookup =
            (if get_str attrs ''eureka_lookup_elbv2_endpoint'' \<noteq> [] then
               (case parseBool (get_str attrs ''eureka_lookup_elbv2_endpoint'') of
                  None \<Rightarrow> False
                | Some v \<Rightarrow> v)
             else useLookup)
      in (hasExplicit \<or> useLookup) \<and> isAws)"

definition CheckELBOnlyReg :: "Service \<Rightarrow> bool" where
  "CheckELBOnlyReg service =
     (let flag = get_str (sv_Attrs service) ''eureka_elbv2_only_registration'' in
      if flag \<noteq> [] then (case parseBool flag of None \<Rightarrow> True | Some v \<Rightarrow> v) else True)"

definition GetUniqueID :: "Instance \<Rightarrow> string" where
  "GetUniqueID ins = in_HostName ins @ ''_'' @ itoa (in_Port ins)"

section \<open>The load balancer of a service\<close>

text \<open>
  Logging an error calls its method \<open>Error\<close>, which panics when there is no error, that is, when an
  interface answers with neither a result nor an error.
\<close>

definition log_error :: "err \<Rightarrow> (string \<Rightarrow> 'a outcome) \<Rightarrow> 'a outcome" where
  "log_error e k = obind (deref e) k"

definition getLoadBalancerFromService ::
    "'w AwsEnv \<Rightarrow> string \<Rightarrow> string \<Rightarrow> 'w Aws \<Rightarrow>
     ((LoadBalancer option \<times> TargetGroup option \<times> err) \<times> 'w Aws) outcome" where
  "getLoadBalancerFromService E serviceName clusterName a =
     obind (getECSSession E a) (\<lambda>((svc, e), a).
     if e \<noteq> None then Done ((None, None, e), a) else
     obind (getSession E a) (\<lambda>((svc2, e), a).
     if e \<noteq> None then Done ((None, None, e), a) else
     obind (deref svc) (\<lambda>svc. obind (deref svc2) (\<lambda>svc2.
     let ((out, e), a) = calling (ae_DescribeServices E svc clusterName [Some serviceName]) a in
     if e \<noteq> None \<or> out = None then log_error e (\<lambda>_. Done ((None, None, e), a)) else
     obind (deref out) (\<lambda>services.
     obind (if services = [] then Done [] else
            obind (elem_at services 0) (\<lambda>s. obind (deref s) (\<lambda>s. Done (es_LoadBalancers s)))) (\<lambda>lbs.
     if lbs = [] then
       Done ((None, None, Some ''Load balancer not found.  It possibly doesn't exist for this service.''), a)
     else
     obind (elem_at lbs 0) (\<lambda>lb. obind (deref lb) (\<lambda>lb.
     let tgArn = el_TargetGroupArn lb;
         ((out3, e), a) = calling (ae_DescribeTargetGroups E svc2
           \<lparr>gi_PageSize = None, gi_Marker = None, gi_TargetGroupArns = [tgArn]\<rparr>) a in
     if e \<noteq> None \<or> out3 = None then log_error e (\<lambda>_. Done ((None, None, e), a)) else
     obind (deref out3) (\<lambda>out3.
     obind (elem_at (go_TargetGroups out3) 0) (\<lambda>tgp. obind (deref tgp) (\<lambda>tg.
     let ((out2, e), a) = calling (ae_DescribeLoadBalancers E svc2 (tg_LoadBalancerArns tg)) a in
     if e \<noteq> None \<or> out2 = None then log_error e (\<lambda>_. Done ((None, None, e), a)) else
     obind (deref out2) (\<lambda>out2. obind (elem_at out2 0) (\<lambda>lb.
       Done ((lb, tgp, None), a))))))))))))))"

section \<open>Pages of target groups\<close>

definition getTargetGroupsPage ::
    "'w AwsEnv \<Rightarrow> string \<Rightarrow> string option \<Rightarrow> 'w Aws \<Rightarrow> (DescribeTargetGroupsOutput option \<times> err) \<times> 'w Aws" where
  "getTargetGroupsPage E svc marker a =
     (let ((tg, e), a) = calling (ae_DescribeTargetGroups E svc
            \<lparr>gi_PageSize = Some 400, gi_Marker = marker, gi_TargetGroupArns = []\<rparr>) a in
      if e \<noteq> None then ((None, e), a) else ((tg, None), a))"

text \<open>
  The loop of lines 172-179: the page is used before its error is looked at.  \<open>None\<close> is a loop that
  does not end.
\<close>

partial_function (option) targetGroupPages ::
    "'w AwsEnv \<Rightarrow> string \<Rightarrow> string option \<Rightarrow> DescribeTargetGroupsOutput option list \<Rightarrow> 'w Aws \<Rightarrow>
     ((DescribeTargetGroupsOutput option list \<times> err) \<times> 'w Aws) outcome option" where
  "targetGroupPages E svc mark tgs a =
     (case mark of
        None \<Rightarrow> Some (Done ((tgs, None), a))
      | Some m \<Rightarrow>
          (case getTargetGroupsPage E svc (Some m) a of ((tg, e), a) \<Rightarrow>
             (case tg of
                None \<Rightarrow> Some (Panic NilDereference)
              | Some page \<Rightarrow>
                  if e \<noteq> None then Some (Done (([], e), a))
                  else targetGroupPages E svc (go_NextMarker page) (tgs @ [Some page]) a)))"

declare targetGroupPages.simps [code]

text \<open>The whole listing; a loop that does not end is a goroutine that does not get further.\<close>

definition getAllTargetGroups ::
    "'w AwsEnv \<Rightarrow> string \<Rightarrow> 'w Aws \<Rightarrow> ((DescribeTargetGroupsOutput option list \<times> err) \<times> 'w Aws) outcome" where
  "getAllTargetGroups E svc a =
     (let ((tg, e), a) = getTargetGroupsPage E svc None a in
      if e \<noteq> None then Done (([], e), a)
      else
        obind (deref tg) (\<lambda>page.
          case targetGroupPages E svc (go_NextMarker page) [Some page] a of
            None \<Rightarrow> Blocked
          | Some out \<Rightarrow> out))"

section \<open>The service of a task\<close>

text \<open>The callback of \<open>ListServicesPages\<close>: it stops after the page flagged as last.\<close>

fun listedServices :: "(string option list \<times> bool) list \<Rightarrow> string option list \<Rightarrow> string option list" where
  "listedServices [] servicesList = servicesList"
| "listedServices ((page, lastPage) # pages) servicesList =
     (let servicesList = servicesList @ page in
      if \<not> lastPage then listedServices pages servicesList else servicesList)"

text \<open>Lines 272-276: the services of an answer that have the task definition.\<close>

definition matchService :: "string \<Rightarrow> EcsService option \<Rightarrow> string option list \<Rightarrow> string option list outcome" where
  "matchService taskDefArn ser matchedServices =
     obind (deref ser) (\<lambda>ser. obind (deref (es_TaskDefinition ser)) (\<lambda>td.
       Done (if td = taskDefArn then matchedServices @ [es_ServiceName ser] else matchedServices)))"

text \<open>
  Lines 257-279, on the part of the list from index \<open>i\<close> of \<open>n\<close>.  The remainder of the division of
  floating-point numbers is exact for these indices.  \<open>None\<close> is the return with an empty name.
\<close>

fun chunkLoop ::
    "'w AwsEnv \<Rightarrow> string \<Rightarrow> string \<Rightarrow> string \<Rightarrow> nat \<Rightarrow> nat \<Rightarrow> string option list \<Rightarrow> string option list \<Rightarrow>
     string option list \<Rightarrow> 'w Aws \<Rightarrow> (string option list option \<times> 'w Aws) outcome" where
  "chunkLoop E svc clusterName taskDefArn n i [] servChunk matchedServices a = Done (Some matchedServices, a)"
| "chunkLoop E svc clusterName taskDefArn n i (s # rest) servChunk matchedServices a =
     (let servChunk = servChunk @ [s] in
      if (i + 1) mod 10 = 0 \<and> i > 0 \<or> i = n - 1 then
        (let ((dsout, e), a) = calling (ae_DescribeServices E svc clusterName servChunk) a in
         if e \<noteq> None then Done (None, a)
         else
           (case dsout of
              None \<Rightarrow> Done (None, a)
            | Some services \<Rightarrow>
                obind (ofold (matchService taskDefArn) services matchedServices) (\<lambda>matchedServices.
                  chunkLoop E svc clusterName taskDefArn n (i + 1) rest [] matchedServices a)))
      else chunkLoop E svc clusterName taskDefArn n (i + 1) rest servChunk matchedServices a)"

definition lookupServiceName :: "'w AwsEnv \<Rightarrow> string \<Rightarrow> string \<Rightarrow> 'w Aws \<Rightarrow> (string \<times> 'w Aws) outcome" where
  "lookupServiceName E clusterName taskArn a =
     obind (getECSSession E a) (\<lambda>((svc, e), a).
     if e \<noteq> None then Done ([], a) else
     obind (deref svc) (\<lambda>svc.
     let ((pages, e), a) = calling (ae_ListServicesPages E svc clusterName) a;
         servicesList = listedServices pages [] in
     if e \<noteq> None \<or> servicesList = [] then Done ([], a) else
     let ((dtout, e), a) = calling (ae_DescribeTasks E svc clusterName [Some taskArn]) a in
     if e \<noteq> None \<or> dtout = None \<or> dtout = Some [] then Done ([], a) else
     obind (deref dtout) (\<lambda>tasks. obind (elem_at tasks 0) (\<lambda>t. obind (deref t) (\<lambda>t.
     obind (deref (et_TaskDefinitionArn t)) (\<lambda>taskDefArn.
     obind (chunkLoop E svc clusterName taskDefArn (length servicesList) 0 servicesList [] [] a)
       (\<lambda>(matched, a).
          case matched of
            None \<Rightarrow> Done ([], a)
          | Some matchedServices \<Rightarrow>
              if length matchedServices = 1 then
                obind (elem_at matchedServices 0) (\<lambda>m. obind (deref m) (\<lambda>name. Done (name, a)))
              else Done ([], a))))))))"

section \<open>The load balancer of a target\<close>

text \<open>The random wait of lines 307-313.\<close>

definition throttle :: "'w AwsEnv \<Rightarrow> 'w Aws \<Rightarrow> 'w Aws" where
  "throttle E a =
     (let random = ae_Intn E (ae_Now E (aw_world a)) 0 5000
      in a\<lparr>aw_world := ae_Sleep E (10 ^ 6 * random) (aw_world a)\<rparr>)"

text \<open>Lines 364-375: whether one of the targets is the container's; the loop stops at the first.\<close>

fun hasTarget :: "string \<Rightarrow> int \<Rightarrow> DescribeTargetHealthOutput \<Rightarrow> bool outcome" where
  "hasTarget instanceID port [] = Done False"
| "hasTarget instanceID port (None # thds) = hasTarget instanceID port thds"
| "hasTarget instanceID port (Some thd # thds) =
     obind (deref (hd_Target thd)) (\<lambda>t.
     obind (deref (td_Port t)) (\<lambda>p.
     obind (if p = port then obind (deref (td_Id t)) (\<lambda>i. Done (i = instanceID)) else Done False) (\<lambda>m.
       if m then Done True else hasTarget instanceID port thds)))"

text \<open>\<open>svc.DescribeTargetHealth\<close> as a function whose result is cached.\<close>

definition describeTargetHealth ::
    "'w AwsEnv \<Rightarrow> string \<Rightarrow> string option \<Rightarrow> 'w Aws \<Rightarrow> ((Any \<times> err) \<times> 'w Aws) outcome" where
  "describeTargetHealth E svc arn a =
     (let ((out, e), a) = calling (ae_DescribeTargetHealth E svc arn) a in Done ((AnyTargetHealth out, e), a))"

text \<open>
  Lines 347-375, the body of the loop over the target groups of a page.  The state is the match so far
  or the error with which the whole lookup ends.
\<close>

type_synonym tg_match = "string option list option \<times> string"

definition checkTargetGroup ::
    "'w AwsEnv \<Rightarrow> string \<Rightarrow> string \<Rightarrow> int \<Rightarrow> TargetGroup option \<Rightarrow> tg_match \<times> 'w Aws \<Rightarrow>
     ((string + tg_match) \<times> 'w Aws) outcome" where
  "checkTargetGroup E svc instanceID port tg st =
     (let (found, a) = st in
      case tg of
        None \<Rightarrow> Done (Inr found, a)
      | Some tg \<Rightarrow>
          obind (deref (tg_TargetGroupArn tg)) (\<lambda>arn.
          obind (GetAndCache E (''tg_arn_'' @ arn) (Some arn) (describeTargetHealth E svc) DEFAULT_EXP_TIME a)
            (\<lambda>((out2, e), a).
               if e \<noteq> None \<or> out2 = None then log_error e (\<lambda>m. Done (Inl m, a))
               else
                 (case out2 of
                    Some (AnyTargetHealth tarH) \<Rightarrow>
                      obind (deref tarH) (\<lambda>thds.
                      obind (hasTarget instanceID port thds) (\<lambda>m.
                        Done (Inr (if m then (tg_LoadBalancerArns tg, arn) else found), a)))
                  | _ \<Rightarrow> Done (Inr found, a)))))"

fun checkTargetGroups ::
    "'w AwsEnv \<Rightarrow> string \<Rightarrow> string \<Rightarrow> int \<Rightarrow> TargetGroup option list \<Rightarrow> tg_match \<times> 'w Aws \<Rightarrow>
     ((string + tg_match) \<times> 'w Aws) outcome" where
  "checkTargetGroups E svc instanceID port [] st = Done (Inr (fst st), snd st)"
| "checkTargetGroups E svc instanceID port (tg # tgs) st =
     obind (checkTargetGroup E svc instanceID port tg st) (\<lambda>(r, a).
       case r of
         Inl m \<Rightarrow> Done (Inl m, a)
       | Inr found \<Rightarrow> checkTargetGroups E svc instanceID port tgs (found, a))"

text \<open>Lines 344-380: pages are searched until one has a match.\<close>

fun searchPages ::
    "'w AwsEnv \<Rightarrow> string \<Rightarrow> string \<Rightarrow> int \<Rightarrow> DescribeTargetGroupsOutput option list \<Rightarrow> tg_match \<times> 'w Aws \<Rightarrow>
     ((string + tg_match) \<times> 'w Aws) outcome" where
  "searchPages E svc instanceID port [] st = Done (Inr (fst st), snd st)"
| "searchPages E svc instanceID port (page # pages) st =
     obind (deref page) (\<lambda>tgs.
     obind (checkTargetGroups E svc instanceID port (go_TargetGroups tgs) st) (\<lambda>(r, a).
       case r of
         Inl m \<Rightarrow> Done (Inl m, a)
       | Inr found \<Rightarrow>
           if fst found \<noteq> None \<and> snd found \<noteq> [] then Done (Inr found, a)
           else searchPages E svc instanceID port pages (found, a)))"

text \<open>\<open>getAllTargetGroups\<close> as a function whose result is cached.\<close>

definition listTargetGroups ::
    "'w AwsEnv \<Rightarrow> string \<Rightarrow> 'w Aws \<Rightarrow> ((Any \<times> err) \<times> 'w Aws) outcome" where
  "listTargetGroups E svc a = obind (getAllTargetGroups E svc a) (\<lambda>((tgs, e), a). Done ((AnyTargetGroups tgs, e), a))"

text \<open>Lines 335-385: the lookup without a service name.\<close>

definition findByTarget ::
    "'w AwsEnv \<Rightarrow> string \<Rightarrow> string \<Rightarrow> int \<Rightarrow> 'w Aws \<Rightarrow> ((string + tg_match) \<times> 'w Aws) outcome" where
  "findByTarget E svc instanceID port a =
     obind (GetAndCache E ''tg'' svc (listTargetGroups E) DEFAULT_EXP_TIME a) (\<lambda>((out1, e), a).
     if e \<noteq> None \<or> out1 = None then
       Done (Inl (''Failed to retrieve Target Groups: '' @ (case e of None \<Rightarrow> ''%!s(<nil>)'' | Some m \<Rightarrow> m)), a)
     else
       let tgslice = (case out1 of Some (AnyTargetGroups tgs) \<Rightarrow> tgs | _ \<Rightarrow> []) in
       obind (searchPages E svc instanceID port tgslice ((None, []), a)) (\<lambda>(r, a).
         case r of
           Inl m \<Rightarrow> Done (Inl m, a)
         | Inr found \<Rightarrow>
             if fst found = None then Done (Inl ''failed to retrieve load balancer ARN'', a)
             else Done (Inr found, a)))"

text \<open>
  Lines 389-394: the lookup with a service name.  When a load balancer or target group pointer is nil
  without an error, the function returns neither: \<open>Inl None\<close>.
\<close>

definition findByService ::
    "'w AwsEnv \<Rightarrow> string \<Rightarrow> string \<Rightarrow> 'w Aws \<Rightarrow> ((err + tg_match) \<times> 'w Aws) outcome" where
  "findByService E serviceName clusterName a =
     obind (getLoadBalancerFromService E serviceName clusterName a) (\<lambda>((lb, tg, e), a).
       if lb = None \<or> tg = None \<or> e \<noteq> None then Done (Inl e, a)
       else
         obind (deref tg) (\<lambda>tg. obind (deref (tg_TargetGroupArn tg)) (\<lambda>tgArn.
         obind (deref lb) (\<lambda>lb. Done (Inr (Some [lb_LoadBalancerArn lb], tgArn), a)))))"

section \<open>Listener and name of the load balancer\<close>

text \<open>Lines 407-415: the port of a listener that has an action for the target group, the last one winning.\<close>

fun hasAction :: "string \<Rightarrow> Action option list \<Rightarrow> bool outcome" where
  "hasAction tgArn [] = Done False"
| "hasAction tgArn (act # acts) =
     obind (deref act) (\<lambda>act. obind (deref (ac_TargetGroupArn act)) (\<lambda>arn.
       if arn = tgArn then Done True else hasAction tgArn acts))"

definition matchListener :: "string \<Rightarrow> Listener option \<Rightarrow> int option \<Rightarrow> int option outcome" where
  "matchListener tgArn listener lbPort =
     obind (deref listener) (\<lambda>listener.
     obind (hasAction tgArn (ls_DefaultActions listener)) (\<lambda>m.
       if m then obind (deref (ls_ListenerArn listener)) (\<lambda>_. Done (ls_Port listener))
       else Done lbPort))"

definition describeListeners ::
    "'w AwsEnv \<Rightarrow> string \<Rightarrow> string option \<Rightarrow> 'w Aws \<Rightarrow> ((Any \<times> err) \<times> 'w Aws) outcome" where
  "describeListeners E svc arn a =
     (let ((out, e), a) = calling (ae_DescribeListeners E svc arn) a in Done ((AnyListeners out, e), a))"

definition describeLoadBalancers ::
    "'w AwsEnv \<Rightarrow> string \<Rightarrow> string option list option \<Rightarrow> 'w Aws \<Rightarrow> ((Any \<times> err) \<times> 'w Aws) outcome" where
  "describeLoadBalancers E svc arns a =
     (let ((out, e), a) = calling (ae_DescribeLoadBalancers E svc arns) a in Done ((AnyLoadBalancers out, e), a))"

text \<open>Lines 397-436, from the ARNs to the registration information.\<close>

definition endpointOf ::
    "'w AwsEnv \<Rightarrow> string \<Rightarrow> tg_match \<Rightarrow> 'w Aws \<Rightarrow> ((LoadBalancerRegistrationInfo option \<times> err) \<times> 'w Aws) outcome" where
  "endpointOf E svc found a =
     (let (lbArns, tgArn) = found in
      obind (elem_at (case lbArns of None \<Rightarrow> [] | Some arns \<Rightarrow> arns) 0) (\<lambda>lbArn.
      obind (deref lbArn) (\<lambda>arn.
      obind (GetAndCache E (''lsnr_'' @ arn) lbArn (describeListeners E svc) DEFAULT_EXP_TIME a) (\<lambda>((out3, e), a).
      if e \<noteq> None \<or> out3 = None then log_error e (\<lambda>_. Done ((None, e), a)) else
      obind (deref (case out3 of Some (AnyListeners lnrData) \<Rightarrow> lnrData | _ \<Rightarrow> None)) (\<lambda>listeners.
      obind (ofold (matchListener tgArn) listeners None) (\<lambda>lbPort.
      case lbPort of
        None \<Rightarrow> Done ((None, Some ''error: Unable to identify listener port for ELBv2''), a)
      | Some lbPort \<Rightarrow>
      obind (GetAndCache E (''lb_'' @ arn) lbArns (describeLoadBalancers E svc) DEFAULT_EXP_TIME a) (\<lambda>((out4, e), a).
      if e \<noteq> None \<or> out4 = None then log_error e (\<lambda>_. Done ((None, e), a)) else
      obind (deref (case out4 of Some (AnyLoadBalancers lbData) \<Rightarrow> lbData | _ \<Rightarrow> None)) (\<lambda>lbs.
      obind (elem_at lbs 0) (\<lambda>lb. obind (deref lb) (\<lambda>lb.
      obind (deref (lb_DNSName lb)) (\<lambda>dns.
        Done ((Some (zero_info\<lparr>lr_DNSName := dns, lr_Port := lbPort, lr_TargetGroupArn := tgArn\<rparr>), None), a))))))))))))"

section \<open>The whole lookup\<close>

text \<open>Lines 319-328: the names of the service and of the cluster.\<close>

definition chooseService ::
    "'w AwsEnv \<Rightarrow> lookupValues \<Rightarrow> 'w Aws \<Rightarrow> ((string \<times> string) \<times> 'w Aws) outcome" where
  "chooseService E l a =
     (if lv_ServiceName l \<noteq> [] then Done ((lv_ServiceName l, []), a)
      else if lv_ClusterName l \<noteq> [] \<and> lv_TaskArn l \<noteq> [] then
        obind (lookupServiceName E (lv_ClusterName l) (lv_TaskArn l) a) (\<lambda>(serviceName, a).
          Done ((serviceName, lv_ClusterName l), a))
      else Done (([], []), a))"

text \<open>Lines 330-436.\<close>

definition findEndpoint ::
    "'w AwsEnv \<Rightarrow> string \<Rightarrow> lookupValues \<Rightarrow> string \<times> string \<Rightarrow> 'w Aws \<Rightarrow>
     ((LoadBalancerRegistrationInfo option \<times> err) \<times> 'w Aws) outcome" where
  "findEndpoint E svc l names a =
     (let (serviceName, clusterName) = names; instanceID = lv_InstanceID l; port = lv_Port l in
      if serviceName = [] then
        obind (findByTarget E svc instanceID port a) (\<lambda>(r, a).
          case r of
            Inl m \<Rightarrow> Done ((None, Some m), a)
          | Inr found \<Rightarrow> endpointOf E svc found a)
      else
        obind (findByService E serviceName clusterName a) (\<lambda>(r, a).
          case r of
            Inl e \<Rightarrow> Done ((None, e), a)
          | Inr found \<Rightarrow> endpointOf E svc found a))"

definition getELBAndCacheDetails ::
    "'w AwsEnv \<Rightarrow> lookupValues \<Rightarrow> 'w Aws \<Rightarrow> ((LoadBalancerRegistrationInfo option \<times> err) \<times> 'w Aws) outcome" where
  "getELBAndCacheDetails E l a =
     (let a = throttle E a in
      obind (getSession E a) (\<lambda>((svc, e), a).
      if e \<noteq> None then Done ((None, e), a) else
      obind (deref svc) (\<lambda>svc.
      obind (chooseService E l a) (\<lambda>(names, a). findEndpoint E svc l names a))))"

definition lookupDetails ::
    "'w AwsEnv \<Rightarrow> lookupValues \<Rightarrow> 'w Aws \<Rightarrow> ((Any \<times> err) \<times> 'w Aws) outcome" where
  "lookupDetails E l a = obind (getELBAndCacheDetails E l a) (\<lambda>((info, e), a). Done ((AnyInfo info, e), a))"

definition GetELBV2ForContainer ::
    "'w AwsEnv \<Rightarrow> string \<Rightarrow> string \<Rightarrow> int \<Rightarrow> string \<Rightarrow> string \<Rightarrow> string \<Rightarrow> 'w Aws \<Rightarrow>
     ((LoadBalancerRegistrationInfo option \<times> err) \<times> 'w Aws) outcome" where
  "GetELBV2ForContainer E containerID instanceID port clusterName taskArn serviceName a =
     (let i = \<lparr>lv_InstanceID = instanceID, lv_Port = port, lv_ClusterName = clusterName,
               lv_ServiceName = serviceName, lv_TaskArn = taskArn\<rparr> in
      obind (GetAndCache E (''container_'' @ containerID) i (lookupDetails E) NoExpiration a) (\<lambda>((out, e), a).
        if out = None \<or> e \<noteq> None then Done ((None, e), a)
        else Done ((case out of Some (AnyInfo ret) \<Rightarrow> ret | _ \<Rightarrow> None, e), a)))"

end
