(* ===== verification/AwsHealth.thy ===== *)
theory AwsHealth
  imports AwsElb
begin

text \<open>
  Health of load balancers and their status in Eureka: \<open>aws/healthchecks.go\<close> and \<open>getELBStatus\<close> of
  \<open>aws/elb.go\<close>.  The package variable \<open>refreshInterval\<close> of \<open>aws/elb.go\<close> is a parameter of the one function
  that reads it; nothing in the program assigns it, so that its value is zero.
\<close>

section \<open>Status of the last check\<close>

record statusChange =
  sc_registrationStatus :: StatusType
  sc_newStatus :: StatusType

definition getPreviousStatus :: "string \<Rightarrow> 'w Aws \<Rightarrow> StatusType" where
  "getPreviousStatus containerID a = get_str (aw_previousStatus a) containerID"

definition setPreviousStatus :: "string \<Rightarrow> StatusType \<Rightarrow> 'w Aws \<Rightarrow> 'w Aws" where
  "setPreviousStatus containerID status a =
     a\<lparr>aw_previousStatus := AList.update containerID status (aw_previousStatus a)\<rparr>"

section \<open>Healthy targets\<close>

definition keepHealthy ::
    "TargetHealthDescription option \<Rightarrow> TargetHealthDescription option list \<Rightarrow>
     TargetHealthDescription option list outcome" where
  "keepHealthy thd healthyTargets =
     obind (deref thd) (\<lambda>d. obind (deref (hd_TargetHealth d)) (\<lambda>h. obind (deref (th_State h)) (\<lambda>st.
       Done (if st = ''healthy'' then healthyTargets @ [thd] else healthyTargets))))"

definition getHealthyTargets ::
    "'w AwsEnv \<Rightarrow> string \<Rightarrow> 'w Aws \<Rightarrow> ((TargetHealthDescription option list \<times> err) \<times> 'w Aws) outcome" where
  "getHealthyTargets E tgArn a =
     obind (getSession E a) (\<lambda>((svc, e), a).
     if e \<noteq> None then Done (([], e), a) else
     obind (deref svc) (\<lambda>svc.
     let ((tarH, e), a) = calling (ae_DescribeTargetHealth E svc (Some tgArn)) a in
     if e \<noteq> None \<or> tarH = None then log_error e (\<lambda>_. Done (([], e), a)) else
     obind (deref tarH) (\<lambda>thds.
     obind (ofold keepHealthy thds []) (\<lambda>healthyTargets. Done ((healthyTargets, None), a)))))"

text \<open>\<open>getHealthyTargets\<close> as a function whose result is cached.\<close>

definition listHealthyTargets :: "'w AwsEnv \<Rightarrow> string \<Rightarrow> 'w Aws \<Rightarrow> ((Any \<times> err) \<times> 'w Aws) outcome" where
  "listHealthyTargets E tgArn a =
     obind (getHealthyTargets E tgArn a) (\<lambda>((ths, e), a). Done ((AnyHealthyTargets ths, e), a))"

definition healthCheckCacheTime :: "int \<Rightarrow> int" where
  "healthCheckCacheTime refreshInterval =
     (if refreshInterval \<noteq> 0 then refreshInterval * second - 1 * second else DEFAULT_EXP_TIME)"

definition refreshInterval :: int where
  "refreshInterval = 0"

definition GetHealthyTargets ::
    "'w AwsEnv \<Rightarrow> string \<Rightarrow> 'w Aws \<Rightarrow> ((TargetHealthDescription option list \<times> err) \<times> 'w Aws) outcome" where
  "GetHealthyTargets E tgArn a =
     obind (GetAndCache E (''tg_arn_'' @ tgArn) tgArn (listHealthyTargets E)
         (healthCheckCacheTime refreshInterval) a) (\<lambda>((out, e), a).
       if out = None \<or> e \<noteq> None then Done (([], e), a)
       else Done ((case out of Some (AnyHealthyTargets ret) \<Rightarrow> ret | _ \<Rightarrow> [], e), a))"

section \<open>Status in Eureka\<close>

definition getELBStatus :: "'w EurekaConnection \<Rightarrow> Instance \<Rightarrow> 'w Aws \<Rightarrow> StatusType \<times> 'w Aws" where
  "getELBStatus client registration a =
     (let ((result, e), a) = calling (ek_GetInstance client (in_App registration) (GetUniqueID registration)) a in
      if e \<noteq> None then (UNKNOWN, a)
      else case result of None \<Rightarrow> (UNKNOWN, a) | Some ins \<Rightarrow> (in_Status ins, a))"

abbreviation change :: "StatusType \<Rightarrow> StatusType \<Rightarrow> statusChange" where
  "change new registration \<equiv> \<lparr>sc_registrationStatus = registration, sc_newStatus = new\<rparr>"

definition determineNewEurekaStatus ::
    "'w AwsEnv \<Rightarrow> string \<Rightarrow> StatusType \<Rightarrow> StatusType \<Rightarrow> 'w Aws \<Rightarrow> (statusChange \<times> 'w Aws) outcome" where
  "determineNewEurekaStatus E containerID eurekaStatus inputStatus a =
     (if eurekaStatus = UP then Done (change UP UP, a)
      else if inputStatus \<noteq> UP then
        (case cache_Get (ae_Now E (aw_world a)) (aw_generalCache a) (''container_'' @ containerID) of
           None \<Rightarrow> Done (change UNKNOWN STARTING, a)
         | Some (AnyInfo elbMetadata) \<Rightarrow>
             obind (deref elbMetadata) (\<lambda>elbMetadata.
             obind (GetHealthyTargets E (lr_TargetGroupArn elbMetadata) a) (\<lambda>((thList, err2), a).
               if err2 \<noteq> None then Done (change UNKNOWN STARTING, a)
               else if length thList = 0 then Done (change STARTING STARTING, a)
               else Done (change UP UP, a)))
         | Some _ \<Rightarrow> Done (change UNKNOWN STARTING, a))
      else Done (change UP UP, a))"

definition testHealth ::
    "'w AwsEnv \<Rightarrow> Service \<Rightarrow> 'w EurekaConnection \<Rightarrow> Instance \<Rightarrow> 'w Aws \<Rightarrow> (Instance \<times> 'w Aws) outcome" where
  "testHealth E service client elbReg a =
     (let containerID = sp_ContainerID (sv_Origin service);
          (eurekaStatus, a) = getELBStatus client elbReg a;
          last = getPreviousStatus containerID a in
      obind (determineNewEurekaStatus E containerID eurekaStatus last a) (\<lambda>(statusChange, a).
        let a = setPreviousStatus containerID (sc_newStatus statusChange) a in
        Done (elbReg\<lparr>in_Status := sc_registrationStatus statusChange\<rparr>, a)))"

end
