(* ===== verification/AwsRegister.thy ===== *)
theory AwsRegister
  imports AwsHealth
begin

text \<open>
  Registering a load balancer in place of a container: \<open>getELBMetadata\<close>, \<open>mutateRegistrationInfo\<close>,
  \<open>RegisterWithELBv2\<close> and \<open>HeartbeatELBv2\<close> of \<open>aws/elb.go\<close>.  The instance that is changed through a pointer
  is passed and returned.
\<close>

section \<open>The endpoint to register\<close>

definition getELBMetadata ::
    "'w AwsEnv \<Rightarrow> Service \<Rightarrow> int \<Rightarrow> 'w Aws \<Rightarrow> ((LoadBalancerRegistrationInfo \<times> err) \<times> 'w Aws) outcome" where
  "getELBMetadata E service port a =
     (let attrs = sv_Attrs service; elbMetadata = zero_info in
      obind (GetMetadata E a) (\<lambda>(awsMetadata, a).
      if explicit_endpoint attrs then
        (let elbMetadata = elbMetadata\<lparr>lr_Port := atoiValue (get_str attrs ''eureka_elbv2_port''),
               lr_DNSName := get_str attrs ''eureka_elbv2_hostname'',
               lr_TargetGroupArn := get_str attrs ''eureka_elbv2_targetgroup'',
               lr_ELBEndpoint := get_str attrs ''eureka_elbv2_hostname'' @ ''_'' @ get_str attrs ''eureka_elbv2_port'',
               lr_IpAddress := []\<rparr>;
             a = AddToCache E (''container_'' @ sp_ContainerID (sv_Origin service)) (AnyInfo (Some elbMetadata))
               NoExpiration a
         in Done ((elbMetadata, None), a))
      else
        (let clusterName = get_str attrs ''com.amazonaws.ecs.cluster'';
             taskArn = get_str attrs ''com.amazonaws.ecs.task-arn'';
             serviceName = get_str attrs ''ecs_service'' in
         obind (deref awsMetadata) (\<lambda>awsMetadata.
         obind (GetELBV2ForContainer E (sp_ContainerID (sv_Origin service)) (md_InstanceID awsMetadata) port
             clusterName taskArn serviceName a) (\<lambda>((elbMetadata1, e), a).
           if e \<noteq> None then Done ((elbMetadata, Some ''No ELB data available''), a)
           else case elbMetadata1 of
             None \<Rightarrow> Done ((elbMetadata, Some ''No ELB data available''), a)
           | Some elbMetadata \<Rightarrow>
               Done ((elbMetadata\<lparr>lr_ELBEndpoint := lr_DNSName elbMetadata @ ''_'' @ itoa (lr_Port elbMetadata),
                        lr_IpAddress := []\<rparr>, None), a))))))"

text \<open>Lines 448-474, once the endpoint is known.\<close>

definition elb_only :: "Instance \<Rightarrow> Instance" where
  "elb_only registration =
     (let registration = registration\<lparr>in_DataCenterInfo := (in_DataCenterInfo registration)\<lparr>di_Metadata :=
            zero_amazon\<lparr>am_InstanceID := GetUniqueID registration, am_PublicHostname := in_HostName registration,
              am_HostName := in_HostName registration\<rparr>\<rparr>\<rparr>
      in SetMetadataString ''aws-instance-id'' [] (SetMetadataString ''container-name'' []
           (SetMetadataString ''container-id'' [] registration)))"

definition elb_registration :: "Service \<Rightarrow> LoadBalancerRegistrationInfo \<Rightarrow> Instance \<Rightarrow> Instance" where
  "elb_registration service elbMetadata registration =
     (let registration = registration\<lparr>in_IPAddr := lr_IpAddress elbMetadata,
            in_VipAddress := lr_VipAddress elbMetadata, in_Port := lr_Port elbMetadata,
            in_HostName := lr_DNSName elbMetadata\<rparr>;
          registration = SetMetadataString ''has-elbv2'' ''true'' registration;
          registration = SetMetadataString ''elbv2-endpoint'' (lr_ELBEndpoint elbMetadata) registration;
          registration = registration\<lparr>in_VipAddress := in_IPAddr registration\<rparr>;
          registration = (if CheckELBOnlyReg service then elb_only registration else registration)
      in registration\<lparr>in_LeaseInfo := \<lparr>li_RenewalIntervalInSecs = 0, li_DurationInSecs = 35\<rparr>\<rparr>)"

definition mutateRegistrationInfo ::
    "'w AwsEnv \<Rightarrow> Service \<Rightarrow> Instance \<Rightarrow> 'w Aws \<Rightarrow> (Instance option \<times> 'w Aws) outcome" where
  "mutateRegistrationInfo E service registration a =
     obind (getELBMetadata E service (in_Port registration) a) (\<lambda>((elbMetadata, e), a).
       if e \<noteq> None then Done (None, a)
       else Done (Some (elb_registration service elbMetadata registration), a))"

section \<open>Registration and heartbeat\<close>

text \<open>Lines 542-544 and 558-560: what follows once there is an endpoint.\<close>

definition registerELB ::
    "'w AwsEnv \<Rightarrow> Service \<Rightarrow> 'w EurekaConnection \<Rightarrow> Instance \<Rightarrow> 'w Aws \<Rightarrow> (err \<times> 'w Aws) outcome" where
  "registerELB E service client elbReg a =
     obind (testHealth E service client elbReg a) (\<lambda>(elbReg, a).
       Done (calling (ek_ReregisterInstance client elbReg) a))"

text \<open>
  Lines 546-562: attempts \<open>i\<close> of \<open>is\<close>, each after a wait; the generator is seeded once.  \<open>None\<close> is the end of
  the loop without an endpoint.
\<close>

definition retryPeriod :: "int \<Rightarrow> nat \<Rightarrow> int" where
  "retryPeriod random i = 10 ^ 6 * random + 10 ^ 6 * 5000 + DEFAULT_EXP_TIME * int i"

fun retryLoop ::
    "'w AwsEnv \<Rightarrow> Service \<Rightarrow> Instance \<Rightarrow> 'w EurekaConnection \<Rightarrow> int \<Rightarrow> nat list \<Rightarrow> 'w Aws \<Rightarrow>
     (err option \<times> 'w Aws) outcome" where
  "retryLoop E service registration client seed [] a = Done (None, a)"
| "retryLoop E service registration client seed (i # is) a =
     (let random = ae_Intn E seed (i - 1) 5000;
          a = a\<lparr>aw_world := ae_Sleep E (retryPeriod random i) (aw_world a)\<rparr> in
      obind (mutateRegistrationInfo E service registration a) (\<lambda>(elbReg, a).
        case elbReg of
          Some elbReg \<Rightarrow> obind (registerELB E service client elbReg a) (\<lambda>(e, a). Done (Some e, a))
        | None \<Rightarrow> retryLoop E service registration client seed is a))"

definition RegisterWithELBv2 ::
    "'w AwsEnv \<Rightarrow> Service \<Rightarrow> Instance \<Rightarrow> 'w EurekaConnection \<Rightarrow> 'w Aws \<Rightarrow> (err \<times> 'w Aws) outcome" where
  "RegisterWithELBv2 E service registration client a =
     (let failure = Some (''unable to register ELBv2: '' @ GetUniqueID registration) in
      if CheckELBFlags service then
        obind (mutateRegistrationInfo E service registration a) (\<lambda>(elbReg, a).
          case elbReg of
            Some elbReg \<Rightarrow> registerELB E service client elbReg a
          | None \<Rightarrow>
              obind (retryLoop E service registration client (ae_Now E (aw_world a)) [1, 2, 3] a) (\<lambda>(r, a).
                case r of
                  Some e \<Rightarrow> Done (e, a)
                | None \<Rightarrow> Done (failure, a)))
      else Done (failure, a))"

definition HeartbeatELBv2 ::
    "'w AwsEnv \<Rightarrow> Service \<Rightarrow> Instance \<Rightarrow> 'w EurekaConnection \<Rightarrow> 'w Aws \<Rightarrow> (err \<times> 'w Aws) outcome" where
  "HeartbeatELBv2 E service registration client a =
     (let failure = Some (''unable to heartbeat ELBv2. '' @ GetUniqueID registration) in
      if CheckELBFlags service then
        obind (mutateRegistrationInfo E service registration a) (\<lambda>(elbReg, a).
          case elbReg of
            None \<Rightarrow> Done (failure, a)
          | Some elbReg \<Rightarrow>
              (let (e, a) = calling (ek_HeartBeatInstance client elbReg) a in
               if getPreviousStatus (sp_ContainerID (sv_Origin service)) a \<noteq> UP then
                 obind (testHealth E service client elbReg a) (\<lambda>(elbReg, a).
                   let (e2, a) = calling (ek_ReregisterInstance client elbReg) a in
                   if e2 \<noteq> None then Done (e2, a) else Done (e, a))
               else Done (e, a)))
      else Done (failure, a))"

end
