(* ===== verification/Eureka.thy ===== *)
theory Eureka
  imports AwsRegister Backends
begin

text \<open>
  The Eureka adapter, \<open>eureka/eureka.go\<close>, on the state of the package \<open>aws\<close>.  The Eureka client library is a
  parameter.  \<open>GetUniqueID\<close> is the same function as in \<open>aws/elb.go\<close>.
\<close>

section \<open>The instance that is registered\<close>

definition checkBooleanFlag :: "Service \<Rightarrow> string \<Rightarrow> bool" where
  "checkBooleanFlag service flag =
     (if get_str (sv_Attrs service) flag \<noteq> [] then
        (case parseBool (get_str (sv_Attrs service) flag) of None \<Rightarrow> False | Some v \<Rightarrow> v)
      else False)"

definition ShortHandTernary :: "string \<Rightarrow> string \<Rightarrow> string" where
  "ShortHandTernary string1 string2 = (if string1 \<noteq> [] then string1 else string2)"

text \<open>
  Lines 82-104: a lease value that is set but is no number leaves the zero of the fresh struct; a number is
  cut down to 32 bits.
\<close>

definition leaseValue :: "string \<Rightarrow> int \<Rightarrow> int" where
  "leaseValue s dflt =
     (if s \<noteq> [] then (case atoi s of None \<Rightarrow> 0 | Some v \<Rightarrow> int32 v) else dflt)"

definition leaseInfo :: "string gomap \<Rightarrow> LeaseInfo" where
  "leaseInfo attrs =
     \<lparr>li_RenewalIntervalInSecs = leaseValue (get_str attrs ''eureka_leaseinfo_renewalintervalinsecs'') 30,
      li_DurationInSecs = leaseValue (get_str attrs ''eureka_leaseinfo_durationinsecs'') 90\<rparr>"

text \<open>Lines 107-112.\<close>

definition set_metadata_attr :: "string \<times> string \<Rightarrow> Instance \<Rightarrow> Instance" where
  "set_metadata_attr kv registration =
     (let (k, v) = kv in
      if hasPrefix k ''eureka_metadata_'' then SetMetadataString (trimPrefix k ''eureka_metadata_'') v registration
      else registration)"

text \<open>Lines 69-117: everything before the data center.\<close>

definition base_instance :: "order \<Rightarrow> Service \<Rightarrow> Instance" where
  "base_instance ord service =
     (let attrs = sv_Attrs service;
          registration = zero_instance\<lparr>in_App := sv_Name service, in_Port := sv_Port service,
            in_Status := (if get_str attrs ''eureka_status'' = DOWN then DOWN else UP),
            in_LeaseInfo := leaseInfo attrs\<rparr>;
          registration = fold set_metadata_attr (entries ord AtAttrs attrs) registration;
          registration = SetMetadataString ''is-container'' ''true'' registration;
          registration = SetMetadataString ''container-id'' (sp_ContainerID (sv_Origin service)) registration
      in SetMetadataString ''container-name'' (sp_ContainerName (sv_Origin service)) registration)"

text \<open>Lines 121-134: the data center as EC2 describes it.\<close>

definition auto_populated :: "aws_Metadata \<Rightarrow> Instance \<Rightarrow> Instance" where
  "auto_populated awsMetadata registration =
     (let registration = registration\<lparr>in_HostName := md_PrivateHostname awsMetadata\<rparr>;
          registration = SetMetadataString ''aws-instance-id'' (md_InstanceID awsMetadata) registration
      in registration\<lparr>in_DataCenterInfo := \<lparr>di_Name = Amazon, di_Metadata =
           \<lparr>am_LocalHostname = md_PrivateHostname awsMetadata,
            am_AvailabilityZone = md_AvailabilityZone awsMetadata,
            am_InstanceID = GetUniqueID registration, am_PublicIpv4 = md_PublicIP awsMetadata,
            am_PublicHostname = md_PublicHostname awsMetadata, am_LocalIpv4 = md_PrivateIP awsMetadata,
            am_HostName = md_PrivateHostname awsMetadata\<rparr>\<rparr>\<rparr>)"

text \<open>Lines 137-146: the data center as the attributes describe it.\<close>

definition from_attrs :: "Service \<Rightarrow> Instance \<Rightarrow> Instance" where
  "from_attrs service registration =
     (let attrs = sv_Attrs service; hostIP = sp_HostIP (sv_Origin service);
          localhostname = ShortHandTernary (get_str attrs ''eureka_datacenterinfo_localhostname'') (sv_IP service);
          registration = registration\<lparr>in_HostName := localhostname\<rparr>
      in registration\<lparr>in_DataCenterInfo := \<lparr>di_Name = Amazon, di_Metadata =
           \<lparr>am_LocalHostname = localhostname,
            am_AvailabilityZone = [],
            am_InstanceID = GetUniqueID registration,
            am_PublicIpv4 = ShortHandTernary (get_str attrs ''eureka_datacenterinfo_publicipv4'') hostIP,
            am_PublicHostname = ShortHandTernary (get_str attrs ''eureka_datacenterinfo_publichostname'') hostIP,
            am_LocalIpv4 = ShortHandTernary (get_str attrs ''eureka_datacenterinfo_localipv4'') (sv_IP service),
            am_HostName = localhostname\<rparr>\<rparr>\<rparr>)"

text \<open>Lines 148-151: the name of the host is made unique instead.\<close>

definition own_datacenter :: "Service \<Rightarrow> Instance \<Rightarrow> Instance" where
  "own_datacenter service registration =
     (let registration = registration\<lparr>in_DataCenterInfo := (in_DataCenterInfo registration)\<lparr>di_Name := MyOwn\<rparr>\<rparr>;
          registration = registration\<lparr>in_HostName := sv_IP service\<rparr>
      in registration\<lparr>in_HostName := GetUniqueID registration\<rparr>)"

definition on_amazon :: "Service \<Rightarrow> bool" where
  "on_amazon service \<longleftrightarrow> get_str (sv_Attrs service) ''eureka_datacenterinfo_name'' \<noteq> MyOwn"

definition instanceInformation ::
    "order \<Rightarrow> 'w AwsEnv \<Rightarrow> Service \<Rightarrow> 'w Aws \<Rightarrow> (Instance \<times> 'w Aws) outcome" where
  "instanceInformation ord E service a =
     (let attrs = sv_Attrs service; registration = base_instance ord service in
      obind
        (if on_amazon service \<and> checkBooleanFlag service ''eureka_datacenterinfo_auto_populate'' then
           obind (GetMetadata E a) (\<lambda>(awsMetadata, a). obind (deref awsMetadata) (\<lambda>md.
             Done ((auto_populated md registration, awsMetadata), a)))
         else if on_amazon service \<and> \<not> checkBooleanFlag service ''eureka_datacenterinfo_auto_populate'' then
           Done ((from_attrs service registration, None), a)
         else Done ((own_datacenter service registration, None), a))
        (\<lambda>((registration, awsMetadata), a).
      if checkBooleanFlag service ''eureka_register_aws_public_ip'' \<and>
         checkBooleanFlag service ''eureka_datacenterinfo_auto_populate'' \<and> on_amazon service then
        obind (deref awsMetadata) (\<lambda>md.
          Done (registration\<lparr>in_IPAddr := ShortHandTernary (get_str attrs ''eureka_ipaddr'') (md_PublicIP md),
            in_VipAddress := ShortHandTernary (get_str attrs ''eureka_vip'') (md_PublicIP md)\<rparr>, a))
      else
        Done (registration\<lparr>in_IPAddr := ShortHandTernary (get_str attrs ''eureka_ipaddr'') (sv_IP service),
          in_VipAddress := ShortHandTernary (get_str attrs ''eureka_vip'') (sv_IP service)\<rparr>, a)))"

section \<open>The adapter\<close>

text \<open>\<open>newConn\<close> makes a connection to a URL.\<close>

definition eureka_New :: "(string \<Rightarrow> 'w EurekaConnection) \<Rightarrow> URL \<Rightarrow> 'w EurekaConnection" where
  "eureka_New newConn uri =
     (if url_Host uri \<noteq> [] then newConn (''http://'' @ url_Host uri @ url_Path uri)
      else newConn ''http://eureka:8761'')"

definition eureka_Ping :: "'w EurekaConnection \<Rightarrow> 'w Aws \<Rightarrow> (err \<times> 'w Aws) outcome" where
  "eureka_Ping client a =
     (let ((eurekaApps, e), a) = calling (ek_GetApps client) a in
      if e \<noteq> None then Done (e, a) else Done (None, a))"

definition eureka_Register ::
    "order \<Rightarrow> 'w AwsEnv \<Rightarrow> 'w EurekaConnection \<Rightarrow> Service \<Rightarrow> 'w Aws \<Rightarrow> (err \<times> 'w Aws) outcome" where
  "eureka_Register ord E client service a =
     obind (instanceInformation ord E service a) (\<lambda>(registration, a).
       if CheckELBFlags service then RegisterWithELBv2 E service registration client a
       else Done (calling (ek_RegisterInstance client registration) a))"

definition eureka_Deregister ::
    "order \<Rightarrow> 'w AwsEnv \<Rightarrow> 'w EurekaConnection \<Rightarrow> Service \<Rightarrow> 'w Aws \<Rightarrow> (err \<times> 'w Aws) outcome" where
  "eureka_Deregister ord E client service a =
     obind (instanceInformation ord E service a) (\<lambda>(registration, a).
       let a = (if CheckELBFlags service
                then RemoveKeyFromCache (''container_'' @ sp_ContainerID (sv_Origin service)) a else a) in
       if \<not> CheckELBFlags service then Done (calling (ek_DeregisterInstance client registration) a)
       else Done (None, a))"

text \<open>The result of the heartbeat of a load balancer, and of a registration after a 404, is dropped.\<close>

definition eureka_Refresh ::
    "order \<Rightarrow> 'w AwsEnv \<Rightarrow> 'w EurekaConnection \<Rightarrow> Service \<Rightarrow> 'w Aws \<Rightarrow> (err \<times> 'w Aws) outcome" where
  "eureka_Refresh ord E client service a =
     obind (instanceInformation ord E service a) (\<lambda>(registration, a).
       if CheckELBFlags service then
         obind (HeartbeatELBv2 E service registration client a) (\<lambda>(_, a). Done (None, a))
       else
         (let (e, a) = calling (ek_HeartBeatInstance client registration) a in
          case e of
            None \<Rightarrow> Done (None, a)
          | Some m \<Rightarrow>
              if containsStr m ''heartbeat failed, rcode = 404'' then
                (let (_, a) = calling (ek_RegisterInstance client registration) a in Done (None, a))
              else Done (e, a)))"

definition eureka_Services :: "'w Aws \<Rightarrow> ((Service list \<times> err) \<times> 'w Aws) outcome" where
  "eureka_Services a = Done (([], None), a)"

definition eureka_adapter :: "order \<Rightarrow> 'w AwsEnv \<Rightarrow> 'w EurekaConnection \<Rightarrow> 'w Aws RegistryAdapter" where
  "eureka_adapter ord E client =
     \<lparr>ra_Ping = eureka_Ping client, ra_Register = eureka_Register ord E client,
      ra_Deregister = eureka_Deregister ord E client, ra_Refresh = eureka_Refresh ord E client,
      ra_Services = eureka_Services\<rparr>"

end
