(* ===== verification/AwsFacts.thy ===== *)
theory AwsFacts
  imports AwsRegister
begin

text \<open>
  What the operations of the AWS support keep: the type of the value under each key of the cache, the
  statuses of other containers, and the metadata once it is known.  \<open>keeps\<close> relates the state before an
  operation to the one after it; every lookup and every registration satisfies it.
\<close>

section \<open>The type of the cache\<close>

text \<open>
  The types under which a key is stored.  Target health is stored under the same keys by two functions,
  with different types.
\<close>

definition key_type :: "string \<Rightarrow> Any \<Rightarrow> bool" where
  "key_type k v \<longleftrightarrow>
     (case v of
        AnyInfo _ \<Rightarrow> hasPrefix k ''container_''
      | AnyTargetGroups _ \<Rightarrow> k = ''tg''
      | AnyTargetHealth _ \<Rightarrow> hasPrefix k ''tg_arn_''
      | AnyHealthyTargets _ \<Rightarrow> hasPrefix k ''tg_arn_''
      | AnyListeners _ \<Rightarrow> hasPrefix k ''lsnr_''
      | AnyLoadBalancers _ \<Rightarrow> hasPrefix k ''lb_'')"

definition cache_typed :: "'w Aws \<Rightarrow> bool" where
  "cache_typed a \<longleftrightarrow> (\<forall>k it. map_of (aw_generalCache a) k = Some it \<longrightarrow> key_type k (it_Object it))"

lemma cache_typed_empty: "aw_generalCache a = [] \<Longrightarrow> cache_typed a"
  by (simp add: cache_typed_def)

lemma cache_typed_AddToCache:
  "cache_typed a \<Longrightarrow> key_type k v \<Longrightarrow> cache_typed (AddToCache E k v d a)"
  by (auto simp: cache_typed_def AddToCache_def cache_Set_def Let_def update_conv' split: if_splits)

lemma cache_typed_RemoveKey: "cache_typed a \<Longrightarrow> cache_typed (RemoveKeyFromCache k a)"
  by (auto simp: cache_typed_def RemoveKeyFromCache_def cache_Delete_def delete_conv' split: if_splits)

text \<open>In a typed cache the keys other than those of target health fix the type of what is found.\<close>

lemma cached_typed: "cache_typed a \<Longrightarrow> cached E a k = Some v \<Longrightarrow> key_type k v"
  by (auto simp: cached_def cache_Get_def cache_typed_def split: option.splits if_splits)

lemma cached_types:
  assumes "cache_typed a"
  shows "cached E a (''container_'' @ x) = Some v \<Longrightarrow> \<exists>i. v = AnyInfo i"
    and "cached E a ''tg'' = Some v \<Longrightarrow> \<exists>tgs. v = AnyTargetGroups tgs"
    and "cached E a (''lsnr_'' @ x) = Some v \<Longrightarrow> \<exists>l. v = AnyListeners l"
    and "cached E a (''lb_'' @ x) = Some v \<Longrightarrow> \<exists>l. v = AnyLoadBalancers l"
    and "cached E a (''tg_arn_'' @ x) = Some v \<Longrightarrow> (\<exists>h. v = AnyTargetHealth h) \<or> (\<exists>h. v = AnyHealthyTargets h)"
  by (cases v; use cached_typed [OF assms, of E] in \<open>force simp: key_type_def\<close>)+

section \<open>What operations keep\<close>

definition keeps :: "'w Aws \<Rightarrow> 'w Aws \<Rightarrow> bool" where
  "keeps a a' \<longleftrightarrow> aw_previousStatus a' = aw_previousStatus a \<and> (cache_typed a \<longrightarrow> cache_typed a') \<and>
     (aw_once a \<longrightarrow> aw_once a' \<and> aw_metadataCache a' = aw_metadataCache a)"

lemma keeps_refl [simp]: "keeps a a"
  by (simp add: keeps_def)

lemma keeps_trans [trans]: "keeps a b \<Longrightarrow> keeps b c \<Longrightarrow> keeps a c"
  by (simp add: keeps_def)

lemma keeps_world [simp]:
  "keeps a (b\<lparr>aw_world := w\<rparr>) \<longleftrightarrow> keeps a b" "keeps (a\<lparr>aw_world := w\<rparr>) b \<longleftrightarrow> keeps a b"
  by (simp_all add: keeps_def cache_typed_def)

lemma keeps_AddToCache: "key_type k v \<Longrightarrow> keeps a (AddToCache E k v d a)"
  by (auto simp: keeps_def cache_typed_AddToCache) (simp_all add: AddToCache_def)

lemma keeps_RemoveKey: "keeps a (RemoveKeyFromCache k a)"
  by (auto simp: keeps_def cache_typed_RemoveKey) (simp_all add: RemoveKeyFromCache_def)

lemma GetMetadata_keeps_all: "GetMetadata E a = Done (md, a') \<Longrightarrow> keeps a a'"
  using GetMetadata_keeps [of E a md a'] GetMetadata_known [of a E]
  by (auto simp: keeps_def cache_typed_def)

lemma getSession_keeps: "getSession E a = Done (r, a') \<Longrightarrow> keeps a a'"
  by (auto simp: getSession_def calling_eq dest!: GetMetadata_keeps_all split: option.splits prod.splits)

text \<open>A cached function keeps what the function keeps, given the type of what it returns.\<close>

lemma GetAndCache_keeps:
  assumes "GetAndCache E k i f d a = Done (r, a')"
    and "\<And>v e b. f i a = Done ((v, e), b) \<Longrightarrow> keeps a b \<and> key_type k v"
  shows "keeps a a'"
proof (cases "cached E a k")
  case None
  then obtain v e b where f: "f i a = Done ((v, e), b)"
    and a': "a' = (if e = None then AddToCache E k v d b else b)"
    using assms(1) by (auto simp: GetAndCache_def cached_def AddToCache_def split: if_splits)
  from assms(2) [OF f] keeps_AddToCache [of k v b E d] show ?thesis
    unfolding a' by (auto intro: keeps_trans)
next
  case (Some v)
  with assms(1) GetAndCache_hit [OF Some, of i f d] show ?thesis by simp
qed

section \<open>The lookups\<close>

lemma getTargetGroupsPage_keeps: "getTargetGroupsPage E svc m a = (r, a') \<Longrightarrow> keeps a a'"
  by (auto simp: getTargetGroupsPage_def calling_eq split: prod.splits if_splits)

lemma targetGroupPages_keeps:
  assumes "targetGroupPages E svc mark tgs a = Some out"
  shows "\<forall>r a'. out = Done (r, a') \<longrightarrow> keeps a a'"
proof (rule targetGroupPages.raw_induct [OF _ assms], goal_cases)
  case (1 rec E svc mark tgs a out)
  show ?case
  proof (cases mark)
    case None
    with 1 show ?thesis by auto
  next
    case (Some m)
    obtain tg e b where page: "getTargetGroupsPage E svc (Some m) a = ((tg, e), b)"
      by (cases "getTargetGroupsPage E svc (Some m) a") auto
    have "\<forall>r a'. out = Done (r, a') \<longrightarrow> keeps b a'"
      using 1 Some page by (auto split: option.splits if_splits)
    then show ?thesis using getTargetGroupsPage_keeps [OF page] keeps_trans by blast
  qed
qed

lemma getAllTargetGroups_keeps: "getAllTargetGroups E svc a = Done (r, a') \<Longrightarrow> keeps a a'"
proof -
  assume all: "getAllTargetGroups E svc a = Done (r, a')"
  obtain tg e b where page: "getTargetGroupsPage E svc None a = ((tg, e), b)"
    by (cases "getTargetGroupsPage E svc None a") auto
  have "keeps b a'"
    using all page targetGroupPages_keeps
    by (fastforce simp: getAllTargetGroups_def split: option.splits if_splits)
  then show ?thesis using getTargetGroupsPage_keeps [OF page] keeps_trans by blast
qed

lemma getLoadBalancerFromService_keeps:
  assumes "getLoadBalancerFromService E sn cn a = Done (r, a')"
  shows "keeps a a'"
proof -
  from assms obtain svc e b where b: "getSession E a = Done ((svc, e), b)"
    by (auto simp: getLoadBalancerFromService_def getECSSession_getSession)
  show ?thesis
  proof (cases e)
    case None
    with assms b obtain svc2 e2 c where c: "getSession E b = Done ((svc2, e2), c)"
      by (auto simp: getLoadBalancerFromService_def getECSSession_getSession)
    with assms b None have "keeps c a'"
      by (auto simp: getLoadBalancerFromService_def getECSSession_getSession calling_eq log_error_def
          Let_def split: if_splits prod.splits)
    then show ?thesis using getSession_keeps [OF b] getSession_keeps [OF c] keeps_trans by blast
  next
    case (Some m)
    with assms b show ?thesis
      by (auto simp: getLoadBalancerFromService_def getECSSession_getSession dest: getSession_keeps)
  qed
qed

lemma chunkLoop_keeps:
  "chunkLoop E svc cn td n i ss chunk matched a = Done (r, a') \<Longrightarrow> keeps a a'"
proof (induction ss arbitrary: i chunk matched a)
  case (Cons s ss)
  then show ?case
    by (fastforce simp: calling_eq Let_def split: if_splits option.splits prod.splits)
qed simp

lemma lookupServiceName_keeps:
  assumes "lookupServiceName E cn ta a = Done (r, a')"
  shows "keeps a a'"
proof -
  from assms obtain svc e b where b: "getSession E a = Done ((svc, e), b)"
    by (auto simp: lookupServiceName_def getECSSession_getSession)
  with assms have "keeps b a'"
    by (auto simp: lookupServiceName_def getECSSession_getSession calling_eq Let_def
        dest!: chunkLoop_keeps split: if_splits prod.splits option.splits)
  then show ?thesis using getSession_keeps [OF b] keeps_trans by blast
qed

lemma checkTargetGroup_keeps:
  assumes "checkTargetGroup E svc iid port tg (found, a) = Done (r, a')"
  shows "keeps a a'"
proof (cases tg)
  case None
  with assms show ?thesis by (simp add: checkTargetGroup_def)
next
  case (Some t)
  with assms obtain arn out b where
    g: "GetAndCache E (''tg_arn_'' @ arn) (Some arn) (describeTargetHealth E svc) DEFAULT_EXP_TIME a = Done (out, b)"
    and "a' = b"
    by (auto simp: checkTargetGroup_def log_error_def split: if_splits option.splits Any.splits)
  moreover have "keeps a b" using g
    by (rule GetAndCache_keeps) (auto simp: key_type_def describeTargetHealth_def calling_eq split: prod.splits)
  ultimately show ?thesis by simp
qed

lemma checkTargetGroups_keeps:
  "checkTargetGroups E svc iid port tgs (found, a) = Done (r, a') \<Longrightarrow> keeps a a'"
proof (induction tgs arbitrary: found a)
  case (Cons tg tgs)
  then obtain r1 b where b: "checkTargetGroup E svc iid port tg (found, a) = Done (r1, b)" by auto
  have "keeps b a'" using Cons b by (auto split: sum.splits)
  then show ?case using checkTargetGroup_keeps [OF b] keeps_trans by blast
qed simp

lemma searchPages_keeps:
  "searchPages E svc iid port pages (found, a) = Done (r, a') \<Longrightarrow> keeps a a'"
proof (induction pages arbitrary: found a)
  case (Cons page pages)
  then obtain p r1 b where b: "page = Some p"
    "checkTargetGroups E svc iid port (go_TargetGroups p) (found, a) = Done (r1, b)" by auto
  have "keeps b a'" using Cons b by (auto split: sum.splits if_splits)
  then show ?case using checkTargetGroups_keeps [OF b(2)] keeps_trans by blast
qed simp

lemma findByTarget_keeps:
  assumes "findByTarget E svc iid port a = Done (r, a')"
  shows "keeps a a'"
proof -
  from assms obtain out e b where
    b: "GetAndCache E ''tg'' svc (listTargetGroups E) DEFAULT_EXP_TIME a = Done ((out, e), b)"
    by (auto simp: findByTarget_def)
  have "keeps a b" using b
    by (rule GetAndCache_keeps) (auto simp: key_type_def listTargetGroups_def dest: getAllTargetGroups_keeps)
  moreover have "keeps b a'" using assms b
    by (auto simp: findByTarget_def Let_def dest!: searchPages_keeps split: if_splits sum.splits)
  ultimately show ?thesis by (rule keeps_trans)
qed

lemma findByService_keeps: "findByService E sn cn a = Done (r, a') \<Longrightarrow> keeps a a'"
  by (auto simp: findByService_def dest!: getLoadBalancerFromService_keeps split: if_splits)

lemma endpointOf_keeps:
  assumes "endpointOf E svc found a = Done (r, a')"
  shows "keeps a a'"
proof -
  obtain arns tgArn where found: "found = (arns, tgArn)" by (cases found)
  from assms obtain x arn out3 e b where
    b: "GetAndCache E (''lsnr_'' @ arn) x (describeListeners E svc) DEFAULT_EXP_TIME a = Done ((out3, e), b)"
    and x: "elem_at (case arns of None \<Rightarrow> [] | Some l \<Rightarrow> l) 0 = Done x" "x = Some arn"
    by (auto simp: endpointOf_def found)
  have ab: "keeps a b" using b
    by (rule GetAndCache_keeps) (auto simp: key_type_def describeListeners_def calling_eq split: prod.splits)
  show ?thesis
  proof (cases "a' = b")
    case False
    with assms b x obtain out4 where
      "GetAndCache E (''lb_'' @ arn) arns (describeLoadBalancers E svc) DEFAULT_EXP_TIME b = Done (out4, a')"
      by (auto simp: endpointOf_def found log_error_def split: if_splits option.splits)
    then have "keeps b a'"
      by (rule GetAndCache_keeps) (auto simp: key_type_def describeLoadBalancers_def calling_eq split: prod.splits)
    with ab show ?thesis by (rule keeps_trans)
  qed (use ab in simp)
qed

lemma throttle_keeps [simp]: "keeps (throttle E a) b \<longleftrightarrow> keeps a b"
  by (simp add: throttle_def Let_def)

lemma chooseService_keeps: "chooseService E l a = Done (r, a') \<Longrightarrow> keeps a a'"
  by (auto simp: chooseService_def dest: lookupServiceName_keeps split: if_splits)

lemma findEndpoint_keeps: "findEndpoint E svc l names a = Done (r, a') \<Longrightarrow> keeps a a'"
  by (cases names)
    (auto simp: findEndpoint_def Let_def dest!: findByTarget_keeps findByService_keeps endpointOf_keeps
      intro: keeps_trans split: if_splits sum.splits)

lemma getELBAndCacheDetails_keeps:
  assumes "getELBAndCacheDetails E l a = Done (r, a')"
  shows "keeps a a'"
proof -
  from assms obtain svc e b where b: "getSession E (throttle E a) = Done ((svc, e), b)"
    by (auto simp: getELBAndCacheDetails_def Let_def)
  have "keeps a b" using getSession_keeps [OF b] by simp
  moreover have "keeps b a'"
    using assms b
    by (auto simp: getELBAndCacheDetails_def Let_def dest!: chooseService_keeps findEndpoint_keeps
        intro: keeps_trans split: if_splits)
  ultimately show ?thesis by (rule keeps_trans)
qed

lemma GetELBV2ForContainer_keeps:
  assumes "GetELBV2ForContainer E cid iid port cn ta sn a = Done (r, a')"
  shows "keeps a a'"
proof -
  from assms obtain i out where
    "GetAndCache E (''container_'' @ cid) i (lookupDetails E) NoExpiration a = Done (out, a')"
    by (auto simp: GetELBV2ForContainer_def Let_def split: if_splits)
  then show ?thesis
    by (rule GetAndCache_keeps) (auto simp: key_type_def lookupDetails_def dest: getELBAndCacheDetails_keeps)
qed

lemma getELBMetadata_keeps:
  assumes "getELBMetadata E service port a = Done (r, a')"
  shows "keeps a a'"
proof -
  from assms obtain md b where b: "GetMetadata E a = Done (md, b)" by (auto simp: getELBMetadata_def Let_def)
  have "keeps b a'" using assms b
    by (auto simp: getELBMetadata_def Let_def key_type_def intro: keeps_AddToCache dest!: GetELBV2ForContainer_keeps
        split: if_splits option.splits)
  then show ?thesis using GetMetadata_keeps_all [OF b] keeps_trans by blast
qed

lemma mutateRegistrationInfo_keeps:
  "mutateRegistrationInfo E service reg a = Done (r, a') \<Longrightarrow> keeps a a'"
  by (auto simp: mutateRegistrationInfo_def dest!: getELBMetadata_keeps split: if_splits)

section \<open>Health\<close>

lemma getHealthyTargets_keeps:
  assumes "getHealthyTargets E arn a = Done (r, a')"
  shows "keeps a a'"
proof -
  from assms obtain svc e b where b: "getSession E a = Done ((svc, e), b)" by (auto simp: getHealthyTargets_def)
  have "keeps b a'" using assms b
    by (auto simp: getHealthyTargets_def calling_eq log_error_def Let_def split: if_splits prod.splits)
  then show ?thesis using getSession_keeps [OF b] keeps_trans by blast
qed

lemma GetHealthyTargets_keeps:
  assumes "GetHealthyTargets E arn a = Done (r, a')"
  shows "keeps a a'"
proof -
  from assms obtain d out where
    "GetAndCache E (''tg_arn_'' @ arn) arn (listHealthyTargets E) d a = Done (out, a')"
    by (auto simp: GetHealthyTargets_def split: if_splits)
  then show ?thesis
    by (rule GetAndCache_keeps) (auto simp: key_type_def listHealthyTargets_def dest: getHealthyTargets_keeps)
qed

lemma determineNewEurekaStatus_keeps:
  "determineNewEurekaStatus E cid es prev a = Done (r, a') \<Longrightarrow> keeps a a'"
  by (auto simp: determineNewEurekaStatus_def dest!: GetHealthyTargets_keeps
      split: if_splits option.splits Any.splits)

section \<open>The status that is registered\<close>

text \<open>
  What makes a load balancer be registered as up, other than a status that is up already: its data is
  in the cache and a healthy target is found.
\<close>

definition healthy_found :: "'w AwsEnv \<Rightarrow> string \<Rightarrow> 'w Aws \<Rightarrow> bool" where
  "healthy_found E cid a \<longleftrightarrow>
     (case cached E a (''container_'' @ cid) of
        Some (AnyInfo (Some info)) \<Rightarrow>
          (case GetHealthyTargets E (lr_TargetGroupArn info) a of
             Done ((thList, None), _) \<Rightarrow> thList \<noteq> []
           | _ \<Rightarrow> False)
      | _ \<Rightarrow> False)"

lemma determine_status:
  assumes "determineNewEurekaStatus E cid es prev a = Done (sc, a')"
  shows "sc_registrationStatus sc =
      (if es = UP \<or> prev = UP \<or> healthy_found E cid a then UP else STARTING)"
    and "sc_newStatus sc = UP \<longleftrightarrow> sc_registrationStatus sc = UP"
proof -
  have "sc_registrationStatus sc =
      (if es = UP \<or> prev = UP \<or> healthy_found E cid a then UP else STARTING) \<and>
      (sc_newStatus sc = UP \<longleftrightarrow> sc_registrationStatus sc = UP)"
  proof (cases "es = UP \<or> prev = UP")
    case True
    with assms show ?thesis by (auto simp: determineNewEurekaStatus_def split: if_splits)
  next
    case False
    with assms show ?thesis
      by (auto simp: determineNewEurekaStatus_def healthy_found_def cached_def
          split: option.splits Any.splits if_splits)
  qed
  then show "sc_registrationStatus sc = (if es = UP \<or> prev = UP \<or> healthy_found E cid a then UP else STARTING)"
    and "sc_newStatus sc = UP \<longleftrightarrow> sc_registrationStatus sc = UP" by simp_all
qed

section \<open>Registrations\<close>

text \<open>
  Testing the health of a container changes its own status and that of no other, and never takes back
  that it is up.
\<close>

definition updates :: "string \<Rightarrow> 'w Aws \<Rightarrow> 'w Aws \<Rightarrow> bool" where
  "updates cid a a' \<longleftrightarrow> (\<forall>k. k \<noteq> cid \<longrightarrow> getPreviousStatus k a' = getPreviousStatus k a) \<and>
     (getPreviousStatus cid a = UP \<longrightarrow> getPreviousStatus cid a' = UP) \<and>
     (cache_typed a \<longrightarrow> cache_typed a') \<and>
     (aw_once a \<longrightarrow> aw_once a' \<and> aw_metadataCache a' = aw_metadataCache a)"

lemma keeps_updates: "keeps a a' \<Longrightarrow> updates cid a a'"
  by (simp add: keeps_def updates_def getPreviousStatus_def)

lemma updates_trans [trans]: "updates cid a b \<Longrightarrow> updates cid b c \<Longrightarrow> updates cid a c"
  by (simp add: updates_def)

lemma updates_world [simp]:
  "updates cid a (b\<lparr>aw_world := w\<rparr>) \<longleftrightarrow> updates cid a b" "updates cid (a\<lparr>aw_world := w\<rparr>) b \<longleftrightarrow> updates cid a b"
  by (simp_all add: updates_def cache_typed_def getPreviousStatus_def)

lemma setPreviousStatus_simps:
  "getPreviousStatus k (setPreviousStatus cid st a) = (if k = cid then st else getPreviousStatus k a)"
  "cache_typed (setPreviousStatus cid st a) = cache_typed a"
  "aw_once (setPreviousStatus cid st a) = aw_once a"
  "aw_metadataCache (setPreviousStatus cid st a) = aw_metadataCache a"
  by (simp_all add: setPreviousStatus_def getPreviousStatus_def gomap_simps cache_typed_def)

abbreviation container_of :: "Service \<Rightarrow> string" where
  "container_of s \<equiv> sp_ContainerID (sv_Origin s)"

lemma getELBStatus_keeps: "getELBStatus client reg a = (st, b) \<Longrightarrow> keeps a b"
  by (auto simp: getELBStatus_def calling_eq split: prod.splits if_splits option.splits)

lemma testHealth_parts:
  assumes "testHealth E s client reg a = Done (reg', a')"
  obtains st b sc c where "getELBStatus client reg a = (st, b)"
    and "determineNewEurekaStatus E (container_of s) st (getPreviousStatus (container_of s) b) b = Done (sc, c)"
    and "reg' = reg\<lparr>in_Status := sc_registrationStatus sc\<rparr>"
    and "a' = setPreviousStatus (container_of s) (sc_newStatus sc) c"
  using assms by (auto simp: testHealth_def Let_def split: prod.splits)

lemma testHealth_updates:
  assumes "testHealth E s client reg a = Done (reg', a')"
  shows "updates (container_of s) a a'"
proof -
  from assms obtain st b sc c where b: "getELBStatus client reg a = (st, b)"
    and c: "determineNewEurekaStatus E (container_of s) st (getPreviousStatus (container_of s) b) b = Done (sc, c)"
    and a': "a' = setPreviousStatus (container_of s) (sc_newStatus sc) c"
    by (elim testHealth_parts)
  from getELBStatus_keeps [OF b] determineNewEurekaStatus_keeps [OF c]
  have ac: "updates (container_of s) a c" and "keeps a b" by (meson keeps_trans keeps_updates)+
  then have "sc_newStatus sc = UP" if "getPreviousStatus (container_of s) a = UP"
    using that determine_status [OF c] by (simp add: keeps_def getPreviousStatus_def)
  with ac show ?thesis by (simp add: a' updates_def setPreviousStatus_simps)
qed

lemma registerELB_updates: "registerELB E s client reg a = Done (e, a') \<Longrightarrow> updates (container_of s) a a'"
  by (auto simp: registerELB_def calling_eq dest: testHealth_updates)

lemma retryLoop_updates:
  "retryLoop E s reg client seed is a = Done (r, a') \<Longrightarrow> updates (container_of s) a a'"
proof (induction "is" arbitrary: a)
  case Nil
  then show ?case by (simp add: keeps_updates)
next
  case (Cons i "is")
  let ?a = "a\<lparr>aw_world := ae_Sleep E (retryPeriod (ae_Intn E seed (i - 1) 5000) i) (aw_world a)\<rparr>"
  from Cons.prems obtain elbReg b where b: "mutateRegistrationInfo E s reg ?a = Done (elbReg, b)"
    by (auto simp: Let_def)
  have "keeps a b" using mutateRegistrationInfo_keeps [OF b] by simp
  then have ab: "updates (container_of s) a b" by (rule keeps_updates)
  have "updates (container_of s) b a'"
    using Cons b by (auto simp: Let_def dest: registerELB_updates split: option.splits)
  with ab show ?case by (rule updates_trans)
qed

lemma RegisterWithELBv2_updates:
  assumes "RegisterWithELBv2 E s reg client a = Done (e, a')"
  shows "updates (container_of s) a a'"
proof (cases "CheckELBFlags s")
  case True
  with assms obtain r b where b: "mutateRegistrationInfo E s reg a = Done (r, b)"
    by (auto simp: RegisterWithELBv2_def)
  have "updates (container_of s) b a'"
    using assms True b
    by (auto simp: RegisterWithELBv2_def simp del: retryLoop.simps dest!: registerELB_updates retryLoop_updates
        split: option.splits)
  moreover have "updates (container_of s) a b" using mutateRegistrationInfo_keeps [OF b] by (rule keeps_updates)
  ultimately show ?thesis by (meson updates_trans)
next
  case False
  with assms show ?thesis by (simp add: RegisterWithELBv2_def keeps_updates)
qed

lemma HeartbeatELBv2_updates:
  assumes "HeartbeatELBv2 E s reg client a = Done (e, a')"
  shows "updates (container_of s) a a'"
proof (cases "CheckELBFlags s")
  case True
  with assms obtain r b where b: "mutateRegistrationInfo E s reg a = Done (r, b)"
    by (auto simp: HeartbeatELBv2_def)
  have "updates (container_of s) b a'"
    using assms True b
    by (auto simp: HeartbeatELBv2_def calling_eq Let_def keeps_updates dest!: testHealth_updates
        split: option.splits if_splits prod.splits)
  moreover have "updates (container_of s) a b" using mutateRegistrationInfo_keeps [OF b] by (rule keeps_updates)
  ultimately show ?thesis by (meson updates_trans)
next
  case False
  with assms show ?thesis by (simp add: HeartbeatELBv2_def keeps_updates)
qed

end
