(* ===== verification/AwsStatus.thy ===== *)
theory AwsStatus
  imports AwsFacts
begin

text \<open>
  The status with which a load balancer is registered, and how the two users of one family of cache keys
  get in each other's way.
\<close>

section \<open>Testing health\<close>

lemma testHealth_status:
  assumes "testHealth E s client reg a = Done (reg', a')" and "getELBStatus client reg a = (st, b)"
  shows "reg' = reg\<lparr>in_Status :=
      (if st = UP \<or> getPreviousStatus (container_of s) a = UP \<or> healthy_found E (container_of s) b
       then UP else STARTING)\<rparr>"
    and "getPreviousStatus (container_of s) a' = UP \<longleftrightarrow> in_Status reg' = UP"
proof -
  obtain sc c where
    d: "determineNewEurekaStatus E (container_of s) st (getPreviousStatus (container_of s) b) b = Done (sc, c)"
    and reg': "reg' = reg\<lparr>in_Status := sc_registrationStatus sc\<rparr>"
    and a': "a' = setPreviousStatus (container_of s) (sc_newStatus sc) c"
    using assms by (elim testHealth_parts) auto
  have same: "getPreviousStatus (container_of s) b = getPreviousStatus (container_of s) a"
    using getELBStatus_keeps [OF assms(2)] by (simp add: keeps_def getPreviousStatus_def)
  show "reg' = reg\<lparr>in_Status :=
      (if st = UP \<or> getPreviousStatus (container_of s) a = UP \<or> healthy_found E (container_of s) b
       then UP else STARTING)\<rparr>"
    unfolding reg' determine_status(1) [OF d] same by simp
  show "getPreviousStatus (container_of s) a' = UP \<longleftrightarrow> in_Status reg' = UP"
    by (simp add: a' reg' setPreviousStatus_simps determine_status(2) [OF d])
qed

section \<open>Target health cached by a lookup\<close>

text \<open>
  The lookup by target stores whole answers about the health of a target group where the health check
  expects the list of its healthy targets.
\<close>

definition health_item :: "'w Aws \<Rightarrow> string \<Rightarrow> bool" where
  "health_item a arn \<longleftrightarrow>
     (\<exists>it h. map_of (aw_generalCache a) (''tg_arn_'' @ arn) = Some it \<and> it_Object it = AnyTargetHealth h)"

definition keeps_health :: "'w Aws \<Rightarrow> 'w Aws \<Rightarrow> bool" where
  "keeps_health a a' \<longleftrightarrow> (\<forall>arn. health_item a arn \<longrightarrow> health_item a' arn)"

lemma keeps_health_refl [simp]: "keeps_health a a"
  by (simp add: keeps_health_def)

lemma keeps_health_trans: "keeps_health a b \<Longrightarrow> keeps_health b c \<Longrightarrow> keeps_health a c"
  by (simp add: keeps_health_def)

lemma health_item_world [simp]: "health_item (a\<lparr>aw_world := w\<rparr>) arn \<longleftrightarrow> health_item a arn"
  by (simp add: health_item_def)

lemma keeps_health_world [simp]: "keeps_health a (b\<lparr>aw_world := w\<rparr>) \<longleftrightarrow> keeps_health a b"
  by (simp add: keeps_health_def)

lemma health_item_AddToCache:
  "health_item (AddToCache E k v d a) arn \<longleftrightarrow>
     (if k = ''tg_arn_'' @ arn then (\<exists>h. v = AnyTargetHealth h) else health_item a arn)"
  by (auto simp: health_item_def AddToCache_def cache_Set_def Let_def update_conv')

text \<open>A cached function keeps these items unless it stores something else under such a key.\<close>

lemma GetAndCache_keeps_health:
  assumes "GetAndCache E k i f d a = Done (r, a')"
    and "\<And>v e b. f i a = Done ((v, e), b) \<Longrightarrow> keeps_health a b \<and> (hasPrefix k ''tg_arn_'' \<longrightarrow> (\<exists>h. v = AnyTargetHealth h))"
  shows "keeps_health a a'"
proof (cases "cached E a k")
  case None
  then obtain v e b where f: "f i a = Done ((v, e), b)"
    and a': "a' = (if e = None then AddToCache E k v d b else b)"
    using assms(1) by (auto simp: GetAndCache_def cached_def AddToCache_def split: if_splits)
  have "keeps_health b a'"
    using assms(2) [OF f] unfolding a' by (auto simp: keeps_health_def health_item_AddToCache)
  then show ?thesis using assms(2) [OF f] keeps_health_trans by blast
next
  case (Some v)
  with assms(1) GetAndCache_hit [OF Some, of i f d] show ?thesis by simp
qed

lemma GetAndCache_health_item:
  assumes "GetAndCache E (''tg_arn_'' @ arn) i f d a = Done ((Some (AnyTargetHealth h), e), a')"
  shows "health_item a' arn"
proof (cases "cached E a (''tg_arn_'' @ arn)")
  case None
  with assms obtain b where "a' = AddToCache E (''tg_arn_'' @ arn) (AnyTargetHealth h) d b"
    by (auto simp: GetAndCache_def cached_def AddToCache_def split: if_splits)
  then show ?thesis by (simp add: health_item_AddToCache)
next
  case (Some v)
  from assms GetAndCache_hit [OF Some, of i f d] have "v = AnyTargetHealth h" "a' = a" by simp_all
  with Some show ?thesis
    by (auto simp: cached_def cache_Get_def health_item_def split: option.splits if_splits)
qed

lemma checkTargetGroup_health:
  assumes "checkTargetGroup E svc iid port tg (found, a) = Done (r, a')"
  shows "keeps_health a a' \<and> (\<forall>found'. r = Inr found' \<longrightarrow> found' = found \<or> health_item a' (snd found'))"
proof (cases tg)
  case None
  with assms show ?thesis by (auto simp: checkTargetGroup_def)
next
  case (Some t)
  with assms obtain arn out e where arn: "tg_TargetGroupArn t = Some arn" and
    g: "GetAndCache E (''tg_arn_'' @ arn) (Some arn) (describeTargetHealth E svc) DEFAULT_EXP_TIME a = Done ((out, e), a')"
    by (auto simp: checkTargetGroup_def log_error_def split: if_splits option.splits Any.splits)
  have "keeps_health a a'" using g
    by (rule GetAndCache_keeps_health) (auto simp: describeTargetHealth_def calling_eq split: prod.splits)
  moreover have "found' = found \<or> health_item a' (snd found')" if "r = Inr found'" for found'
    using that assms Some arn g GetAndCache_health_item
    by (fastforce simp: checkTargetGroup_def log_error_def split: if_splits option.splits Any.splits)
  ultimately show ?thesis by blast
qed

lemma checkTargetGroups_health:
  "checkTargetGroups E svc iid port tgs (found, a) = Done (r, a') \<Longrightarrow>
   keeps_health a a' \<and> (\<forall>found'. r = Inr found' \<longrightarrow> found' = found \<or> health_item a' (snd found'))"
proof (induction tgs arbitrary: found a)
  case (Cons tg tgs)
  then obtain r1 b where b: "checkTargetGroup E svc iid port tg (found, a) = Done (r1, b)" by auto
  note 1 = checkTargetGroup_health [OF b]
  show ?case
  proof (cases r1)
    case (Inl m)
    with Cons.prems b 1 show ?thesis by auto
  next
    case (Inr found1)
    with Cons.prems b have "checkTargetGroups E svc iid port tgs (found1, b) = Done (r, a')" by simp
    from Cons.IH [OF this] 1 Inr show ?thesis by (auto simp: keeps_health_def)
  qed
qed auto

lemma searchPages_health:
  "searchPages E svc iid port pages (found, a) = Done (r, a') \<Longrightarrow>
   keeps_health a a' \<and> (\<forall>found'. r = Inr found' \<longrightarrow> found' = found \<or> health_item a' (snd found'))"
proof (induction pages arbitrary: found a)
  case (Cons page pages)
  then obtain p r1 b where b: "page = Some p"
    "checkTargetGroups E svc iid port (go_TargetGroups p) (found, a) = Done (r1, b)" by auto
  note 1 = checkTargetGroups_health [OF b(2)]
  show ?case
  proof (cases r1)
    case (Inl m)
    with Cons.prems b 1 show ?thesis by auto
  next
    case (Inr found1)
    show ?thesis
    proof (cases "fst found1 \<noteq> None \<and> snd found1 \<noteq> []")
      case True
      with Cons.prems b 1 Inr show ?thesis by auto
    next
      case False
      with Cons.prems b Inr have "searchPages E svc iid port pages (found1, b) = Done (r, a')"
        by (auto split: if_splits)
      from Cons.IH [OF this] 1 Inr show ?thesis by (auto simp: keeps_health_def)
    qed
  qed
qed auto

lemma findByTarget_health:
  assumes "findByTarget E svc iid port a = Done (Inr found, a')"
  shows "health_item a' (snd found)"
proof -
  from assms obtain tgslice b where
    s: "searchPages E svc iid port tgslice ((None, []), b) = Done (Inr found, a')" and "fst found \<noteq> None"
    by (auto simp: findByTarget_def Let_def split: if_splits sum.splits)
  with searchPages_health [OF s] show ?thesis by auto
qed

lemma endpointOf_health:
  assumes "endpointOf E svc found a = Done ((Some info, e), a')"
  shows "keeps_health a a' \<and> lr_TargetGroupArn info = snd found"
proof -
  obtain arns tgArn where found: "found = (arns, tgArn)" by (cases found)
  from assms obtain x arn out3 e3 b out4 e4 where
    b: "GetAndCache E (''lsnr_'' @ arn) x (describeListeners E svc) DEFAULT_EXP_TIME a = Done ((out3, e3), b)"
    and c: "GetAndCache E (''lb_'' @ arn) arns (describeLoadBalancers E svc) DEFAULT_EXP_TIME b = Done ((out4, e4), a')"
    and arn: "lr_TargetGroupArn info = tgArn"
    by (auto simp: endpointOf_def found log_error_def split: if_splits option.splits)
  have "keeps_health a b" using b
    by (rule GetAndCache_keeps_health) (auto simp: describeListeners_def calling_eq split: prod.splits)
  moreover have "keeps_health b a'" using c
    by (rule GetAndCache_keeps_health) (auto simp: describeLoadBalancers_def calling_eq split: prod.splits)
  ultimately show ?thesis using arn found keeps_health_trans by auto
qed

lemma getELBAndCacheDetails_health:
  assumes "getELBAndCacheDetails E l a = Done ((Some info, e), a')"
    and "lv_ServiceName l = []" and "lv_ClusterName l = [] \<or> lv_TaskArn l = []"
  shows "health_item a' (lr_TargetGroupArn info)"
proof -
  have names: "chooseService E l b = Done (([], []), b)" for b
    using assms(2,3) by (auto simp: chooseService_def)
  from assms(1) obtain svc b where "findEndpoint E svc l ([], []) b = Done ((Some info, e), a')"
    by (auto simp: getELBAndCacheDetails_def Let_def names split: if_splits)
  then obtain found c where c: "findByTarget E svc (lv_InstanceID l) (lv_Port l) b = Done (Inr found, c)"
    and a': "endpointOf E svc found c = Done ((Some info, e), a')"
    by (auto simp: findEndpoint_def split: sum.splits)
  from findByTarget_health [OF c] endpointOf_health [OF a'] show ?thesis
    by (simp add: keeps_health_def)
qed

text \<open>The item and the data of the container after the first lookup of a container by its target.\<close>

lemma GetELBV2ForContainer_health:
  assumes "GetELBV2ForContainer E cid iid port cn ta [] a = Done ((Some info, e), a')"
    and "cached E a (''container_'' @ cid) = None" and "cn = [] \<or> ta = []"
  shows "health_item a' (lr_TargetGroupArn info)"
    and "aw_generalCache b = aw_generalCache a' \<Longrightarrow> cached E b (''container_'' @ cid) = Some (AnyInfo (Some info))"
proof -
  let ?l = "\<lparr>lv_InstanceID = iid, lv_Port = port, lv_ClusterName = cn, lv_ServiceName = [], lv_TaskArn = ta\<rparr>"
  from assms(1) obtain out e1 where
    g: "GetAndCache E (''container_'' @ cid) ?l (lookupDetails E) NoExpiration a = Done ((Some out, e1), a')"
    and out: "out = AnyInfo (Some info)"
    by (auto simp: GetELBV2ForContainer_def Let_def split: if_splits option.splits Any.splits)
  from g assms(2) obtain c where c: "lookupDetails E ?l a = Done ((out, None), c)"
    and a': "a' = AddToCache E (''container_'' @ cid) out NoExpiration c"
    by (auto simp: GetAndCache_def cached_def AddToCache_def split: if_splits)
  from c out have d: "getELBAndCacheDetails E ?l a = Done ((Some info, None), c)"
    by (auto simp: lookupDetails_def)
  have "health_item c (lr_TargetGroupArn info)"
    by (rule getELBAndCacheDetails_health [OF d]) (use assms(3) in simp_all)
  then show "health_item a' (lr_TargetGroupArn info)" by (simp add: a' health_item_AddToCache)
  show "cached E b (''container_'' @ cid) = Some (AnyInfo (Some info))"
    if "aw_generalCache b = aw_generalCache a'"
    using that
    by (simp add: cached_def a' AddToCache_def cache_Get_def cache_Set_def update_conv' out NoExpiration_def)
qed

lemma health_item_cached:
  assumes "health_item a arn" and "aw_generalCache b = aw_generalCache a"
    and "cached E b (''tg_arn_'' @ arn) \<noteq> None"
  shows "\<exists>h. cached E b (''tg_arn_'' @ arn) = Some (AnyTargetHealth h)"
proof -
  from assms(1) obtain it h where it: "map_of (aw_generalCache a) (''tg_arn_'' @ arn) = Some it"
    and h: "it_Object it = AnyTargetHealth h" by (auto simp: health_item_def)
  have "cached E b (''tg_arn_'' @ arn) = Some (it_Object it)"
    using assms(2,3) it by (auto simp: cached_def cache_Get_def split: if_splits)
  with h show ?thesis by simp
qed

lemma GetHealthyTargets_hidden:
  "cached E a (''tg_arn_'' @ arn) = Some (AnyTargetHealth h) \<Longrightarrow> GetHealthyTargets E arn a = Done (([], None), a)"
  by (simp add: GetHealthyTargets_def GetAndCache_hit)

lemma determine_hidden:
  assumes "cached E a (''container_'' @ cid) = Some (AnyInfo (Some info))"
    and "cached E a (''tg_arn_'' @ lr_TargetGroupArn info) = Some (AnyTargetHealth h)"
    and "st \<noteq> UP" and "prev \<noteq> UP"
  shows "determineNewEurekaStatus E cid st prev a = Done (change STARTING STARTING, a)"
  using assms GetHealthyTargets_hidden [OF assms(2)]
  by (simp add: determineNewEurekaStatus_def cached_def)

end
