(* ===== verification/RegistryRelation.thy ===== *)
theory RegistryRelation
  imports System
begin

text \<open>
  The bridge changes the state behind its adapter through the methods of the adapter only.  So a
  relation between states that every method respects, and that is reflexive and transitive, holds
  between the states of the registry before and after every operation of the bridge and every run of
  the process.  Adapters interpret the locale with what their own state guarantees.
\<close>

locale registry_relation =
  fixes A :: "'r RegistryAdapter" and R :: "'r \<Rightarrow> 'r \<Rightarrow> bool"
  assumes R_refl: "R r r"
    and R_trans: "R r1 r2 \<Longrightarrow> R r2 r3 \<Longrightarrow> R r1 r3"
    and R_ping: "ra_Ping A r = Done (e, r') \<Longrightarrow> R r r'"
    and R_register: "ra_Register A s r = Done (e, r') \<Longrightarrow> R r r'"
    and R_deregister: "ra_Deregister A s r = Done (e, r') \<Longrightarrow> R r r'"
    and R_refresh: "ra_Refresh A s r = Done (e, r') \<Longrightarrow> R r r'"
    and R_services: "ra_Services A r = Done (x, r') \<Longrightarrow> R r r'"
begin

lemmas R_calls = R_ping R_register R_deregister R_refresh R_services
lemmas [simp] = R_refl

text \<open>Loops on a bridge.\<close>

lemma loop:
  assumes "ofold f xs b = Done b'"
    and "\<And>x b b'. x \<in> set xs \<Longrightarrow> f x b = Done b' \<Longrightarrow> R (br_registry b) (br_registry b')"
  shows "R (br_registry b) (br_registry b')"
  by (rule ofold_invariant [OF assms(1), where P = "\<lambda>b1. R (br_registry b) (br_registry b1)"])
    (auto intro: R_trans assms(2))

lemma Ping: "Bridge.Ping A b = Done (e, b') \<Longrightarrow> R (br_registry b) (br_registry b')"
  by (auto simp: Ping_def intro: R_ping)

lemma deregister_one: "Bridge.deregister_one A s b = Done b' \<Longrightarrow> R (br_registry b) (br_registry b')"
  by (auto simp: deregister_one_def intro: R_deregister)

lemma deregisterAll: "Bridge.deregisterAll A ss b = Done b' \<Longrightarrow> R (br_registry b) (br_registry b')"
  unfolding deregisterAll_def by (rule loop) (auto intro: deregister_one)

lemma remove:
  assumes "Bridge.remove A cid deregister b = Done b'"
  shows "R (br_registry b) (br_registry b')"
proof (cases deregister)
  case True
  with assms obtain b1 where b1: "Bridge.deregisterAll A (services_of b cid) (b\<lparr>br_locked := True\<rparr>) = Done b1"
    by (auto simp: remove_def)
  have "R (br_registry b) (br_registry b1)" using deregisterAll [OF b1] by simp
  moreover have "R (br_registry b1) (br_registry b')"
  proof (cases "map_of (br_deadContainers b1) cid")
    case None
    with assms True b1 show ?thesis by (auto simp: remove_def)
  next
    case (Some d)
    with assms True b1 obtain b2 where "Bridge.deregisterAll A (dd_Services d) b1 = Done b2"
      and "br_registry b' = br_registry b2" by (auto simp: remove_def)
    then show ?thesis using deregisterAll [of "dd_Services d" b1 b2] by simp
  qed
  ultimately show ?thesis by (rule R_trans)
next
  case False
  with assms show ?thesis by (auto simp: remove_def split: if_splits)
qed

lemma RemoveOnExit: "Bridge.RemoveOnExit A E cid b = Done b' \<Longrightarrow> R (br_registry b) (br_registry b')"
  by (auto simp: RemoveOnExit_def intro: remove)

lemma Refresh:
  assumes "Bridge.Refresh A E b = Done b'"
  shows "R (br_registry b) (br_registry b')"
proof -
  have one: "R (br_registry b1) (br_registry b2)" if "refresh_one A cid s b1 = Done b2" for cid s b1 b2
    using that by (auto simp: refresh_one_def Let_def dest!: R_refresh split: if_splits)
  from assms obtain svcs where
    "ofold (\<lambda>(cid, ss). ofold (refresh_one A cid) ss) (entries (en_order E) AtCopy svcs) b = Done b'"
    by (auto simp: Refresh_def dest: getServicesCopy_Done)
  then show ?thesis by (rule loop) (auto intro: loop one split: prod.splits)
qed

lemma PruneDeadContainers:
  "Bridge.PruneDeadContainers E b = Done b' \<Longrightarrow> R (br_registry b) (br_registry b')"
  by (auto simp: PruneDeadContainers_def Let_def)

lemma registerPort:
  assumes "Bridge.registerPort A E container quiet isGroup port b = Done b'"
  shows "R (br_registry b) (br_registry b')"
proof -
  have append: "br_registry b2 = br_registry b1" if "appendService cid s b1 = Done b2" for cid s and b1 b2 :: "'r Bridge"
    using that by (auto simp: appendService_def Let_def split: if_splits)
  show ?thesis using assms
    by (auto simp: registerPort_def Let_def dest!: R_register append split: option.splits if_splits)
qed

lemma add:
  assumes "Bridge.add A E cid quiet ip b = Done b'"
  shows "R (br_registry b) (br_registry b')"
proof -
  have delete: "br_registry b2 = br_registry b1" if "deleteDeadContainer cid b1 = Done b2" for b1 b2 :: "'r Bridge"
    using that by (auto simp: deleteDeadContainer_def split: option.splits)
  have ports: "R (br_registry b1) (br_registry b')" if "registerPorts A E container quiet sps b1 = Done b'"
    for container sps b1
    using that unfolding registerPorts_def Let_def by (rule loop) (auto intro: registerPort)
  from assms obtain b1 where b1: "deleteDeadContainer cid b = Done b1" by (auto simp: add_def)
  have "R (br_registry b1) (br_registry b')"
    using assms b1
    by (auto simp: add_def Let_def dest!: ports split: if_splits sum.splits)
  with delete [OF b1] show ?thesis by simp
qed

text \<open>Synchronisation.\<close>

lemma reregisterService: "ServiceSync.reregisterService A s ip r = Done (s', r') \<Longrightarrow> R r r'"
  by (auto simp: reregisterService_def Let_def dest!: R_register R_deregister elim: R_trans split: if_splits)

lemma reregisterAll: "ServiceSync.reregisterAll A ip ss r = Done (ss', r') \<Longrightarrow> R r r'"
proof (induction ss arbitrary: r ss')
  case Nil
  then show ?case by (simp add: R_refl)
next
  case (Cons s ss)
  then show ?case by (fastforce dest: reregisterService intro: R_trans)
qed

lemma cleanupServices: "ServiceSync.cleanupServices A E exts b = Done b' \<Longrightarrow> R (br_registry b) (br_registry b')"
  unfolding cleanupServices_def
  by (rule loop) (auto simp: cleanup_one_def dest!: R_deregister split: option.splits if_splits)

lemma sync_container:
  "ServiceSync.sync_container A message c (b, ts) = Done (b', ts') \<Longrightarrow> R (br_registry b) (br_registry b')"
  by (auto simp: sync_container_def Let_def dest!: reregisterAll split: if_splits)

lemma sync_containers:
  "ofold (ServiceSync.sync_container A message) cs (b, ts) = Done (b', ts') \<Longrightarrow>
   R (br_registry b) (br_registry b')"
proof (induction cs arbitrary: b ts)
  case (Cons c cs)
  then obtain b1 ts1 where "ServiceSync.sync_container A message c (b, ts) = Done (b1, ts1)"
    and "R (br_registry b1) (br_registry b')" by auto
  then show ?case using sync_container R_trans by blast
qed simp

lemma serviceSync:
  assumes "ServiceSync.serviceSync A E message b = Done (b', ts)"
  shows "R (br_registry b) (br_registry b')"
proof (cases "dk_ListContainers (en_docker E) RunningOnly")
  case (Inl e)
  with assms show ?thesis by (auto simp: serviceSync_def split: if_splits)
next
  case (Inr cs)
  with assms obtain b1 ts1 where b1: "ofold (ServiceSync.sync_container A message) cs (b, []) = Done (b1, ts1)"
    by (auto simp: serviceSync_def)
  have "R (br_registry b1) (br_registry b')"
    using assms Inr b1
    by (fastforce simp: serviceSync_def Let_def intro: R_trans dest: R_services cleanupServices
        split: if_splits sum.splits)
  with sync_containers [OF b1] show ?thesis by (rule R_trans)
qed

lemma channelRun:
  "ServiceSync.channelRun A E val wg b = Done (b', ts, wg', go) \<Longrightarrow> R (br_registry b) (br_registry b')"
  by (auto simp: channelRun_def Let_def dest!: serviceSync split: if_splits option.splits)

lemma run_task: "ServiceSync.run_task A E t b = Done b' \<Longrightarrow> R (br_registry b) (br_registry b')"
  by (cases t) (auto simp: run_task_def intro: add RemoveOnExit)

text \<open>The process.\<close>

lemma step:
  "sys_step A il source s e s' \<Longrightarrow> R (br_registry (sys_bridge s)) (br_registry (sys_bridge s'))"
  by (induction rule: sys_step.induct)
    (auto intro: PruneDeadContainers Refresh channelRun run_task)

lemma run:
  "sys_run A il source s es s' \<Longrightarrow> R (br_registry (sys_bridge s)) (br_registry (sys_bridge s'))"
  by (induction rule: sys_run.induct) (auto intro: R_trans step)

end

end
