(* ===== verification/EurekaFacts.thy ===== *)
theory EurekaFacts
  imports Eureka AwsStatus RegistryRelation
begin

text \<open>
  What the Eureka adapter registers and what it guarantees to the bridge: the metadata and the lease of an
  instance, operations that return, and a relation between the states of the package \<open>aws\<close> that the whole
  process respects.
\<close>

section \<open>The instance\<close>

lemma fold_set_metadata:
  "distinct (map fst es) \<Longrightarrow>
   map_of (in_Metadata (fold set_metadata_attr es reg)) k =
     (case map_of es (''eureka_metadata_'' @ k) of Some v \<Rightarrow> Some v | None \<Rightarrow> map_of (in_Metadata reg) k)"
proof (induction es arbitrary: reg)
  case (Cons e es)
  obtain k0 v0 where e: "e = (k0, v0)" by (cases e)
  show ?case
  proof (cases "prefix ''eureka_metadata_'' k0")
    case True
    then obtain k' where k0: "k0 = ''eureka_metadata_'' @ k'" by (auto simp: prefix_def)
    then have step: "set_metadata_attr e reg = SetMetadataString k' v0 reg"
      by (simp add: set_metadata_attr_def e trimPrefix_def)
    have "map_of es (''eureka_metadata_'' @ k') = None"
      using Cons.prems e k0 by (simp add: map_of_eq_None_iff)
    with Cons e k0 step show ?thesis
      by (auto simp: SetMetadataString_def update_conv' split: option.split)
  next
    case False
    then have "set_metadata_attr e reg = reg" "k0 \<noteq> ''eureka_metadata_'' @ k"
      by (auto simp: set_metadata_attr_def e)
    with Cons e show ?thesis by simp
  qed
qed simp

lemma fold_set_metadata_fields:
  "in_LeaseInfo (fold set_metadata_attr es reg) = in_LeaseInfo reg"
  "in_Port (fold set_metadata_attr es reg) = in_Port reg"
  "in_App (fold set_metadata_attr es reg) = in_App reg"
  by (induction es arbitrary: reg) (auto simp: set_metadata_attr_def SetMetadataString_def split: prod.splits)

lemma base_instance_metadata:
  assumes "is_order ord" and "wf_map (sv_Attrs s)"
  shows "map_of (in_Metadata (base_instance ord s)) k =
    (if k = ''is-container'' then Some ''true''
     else if k = ''container-id'' then Some (container_of s)
     else if k = ''container-name'' then Some (sp_ContainerName (sv_Origin s))
     else map_of (sv_Attrs s) (''eureka_metadata_'' @ k))"
  using fold_set_metadata [OF distinct_entries [OF assms], where k = k] map_of_entries [OF assms]
  by (simp add: base_instance_def Let_def SetMetadataString_def update_conv' zero_instance_def split: option.split)

lemma base_instance_fields:
  "in_LeaseInfo (base_instance ord s) = leaseInfo (sv_Attrs s)" "in_Port (base_instance ord s) = sv_Port s"
  "in_App (base_instance ord s) = sv_Name s"
  by (simp_all add: base_instance_def Let_def SetMetadataString_def fold_set_metadata_fields)

text \<open>When the metadata of EC2 is used.\<close>

definition auto_populates :: "Service \<Rightarrow> bool" where
  "auto_populates s \<longleftrightarrow> on_amazon s \<and> checkBooleanFlag s ''eureka_datacenterinfo_auto_populate''"

lemma instanceInformation_metadata:
  assumes "instanceInformation ord E s a = Done (reg, a')" and "is_order ord" and "wf_map (sv_Attrs s)"
  shows "map_of (in_Metadata reg) k =
    (if k = ''aws-instance-id'' \<and> auto_populates s then map_option md_InstanceID (aw_metadataCache a')
     else if k = ''is-container'' then Some ''true''
     else if k = ''container-id'' then Some (container_of s)
     else if k = ''container-name'' then Some (sp_ContainerName (sv_Origin s))
     else map_of (sv_Attrs s) (''eureka_metadata_'' @ k))"
proof (cases "auto_populates s")
  case True
  with assms(1) obtain md b where md: "GetMetadata E a = Done (Some md, b)" and a': "a' = b"
    and reg: "in_Metadata reg = AList.update ''aws-instance-id'' (md_InstanceID md) (in_Metadata (base_instance ord s))"
    by (auto simp: instanceInformation_def Let_def auto_populates_def auto_populated_def SetMetadataString_def
        split: if_splits)
  have "aw_metadataCache b = Some md" using md by (auto simp: GetMetadata_def)
  with True reg a' base_instance_metadata [OF assms(2,3), of k] show ?thesis by (simp add: update_conv')
next
  case False
  with assms(1) have "in_Metadata reg = in_Metadata (base_instance ord s)"
    by (auto simp: instanceInformation_def Let_def auto_populates_def from_attrs_def own_datacenter_def
        split: if_splits)
  with False base_instance_metadata [OF assms(2,3), of k] show ?thesis by simp
qed

lemma instanceInformation_lease:
  assumes "instanceInformation ord E s a = Done (reg, a')"
  shows "in_LeaseInfo reg = leaseInfo (sv_Attrs s) \<and> in_Port reg = sv_Port s \<and> in_App reg = sv_Name s"
  using assms
  by (auto simp: instanceInformation_def Let_def auto_populated_def from_attrs_def own_datacenter_def
      SetMetadataString_def base_instance_fields split: if_splits)

section \<open>Lease values\<close>

definition in_int32 :: "int \<Rightarrow> bool" where
  "in_int32 x \<longleftrightarrow> - (2 ^ 31) \<le> x \<and> x < 2 ^ 31"

lemma in_int32_int32: "in_int32 (int32 x)"
proof -
  have "0 \<le> (x + 2 ^ 31) mod 2 ^ 32" "(x + 2 ^ 31) mod 2 ^ 32 < (2 ^ 32 :: int)"
    by (rule pos_mod_sign pos_mod_bound; simp)+
  then show ?thesis by (simp add: wrap_signed_def in_int32_def)
qed

lemma int32_id: "in_int32 x \<Longrightarrow> int32 x = x"
  by (simp add: wrap_signed_def in_int32_def)

lemma int32_wrap: "\<exists>k. int32 x = x + k * 2 ^ 32"
proof -
  have "int32 x = x + (- ((x + 2 ^ 31) div 2 ^ 32)) * 2 ^ 32"
    by (simp add: wrap_signed_def minus_div_mult_eq_mod [symmetric])
  then show ?thesis by blast
qed

lemma leaseValue_range: "in_int32 dflt \<Longrightarrow> in_int32 (leaseValue s dflt)"
  by (auto simp: leaseValue_def in_int32_int32 split: option.split) (simp add: in_int32_def)

lemma leaseValue_number: "atoi s = Some v \<Longrightarrow> s \<noteq> [] \<Longrightarrow> leaseValue s dflt = int32 v"
  by (simp add: leaseValue_def)

text \<open>How a value of the lease is read from its attribute.\<close>

definition lease_read :: "string \<Rightarrow> int \<Rightarrow> int \<Rightarrow> bool" where
  "lease_read s dflt x \<longleftrightarrow>
     (if s = [] then x = dflt
      else case atoi s of
        None \<Rightarrow> x = 0
      | Some v \<Rightarrow> if in_int32 v then x = v else (\<exists>k. k \<noteq> 0 \<and> x = v + k * 2 ^ 32))"

lemma leaseValue_read: "lease_read s dflt (leaseValue s dflt)"
proof (cases "atoi s")
  case (Some v)
  obtain k where k: "int32 v = v + k * 2 ^ 32" using int32_wrap by blast
  have "k \<noteq> 0" if "\<not> in_int32 v" using that k in_int32_int32 [of v] by auto
  with k Some show ?thesis by (auto simp: lease_read_def leaseValue_def int32_id)
qed (simp add: lease_read_def leaseValue_def)

section \<open>Operations\<close>

lemma instanceInformation_keeps: "instanceInformation ord E s a = Done (reg, a') \<Longrightarrow> keeps a a'"
  by (auto simp: instanceInformation_def Let_def dest!: GetMetadata_keeps_all split: if_splits)

lemma instanceInformation_known:
  assumes "has_metadata a"
  shows "\<exists>reg. instanceInformation ord E s a = Done (reg, a)"
  using assms by (auto simp: instanceInformation_def Let_def has_metadata_def GetMetadata_known)

lemma instanceInformation_plain:
  "\<not> auto_populates s \<Longrightarrow> \<exists>reg. instanceInformation ord E s a = Done (reg, a)"
  by (auto simp: instanceInformation_def Let_def auto_populates_def)

text \<open>The services whose operations do not depend on AWS.\<close>

definition eureka_ok :: "Service \<Rightarrow> bool" where
  "eureka_ok s \<longleftrightarrow> \<not> CheckELBFlags s \<and> \<not> auto_populates s"

interpretation eureka: registry_adapter "eureka_adapter ord E client" eureka_ok for ord E client
proof unfold_locales
  fix s and a :: "'a Aws"
  assume ok: "eureka_ok s"
  then obtain reg where "instanceInformation ord E s a = Done (reg, a)" and elb: "\<not> CheckELBFlags s"
    using instanceInformation_plain [of s ord E a] by (auto simp: eureka_ok_def)
  then show "\<exists>e r'. ra_Register (eureka_adapter ord E client) s a = Done (e, r')"
    and "\<exists>e r'. ra_Deregister (eureka_adapter ord E client) s a = Done (e, r')"
    and "\<exists>e r'. ra_Refresh (eureka_adapter ord E client) s a = Done (e, r')"
    by (simp_all add: eureka_adapter_def eureka_Register_def eureka_Deregister_def eureka_Refresh_def
        calling_eq Let_def split: option.split)
qed (simp_all add: eureka_adapter_def eureka_Services_def)

text \<open>
  What holds between an earlier and a later state of the package, whatever the bridge does in between:
  the cache stays typed, the metadata stays known, and a status that is up stays up.
\<close>

definition aws_evolves :: "'w Aws \<Rightarrow> 'w Aws \<Rightarrow> bool" where
  "aws_evolves a a' \<longleftrightarrow> (cache_typed a \<longrightarrow> cache_typed a') \<and>
     (aw_once a \<longrightarrow> aw_once a' \<and> aw_metadataCache a' = aw_metadataCache a) \<and>
     (\<forall>cid. getPreviousStatus cid a = UP \<longrightarrow> getPreviousStatus cid a' = UP)"

lemma aws_evolves_trans: "aws_evolves a b \<Longrightarrow> aws_evolves b c \<Longrightarrow> aws_evolves a c"
  by (simp add: aws_evolves_def)

lemma updates_evolves: "updates cid a a' \<Longrightarrow> aws_evolves a a'"
  unfolding updates_def aws_evolves_def by metis

lemma keeps_evolves: "keeps a a' \<Longrightarrow> aws_evolves a a'"
  using keeps_updates updates_evolves by blast

interpretation eureka_state: registry_relation "eureka_adapter ord E client" aws_evolves for ord E client
proof unfold_locales
  fix s e and a a' :: "'a Aws"
  have inst: "aws_evolves a b" if "instanceInformation ord E s a = Done (reg, b)" for reg b
    using instanceInformation_keeps [OF that] by (rule keeps_evolves)
  show "ra_Ping (eureka_adapter ord E client) a = Done (e, a') \<Longrightarrow> aws_evolves a a'"
    by (auto simp: eureka_adapter_def eureka_Ping_def calling_eq keeps_evolves split: if_splits prod.splits)
  show "aws_evolves a a'" if "ra_Register (eureka_adapter ord E client) s a = Done (e, a')"
  proof -
    from that obtain reg b where b: "instanceInformation ord E s a = Done (reg, b)"
      by (auto simp: eureka_adapter_def eureka_Register_def)
    have "aws_evolves b a'"
      using that b
      by (auto simp: eureka_adapter_def eureka_Register_def calling_eq keeps_evolves
          dest!: RegisterWithELBv2_updates updates_evolves split: if_splits)
    with inst [OF b] show ?thesis by (rule aws_evolves_trans)
  qed
  show "aws_evolves a a'" if "ra_Deregister (eureka_adapter ord E client) s a = Done (e, a')"
  proof -
    from that obtain reg b where b: "instanceInformation ord E s a = Done (reg, b)"
      by (auto simp: eureka_adapter_def eureka_Deregister_def)
    have "aws_evolves b a'"
      using that b
      by (auto simp: eureka_adapter_def eureka_Deregister_def calling_eq Let_def keeps_evolves keeps_RemoveKey
          split: if_splits)
    with inst [OF b] show ?thesis by (rule aws_evolves_trans)
  qed
  show "aws_evolves a a'" if "ra_Refresh (eureka_adapter ord E client) s a = Done (e, a')"
  proof -
    from that obtain reg b where b: "instanceInformation ord E s a = Done (reg, b)"
      by (auto simp: eureka_adapter_def eureka_Refresh_def)
    have "aws_evolves b a'"
      using that b
      by (auto simp: eureka_adapter_def eureka_Refresh_def calling_eq Let_def keeps_evolves
          dest!: HeartbeatELBv2_updates updates_evolves split: if_splits option.splits prod.splits)
    with inst [OF b] show ?thesis by (rule aws_evolves_trans)
  qed
next
  show "ra_Services (eureka_adapter ord E client) a = Done (x, a') \<Longrightarrow> aws_evolves a a'" for a a' :: "'a Aws" and x
    by (simp add: eureka_adapter_def eureka_Services_def keeps_evolves)
qed (auto simp: keeps_evolves intro: aws_evolves_trans)

section \<open>Removing a container behind a load balancer\<close>

definition forget_elb :: "Service \<Rightarrow> 'w Aws \<Rightarrow> 'w Aws" where
  "forget_elb s = RemoveKeyFromCache (''container_'' @ container_of s)"

lemma forget_elb_simps [simp]:
  "aw_world (forget_elb s a) = aw_world a" "has_metadata (forget_elb s a) = has_metadata a"
  by (simp_all add: forget_elb_def RemoveKeyFromCache_def has_metadata_def)

lemma forget_elbs_world: "aw_world (fold forget_elb ss a) = aw_world a"
  by (induction ss arbitrary: a) simp_all

lemma cached_forget_elb:
  "cached E (forget_elb s a) k = (if k = ''container_'' @ container_of s then None else cached E a k)"
  unfolding forget_elb_def by (rule cached_RemoveKey)

lemma cached_forget_elbs:
  "cached E (fold forget_elb ss a) k = (if \<exists>s\<in>set ss. k = ''container_'' @ container_of s then None else cached E a k)"
proof (induction ss arbitrary: a)
  case (Cons s ss)
  show ?case unfolding fold_Cons o_apply Cons.IH cached_forget_elb by auto
qed simp

lemma eureka_Deregister_elb:
  assumes "CheckELBFlags s" and "has_metadata a"
  shows "eureka_Deregister ord E client s a = Done (None, forget_elb s a)"
  using instanceInformation_known [OF assms(2), of ord E s] assms(1)
  by (auto simp: eureka_Deregister_def forget_elb_def)

lemma deregisterAll_elb:
  "list_all CheckELBFlags ss \<Longrightarrow> has_metadata (br_registry b) \<Longrightarrow>
   deregisterAll (eureka_adapter ord E client) ss b = Done (b\<lparr>br_registry := fold forget_elb ss (br_registry b)\<rparr>)"
proof (induction ss arbitrary: b)
  case Nil
  then show ?case by (simp add: deregisterAll_simps)
next
  case (Cons s ss)
  then have "deregister_one (eureka_adapter ord E client) s b =
      Done (b\<lparr>br_registry := forget_elb s (br_registry b)\<rparr>)"
    by (simp add: deregister_one_def eureka_adapter_def eureka_Deregister_elb)
  with Cons show ?case by (simp add: deregisterAll_simps)
qed

lemma remove_elb:
  assumes "\<not> br_locked b" and "has_metadata (br_registry b)" and "list_all CheckELBFlags (held_services b cid)"
  shows "\<exists>b'. remove (eureka_adapter ord E client) cid True b = Done b' \<and>
    br_registry b' = fold forget_elb (held_services b cid) (br_registry b)"
proof (cases "map_of (br_deadContainers b) cid")
  case None
  with assms show ?thesis by (simp add: remove_def held_services_def deregisterAll_elb)
next
  case (Some d)
  have "has_metadata (fold forget_elb ss a)" if "has_metadata a" for ss and a :: "'a Aws"
    using that by (induction ss arbitrary: a) auto
  with Some assms show ?thesis by (simp add: remove_def held_services_def deregisterAll_elb)
qed

section \<open>Endpoints given by attributes\<close>

text \<open>
  The endpoint in the attributes is registered without asking AWS, whatever the port: an invalid number
  is not refused.
\<close>

definition explicit_info :: "Service \<Rightarrow> LoadBalancerRegistrationInfo" where
  "explicit_info s =
     (let attrs = sv_Attrs s in
      \<lparr>lr_DNSName = get_str attrs ''eureka_elbv2_hostname'',
       lr_Port = atoiValue (get_str attrs ''eureka_elbv2_port''),
       lr_ELBEndpoint = get_str attrs ''eureka_elbv2_hostname'' @ ''_'' @ get_str attrs ''eureka_elbv2_port'',
       lr_TargetGroupArn = get_str attrs ''eureka_elbv2_targetgroup'', lr_IpAddress = [], lr_VipAddress = []\<rparr>)"

lemma getELBMetadata_explicit:
  assumes "explicit_endpoint (sv_Attrs s)" and "aw_once a"
  shows "getELBMetadata E s port a = Done ((explicit_info s, None),
    AddToCache E (''container_'' @ container_of s) (AnyInfo (Some (explicit_info s))) NoExpiration a)"
  using assms by (simp add: getELBMetadata_def GetMetadata_known explicit_info_def zero_info_def Let_def)

end
