(* ===== verification/AwsPages.thy ===== *)
theory AwsPages
  imports AwsElb
begin

text \<open>
  The two loops of \<open>aws/elb.go\<close> over answers that come in parts: the pages of target groups, and the
  services of a cluster, which are described ten at a time.
\<close>

section \<open>Pages of target groups\<close>

definition page_at ::
    "'w AwsEnv \<Rightarrow> string \<Rightarrow> string option \<Rightarrow> 'w \<Rightarrow> (DescribeTargetGroupsOutput option \<times> err) \<times> 'w" where
  "page_at E svc marker =
     ae_DescribeTargetGroups E svc \<lparr>gi_PageSize = Some 400, gi_Marker = marker, gi_TargetGroupArns = []\<rparr>"

text \<open>
  The marker and the world after the pages \<open>ps\<close> have been fetched one after the other from a marker on;
  \<open>None\<close> if they are not the pages that are fetched.
\<close>

fun pages_from ::
    "'w AwsEnv \<Rightarrow> string \<Rightarrow> string option \<Rightarrow> 'w \<Rightarrow> DescribeTargetGroupsOutput list \<Rightarrow> (string option \<times> 'w) option" where
  "pages_from E svc marker w [] = Some (marker, w)"
| "pages_from E svc marker w (p # ps) =
     (if marker \<noteq> None \<and> fst (page_at E svc marker w) = (Some p, None)
      then pages_from E svc (go_NextMarker p) (snd (page_at E svc marker w)) ps
      else None)"

lemma getTargetGroupsPage_page_at:
  "getTargetGroupsPage E svc marker a =
     (let ((tg, e), w) = page_at E svc marker (aw_world a) in
      if e \<noteq> None then ((None, e), a\<lparr>aw_world := w\<rparr>) else ((tg, None), a\<lparr>aw_world := w\<rparr>))"
  by (simp add: getTargetGroupsPage_def page_at_def calling_def split: prod.splits)

text \<open>The loop runs through such pages.\<close>

lemma targetGroupPages_run:
  "pages_from E svc marker (aw_world a) ps = Some (marker', w') \<Longrightarrow>
   targetGroupPages E svc marker tgs a =
     targetGroupPages E svc marker' (tgs @ map Some ps) (a\<lparr>aw_world := w'\<rparr>)"
proof (induction ps arbitrary: marker tgs a)
  case (Cons p ps)
  then obtain m where m: "marker = Some m" and p: "fst (page_at E svc (Some m) (aw_world a)) = (Some p, None)"
    by (auto split: if_splits)
  let ?b = "a\<lparr>aw_world := snd (page_at E svc (Some m) (aw_world a))\<rparr>"
  have "getTargetGroupsPage E svc (Some m) a = ((Some p, None), ?b)"
    using p by (auto simp: getTargetGroupsPage_page_at split: prod.splits)
  then have "targetGroupPages E svc marker tgs a = targetGroupPages E svc (go_NextMarker p) (tgs @ [Some p]) ?b"
    by (subst targetGroupPages.simps) (simp add: m)
  with Cons.prems Cons.IH [of "go_NextMarker p" ?b "tgs @ [Some p]"] m p show ?case by simp
qed auto

lemma getAllTargetGroups_first:
  assumes "page_at E svc None (aw_world a) = ((Some p, None), w1)"
    and "pages_from E svc (go_NextMarker p) w1 ps = Some (marker, w')"
  shows "getAllTargetGroups E svc a =
    (case targetGroupPages E svc marker (map Some (p # ps)) (a\<lparr>aw_world := w'\<rparr>) of
       None \<Rightarrow> Blocked | Some out \<Rightarrow> out)"
proof -
  have "targetGroupPages E svc (go_NextMarker p) [Some p] (a\<lparr>aw_world := w1\<rparr>) =
      targetGroupPages E svc marker ([Some p] @ map Some ps) (a\<lparr>aw_world := w1, aw_world := w'\<rparr>)"
    by (rule targetGroupPages_run) (simp add: assms(2))
  then show ?thesis by (simp add: getAllTargetGroups_def getTargetGroupsPage_page_at assms(1))
qed

lemma targetGroupPages_end: "targetGroupPages E svc None tgs a = Some (Done ((tgs, None), a))"
  by (simp add: targetGroupPages.simps)

lemma targetGroupPages_error:
  "page_at E svc (Some m) (aw_world a) = ((tg, Some e), w) \<Longrightarrow>
   targetGroupPages E svc (Some m) tgs a = Some (Panic NilDereference)"
  by (subst targetGroupPages.simps) (simp add: getTargetGroupsPage_page_at)

text \<open>A listing that always comes back to the same marker never ends.\<close>

lemma targetGroupPages_cycle:
  assumes "\<And>w. \<exists>p w'. page_at E svc (Some m) w = ((Some p, None), w') \<and> go_NextMarker p = Some m"
  shows "targetGroupPages E svc (Some m) tgs a = None"
proof (rule ccontr)
  assume "targetGroupPages E svc (Some m) tgs a \<noteq> None"
  then obtain out where out: "targetGroupPages E svc (Some m) tgs a = Some out" by auto
  have "\<not> (E' = E \<and> svc' = svc \<and> marker = Some m)"
    if "targetGroupPages E' svc' marker tgs' b = Some out'" for E' svc' marker tgs' b out'
  proof (rule targetGroupPages.raw_induct [OF _ that], goal_cases)
    case (1 rec E' svc' marker tgs' b out')
    obtain p w' where "page_at E svc (Some m) (aw_world b) = ((Some p, None), w')" "go_NextMarker p = Some m"
      using assms by blast
    with 1(2) have "rec E svc (Some m) (tgs' @ [Some p]) (b\<lparr>aw_world := w'\<rparr>) = Some out'"
      if "E' = E \<and> svc' = svc \<and> marker = Some m"
      using that by (simp add: getTargetGroupsPage_page_at)
    with 1(1) show ?case by blast
  qed
  from this [OF out] show False by simp
qed

section \<open>Ten services at a time\<close>

function chunks :: "'a list \<Rightarrow> 'a list list" where
  "chunks xs = (if xs = [] then [] else take 10 xs # chunks (drop 10 xs))"
  by pat_completeness auto
termination
  by (relation "measure length") auto

declare chunks.simps [simp del]

lemma chunks_Nil [simp]: "chunks [] = []"
  by (simp add: chunks.simps)

lemma chunks_short: "xs \<noteq> [] \<Longrightarrow> length xs \<le> 10 \<Longrightarrow> chunks xs = [xs]"
  by (simp add: chunks.simps [of xs])

lemma chunks_ten: "length xs = 10 \<Longrightarrow> chunks (xs @ ys) = xs # chunks ys"
  by (subst chunks.simps) auto

lemma concat_chunks: "concat (chunks xs) = xs"
proof (induction xs rule: chunks.induct)
  case (1 xs)
  then show ?case by (cases "xs = []") (simp_all add: chunks.simps [of xs])
qed

lemma chunks_lengths: "c \<in> set (chunks xs) \<Longrightarrow> 1 \<le> length c \<and> length c \<le> 10"
proof (induction xs rule: chunks.induct)
  case (1 xs)
  then show ?case by (cases "xs = []") (auto simp: chunks.simps [of xs] Suc_le_eq)
qed

lemma length_chunks: "length (chunks xs) = (length xs + 9) div 10"
proof (induction xs rule: chunks.induct)
  case (1 xs)
  show ?case
  proof (cases "length xs \<le> 10")
    case True
    then show ?thesis
    proof (cases "xs = []")
      case False
      then have "1 \<le> length xs" by (simp add: Suc_le_eq)
      with True have "(length xs + 9) div 10 = 1" by presburger
      with False True show ?thesis by (simp add: chunks_short)
    qed simp
  next
    case False
    then have "xs \<noteq> []" by auto
    with 1 have "length (chunks xs) = Suc ((length xs - 10 + 9) div 10)"
      by (simp add: chunks.simps [of xs])
    with False show ?thesis by (simp add: le_div_geq)
  qed
qed

text \<open>
  An interface that records which services it was asked to describe: \<open>asked\<close> reads the record from the
  state of the world.
\<close>

definition records_services :: "('w \<Rightarrow> string option list list) \<Rightarrow> 'w AwsEnv \<Rightarrow> bool" where
  "records_services asked E \<longleftrightarrow>
     (\<forall>svc cluster ss w. asked (snd (ae_DescribeServices E svc cluster ss w)) = asked w @ [ss])"

lemma chunkLoop_asks:
  assumes "records_services asked E"
    and "chunkLoop E svc cluster td n i rest chunk matched a = Done (r, a')"
    and "length chunk = i mod 10" and "n = i + length rest" and "rest \<noteq> [] \<or> chunk = []"
  shows "\<exists>ys. asked (aw_world a') = asked (aw_world a) @ ys \<and> prefix ys (chunks (chunk @ rest)) \<and>
    (r \<noteq> None \<longrightarrow> ys = chunks (chunk @ rest))"
  using assms(2-)
proof (induction rest arbitrary: i chunk matched a)
  case Nil
  then show ?case by simp
next
  case (Cons s rest)
  let ?c = "chunk @ [s]"
  show ?case
  proof (cases "(i + 1) mod 10 = 0 \<and> i > 0 \<or> i = n - 1")
    case False
    have "rest \<noteq> []" using False Cons.prems(3) by auto
    moreover have "length ?c = (i + 1) mod 10" using False Cons.prems(2) by (simp add: mod_Suc) presburger
    moreover have "chunkLoop E svc cluster td n (i + 1) rest ?c matched a = Done (r, a')"
      using False Cons.prems(1) by (auto simp: Let_def split: if_splits)
    ultimately show ?thesis using Cons.IH [of "i + 1" ?c matched a] Cons.prems(3) by simp
  next
    case True
    obtain out e w where call: "ae_DescribeServices E svc cluster ?c (aw_world a) = ((out, e), w)"
      by (cases "ae_DescribeServices E svc cluster ?c (aw_world a)") auto
    have asked: "asked w = asked (aw_world a) @ [?c]" using assms(1) call by (metis records_services_def snd_conv)
    have whole: "chunks (?c @ rest) = ?c # chunks rest"
    proof (cases "rest = []")
      case True
      have "length ?c \<le> 10" using Cons.prems(2) by simp
      with True show ?thesis using chunks_short [of ?c] by simp
    next
      case False
      with True Cons.prems(3) have "(i + 1) mod 10 = 0" by auto
      then have "length ?c = 10" using Cons.prems(2) by (simp add: mod_Suc split: if_splits)
      then show ?thesis by (rule chunks_ten)
    qed
    have step: "(if e \<noteq> None then Done (None, a\<lparr>aw_world := w\<rparr>)
        else case out of
          None \<Rightarrow> Done (None, a\<lparr>aw_world := w\<rparr>)
        | Some services \<Rightarrow>
            obind (ofold (matchService td) services matched) (\<lambda>m.
              chunkLoop E svc cluster td n (i + 1) rest [] m (a\<lparr>aw_world := w\<rparr>))) = Done (r, a')"
      using Cons.prems(1) True by (simp only: chunkLoop.simps Let_def calling_def call if_True prod.case)
    consider (stop) "r = None" "a' = a\<lparr>aw_world := w\<rparr>"
      | (go) m where "chunkLoop E svc cluster td n (i + 1) rest [] m (a\<lparr>aw_world := w\<rparr>) = Done (r, a')"
      using step by (cases e; cases out) auto
    then show ?thesis
    proof cases
      case stop
      then show ?thesis using asked whole by (intro exI [of _ "[?c]"]) simp
    next
      case (go m)
      show ?thesis
      proof (cases "rest = []")
        case True
        with go asked whole show ?thesis by (intro exI [of _ "[?c]"]) auto
      next
        case False
        with True Cons.prems(3) have "(i + 1) mod 10 = 0" by auto
        then obtain ys where "asked (aw_world a') = asked w @ ys" "prefix ys (chunks rest)" "r \<noteq> None \<longrightarrow> ys = chunks rest"
          using Cons.IH [OF go] Cons.prems(3) by auto
        then show ?thesis using asked whole by (intro exI [of _ "?c # ys"]) auto
      qed
    qed
  qed
qed

end
