(* ===== verification/Logging.thy ===== *)
theory Logging
  imports GoLib
begin

text \<open>
  The levels of the loggers, \<open>logging/logging.go\<close>.  The environment of the process is a function from names
  to values, with the empty string for a variable that is not set, as \<open>os.Getenv\<close> gives it.
\<close>

datatype Level = CRITICAL | ERROR | WARNING | NOTICE | INFO | DEBUG

definition getEnvLogLevel :: "(string \<Rightarrow> string) \<Rightarrow> string \<Rightarrow> Level \<Rightarrow> Level" where
  "getEnvLogLevel getenv logLevelEnvVarName defaultLevel =
     (let levelOverride = toUpper (getenv logLevelEnvVarName) in
      if levelOverride = ''DEBUG'' then DEBUG
      else if levelOverride = ''INFO'' then INFO
      else if levelOverride = ''NOTICE'' then NOTICE
      else if levelOverride = ''WARNING'' then WARNING
      else if levelOverride = ''ERROR'' then ERROR
      else if levelOverride = ''CRITICAL'' then CRITICAL
      else defaultLevel)"

text \<open>\<open>Configure\<close>: the levels of the modules; a module that is not listed has the level of the empty name.\<close>

definition Configure :: "(string \<Rightarrow> string) \<Rightarrow> Level gomap \<Rightarrow> Level gomap" where
  "Configure getenv levels =
     AList.update ''fargo'' (getEnvLogLevel getenv ''FARGO_LOG_LEVEL'' NOTICE)
       (AList.update [] (getEnvLogLevel getenv ''REGISTRATOR_LOG_LEVEL'' INFO) levels)"

text \<open>The names of the levels, which are read back in any case of letters.\<close>

fun levelName :: "Level \<Rightarrow> string" where
  "levelName CRITICAL = ''CRITICAL''"
| "levelName ERROR = ''ERROR''"
| "levelName WARNING = ''WARNING''"
| "levelName NOTICE = ''NOTICE''"
| "levelName INFO = ''INFO''"
| "levelName DEBUG = ''DEBUG''"

lemma getEnvLogLevel_name: "toUpper (getenv v) = levelName l \<Longrightarrow> getEnvLogLevel getenv v d = l"
  by (cases l) (simp_all add: getEnvLogLevel_def)

lemma getEnvLogLevel_other:
  assumes "\<And>l. toUpper (getenv v) \<noteq> levelName l"
  shows "getEnvLogLevel getenv v d = d"
  using assms [of CRITICAL] assms [of ERROR] assms [of WARNING] assms [of NOTICE] assms [of INFO] assms [of DEBUG]
  by (simp add: getEnvLogLevel_def)

end
