(* ===== verification/MainProgram.thy ===== *)
theory MainProgram
  imports Extpoints Logging
begin

text \<open>
  \<open>main\<close> of \<open>registrator.go\<close> from its first line to the event loop: the version flag, the checks of the
  command line, the choice of the adapter, the wait for the backend, the event listener, the first
  message to the synchronisation goroutine, and the timers.  The parsing of flags by the package \<open>flag\<close>, the
  Docker client and the factories are parameters.
\<close>

section \<open>Small functions\<close>

definition getopt :: "(string \<Rightarrow> string) \<Rightarrow> string \<Rightarrow> string \<Rightarrow> string" where
  "getopt getenv name def = (if getenv name \<noteq> [] then getenv name else def)"

text \<open>\<open>assert\<close>: \<open>log.Fatal\<close> ends the process with status 1.\<close>

definition assert :: "err \<Rightarrow> unit outcome" where
  "assert e = (if e \<noteq> None then Exit 1 else Done ())"

text \<open>
  \<open>PushServiceSync\<close> hands the message to the goroutine of \<open>channelRun\<close>; the messages handed over and not
  processed are a list.
\<close>

definition PushServiceSync :: "SyncMessage \<Rightarrow> SyncMessage list \<Rightarrow> SyncMessage list" where
  "PushServiceSync msg messages = messages @ [msg]"

text \<open>\<open>Initialize\<close>: the channel of a new bridge is empty.\<close>

definition Initialize :: "SyncMessage list" where
  "Initialize = []"

section \<open>Timers\<close>

datatype timer = IpTimer | PruneTimer | RefreshTimer | ResyncTimer

text \<open>
  \<open>time.Duration(n) * time.Second\<close> is a product of 64-bit integers; \<open>NewTicker\<close> panics unless it is
  positive.
\<close>

definition seconds :: "int \<Rightarrow> int" where
  "seconds n = int64 (n * 10 ^ 9)"

definition NewTicker :: "timer \<Rightarrow> int \<Rightarrow> (timer \<times> int) outcome" where
  "NewTicker t d = (if d \<le> 0 then Panic NonPositiveInterval else Done (t, d))"

definition startIf :: "bool \<Rightarrow> timer \<Rightarrow> int \<Rightarrow> (timer \<times> int) list \<Rightarrow> (timer \<times> int) list outcome" where
  "startIf cond t d ts = (if cond then obind (NewTicker t d) (\<lambda>x. Done (ts @ [x])) else Done ts)"

text \<open>Lines 202-268: the timers that are started, with their periods.\<close>

definition startTimers :: "Flags \<Rightarrow> (timer \<times> int) list outcome" where
  "startTimers fl =
     obind (startIf (fl_ipLookupSource fl \<noteq> []) IpTimer (10 * 10 ^ 9) []) (\<lambda>ts.
     obind (startIf (fl_refreshInterval fl > 0) PruneTimer (seconds (fl_refreshInterval fl)) ts) (\<lambda>ts.
     obind (startIf (fl_refreshInterval fl > 0) RefreshTimer (seconds (fl_refreshInterval fl)) ts) (\<lambda>ts.
     startIf (fl_resyncInterval fl > 0) ResyncTimer (seconds (fl_resyncInterval fl)) ts)))"

section \<open>The start of the process\<close>

text \<open>Going on after a step that returned, when what follows may not end.\<close>

definition onDone :: "'a outcome \<Rightarrow> ('a \<Rightarrow> 'b outcome option) \<Rightarrow> 'b outcome option" where
  "onDone m k =
     (case m of
        Done x \<Rightarrow> k x
      | Blocked \<Rightarrow> Some Blocked
      | Panic p \<Rightarrow> Some (Panic p)
      | Exit n \<Rightarrow> Some (Exit n))"

definition new_result :: "new_error + 'a \<Rightarrow> 'a outcome" where
  "new_result r = (case r of Inl _ \<Rightarrow> Exit 1 | Inr b \<Rightarrow> Done b)"

text \<open>
  \<open>main\<close> up to line 268, the start of the event loop.  \<open>parse\<close> gives the flags, or \<open>None\<close> where the package \<open>flag\<close>
  ends the process; \<open>dockerErr\<close> and \<open>listenErr\<close> are the results of making the Docker client and of adding
  the listener; \<open>schemeOf\<close> parses the URI; \<open>A\<close> is the adapter of the bridge.
\<close>

definition main_start ::
    "(string list \<Rightarrow> Flags option) \<Rightarrow> (string \<Rightarrow> int \<Rightarrow> lookup_result) \<Rightarrow> err \<Rightarrow> err \<Rightarrow>
     (string \<Rightarrow> string option) \<Rightarrow> factory extensionPoint gomap \<Rightarrow> (factory \<Rightarrow> 'r outcome) \<Rightarrow> 'r RegistryAdapter \<Rightarrow>
     IpLookup \<Rightarrow> string list \<Rightarrow> ('r System \<times> (timer \<times> int) list \<times> IpLookup) outcome option" where
  "main_start parse get dockerErr listenErr schemeOf reg factoryNew A il args =
     (if length args = 2 \<and> args ! 1 = ''--version'' then Some (Exit 0)
      else
        (case parse args of
           None \<Rightarrow> Some (Exit 2)
         | Some fl \<Rightarrow>
             onDone (configure get dockerErr fl il) (\<lambda>(cfg, discoveredIP, il).
             let adapterUri = hd (fl_args fl) in
             onDone (obind (New reg factoryNew (schemeOf adapterUri) adapterUri cfg) new_result) (\<lambda>b.
             (case waitForBackend A fl b of
                None \<Rightarrow> None
              | Some out \<Rightarrow>
                  onDone out (\<lambda>b.
                  onDone (assert listenErr) (\<lambda>_.
                  let messages = PushServiceSync \<lparr>sm_Quiet = False, sm_IP = cf_HostIp cfg\<rparr> Initialize in
                  onDone (startTimers fl) (\<lambda>ts.
                    Some (Done
                      (\<lparr>sys_bridge = b, sys_ip = discoveredIP, sys_tasks = [], sys_messages = messages\<rparr>,
                       ts, il))))))))))"

section \<open>Facts\<close>

lemma onDone_eq_Done: "onDone m k = Some (Done y) \<longleftrightarrow> (\<exists>x. m = Done x \<and> k x = Some (Done y))"
  by (cases m) (auto simp: onDone_def)

lemma pingLoop_invariant:
  assumes "pingLoop ping n i s = Some (Done s')"
    and "P s" and "\<And>s e s'. P s \<Longrightarrow> ping s = Done (e, s') \<Longrightarrow> P s'"
  shows "P s'"
proof -
  have "ping' = ping \<longrightarrow> P s \<longrightarrow> (\<forall>s'. out = Done s' \<longrightarrow> P s')"
    if "pingLoop ping' n i s = Some out" for ping' n i s out
  proof (rule pingLoop.raw_induct [OF _ that], goal_cases)
    case (1 rec ping' n i s out)
    show ?case
    proof (intro impI allI)
      fix s'
      assume ping: "ping' = ping" and Ps: "P s" and out: "out = Done s'"
      show "P s'"
      proof (cases "n = - 1 \<or> i \<le> n")
        case False
        with 1(2) out Ps show ?thesis by simp
      next
        case True
        then obtain e s1 where p: "ping s = Done (e, s1)"
          using 1(2) out ping by (cases "ping s") auto
        then have "P s1" using assms(3) Ps by blast
        then show ?thesis using 1 True p ping out by (auto split: if_splits)
      qed
    qed
  qed
  from this [OF assms(1)] assms(2) show ?thesis by simp
qed

lemma waitForBackend_registry:
  assumes "waitForBackend A fl b = Some (Done b')"
  shows "\<exists>r. b' = b\<lparr>br_registry := r\<rparr>"
proof -
  have "\<exists>r. b' = b\<lparr>br_registry := r\<rparr>"
    using assms unfolding waitForBackend_def
  proof (rule pingLoop_invariant)
    show "\<exists>r. b = b\<lparr>br_registry := r\<rparr>" by (rule exI [of _ "br_registry b"]) simp
    show "\<exists>r. s' = b\<lparr>br_registry := r\<rparr>" if "\<exists>r. s = b\<lparr>br_registry := r\<rparr>" "Ping A s = Done (e, s')" for s e s'
      using that by (auto simp: Ping_def)
  qed
  then show ?thesis .
qed

lemma NewTicker_Done [simp]: "NewTicker t d = Done x \<longleftrightarrow> 0 < d \<and> x = (t, d)"
  by (auto simp: NewTicker_def)

lemma startIf_Done: "startIf c t d ts = Done ts' \<longleftrightarrow> (c \<longrightarrow> 0 < d) \<and> ts' = ts @ (if c then [(t, d)] else [])"
  by (auto simp: startIf_def obind_eq_Done_iff)

lemma startTimers_Done:
  assumes "startTimers fl = Done ts"
  shows "ts = (if fl_ipLookupSource fl \<noteq> [] then [(IpTimer, 10 * 10 ^ 9)] else []) @
      (if fl_refreshInterval fl > 0 then [(PruneTimer, seconds (fl_refreshInterval fl)),
         (RefreshTimer, seconds (fl_refreshInterval fl))] else []) @
      (if fl_resyncInterval fl > 0 then [(ResyncTimer, seconds (fl_resyncInterval fl))] else [])"
    and "list_all (\<lambda>(_, d). 0 < d) ts"
  using assms by (auto simp: startTimers_def startIf_Done)

lemma seconds_exact: "0 < n \<Longrightarrow> n \<le> 9223372036 \<Longrightarrow> seconds n = n * 10 ^ 9"
  unfolding seconds_def by (rule int64_id) (simp add: in_int64_def)

lemma startTimers_returns:
  assumes "fl_refreshInterval fl \<le> 9223372036" and "fl_resyncInterval fl \<le> 9223372036"
  shows "\<exists>ts. startTimers fl = Done ts"
proof -
  have "0 < n \<longrightarrow> 0 < seconds n" if "n \<le> 9223372036" for n using that by (auto simp: seconds_exact)
  with assms have "0 < fl_refreshInterval fl \<longrightarrow> 0 < seconds (fl_refreshInterval fl)"
    "0 < fl_resyncInterval fl \<longrightarrow> 0 < seconds (fl_resyncInterval fl)" by blast+
  then show ?thesis by (auto simp: startTimers_def startIf_def NewTicker_def)
qed

text \<open>An interval that is accepted can overflow and stop the process at its timer.\<close>

lemma startTimers_overflow:
  "fl_ipLookupSource fl = [] \<Longrightarrow> fl_refreshInterval fl = 9223372037 \<Longrightarrow> startTimers fl = Panic NonPositiveInterval"
  by (simp add: startTimers_def startIf_def NewTicker_def seconds_def wrap_signed_def)

lemma main_start_Done:
  assumes "main_start parse get dockerErr listenErr schemeOf reg factoryNew A il args = Some (Done (s, ts, il'))"
  obtains fl cfg ip r where "parse args = Some fl" and "configure get dockerErr fl il = Done (cfg, ip, il')"
    and "s = sys_init r cfg ip" and "startTimers fl = Done ts"
proof -
  from assms obtain fl cfg ip b0 b where 1: "parse args = Some fl" "configure get dockerErr fl il = Done (cfg, ip, il')"
    "New reg factoryNew (schemeOf (hd (fl_args fl))) (hd (fl_args fl)) cfg = Done (Inr b0)"
    "waitForBackend A fl b0 = Some (Done b)" "startTimers fl = Done ts"
    "s = \<lparr>sys_bridge = b, sys_ip = ip, sys_tasks = [], sys_messages = [\<lparr>sm_Quiet = False, sm_IP = cf_HostIp cfg\<rparr>]\<rparr>"
    by (auto simp: main_start_def onDone_eq_Done Let_def PushServiceSync_def Initialize_def new_result_def
        split: if_splits option.splits sum.splits)
  from 1(3) obtain r0 where b0: "b0 = new_bridge r0 cfg"
    by (auto simp: New_def split: option.splits)
  from waitForBackend_registry [OF 1(4)] obtain r where "b = new_bridge r cfg" by (auto simp: b0 new_bridge_def)
  with 1 that show ?thesis by (simp add: sys_init_def)
qed

lemma configure_interval:
  "configure get dockerErr fl il = Done (cfg, ip, il') \<Longrightarrow> cf_RefreshInterval cfg = fl_refreshInterval fl"
  by (auto simp: configure_def Let_def split: if_splits)

text \<open>Which timers run: those of the flags, at positive periods.\<close>

lemma startTimers_kinds:
  assumes "startTimers fl = Done ts"
  shows "t \<in> set (map fst ts) \<longleftrightarrow>
    (case t of
       IpTimer \<Rightarrow> fl_ipLookupSource fl \<noteq> []
     | PruneTimer \<Rightarrow> fl_refreshInterval fl > 0
     | RefreshTimer \<Rightarrow> fl_refreshInterval fl > 0
     | ResyncTimer \<Rightarrow> fl_resyncInterval fl > 0)"
  unfolding startTimers_Done(1) [OF assms]
  by (cases t; cases "fl_ipLookupSource fl = []"; cases "fl_refreshInterval fl > 0"; cases "fl_resyncInterval fl > 0")
    simp_all

end
