(* ===== verification/ExamplesAws.thy ===== *)
theory ExamplesAws
  imports Examples EurekaFacts AwsPages MainProgram
begin

text \<open>
  A small AWS account on which the theorems about load balancers are instantiated: one target group with
  one healthy target behind one load balancer, and a Eureka server that knows nothing and records what is
  registered.  The world is the time and the registrations.
\<close>

type_synonym ex_world = "int \<times> Instance list"

definition ex_metadata :: aws_Metadata where
  "ex_metadata = \<lparr>md_InstanceID = ''i-1'', md_PrivateIP = ''10.0.0.1'', md_PublicIP = ''54.0.0.1'',
     md_PrivateHostname = ''ip-10-0-0-1'', md_PublicHostname = ''ec2-54-0-0-1'', md_AvailabilityZone = ''us-east-1a'',
     md_Region = ''us-east-1''\<rparr>"

definition ex_target_group :: TargetGroup where
  "ex_target_group = \<lparr>tg_TargetGroupArn = Some ''arn:tg1'', tg_LoadBalancerArns = Some [Some ''arn:lb1'']\<rparr>"

definition ex_health :: DescribeTargetHealthOutput where
  "ex_health = [Some \<lparr>hd_Target = Some \<lparr>td_Id = Some ''i-1'', td_Port = Some 8080\<rparr>,
     hd_TargetHealth = Some \<lparr>th_State = Some ''healthy''\<rparr>\<rparr>]"

text \<open>Two pages of target groups: the first is empty and points to the second.\<close>

definition ex_pages :: "string option \<Rightarrow> DescribeTargetGroupsOutput" where
  "ex_pages marker =
     (if marker = None then \<lparr>go_TargetGroups = [], go_NextMarker = Some ''p2''\<rparr>
      else \<lparr>go_TargetGroups = [Some ex_target_group], go_NextMarker = None\<rparr>)"

definition ex_listeners :: DescribeListenersOutput where
  "ex_listeners = [Some \<lparr>ls_ListenerArn = Some ''arn:l1'', ls_Port = Some 80,
     ls_DefaultActions = [Some \<lparr>ac_TargetGroupArn = Some ''arn:tg1''\<rparr>]\<rparr>]"

definition ex_balancers :: DescribeLoadBalancersOutput where
  "ex_balancers = [Some \<lparr>lb_LoadBalancerArn = Some ''arn:lb1'', lb_DNSName = Some ''lb.example''\<rparr>]"

definition ex_aws :: "('w \<Rightarrow> int) \<Rightarrow> (int \<Rightarrow> 'w \<Rightarrow> 'w) \<Rightarrow> (string option list \<Rightarrow> 'w \<Rightarrow> 'w) \<Rightarrow> 'w AwsEnv" where
  "ex_aws now sleep ask =
     \<lparr>ae_Now = now, ae_Sleep = sleep, ae_Intn = (\<lambda>_ _ _. 0), ae_NewSession = (\<lambda>w. ((Some (), None), w)),
      ae_NewEC2Metadata = (\<lambda>_. Panic NilDereference),
      ae_DescribeTargetGroups = (\<lambda>_ i w. ((Some (ex_pages (gi_Marker i)), None), w)),
      ae_DescribeTargetHealth = (\<lambda>_ _ w. ((Some ex_health, None), w)),
      ae_DescribeListeners = (\<lambda>_ _ w. ((Some ex_listeners, None), w)),
      ae_DescribeLoadBalancers = (\<lambda>_ _ w. ((Some ex_balancers, None), w)),
      ae_DescribeServices = (\<lambda>_ _ ss w. ((Some [], None), ask ss w)),
      ae_DescribeTasks = (\<lambda>_ _ _ w. ((Some [], None), w)),
      ae_ListServicesPages = (\<lambda>_ _ w. (([], None), w))\<rparr>"

definition ex_aws_env :: "ex_world AwsEnv" where
  "ex_aws_env = ex_aws fst (\<lambda>d w. (fst w + d, snd w)) (\<lambda>_ w. w)"

definition ex_eureka :: "ex_world EurekaConnection" where
  "ex_eureka =
     \<lparr>ek_GetApps = (\<lambda>w. ((0, None), w)), ek_GetInstance = (\<lambda>_ _ w. ((None, Some ''not found''), w)),
      ek_RegisterInstance = (\<lambda>i w. (None, (fst w, snd w @ [i]))),
      ek_ReregisterInstance = (\<lambda>i w. (None, (fst w, snd w @ [i]))),
      ek_HeartBeatInstance = (\<lambda>_ w. (None, w)), ek_DeregisterInstance = (\<lambda>_ w. (None, (fst w, [])))\<rparr>"

definition ex_aws_state :: "ex_world Aws" where
  "ex_aws_state = \<lparr>aw_generalCache = [], aw_previousStatus = [], aw_metadataCache = Some ex_metadata,
     aw_once = True, aw_world = (1, [])\<rparr>"

text \<open>A service that is to be registered through its load balancer, found by lookup.\<close>

definition ex_elb_service :: Service where
  "ex_elb_service = ex_service\<lparr>sv_Attrs :=
     [(''eureka_lookup_elbv2_endpoint'', ''true''), (''eureka_metadata_team'', ''core'')]\<rparr>"

lemmas ex_aws_defs = ex_metadata_def ex_target_group_def ex_health_def ex_pages_def ex_listeners_def
  ex_balancers_def ex_aws_def ex_aws_env_def ex_eureka_def ex_aws_state_def ex_elb_service_def

lemma ex_has_metadata: "has_metadata ex_aws_state" "cache_typed ex_aws_state"
  by (simp_all add: has_metadata_def ex_aws_state_def cache_typed_def)

lemma ex_elb_flags: "CheckELBFlags ex_elb_service"
  by code_simp

text \<open>The first lookup of the load balancer of a container.\<close>

definition ex_lookup :: "((LoadBalancerRegistrationInfo option \<times> err) \<times> ex_world Aws) outcome" where
  "ex_lookup = GetELBV2ForContainer ex_aws_env ex_id ''i-1'' 8080 [] [] [] ex_aws_state"

definition ex_info :: LoadBalancerRegistrationInfo where
  "ex_info = zero_info\<lparr>lr_DNSName := ''lb.example'', lr_Port := 80, lr_TargetGroupArn := ''arn:tg1''\<rparr>"

definition ex_sees_healthy :: "string \<Rightarrow> ex_world Aws \<Rightarrow> bool" where
  "ex_sees_healthy arn a \<longleftrightarrow>
     (case getHealthyTargets ex_aws_env arn a of Done ((thds, None), _) \<Rightarrow> thds \<noteq> [] | _ \<Rightarrow> False)"

lemma ex_lookup_finds:
  "\<exists>info a. ex_lookup = Done ((Some info, None), a) \<and> info = ex_info \<and> ex_sees_healthy (lr_TargetGroupArn info) a \<and>
     cached ex_aws_env a (''tg_arn_'' @ lr_TargetGroupArn info) \<noteq> None"
  by (rule returned_value) code_simp

text \<open>The Eureka adapter behind the bridge, when the example container starts.\<close>

abbreviation ex_eureka_adapter :: "ex_world Aws RegistryAdapter" where
  "ex_eureka_adapter \<equiv> eureka_adapter listed ex_aws_env ex_eureka"

definition ex_up_state :: "ex_world Aws" where
  "ex_up_state = ex_aws_state\<lparr>aw_previousStatus := [(ex_id, UP)]\<rparr>"

lemma ex_eureka_add:
  "\<exists>b. add ex_eureka_adapter ex_env ex_id False [] (new_bridge ex_up_state ex_config) = Done b \<and>
     map in_App (snd (aw_world (br_registry b))) = [''web-80'', ''web-81'']"
  by (rule returned) code_simp

lemma ex_eureka_run:
  "\<exists>s. sys_run ex_eureka_adapter ex_il [] (sys_init ex_up_state ex_config [])
       [DockerEvent ''start'' ex_id, RunTask (TaskAdd ex_id False [])] s \<and>
     map in_App (snd (aw_world (br_registry (sys_bridge s)))) = [''web-80'', ''web-81'']"
proof -
  obtain b where b: "add ex_eureka_adapter ex_env ex_id False [] (new_bridge ex_up_state ex_config) = Done b"
    "map in_App (snd (aw_world (br_registry b))) = [''web-80'', ''web-81'']"
    using ex_eureka_add by (elim exE conjE)
  let ?s = "sys_init ex_up_state ex_config []"
  let ?s1 = "?s\<lparr>sys_tasks := sys_tasks ?s @ dockerEvent (sys_ip ?s) (''start'', ex_id)\<rparr>"
  have t: "sys_tasks ?s1 = [] @ TaskAdd ex_id False [] # []" by (simp add: dockerEvent_def sys_init_def)
  have "run_task ex_eureka_adapter ex_env (TaskAdd ex_id False []) (sys_bridge ?s1) = Done b"
    using b(1) by (simp add: run_task_def sys_init_def)
  then have "sys_step ex_eureka_adapter ex_il [] ?s1 (RunTask (TaskAdd ex_id False []))
      (?s1\<lparr>sys_bridge := b, sys_tasks := [] @ []\<rparr>)"
    by (rule run_goroutine [OF ex_env_ok(1) t])
  then have "sys_run ex_eureka_adapter ex_il [] ?s [DockerEvent ''start'' ex_id, RunTask (TaskAdd ex_id False [])]
      (?s1\<lparr>sys_bridge := b, sys_tasks := [] @ []\<rparr>)"
    by (intro run_cons [OF docker] run_cons [OF _ run_nil])
  then show ?thesis using b(2) by (intro exI conjI) (assumption, simp)
qed

text \<open>A bridge that holds the load-balanced service.\<close>

definition ex_elb_bridge :: "ex_world Aws Bridge" where
  "ex_elb_bridge =
     \<lparr>br_locked = False,
      br_registry = AddToCache ex_aws_env (''container_'' @ ex_id) (AnyInfo (Some ex_info)) NoExpiration ex_aws_state,
      br_services = [(ex_id, [ex_elb_service])], br_deadContainers = [], br_config = ex_config\<rparr>"

text \<open>Interfaces that record the services they are asked for.\<close>

definition ex_asked_env :: "string option list list AwsEnv" where
  "ex_asked_env = ex_aws (\<lambda>_. 1) (\<lambda>_ w. w) (\<lambda>ss w. w @ [ss])"

definition ex_asked_state :: "string option list list Aws" where
  "ex_asked_state = \<lparr>aw_generalCache = [], aw_previousStatus = [], aw_metadataCache = Some ex_metadata,
     aw_once = True, aw_world = []\<rparr>"

lemma ex_records: "records_services (\<lambda>w. w) ex_asked_env"
  by (simp add: records_services_def ex_asked_env_def ex_aws_def)

text \<open>The whole start of the process with an adapter that accepts everything.\<close>

definition ex_main :: "((unit \<times> reg_call list) System \<times> (timer \<times> int) list \<times> IpLookup) outcome option" where
  "ex_main = main_start (\<lambda>_. Some ex_flags) (\<lambda>_ _. Body []) None None (\<lambda>_. Some ''etcd'') (loadModules listed)
     (\<lambda>_. Done ((), [])) (recording yes_adapter) ex_il [''registrator'', ''etcd://host/svc'']"

lemma ex_main_starts:
  "case ex_main of
     Some (Done (s, ts, il)) \<Rightarrow> map fst ts = [PruneTimer, RefreshTimer] \<and> br_registry (sys_bridge s) = ((), [CallPing])
   | _ \<Rightarrow> False"
  by code_simp

end
