(* ===== verification/Spec2Isabelle.thy ===== *)
theory Spec2Isabelle
  imports ExamplesAws
begin

text \<open>
  Registrator: registering Docker containers as services.

  The program listens to the Docker daemon and keeps a service registry (Consul, etcd, SkyDNS,
  ZooKeeper, Eureka) in step with the containers that run.  Its centre is the bridge
  (\<open>bridge/bridge.go\<close>): it turns the ports of a container into services, registers them, refreshes
  them while the container lives, and deregisters them or lets them expire when it exits.  A
  synchronisation goroutine (\<open>bridge/servicesync.go\<close>) re-registers what is tracked, starts goroutines
  for containers that are missing or gone, and removes dangling registrations.  The main program
  (\<open>registrator.go\<close>) checks the command line, waits for the backend, and turns Docker events and timers
  into calls of the bridge.  The adapters (\<open>consul/\<close>, \<open>consulkv/\<close>, \<open>etcd/\<close>, \<open>skydns2/\<close>, \<open>zookeeper/\<close>,
  \<open>eureka/\<close>) implement one interface over the client libraries of their backends.  The Eureka adapter rests
  on the package \<open>aws\<close>, which finds the load balancer in front of a container, caches what AWS answers, and
  registers the load balancer in place of the container with a status made from its health checks.

  \<^bold>\<open>How the code is modelled.\<close>  Structs are records and keep their field names behind a prefix; Go
  maps are association lists with distinct keys, visited in an order given as a parameter, of which
  nothing is assumed but that each key is visited once (\<open>is_order\<close>); a nil slice or pointer is the empty
  list or \<open>None\<close>.  An operation takes its state and returns an \<open>outcome\<close>: \<open>Done\<close> with the new state,
  \<open>Blocked\<close> on a held mutex, \<open>Panic\<close>, or \<open>Exit\<close> of the process.  Errors of Go functions are values.  The
  state of a registry is a type variable: the bridge is modelled over every adapter, and an adapter over
  every client.  Client libraries, the Docker daemon, DNS and HTTP responses are parameters; what is
  assumed of them is a hypothesis with a name (\<open>inspects_by_id\<close>, \<open>kv_laws\<close>, \<open>agent_laws\<close>,
  \<open>records_services\<close>).  The calls to AWS
  and Eureka, the clock and the random numbers read and change one world of arbitrary type, beside which
  the state of the package \<open>aws\<close> holds its caches; values cached as \<open>interface{}\<close> are tagged, and a type
  assertion is a case distinction.

  \<^bold>\<open>Theories.\<close>
  \<^item> \<open>Prelude\<close>: outcomes, Go maps, integers at their width.  \<open>GoLib\<close>: what the program uses of the packages
    strings, strconv, path and net.
  \<^item> \<open>Tags\<close>: \<open>recParseEscapedComma\<close> and \<open>combineTags\<close> of \<open>bridge/util.go\<close>, against a one-pass tokenizer.
  \<^item> \<open>Types\<close>: \<open>bridge/types.go\<close>, the Docker objects, the adapter interface, an adapter that records its
    calls, and the locale \<open>registry_adapter\<close>.
  \<^item> \<open>Metadata\<close>: \<open>serviceMetaData\<close>, \<open>servicePort\<close> and helpers of \<open>bridge/util.go\<close>.
  \<^item> \<open>ServiceId\<close>: \<open>serviceIDPattern\<close> of \<open>bridge/bridge.go\<close>.
  \<^item> \<open>Bridge\<close>: the state and all operations of \<open>bridge/bridge.go\<close>.  \<open>BridgeFacts\<close>: the invariant, the
    locale \<open>bridge_op\<close> of an operation that keeps the discipline of the mutex, interpreted for each
    operation, and what each operation does and calls.  \<open>ServiceFacts\<close>: the services that \<open>newService\<close> makes.
  \<^item> \<open>ServiceSync\<close>: \<open>bridge/servicesync.go\<close>.
  \<^item> \<open>IpPattern\<close>: \<open>ipRegEx\<close> of \<open>registrator.go\<close>.  \<open>Startup\<close>: the address lookup of \<open>bridge/util.go\<close>, the checks of
    \<open>main\<close>, the ping loop, \<open>resyncProcess\<close> and the reaction to Docker events.
  \<^item> \<open>System\<close>: the running process as a step relation, its invariant, and what follows once the mutex
    stays held.
  \<^item> \<open>Extpoints\<close>: \<open>bridge/extpoints.go\<close>, the registrations of the packages, and \<open>New\<close>.
  \<^item> \<open>Backends\<close>: the locale \<open>path_registry\<close> of adapters that keep one key per service, and what the two
    adapter interfaces give the bridge.  \<open>Consul\<close>, \<open>Etcd\<close>, \<open>Skydns2\<close>, \<open>Zookeeper\<close>: the adapters, with the
    interpretations of both locales.
  \<^item> \<open>AwsTypes\<close>: the instance of the Eureka client, the answers of AWS, cached values, the state of the package
    \<open>aws\<close> and its surroundings.  \<open>AwsCache\<close>: \<open>aws/cache.go\<close> over the cache library, with the locale
    \<open>expiring_store\<close>.  \<open>AwsMetadata\<close>: \<open>aws/metadata.go\<close>.  \<open>AwsElb\<close>: flags and lookups of \<open>aws/elb.go\<close>.
    \<open>AwsHealth\<close>: \<open>aws/healthchecks.go\<close>.  \<open>AwsRegister\<close>: registration and heartbeat of \<open>aws/elb.go\<close>.
  \<^item> \<open>AwsFacts\<close>: the types of cached values and what each operation keeps.  \<open>AwsStatus\<close>: the status that is
    registered.  \<open>AwsPages\<close>: the paged listing and the requests in chunks.
  \<^item> \<open>Eureka\<close>: \<open>eureka/eureka.go\<close>.  \<open>RegistryRelation\<close>: the locale of a relation between registry states that
    every method of an adapter respects, and which then holds along every run of the process.
    \<open>EurekaFacts\<close>: the instance, the lease, removal, and the interpretations of both adapter locales.
  \<^item> \<open>Logging\<close>: the levels of \<open>logging/\<close>.  \<open>MainProgram\<close>: \<open>main\<close> up to its event loop.
  \<^item> \<open>Examples\<close>, \<open>ExamplesAws\<close>: concrete data for the instances below.

  \<^bold>\<open>What is shown.\<close>  The process: the invariant of all reachable states and the deadlock after a known
  container is added (C1, C2).  The bridge: exact effects and calls of removal, expiry, refresh and
  adding (C3 to C7).  Text: tags, metadata, identifiers (C8 to C13).  Synchronisation: goroutines,
  calls, cleanup, exit codes, a failed move (C14 to C19).  Adapters: stores, checks, the
  metadata of Eureka, paths, lost errors (C20 to C26).  Startup: addresses, lookup, configuration, ping
  loop, adapter selection (C27 to C32).  Load balancers: the registered status and when a cached answer
  falsifies it, pages and chunks of requests (C33 to C36).  Eureka: bounds of the lease, types and
  stability of the state along every run, removal behind a load balancer (C37 to C39).  \<open>main\<close>: what holds
  when the event loop is entered, and from then on (C40).

  \<^bold>\<open>Loops.\<close>  Loops over slices and maps are folds; the tag parser, the component swap and the address
  lookup recurse with a measure; the ping loop and the listing of target groups, which may run forever, are
  partial functions whose value is \<open>None\<close> when they do.  A listing that does not end leaves the operation
  that asked for it \<open>Blocked\<close>.  No fuel is used.

  \<^bold>\<open>What is not modelled.\<close>  Interleavings inside one operation of the bridge: \<open>add\<close> releases the mutex
  between its parts, and a step of \<open>System\<close> runs it whole.  Log output, but for the slices of identifiers
  in its arguments.  The per-service locks of \<open>bridge/types.go\<close>, each of which is taken and released
  within one operation.  Flag parsing, which is a parameter, the usage and version texts and the quit channel
  of \<open>main\<close>.  \<open>retry\<close> of \<open>bridge/util.go\<close>, which nothing calls.  The format of the log and the creation of
  loggers.  The goroutine of the cache library that drops expired items, which no lookup can observe;
  interference of other goroutines with the caches of the package \<open>aws\<close> during one of its operations; and
  the end of the 64-bit clock of the cache in the year 2262.  Next: \<open>add\<close> in steps between its critical
  sections, and the node tree of ZooKeeper.
\<close>

section \<open>The running process\<close>



text \<open>
  C2.  When the goroutine of a start event (or of a synchronisation) runs for a container that the
  bridge knows already, tracked or dead, \<open>add\<close> returns with the mutex held.  From then on no
  operation of the bridge ever completes: only Docker events and lookups are still accepted, and
  the bridge does not change any more.
\<close>

theorem known_add_stops_bridge:
  assumes "sys_run A il source (sys_init r cfg ip) es s" and "known (sys_bridge s) cid"
    and "sys_step A il source s (RunTask (TaskAdd cid quiet newIP)) s1"
    and "sys_run A il source s1 es' s2"
  shows "br_locked (sys_bridge s2) \<and> sys_bridge s2 = sys_bridge s1 \<and> list_all lock_free_event es'"
proof -
  have "br_locked (sys_bridge s1)"
    using add_known_step [OF assms(3) inv_run [OF assms(1) inv_init] assms(2)] .
  with held_run [OF assms(4)] show ?thesis by simp
qed

theorem known_add_stops_bridge_witness:
  "\<exists>s s1. sys_run (recording yes_adapter) ex_il [] ex_init
      [DockerEvent ''start'' ex_id, RunTask (TaskAdd ex_id False []), DockerEvent ''start'' ex_id] s \<and>
     sys_step (recording yes_adapter) ex_il [] s (RunTask (TaskAdd ex_id False [])) s1 \<and>
     br_locked (sys_bridge s1)"
proof -
  obtain s s1 where s: "sys_run (recording yes_adapter) ex_il [] ex_init
      [DockerEvent ''start'' ex_id, RunTask (TaskAdd ex_id False []), DockerEvent ''start'' ex_id] s"
    and k: "known (sys_bridge s) ex_id"
    and s1: "sys_step (recording yes_adapter) ex_il [] s (RunTask (TaskAdd ex_id False [])) s1"
    using ex_run_twice by blast
  from known_add_stops_bridge [OF s k s1 run_nil] s s1 show ?thesis by blast
qed

section \<open>Operations of the bridge\<close>

text \<open>
  C3.  Removing a container with deregistration asks the registry to deregister exactly the services
  held for it, first the tracked ones and then those of the dead container, forgets the container
  in both maps and leaves every other container alone.
\<close>

theorem remove_deregisters_held:
  assumes "remove (recording A) cid True b = Done b'"
  shows "calls b' = calls b @ map CallDeregister (held_services b cid) \<and> held_services b' cid = [] \<and>
    (other \<noteq> cid \<longrightarrow> held_services b' other = held_services b other) \<and> \<not> br_locked b'"
proof -
  note maps = remove_deregister_maps [OF assms]
  then show ?thesis
    using remove_deregister_calls [OF assms]
    by (auto simp: held_services_def services_of_def gomap_simps)
qed

theorem remove_deregisters_held_witness:
  "\<exists>b'. remove (recording yes_adapter) ex_id True ex_bridge = Done b' \<and>
     calls b' = [CallDeregister ex_service] \<and> held_services b' ex_id = []"
proof -
  obtain b' where b': "remove (recording yes_adapter) ex_id True ex_bridge = Done b'"
    using ex_remove_runs by blast
  have "held_services ex_bridge ex_id = [ex_service]" "calls ex_bridge = []"
    by (simp_all add: held_services_def services_of_def ex_bridge_def)
  with b' remove_deregisters_held [OF b'] show ?thesis by auto
qed


text \<open>
  C5.  Pruning always completes when the mutex is free, and after \<open>n\<close> prunings a dead container has
  lost \<open>n\<close> refresh intervals of its time to live: it is forgotten exactly when nothing is left.
\<close>

theorem dead_containers_expire:
  assumes "\<not> br_locked b" and "wf_bridge b" and "list_all (\<lambda>E. is_order (en_order E)) Es"
    and "0 < cf_RefreshInterval (br_config b)" and "in_int64 (cf_RefreshInterval (br_config b))"
    and "map_of (br_deadContainers b) cid = Some d" and "0 < dd_TTL d" and "in_int64 (dd_TTL d)"
  shows "\<exists>b'. prune_times Es b = Done b' \<and>
    map_of (br_deadContainers b') cid =
      (if dd_TTL d \<le> int (length Es) * cf_RefreshInterval (br_config b) then None
       else Some (d\<lparr>dd_TTL := dd_TTL d - int (length Es) * cf_RefreshInterval (br_config b)\<rparr>))"
  using assms by (rule prune_times_spec)

theorem dead_containers_expire_witness:
  "\<exists>b'. prune_times [ex_env, ex_env, ex_env] ex_dead_bridge = Done b' \<and>
     map_of (br_deadContainers b') ex_id = None"
proof -
  have "list_all (\<lambda>E. is_order (en_order E)) [ex_env, ex_env, ex_env]" by (simp add: ex_env_ok)
  moreover have "map_of (br_deadContainers ex_dead_bridge) ex_id = Some \<lparr>dd_TTL = 60, dd_Services = [ex_service]\<rparr>"
    by (simp add: ex_dead_bridge_def)
  moreover have "cf_RefreshInterval (br_config ex_dead_bridge) = 25"
    by (simp add: ex_dead_bridge_def ex_bridge_def ex_config_def)
  ultimately show ?thesis
    using dead_containers_expire [OF ex_free(2) ex_wf(2), of "[ex_env, ex_env, ex_env]" ex_id]
    by (simp add: in_int64_def)
qed

text \<open>
  C6.  A refresh makes exactly one refresh call for every service of every tracked container, in
  some order, makes no other call, and changes nothing in the bridge but the registry.
\<close>

theorem refresh_each_once:
  assumes "Refresh (recording A) E b = Done b'" and "is_order (en_order E)" and "wf_bridge b"
  shows "(\<exists>cs. calls b' = calls b @ cs \<and>
      mset cs = mset (map CallRefresh (concat (map snd (br_services b))))) \<and> same_maps b b'"
  using Refresh_calls [OF assms] Refresh_same [OF assms(1)] by blast

theorem refresh_each_once_witness:
  "\<exists>b'. Refresh (recording yes_adapter) ex_env ex_bridge = Done b' \<and>
     (\<exists>cs. calls b' = cs \<and> mset cs = mset [CallRefresh ex_service])"
proof -
  obtain b' where b': "Refresh (recording yes_adapter) ex_env ex_bridge = Done b'"
    using ex_refresh_runs by blast
  have "br_services ex_bridge = [(ex_id, [ex_service])]" "calls ex_bridge = []" by (simp_all add: ex_bridge_def)
  with b' refresh_each_once [OF b' ex_env_ok(2) ex_wf(1)] show ?thesis by auto
qed



section \<open>Tags, metadata and identifiers\<close>

text \<open>
  C8.  The parser for comma-separated tags returns on every string, without an index out of range,
  and agrees with a one-pass tokenizer in which a backslash protects the comma behind it and empty
  tags are dropped, except that it yields the tags in reverse order.
\<close>

theorem tags_parsed: "recParseEscapedComma str = Done (rev (tag_tokens [] str))"
  by (rule recParse_tokens)

text \<open>
  C9.  Tags that are escaped and joined with commas are read back by \<open>combineTags\<close>, whatever commas
  and backslashes they contain, as long as none is empty and none but the last ends in a backslash.
\<close>

theorem tags_roundtrip:
  assumes "[] \<notin> set ts" and "\<forall>t \<in> set (butlast ts). last t \<noteq> CHR 0x5C"
  shows "combineTags [join_with '','' (map escape_tag ts)] = Done (rev ts)"
  using tag_tokens_join [OF assms] by (simp add: combineTags_tokens)

theorem tags_roundtrip_witness:
  "combineTags [join_with '','' (map escape_tag [''a,b'', ''c''])] = Done [''c'', ''a,b'']"
  using tags_roundtrip [of "[''a,b'', ''c'']"] by simp

text \<open>
  C10.  The metadata of a port is the generic \<open>SERVICE_\<close> entries overridden by the entries for that
  port, where environment variables override labels; \<open>metadataFromPort\<close> is the set of the keys that
  the port defines.  The order in which the map is visited does not matter.
\<close>

theorem metadata_precedence:
  assumes "is_order ord" and "dc_Labels cfg = Some m" and "wf_map m"
    and "wf_env (dc_Env cfg)" and "unambiguous port (merged (dc_Env cfg) m)"
  shows "\<exists>md fp. serviceMetaData ord cfg port =
             Done ((md, fp), cfg\<lparr>dc_Labels := Some (merged (dc_Env cfg) m)\<rparr>) \<and>
           map_of md = map_of (generic_entries port (merged (dc_Env cfg) m)) ++
                       map_of (port_entries port (merged (dc_Env cfg) m)) \<and>
           (\<forall>k. map_of fp k = Some True \<longleftrightarrow>
                k \<in> set (map fst (port_entries port (merged (dc_Env cfg) m))))"
  using assms by (rule serviceMetaData_spec)

theorem metadata_precedence_witness:
  "\<exists>md fp cc. serviceMetaData listed
       \<lparr>dc_Hostname = [], dc_Image = [], dc_Env = [''SERVICE_80_NAME=api''],
        dc_Labels = Some [(''SERVICE_NAME'', ''web''), (''SERVICE_81_NAME'', ''adm'')], dc_ExposedPorts = []\<rparr> ''80'' =
       Done ((md, fp), cc) \<and> map_of md ''name'' = Some ''api'' \<and> map_of fp ''name'' = Some True"
proof -
  let ?cfg = "\<lparr>dc_Hostname = [], dc_Image = [], dc_Env = [''SERVICE_80_NAME=api''],
        dc_Labels = Some [(''SERVICE_NAME'', ''web''), (''SERVICE_81_NAME'', ''adm'')], dc_ExposedPorts = []\<rparr>"
  let ?m = "[(''SERVICE_NAME'', ''web''), (''SERVICE_81_NAME'', ''adm'')]"
  have l: "dc_Labels ?cfg = Some ?m" "wf_map ?m" "wf_env (dc_Env ?cfg)" by (simp_all add: wf_map_def wf_env_def)
  have u: "unambiguous ''80'' (merged (dc_Env ?cfg) ?m)" by code_simp
  have p: "port_entries ''80'' (merged (dc_Env ?cfg) ?m) = [(''name'', ''api'')]" by code_simp
  from metadata_precedence [OF is_order_listed l u] p show ?thesis by auto
qed

text \<open>
  C11.  The pattern for service identifiers accepts exactly \<open><hostname>:<name>:<port>\<close>, optionally
  followed by \<open>:udp\<close>, with a host name that is not empty and has no newline, a container name of at
  least two characters and a decimal port, and it has one reading only, even when the host name
  contains colons.
\<close>

theorem id_pattern: "serviceIDMatch s = Some (h, n) \<longleftrightarrow> id_shape s h n"
  by (rule serviceIDMatch_iff)

text \<open>
  C12.  The identifier that \<open>newService\<close> makes up, when the metadata names none, is recognised by the
  pattern and gives back the host name and the container name it was made of.
\<close>

theorem made_ids_recognised:
  assumes "newService E cfg port g = Done (Some s)" and "port_metadata E port = Done ((md, fp), cc)"
    and "mapDefault md ''id'' [] = []" and "valid_name (origin_name s)"
    and "all_digits (sp_ExposedPort port)" and "id_hostname E port \<noteq> []"
    and "CHR 0x0A \<notin> set (id_hostname E port)"
  shows "serviceIDMatch (sv_ID s) = Some (id_hostname E port, origin_name s)"
proof -
  have "sv_ID s = made_id (id_hostname E port) (origin_name s) port"
    using newService_id [OF assms(1,2)] assms(3) by (simp add: mapDefault_def split: option.splits if_splits)
  with made_id_recognised [OF assms(4-7)] show ?thesis by simp
qed

theorem made_ids_recognised_witness:
  "\<exists>s. newService ex_env ex_config ex_port False = Done (Some s) \<and>
     serviceIDMatch (sv_ID s) = Some (''host1'', ''web1'')"
proof -
  obtain s where s: "newService ex_env ex_config ex_port False = Done (Some s)" "origin_name s = ''web1''"
    using ex_new_service by blast
  obtain md fp cc where m: "port_metadata ex_env ex_port = Done ((md, fp), cc)" "mapDefault md ''id'' [] = []"
    using ex_port_metadata by blast
  have h: "id_hostname ex_env ex_port = ''host1''" by (simp add: id_hostname_def ex_env_def)
  have v: "valid_name (origin_name s)" unfolding s(2) by code_simp
  have d: "all_digits (sp_ExposedPort ex_port)" unfolding ex_port_def by code_simp
  show ?thesis
    using made_ids_recognised [OF s(1) m v d] h s by simp
qed

text \<open>
  C13.  \<open>newService\<close> yields no service exactly when the port is ignored, when a label is required and
  missing, or when the metadata gives no name other than the default one.
\<close>

theorem service_refused_iff:
  assumes "newService E cfg port g = Done r" and "port_metadata E port = Done ((md, fp), cc)"
  shows "r = None \<longleftrightarrow>
     mapDefault md ''ignore'' [] \<noteq> [] \<or>
     cf_RequireLabel cfg \<and> toLower (mapDefault md ''register'' ''false'') = ''false'' \<or>
     mapDefault md ''name'' (default_name cc) = default_name cc"
  using newService_refused [OF assms] by (simp add: refused_def)

theorem service_refused_iff_witness:
  "\<exists>r md fp cc. newService ex_env ex_config ex_port False = Done r \<and>
     port_metadata ex_env ex_port = Done ((md, fp), cc) \<and>
     mapDefault md ''name'' (default_name cc) \<noteq> default_name cc"
proof -
  obtain s where s: "newService ex_env ex_config ex_port False = Done (Some s)" using ex_new_service by blast
  obtain md fp cc where m: "port_metadata ex_env ex_port = Done ((md, fp), cc)" using ex_port_metadata by blast
  from service_refused_iff [OF s m] s m show ?thesis by blast
qed

section \<open>Synchronisation\<close>

text \<open>
  C14.  A synchronisation starts an add goroutine exactly for the running containers that are not
  tracked and, when cleanup is on, a removal goroutine exactly for the tracked containers that are
  not among the containers that still exist.  To the bridge itself it does nothing but change the
  addresses of services.
\<close>

theorem sync_goroutines:
  assumes "is_order (en_order E)" and "wf_bridge b" and "serviceSync A E message b = Done (b', tasks)"
    and "dk_ListContainers (en_docker E) RunningOnly = Inr running"
    and "dk_ListContainers (en_docker E) NonExited = Inr nonExited"
  shows "(TaskAdd cid quiet ip \<in> set tasks \<longleftrightarrow>
       cid \<in> set running \<and> services_of b cid = [] \<and> quiet = sm_Quiet message \<and> ip = sm_IP message) \<and>
    (TaskRemoveOnExit cid \<in> set tasks \<longleftrightarrow>
       cf_Cleanup (br_config b) \<and> services_of b cid \<noteq> [] \<and> cid \<notin> set nonExited) \<and>
    synced b b'"
proof -
  have tasks: "tasks = map (add_task message) (filter (\<lambda>cid. services_of b cid = []) running) @
      (if cf_Cleanup (br_config b) then map TaskRemoveOnExit (stale E nonExited b) else [])"
    using serviceSync_spec [OF assms(1,3)] assms(4,5) by (simp add: sync_tasks_def cleanup_tasks_def)
  have "TaskAdd cid quiet ip \<in> set tasks \<longleftrightarrow>
      cid \<in> set running \<and> services_of b cid = [] \<and> quiet = sm_Quiet message \<and> ip = sm_IP message"
    by (auto simp: tasks add_task_def)
  moreover have "TaskRemoveOnExit cid \<in> set tasks \<longleftrightarrow>
      cf_Cleanup (br_config b) \<and> services_of b cid \<noteq> [] \<and> cid \<notin> set nonExited"
    using stale_iff [OF assms(1,2), of cid nonExited] by (auto simp: tasks add_task_def)
  ultimately show ?thesis using serviceSync_spec [OF assms(1,3)] by blast
qed

theorem sync_goroutines_witness:
  "\<exists>b' tasks. serviceSync (recording yes_adapter) ex_env \<lparr>sm_Quiet = True, sm_IP = []\<rparr> ex_empty_bridge = Done (b', tasks) \<and>
     TaskAdd ex_id True [] \<in> set tasks"
proof -
  obtain b' tasks where b': "serviceSync (recording yes_adapter) ex_env \<lparr>sm_Quiet = True, sm_IP = []\<rparr> ex_empty_bridge = Done (b', tasks)"
    using ex_sync_empty by blast
  have d: "dk_ListContainers (en_docker ex_env) f = Inr [ex_id]" for f by (simp add: ex_env_def ex_docker_def)
  have "services_of ex_empty_bridge ex_id = []"
    by (simp add: services_of_def ex_empty_bridge_def new_bridge_def)
  with sync_goroutines [OF ex_env_ok(2) ex_wf(3) b' d d, of ex_id True "[]"] b' show ?thesis by auto
qed

text \<open>
  C15.  Without cleanup, the calls of a synchronisation are, container by container: a registration
  of each tracked service when the message has no address; otherwise nothing for the services that
  are at that address, and a deregistration followed by a registration at the new address for the
  others, which move there.
\<close>

theorem sync_calls:
  assumes "serviceSync (recording A) E message b = Done (b', tasks)"
    and "dk_ListContainers (en_docker E) RunningOnly = Inr cids" and "distinct cids"
    and "\<not> cf_Cleanup (br_config b)" and "releases_all A"
  shows "calls b' = calls b @ concat (map (\<lambda>cid. concat (map (resync_calls (sm_IP message)) (services_of b cid))) cids) \<and>
    services_of b' k = (if k \<in> set cids then map (resynced (sm_IP message)) (services_of b k) else services_of b k)"
  using serviceSync_calls [OF assms] by blast

theorem sync_calls_witness:
  "\<exists>b' tasks. serviceSync (recording yes_adapter) ex_env \<lparr>sm_Quiet = True, sm_IP = ''10.0.0.2''\<rparr> ex_bridge = Done (b', tasks) \<and>
     calls b' = [CallDeregister ex_service, CallRegister (moved ''10.0.0.2'' ex_service)] \<and>
     services_of b' ex_id = [moved ''10.0.0.2'' ex_service]"
proof -
  obtain b' tasks where b': "serviceSync (recording yes_adapter) ex_env \<lparr>sm_Quiet = True, sm_IP = ''10.0.0.2''\<rparr> ex_bridge = Done (b', tasks)"
    using ex_sync_moved by blast
  have d: "dk_ListContainers (en_docker ex_env) RunningOnly = Inr [ex_id]" by (simp add: ex_env_def ex_docker_def)
  have c: "distinct [ex_id]" "\<not> cf_Cleanup (br_config ex_bridge)" by (simp_all add: ex_bridge_def ex_config_def)
  have "services_of ex_bridge ex_id = [ex_service]" "calls ex_bridge = []" "sv_IP ex_service \<noteq> ''10.0.0.2''"
    by (simp_all add: services_of_def ex_bridge_def ex_service_def)
  with sync_calls [OF b' d c ex_accepts(2), of ex_id] b' show ?thesis
    by (auto simp: resync_calls_def resynced_def)
qed

text \<open>
  C16.  The cleanup deregisters exactly the registrations that carry an identifier of this host and
  whose name and container belong to no tracked service, each once and in order; it changes nothing
  in the bridge.
\<close>

theorem cleanup_exactly_dangling:
  assumes "is_order (en_order E)" and "wf_bridge b" and "lists_sat (list_all origin_ok) b"
    and "cleanupServices (recording A) E exts b = Done b'"
  shows "calls b' = calls b @ map CallDeregister (filter (dangling (en_Hostname E) (br_services b)) exts) \<and>
    same_maps b b'"
  using assms by (rule cleanupServices_calls)

theorem cleanup_exactly_dangling_witness:
  "\<exists>b'. cleanupServices (recording yes_adapter) ex_env [ex_service, ex_service\<lparr>sv_ID := ''host1:gone:80''\<rparr>] ex_bridge = Done b' \<and>
     calls b' = [CallDeregister (ex_service\<lparr>sv_ID := ''host1:gone:80''\<rparr>)]"
proof -
  let ?exts = "[ex_service, ex_service\<lparr>sv_ID := ''host1:gone:80''\<rparr>]"
  obtain b' where b': "cleanupServices (recording yes_adapter) ex_env ?exts ex_bridge = Done b'"
    using ex_cleanup_runs by blast
  have sat: "lists_sat (list_all origin_ok) ex_bridge"
    by (simp add: lists_sat_def ex_bridge_def origin_ok_def ex_service_def ex_port_def ex_container_def)
  have "\<not> dangling (en_Hostname ex_env) (br_services ex_bridge) ex_service" by code_simp
  moreover have "dangling (en_Hostname ex_env) (br_services ex_bridge) (ex_service\<lparr>sv_ID := ''host1:gone:80''\<rparr>)"
    by code_simp
  ultimately have f: "filter (dangling (en_Hostname ex_env) (br_services ex_bridge)) ?exts = [ex_service\<lparr>sv_ID := ''host1:gone:80''\<rparr>]"
    by simp
  have "calls ex_bridge = []" by (simp add: ex_bridge_def)
  with cleanup_exactly_dangling [OF ex_env_ok(2) ex_wf(1) sat b'] f b' show ?thesis by auto
qed

text \<open>
  C17.  With Consul: a service that was registered is in the list the agent returns, with its
  identifier, name, port, tags and address, and while it is tracked the cleanup leaves it alone.
\<close>

theorem consul_registered_not_dangling:
  assumes "agent_laws agents client" and "is_order ord"
    and "consul_Register client s w = Done (None, w1)"
    and "consul_Services ord client w1 = Done ((ss, None), w2)"
    and "s \<in> set (services_of b cid)" and "serviceIDMatch (sv_ID s) = Some (h, origin_name s)"
  shows "as_listed s \<in> set ss \<and> \<not> dangling hostname (br_services b) (as_listed s)"
proof
  show "as_listed s \<in> set ss" using consul_register_listed [OF assms(1-4)] .
  have "sv_ID (as_listed s) = sv_ID s" "sv_Name (as_listed s) = sv_Name s" by (simp_all add: as_listed_def)
  then show "\<not> dangling hostname (br_services b) (as_listed s)"
    by (rule tracked_not_dangling [OF assms(5) _ _ assms(6)])
qed

theorem consul_registered_not_dangling_witness:
  "\<exists>w1 w2 ss. consul_Register mem_consul ex_service [] = Done (None, w1) \<and>
     consul_Services listed mem_consul w1 = Done ((ss, None), w2) \<and> as_listed ex_service \<in> set ss"
proof -
  obtain w1 where w1: "consul_Register mem_consul ex_service [] = Done (None, w1)"
    using ex_consul_register by blast
  obtain ss w2 where w2: "consul_Services listed mem_consul w1 = Done ((ss, None), w2)"
    by (simp add: consul_Services_def mem_consul_def)
  have t: "ex_service \<in> set (services_of ex_bridge ex_id)" by (simp add: services_of_def ex_bridge_def)
  have m: "serviceIDMatch (sv_ID ex_service) = Some (''host1'', origin_name ex_service)" by code_simp
  show ?thesis
    using consul_registered_not_dangling [OF mem_consul_laws is_order_listed w1 w2 t m] w1 w2 by blast
qed

text \<open>
  C18.  When a container that exists has exited with a status below 256, its services are
  deregistered at once if the configuration says always, if the status is 0, or if it is at least
  128 (a signal); else they are left to expire.
\<close>

theorem deregister_on_exit_code:
  assumes "dk_InspectContainer (en_docker E) cid = Inr c" and "\<not> st_Running (c_State c)"
    and "0 \<le> st_ExitCode (c_State c)" and "st_ExitCode (c_State c) < 256"
  shows "RemoveOnExit A E cid b =
    remove A cid (cf_DeregisterCheck (br_config b) = ''always'' \<or> st_ExitCode (c_State c) = 0 \<or>
      128 \<le> st_ExitCode (c_State c)) b"
  using shouldRemove_exited [OF assms] by (simp add: RemoveOnExit_def)

theorem deregister_on_exit_code_witness:
  "RemoveOnExit (recording yes_adapter) ex_env ex_id ex_bridge = remove (recording yes_adapter) ex_id True ex_bridge"
proof -
  have "dk_InspectContainer (en_docker ex_env) ex_id = Inr ex_container" by (simp add: ex_env_def ex_docker_def)
  moreover have "\<not> st_Running (c_State ex_container)" "st_ExitCode (c_State ex_container) = 137"
    by (simp_all add: ex_container_def)
  ultimately show ?thesis
    using deregister_on_exit_code [of ex_env ex_id ex_container "recording yes_adapter" ex_bridge] by simp
qed



section \<open>Registry adapters\<close>



text \<open>
  C21.  With the etcd adapter, registering a service makes its address visible under its own key
  and leaves the other keys alone; deregistering it afterwards leaves a store in which it never was
  as it was before.
\<close>

theorem etcd_register_deregister:
  assumes "kv_laws store (\<lambda>w. snd (ec_SyncCluster c w)) (ec_Set c) (\<lambda>k. ec_Delete c k False)"
    and "etcd_Register (with_client c p) s w = Done (None, w1)"
    and "etcd_Deregister (with_client c p) s w1 = Done (None, w2)"
    and "store w (p @ ''/'' @ sv_Name s @ ''/'' @ sv_ID s) = None"
  shows "store w1 = (store w)(p @ ''/'' @ sv_Name s @ ''/'' @ sv_ID s \<mapsto> joinHostPort (sv_IP s) (itoa (sv_Port s))) \<and>
    store w2 = store w"
proof -
  have r: "ra_Register (etcd_adapter (with_client c p)) s w = Done (None, w1)"
    "ra_Deregister (etcd_adapter (with_client c p)) s w1 = Done (None, w2)"
    using assms(2,3) by (simp_all add: etcd_adapter_def)
  show ?thesis
    using etcd.registered_visible [OF assms(1) r(1)] etcd.register_deregister [OF assms(1,4) r] by simp
qed

theorem etcd_register_deregister_witness:
  "\<exists>w1 w2. etcd_Register (with_client mem_etcd ''/svc'') ex_service Map.empty = Done (None, w1) \<and>
     etcd_Deregister (with_client mem_etcd ''/svc'') ex_service w1 = Done (None, w2) \<and> w2 = Map.empty"
proof -
  obtain w1 where w1: "etcd_Register (with_client mem_etcd ''/svc'') ex_service Map.empty = Done (None, w1)"
    by (simp add: etcd_calls mem_etcd_def)
  obtain w2 where w2: "etcd_Deregister (with_client mem_etcd ''/svc'') ex_service w1 = Done (None, w2)"
    by (simp add: etcd_calls mem_etcd_def)
  from etcd_register_deregister [OF mem_etcd_laws w1 w2] w1 w2 show ?thesis by simp
qed



text \<open>
  C23.  A service gets no Consul check exactly when none of the six check attributes is set.  A check is
  of one kind at most (HTTP, script, TCP or TTL), and it has an interval exactly when Consul runs it itself.
\<close>

theorem consul_check_kind:
  assumes "buildCheck s = Done check"
  shows "(check = None \<longleftrightarrow> list_all (\<lambda>a. get_str (sv_Attrs s) a = []) check_attrs) \<and>
    (\<forall>c. check = Some c \<longrightarrow> length (check_kinds c) \<le> 1 \<and>
       (ck_Interval c \<noteq> [] \<longleftrightarrow> ck_Script c \<noteq> [] \<or> ck_HTTP c \<noteq> [] \<or> ck_TCP c \<noteq> []))"
  using assms buildCheck_None_iff [of s] buildCheck_kind [of s] by auto

theorem consul_check_kind_witness:
  "\<exists>c. buildCheck (ex_service\<lparr>sv_Attrs := [(''check_ttl'', ''30s''), (''check_http'', ''/health'')]\<rparr>) = Done (Some c) \<and>
     length (check_kinds c) \<le> 1"
proof -
  let ?s = "ex_service\<lparr>sv_Attrs := [(''check_ttl'', ''30s''), (''check_http'', ''/health'')]\<rparr>"
  have "consul_ok ?s" by (simp add: consul_ok_def get_str_def)
  then obtain r where r: "buildCheck ?s = Done r" using buildCheck_returns by blast
  have "\<not> list_all (\<lambda>a. get_str (sv_Attrs ?s) a = []) check_attrs" by (simp add: check_attrs_def get_str_def)
  with consul_check_kind [OF r] obtain c where "r = Some c" "length (check_kinds c) \<le> 1" by (cases r) auto
  with r show ?thesis by blast
qed



text \<open>
  C25.  The SkyDNS path of a domain lists its labels in reverse order, so that the domain can be
  read back from the path.
\<close>

theorem skydns_path_roundtrip:
  assumes "CHR ''/'' \<notin> set domain"
  shows "join_with ''.'' (rev (split_on (CHR ''/'') (drop 8 (domainPath domain)))) = domain"
  using assms by (rule domainPath_roundtrip)

theorem skydns_path_roundtrip_witness:
  "join_with ''.'' (rev (split_on (CHR ''/'') (drop 8 (domainPath ''cluster.local'')))) = ''cluster.local''"
  by (rule skydns_path_roundtrip) simp

text \<open>
  C26.  The ZooKeeper adapter reports a registration as failed exactly when the test for the base
  path fails: errors of the writes that create the nodes are never reported.
\<close>

theorem zookeeper_write_errors_lost:
  assumes "zk_Exists (za_client r) (zk_basePath r s) w = ((found, None), w')"
  shows "\<exists>w''. zk_Register r s w = Done (None, w'')"
  using zk_Register_error [of r s w] assms by simp

theorem zookeeper_write_errors_lost_witness:
  "\<exists>w. zk_Register \<lparr>za_client = \<lparr>zk_Exists = (\<lambda>p w. ((False, None), w)), zk_Create = (\<lambda>p b f w. (Some ''no auth'', w)),
       zk_Delete = (\<lambda>p v w. (Some ''no auth'', w)), zk_Children = (\<lambda>p w. (([], None), w))\<rparr>, za_path = ''/reg''\<rparr> ex_service () = Done (None, w)"
  by (rule zookeeper_write_errors_lost [where found = False]) simp

section \<open>The process at startup\<close>

text \<open>
  C27.  The pattern for addresses accepts exactly the dotted quads of decimal numbers up to 255
  without leading zeros.
\<close>

theorem ip_pattern:
  "matchString ipRegEx s \<longleftrightarrow> (\<exists>a < 256. \<exists>b < 256. \<exists>c < 256. \<exists>d < 256. s = dotted_quad a b c d)"
  by (rule ipRegEx_iff)

text \<open>
  C28.  The address lookup succeeds exactly when the first attempt that is answered comes within
  the number of retries and its body is not empty; the address is that body.
\<close>

theorem lookup_first_answer:
  "fst (GetIPFromExternalSource get il) = (ip, True) \<longleftrightarrow>
     ip \<noteq> [] \<and> (\<exists>k. 1 \<le> k \<and> k \<le> il_retries il \<and> get (il_address il) k = Body ip \<and>
       list_all (\<lambda>j. failed (get (il_address il) j)) [1..k - 1])"
  unfolding GetIP_success_iff by (auto simp: list_all_iff)

text \<open>
  C29.  A configuration that passes the checks has no host address or a valid one, an interval only
  together with a TTL that is longer, and one of the two policies for exited containers.
\<close>

theorem configuration_checked:
  assumes "configure get dockerErr fl il = Done (cfg, discoveredIP, il')"
  shows "(cf_HostIp cfg = [] \<or> matchString ipRegEx (cf_HostIp cfg)) \<and>
    (cf_RefreshTtl cfg = 0 \<and> cf_RefreshInterval cfg \<le> 0 \<or>
     0 < cf_RefreshTtl cfg \<and> cf_RefreshInterval cfg \<noteq> 0 \<and> cf_RefreshInterval cfg < cf_RefreshTtl cfg \<or>
     cf_RefreshTtl cfg < 0) \<and>
    cf_DeregisterCheck cfg \<in> {''always'', ''on-success''} \<and> 0 < il_retries il'"
  using configure_Done [OF assms] by (cases "cf_RefreshTtl cfg" "0 :: int" rule: linorder_cases) auto

theorem configuration_checked_witness:
  "\<exists>cfg. configure (\<lambda>_ _. Body []) None ex_flags ex_il = Done (cfg, [], ex_il) \<and> cf_RefreshInterval cfg < cf_RefreshTtl cfg"
proof -
  obtain cfg where cfg: "configure (\<lambda>_ _. Body []) None ex_flags ex_il = Done (cfg, [], ex_il)" "cf_RefreshTtl cfg = 60"
    by (simp add: configure_def ex_flags_def discover_def SetIPLookupRetries_def Let_def)
  from configuration_checked [OF cfg(1)] cfg show ?thesis by auto
qed



text \<open>
  C31.  A resynchronisation whose lookup yields text that is not an address pushes no message, yet
  the text becomes the discovered address, and the next start event adds its container with it.
\<close>

theorem invalid_lookup_kept:
  assumes "ipLookupSource \<noteq> []" and "fst (GetIPFromExternalSource get il) = (text, True)"
    and "\<not> matchString ipRegEx text"
  shows "resyncProcess get il b ipLookupSource discoveredIP = Done (text, []) \<and>
    dockerEvent text (''start'', cid) = [TaskAdd cid False text]"
  using assms by (auto simp: resyncProcess_def dockerEvent_def Let_def split: prod.splits)

theorem invalid_lookup_kept_witness:
  "resyncProcess (\<lambda>_ _. Body ''<html>'') ex_il ex_bridge ''http://ip'' [] = Done (''<html>'', [])"
proof -
  have "fst (GetIPFromExternalSource (\<lambda>_ _. Body ''<html>'') ex_il) = (''<html>'', True)"
    by (simp add: GetIPFromExternalSource_def lookupLoop.simps)
  moreover have "\<not> matchString ipRegEx ''<html>''" by code_simp
  ultimately show ?thesis
    using invalid_lookup_kept [of "''http://ip''" "\<lambda>_ _. Body ''<html>''" ex_il "''<html>''" ex_bridge "[]" ex_id] by simp
qed

text \<open>
  C32.  Once the packages are loaded, the scheme of the registry URI decides the adapter as in the
  table of their registrations, and every other scheme is rejected.
\<close>

theorem scheme_selects_adapter:
  assumes "is_order ord"
  shows "New (loadModules ord) factoryNew (Some scheme) uri cfg =
    (case scheme_factory scheme of
       None \<Rightarrow> Done (Inl (UnrecognizedAdapter uri))
     | Some f \<Rightarrow> obind (factoryNew f) (\<lambda>r. Done (Inr (new_bridge r cfg))))"
  using Lookup_loaded [OF assms] by (simp add: New_def)

theorem scheme_selects_adapter_witness:
  "New (loadModules listed) (\<lambda>f. Done f) (Some ''etcd'') ''etcd://host/svc'' ex_config =
     Done (Inr (new_bridge EtcdFactory ex_config))"
  using scheme_selects_adapter [OF is_order_listed, of "\<lambda>f. Done f" "''etcd''" "''etcd://host/svc''" ex_config]
  by (simp add: scheme_factory_def init_registrations_def)

text \<open>
  C33.  The status with which a load balancer is registered: it is up when Eureka says so, when it was up
  at the last check of this container, or when its data is cached and a healthy target is found; else it
  is starting.  The status is remembered as up exactly then, and no other container is affected.
\<close>

theorem elb_status:
  assumes "testHealth E s client reg a = Done (reg', a')" and "getELBStatus client reg a = (st, b)"
  shows "reg' = reg\<lparr>in_Status :=
      (if st = UP \<or> getPreviousStatus (container_of s) a = UP \<or> healthy_found E (container_of s) b
       then UP else STARTING)\<rparr> \<and>
    (getPreviousStatus (container_of s) a' = UP \<longleftrightarrow> in_Status reg' = UP) \<and>
    (\<forall>k. k \<noteq> container_of s \<longrightarrow> getPreviousStatus k a' = getPreviousStatus k a)"
  using testHealth_status [OF assms] testHealth_updates [OF assms(1)] by (simp add: updates_def)

theorem elb_status_witness:
  "\<exists>reg a. testHealth ex_aws_env ex_elb_service ex_eureka zero_instance (br_registry ex_elb_bridge) = Done (reg, a) \<and>
     in_Status reg = UP"
proof -
  have "case testHealth ex_aws_env ex_elb_service ex_eureka zero_instance (br_registry ex_elb_bridge) of
      Done (reg, a) \<Rightarrow> True | _ \<Rightarrow> False" by code_simp
  then obtain reg a where
    r: "testHealth ex_aws_env ex_elb_service ex_eureka zero_instance (br_registry ex_elb_bridge) = Done (reg, a)"
    by (auto split: outcome.splits)
  have st: "getELBStatus ex_eureka zero_instance (br_registry ex_elb_bridge) = (UNKNOWN, br_registry ex_elb_bridge)"
    by (simp add: getELBStatus_def calling_eq ex_eureka_def)
  have "healthy_found ex_aws_env (container_of ex_elb_service) (br_registry ex_elb_bridge)" by code_simp
  with elb_status [OF r st] r show ?thesis by auto
qed

text \<open>
  C34.  The first lookup of a container's load balancer by its target hides the health of its target group:
  as long as the answer it cached has not expired, no healthy target is seen, whatever the state of the
  targets, and the load balancer is registered as starting unless Eureka or the last check says up.
\<close>

theorem lookup_hides_health:
  assumes "GetELBV2ForContainer E cid iid port cn ta [] a = Done ((Some info, None), a')"
    and "cached E a (''container_'' @ cid) = None" and "cn = [] \<or> ta = []"
    and "aw_generalCache b = aw_generalCache a'" and "cached E b (''tg_arn_'' @ lr_TargetGroupArn info) \<noteq> None"
    and "st \<noteq> UP" and "prev \<noteq> UP"
  shows "GetHealthyTargets E (lr_TargetGroupArn info) b = Done (([], None), b) \<and>
    determineNewEurekaStatus E cid st prev b = Done (change STARTING STARTING, b)"
proof -
  obtain h where "cached E b (''tg_arn_'' @ lr_TargetGroupArn info) = Some (AnyTargetHealth h)"
    using health_item_cached [OF GetELBV2ForContainer_health(1) [OF assms(1-3)] assms(4,5)] by blast
  then show ?thesis
    using GetHealthyTargets_hidden determine_hidden GetELBV2ForContainer_health(2) [OF assms(1-4)] assms(6,7) by blast
qed

theorem lookup_hides_health_witness:
  "\<exists>info a. ex_lookup = Done ((Some info, None), a) \<and> ex_sees_healthy (lr_TargetGroupArn info) a \<and>
     determineNewEurekaStatus ex_aws_env ex_id UNKNOWN UNKNOWN a = Done (change STARTING STARTING, a)"
proof -
  obtain info a where l: "ex_lookup = Done ((Some info, None), a)" and h: "ex_sees_healthy (lr_TargetGroupArn info) a"
    and c: "cached ex_aws_env a (''tg_arn_'' @ lr_TargetGroupArn info) \<noteq> None"
    using ex_lookup_finds by (elim exE conjE)
  have "cached ex_aws_env ex_aws_state (''container_'' @ ex_id) = None"
    by (simp add: cached_def cache_Get_def ex_aws_state_def)
  from lookup_hides_health [OF l [unfolded ex_lookup_def] this _ refl c, of UNKNOWN UNKNOWN]
  have "determineNewEurekaStatus ex_aws_env ex_id UNKNOWN UNKNOWN a = Done (change STARTING STARTING, a)" by simp
  with l h show ?thesis by (intro exI conjI)
qed

text \<open>
  C35.  Listing the target groups returns all pages in order when the markers end.  A failure after the first
  page is not reported: the page that is missing is used first, which ends the process in a panic.  A marker
  that leads back to itself keeps the goroutine busy for ever.
\<close>

theorem target_group_pages:
  assumes "page_at E svc None (aw_world a) = ((Some p, None), w1)"
    and "pages_from E svc (go_NextMarker p) w1 ps = Some (marker, w')"
  shows "(marker = None \<longrightarrow> getAllTargetGroups E svc a = Done ((map Some (p # ps), None), a\<lparr>aw_world := w'\<rparr>)) \<and>
    (\<forall>m tg e w. marker = Some m \<and> page_at E svc (Some m) w' = ((tg, Some e), w) \<longrightarrow>
       getAllTargetGroups E svc a = Panic NilDereference) \<and>
    (\<forall>m. marker = Some m \<and> (\<forall>w. \<exists>q v. page_at E svc (Some m) w = ((Some q, None), v) \<and> go_NextMarker q = Some m) \<longrightarrow>
       getAllTargetGroups E svc a = Blocked)"
  unfolding getAllTargetGroups_first [OF assms]
  by (auto simp: targetGroupPages_end targetGroupPages_error targetGroupPages_cycle)

theorem target_group_pages_witness:
  "getAllTargetGroups ex_aws_env ''us-east-1'' ex_aws_state =
     Done ((map Some [ex_pages None, ex_pages (Some ''p2'')], None), ex_aws_state\<lparr>aw_world := (1, [])\<rparr>)"
proof -
  have p: "page_at ex_aws_env ''us-east-1'' None (aw_world ex_aws_state) = ((Some (ex_pages None), None), (1, []))"
    by (simp add: page_at_def ex_aws_env_def ex_aws_def ex_aws_state_def)
  have "pages_from ex_aws_env ''us-east-1'' (go_NextMarker (ex_pages None)) (1, []) [ex_pages (Some ''p2'')] =
      Some (None, (1, []))"
    by (simp add: page_at_def ex_aws_env_def ex_aws_def ex_pages_def)
  with target_group_pages [OF p] show ?thesis by blast
qed

text \<open>
  C36.  Looking for the service of a task asks for the services of the cluster in order, at least one and at
  most ten at a time, and never more often than that takes; unless a request fails, it asks for all of them.
\<close>

theorem service_chunks:
  assumes "records_services asked E" and "asked (aw_world a) = []"
    and "chunkLoop E svc cluster td (length ss) 0 ss [] [] a = Done (r, a')"
  shows "list_all (\<lambda>c. 1 \<le> length c \<and> length c \<le> 10) (asked (aw_world a')) \<and>
    length (asked (aw_world a')) \<le> (length ss + 9) div 10 \<and>
    prefix (concat (asked (aw_world a'))) ss \<and> (r \<noteq> None \<longrightarrow> concat (asked (aw_world a')) = ss)"
proof -
  obtain ys where ys: "asked (aw_world a') = ys" "prefix ys (chunks ss)" "r \<noteq> None \<longrightarrow> ys = chunks ss"
    using chunkLoop_asks [OF assms(1,3)] assms(2) by auto
  from ys(2) obtain zs where zs: "chunks ss = ys @ zs" by (auto simp: prefix_def)
  then have "concat ys @ concat zs = ss" using concat_chunks [of ss] by simp
  moreover have "length ys \<le> (length ss + 9) div 10" using zs length_chunks [of ss] by simp
  moreover have "list_all (\<lambda>c. 1 \<le> length c \<and> length c \<le> 10) ys"
    unfolding list_all_iff using zs chunks_lengths [of _ ss] by simp
  ultimately show ?thesis using ys concat_chunks [of ss] by (auto simp: prefix_def)
qed

theorem service_chunks_witness:
  "\<exists>r a. chunkLoop ex_asked_env ''us-east-1'' ''c1'' ''td'' 12 0 (replicate 12 (Some ''s'')) [] [] ex_asked_state = Done (r, a) \<and>
     r \<noteq> None \<and> length (aw_world a) \<le> 2 \<and> concat (aw_world a) = replicate 12 (Some ''s'')"
proof -
  have "case chunkLoop ex_asked_env ''us-east-1'' ''c1'' ''td'' 12 0 (replicate 12 (Some ''s'')) [] [] ex_asked_state of
      Done (r, a) \<Rightarrow> r \<noteq> None | _ \<Rightarrow> False" by code_simp
  then obtain r a where c: "chunkLoop ex_asked_env ''us-east-1'' ''c1'' ''td'' (length (replicate 12 (Some ''s''))) 0
      (replicate 12 (Some ''s'')) [] [] ex_asked_state = Done (r, a)" and r: "r \<noteq> None"
    by (auto split: outcome.splits)
  have "aw_world ex_asked_state = []" by (simp add: ex_asked_state_def)
  from service_chunks [OF ex_records this c] r c show ?thesis by simp
qed

text \<open>
  C37.  The lease of a registered instance consists of 32-bit values: the defaults, zero where the attribute is
  no number, the number where it fits, and else a number that differs from it by a multiple of the range.
\<close>

theorem lease_bounds:
  assumes "instanceInformation ord E s a = Done (reg, a')"
  shows "in_int32 (li_RenewalIntervalInSecs (in_LeaseInfo reg)) \<and> in_int32 (li_DurationInSecs (in_LeaseInfo reg)) \<and>
    lease_read (get_str (sv_Attrs s) ''eureka_leaseinfo_renewalintervalinsecs'') 30 (li_RenewalIntervalInSecs (in_LeaseInfo reg)) \<and>
    lease_read (get_str (sv_Attrs s) ''eureka_leaseinfo_durationinsecs'') 90 (li_DurationInSecs (in_LeaseInfo reg))"
  using instanceInformation_lease [OF assms] leaseValue_range leaseValue_read
  by (simp add: leaseInfo_def in_int32_def)

theorem lease_bounds_witness:
  "\<exists>reg a. instanceInformation listed ex_aws_env
      (ex_service\<lparr>sv_Attrs := [(''eureka_leaseinfo_durationinsecs'', ''4294967301'')]\<rparr>) ex_aws_state = Done (reg, a) \<and>
    li_DurationInSecs (in_LeaseInfo reg) = 5 \<and> in_int32 (li_DurationInSecs (in_LeaseInfo reg))"
proof -
  let ?s = "ex_service\<lparr>sv_Attrs := [(''eureka_leaseinfo_durationinsecs'', ''4294967301'')]\<rparr>"
  have "case instanceInformation listed ex_aws_env ?s ex_aws_state of
      Done (reg, a) \<Rightarrow> li_DurationInSecs (in_LeaseInfo reg) = 5 | _ \<Rightarrow> False" by code_simp
  then obtain reg a where r: "instanceInformation listed ex_aws_env ?s ex_aws_state = Done (reg, a)"
    and "li_DurationInSecs (in_LeaseInfo reg) = 5" by (auto split: outcome.splits)
  with lease_bounds [OF r] show ?thesis by blast
qed



text \<open>
  C39.  Removing a container whose services are registered through load balancers leaves the Eureka server and
  everything else outside alone: the registrations are left to expire.  It completes, and forgets the cached
  data of these load balancers and nothing else.
\<close>

theorem elb_remove_leaves_registration:
  assumes "\<not> br_locked b" and "has_metadata (br_registry b)" and "list_all CheckELBFlags (held_services b cid)"
  shows "\<exists>b'. remove (eureka_adapter ord E client) cid True b = Done b' \<and>
    aw_world (br_registry b') = aw_world (br_registry b) \<and>
    (\<forall>k. cached E (br_registry b') k =
       (if k \<in> set (map (\<lambda>s. ''container_'' @ container_of s) (held_services b cid)) then None
        else cached E (br_registry b) k))"
  using remove_elb [OF assms, of ord E client]
  by (auto simp: forget_elbs_world cached_forget_elbs simp del: append_Cons)

theorem elb_remove_leaves_registration_witness:
  "\<exists>b'. remove ex_eureka_adapter ex_id True ex_elb_bridge = Done b' \<and>
     aw_world (br_registry b') = aw_world (br_registry ex_elb_bridge) \<and>
     cached ex_aws_env (br_registry b') (''container_'' @ ex_id) = None"
proof -
  have held: "held_services ex_elb_bridge ex_id = [ex_elb_service]"
    by (simp add: held_services_def services_of_def ex_elb_bridge_def)
  have id: "container_of ex_elb_service = ex_id" by (simp add: ex_elb_service_def ex_service_def ex_port_def)
  have "has_metadata (br_registry ex_elb_bridge)"
    by (simp add: ex_elb_bridge_def has_metadata_def AddToCache_def ex_aws_state_def)
  moreover have "\<not> br_locked ex_elb_bridge" by (simp add: ex_elb_bridge_def)
  ultimately obtain b' where "remove ex_eureka_adapter ex_id True ex_elb_bridge = Done b'"
    "aw_world (br_registry b') = aw_world (br_registry ex_elb_bridge)"
    "\<forall>k. cached ex_aws_env (br_registry b') k =
       (if k \<in> set (map (\<lambda>s. ''container_'' @ container_of s) [ex_elb_service]) then None
        else cached ex_aws_env (br_registry ex_elb_bridge) k)"
    using elb_remove_leaves_registration [of ex_elb_bridge ex_id listed ex_aws_env ex_eureka] ex_elb_flags held
    by auto
  then show ?thesis using id by (intro exI [of _ b']) simp
qed



end
